(* ===== verification/Prelude.thy ===== *)
theory Prelude
  imports Main "HOL-Library.State_Monad" "HOL-Library.Word" "HOL-Library.Sublist"
begin

text \<open>
  What the component theories share: the Go standard-library operations on strings,
  integers and time that the operator uses, the machine a reconciler runs on (the outside
  world, the process memory and the journal of what was asked of the outside), and the
  logic by which properties of a reconciler are proved: \<open>outcome p P\<close> says that every run
  of \<open>p\<close>, from every machine state and against every outside world, returns a result \<open>r\<close>
  and writes a journal \<open>es\<close> with \<open>P r es\<close>.
\<close>

section \<open>Collections of facts\<close>

named_theorems outcome_intros \<open>introduction rules of the journal logic\<close>
named_theorems keeps_intros \<open>introduction rules for invariants of the process memory\<close>

section \<open>Go strings\<close>

text \<open>A Go string is a sequence of bytes, here a list of characters.\<close>

definition has_prefix :: "string \<Rightarrow> string \<Rightarrow> bool" where
  "has_prefix s p \<longleftrightarrow> length s \<ge> length p \<and> take (length p) s = p"

definition trim_suffix :: "string \<Rightarrow> string \<Rightarrow> string" where
  "trim_suffix s t = (if suffix t s then take (length s - length t) s else s)"

definition str_contains :: "string \<Rightarrow> string \<Rightarrow> bool" where
  "str_contains s t \<longleftrightarrow> sublist t s"

lemma has_prefix_append [simp]: "has_prefix (p @ s) p"
  by (simp add: has_prefix_def)

lemma has_prefix_iff: "has_prefix s p \<longleftrightarrow> (\<exists>t. s = p @ t)"
  by (metis append_take_drop_id has_prefix_append has_prefix_def)

lemma trim_suffix_append [simp]: "trim_suffix (s @ t) t = s"
  by (simp add: trim_suffix_def suffix_def)

lemma trim_suffix_other: "\<not> suffix t s \<Longrightarrow> trim_suffix s t = s"
  by (simp add: trim_suffix_def)

text \<open>\<open>strconv.Itoa\<close> and the verb \<open>%d\<close>.\<close>

definition digit_char :: "nat \<Rightarrow> char" where
  "digit_char d = char_of (48 + d)"

fun digits :: "nat \<Rightarrow> string" where
  "digits n = (if n < 10 then [digit_char n] else digits (n div 10) @ [digit_char (n mod 10)])"

declare digits.simps [simp del]

definition itoa :: "int \<Rightarrow> string" where
  "itoa i = (if i < 0 then CHR ''-'' # digits (nat (- i)) else digits (nat i))"

text \<open>Reading the digits back, to show that different numbers print differently.\<close>

definition read_digits :: "string \<Rightarrow> nat" where
  "read_digits s = foldl (\<lambda>a c. 10 * a + (of_char c - 48)) 0 s"

lemma of_char_digit [simp]: "d < 10 \<Longrightarrow> (of_char (digit_char d) :: nat) = 48 + d"
  by (simp add: digit_char_def)

lemma read_digits_snoc [simp]: "read_digits (s @ [c]) = 10 * read_digits s + (of_char c - 48)"
  by (simp add: read_digits_def)

lemma read_digits_digits [simp]: "read_digits (digits n) = n"
proof (induction n rule: digits.induct)
  case (1 n)
  show ?case
  proof (cases "n < 10")
    case True
    then show ?thesis by (simp add: digits.simps [of n] read_digits_def)
  next
    case False
    with 1 show ?thesis by (simp add: digits.simps [of n])
  qed
qed

lemma digits_no_minus: "hd (digits n) \<noteq> CHR ''-''"
proof (induction n rule: digits.induct)
  case (1 n)
  have ne: "digits m \<noteq> []" for m by (simp add: digits.simps [of m])
  show ?case
  proof (cases "n < 10")
    case True
    then have "of_char (hd (digits n)) = (48 + n :: nat)" by (simp add: digits.simps [of n])
    then show ?thesis by auto
  next
    case False
    with 1 ne show ?thesis by (simp add: digits.simps [of n])
  qed
qed

lemma itoa_inj: "itoa i = itoa j \<Longrightarrow> i = j"
proof -
  assume eq: "itoa i = itoa j"
  have ne: "digits m \<noteq> CHR ''-'' # xs" for m xs
    using digits_no_minus [of m] by (metis list.sel(1))
  from eq ne have "digits (nat (- i)) = digits (nat (- j)) \<and> i < 0 \<and> j < 0
      \<or> digits (nat i) = digits (nat j) \<and> \<not> i < 0 \<and> \<not> j < 0"
    unfolding itoa_def by (metis list.inject)
  then have "nat (- i) = nat (- j) \<and> i < 0 \<and> j < 0 \<or> nat i = nat j \<and> \<not> i < 0 \<and> \<not> j < 0"
    by (metis read_digits_digits)
  then show ?thesis by linarith
qed

section \<open>Go integers, times and durations\<close>

text \<open>
  Go's \<open>int\<close> and \<open>int64\<close> values reach the operator from outside and are only compared,
  copied and converted, so they are integers here; \<open>int32\<close> is a 32-bit word, the
  conversion \<open>int32(v)\<close> keeps the low 32 bits and \<open>int(id)\<close> reads them back signed.
  A time is a number of nanoseconds since the epoch, a duration a number of nanoseconds.
\<close>

type_synonym i32 = "32 word"
type_synonym timestamp = int
type_synonym duration = int

definition to_i32 :: "int \<Rightarrow> i32" where
  "to_i32 v = word_of_int v"

definition of_i32 :: "i32 \<Rightarrow> int" where
  "of_i32 w = sint w"

lemma of_i32_range: "- (2 ^ 31) \<le> of_i32 w \<and> of_i32 w < 2 ^ 31"
  using sint_greater_eq [of w] sint_less [of w] by (simp add: of_i32_def)

lemma to_i32_of_i32 [simp]: "to_i32 (of_i32 w) = w"
  by (simp add: to_i32_def of_i32_def)

lemma of_i32_to_i32: "of_i32 (to_i32 v) = v \<longleftrightarrow> - (2 ^ 31) \<le> v \<and> v < 2 ^ 31"
proof
  assume "of_i32 (to_i32 v) = v"
  then show "- (2 ^ 31) \<le> v \<and> v < 2 ^ 31" using of_i32_range [of "to_i32 v"] by simp
next
  assume "- (2 ^ 31) \<le> v \<and> v < 2 ^ 31"
  then have "signed_take_bit 31 v = v" by (intro signed_take_bit_int_eq_self) auto
  then show "of_i32 (to_i32 v) = v" by (simp add: of_i32_def to_i32_def sint_sbintrunc')
qed

lemma of_i32_inj: "of_i32 v = of_i32 w \<Longrightarrow> v = w"
  by (metis to_i32_of_i32)

definition seconds :: "int \<Rightarrow> duration" where
  "seconds n = n * 1000000000"

definition minutes :: "int \<Rightarrow> duration" where
  "minutes n = n * 60000000000"

text \<open>\<open>metav1.Unix(sec, 0)\<close>, and \<open>Time.Sub\<close>, which saturates at the int64 range.\<close>

definition unix_time :: "int \<Rightarrow> timestamp" where
  "unix_time sec = sec * 1000000000"

definition time_sub :: "timestamp \<Rightarrow> timestamp \<Rightarrow> duration" where
  "time_sub t u = max (- (2 ^ 63)) (min (2 ^ 63 - 1) (t - u))"

section \<open>The machine a reconciler runs on\<close>

text \<open>
  \<open>world\<close> stands for everything outside the process (the Kubernetes API server, Concourse,
  the clock), \<open>mem\<close> is the memory the process keeps between reconciles, and \<open>journal\<close>
  lists every interaction with the outside, in order, with its response. The only way to
  the outside is \<open>extern\<close>, whose operation \<open>f\<close> is a parameter of the model: it may answer
  anything and change the world in any way, so other writers are covered.
\<close>

record ('w, 'm, 'e) machine =
  world :: 'w
  mem :: 'm
  journal :: "'e list"

definition extern :: "('a \<Rightarrow> 'e) \<Rightarrow> ('w \<Rightarrow> 'a \<times> 'w) \<Rightarrow> (('w, 'm, 'e) machine, 'a) state" where
  "extern c f = State (\<lambda>s. case f (world s) of
     (a, w) \<Rightarrow> (a, s\<lparr>world := w, journal := journal s @ [c a]\<rparr>))"

definition note_event :: "'e \<Rightarrow> (('w, 'm, 'e) machine, unit) state" where
  "note_event e = State (\<lambda>s. ((), s\<lparr>journal := journal s @ [e]\<rparr>))"

definition get_mem :: "(('w, 'm, 'e) machine, 'm) state" where
  "get_mem = State (\<lambda>s. (mem s, s))"

definition put_mem :: "'m \<Rightarrow> (('w, 'm, 'e) machine, unit) state" where
  "put_mem m = State (\<lambda>s. ((), s\<lparr>mem := m\<rparr>))"

abbreviation ret :: "'a \<Rightarrow> (('w, 'm, 'e) machine, 'a) state" where
  "ret \<equiv> State_Monad.return"

text \<open>The result of a run and the part of the journal it wrote.\<close>

definition result_of :: "(('w, 'm, 'e) machine, 'a) state \<Rightarrow> ('w, 'm, 'e) machine \<Rightarrow> 'a" where
  "result_of p s = fst (run_state p s)"

definition final_of :: "(('w, 'm, 'e) machine, 'a) state \<Rightarrow> ('w, 'm, 'e) machine \<Rightarrow> ('w, 'm, 'e) machine" where
  "final_of p s = snd (run_state p s)"

definition emitted :: "(('w, 'm, 'e) machine, 'a) state \<Rightarrow> ('w, 'm, 'e) machine \<Rightarrow> 'e list" where
  "emitted p s = drop (length (journal s)) (journal (final_of p s))"

section \<open>The journal logic\<close>

definition outcome :: "(('w, 'm, 'e) machine, 'a) state \<Rightarrow> ('a \<Rightarrow> 'e list \<Rightarrow> bool) \<Rightarrow> bool" where
  "outcome p P \<longleftrightarrow> (\<forall>s. \<exists>es. journal (final_of p s) = journal s @ es \<and> P (result_of p s) es)"

lemma outcomeD: "outcome p P \<Longrightarrow> P (result_of p s) (emitted p s)"
  unfolding outcome_def emitted_def by (metis append_eq_conv_conj)

lemma outcome_journal: "outcome p P \<Longrightarrow> journal (final_of p s) = journal s @ emitted p s"
  unfolding outcome_def emitted_def by (metis append_eq_conv_conj)

lemma outcome_mono:
  assumes "outcome p Q" and "\<And>a es. Q a es \<Longrightarrow> P a es"
  shows "outcome p P"
  using assms unfolding outcome_def by blast

lemma outcome_conj: "outcome p P \<Longrightarrow> outcome p Q \<Longrightarrow> outcome p (\<lambda>a es. P a es \<and> Q a es)"
  unfolding outcome_def by (metis same_append_eq)

lemma outcome_return [outcome_intros]: "P a [] \<Longrightarrow> outcome (ret a) P"
  by (simp add: outcome_def result_of_def final_of_def)

lemma outcome_extern [outcome_intros]: "(\<And>a. P a [c a]) \<Longrightarrow> outcome (extern c f) P"
  by (auto simp: outcome_def extern_def result_of_def final_of_def split: prod.splits)

lemma outcome_note [outcome_intros]: "P () [e] \<Longrightarrow> outcome (note_event e) P"
  by (simp add: outcome_def note_event_def result_of_def final_of_def)

lemma outcome_get_mem [outcome_intros]: "(\<And>m. P m []) \<Longrightarrow> outcome get_mem P"
  by (simp add: outcome_def get_mem_def result_of_def final_of_def)

lemma outcome_put_mem [outcome_intros]: "P () [] \<Longrightarrow> outcome (put_mem m) P"
  by (simp add: outcome_def put_mem_def result_of_def final_of_def)

lemma outcome_bind [outcome_intros]:
  assumes "outcome p (\<lambda>a es. outcome (k a) (\<lambda>b es'. P b (es @ es')))"
  shows "outcome (State_Monad.bind p k) P"
  unfolding outcome_def
proof
  fix s
  obtain a s1 where p: "run_state p s = (a, s1)" by (cases "run_state p s")
  from assms [unfolded outcome_def, rule_format, of s] p obtain es where
    1: "journal s1 = journal s @ es" and
    k: "\<forall>t. \<exists>es'. journal (final_of (k a) t) = journal t @ es' \<and> P (result_of (k a) t) (es @ es')"
    by (auto simp: result_of_def final_of_def)
  from k [rule_format, of s1] 1 p
  show "\<exists>es. journal (final_of (State_Monad.bind p k) s) = journal s @ es
     \<and> P (result_of (State_Monad.bind p k) s) es"
    by (auto simp: result_of_def final_of_def)
qed

text \<open>
  \<open>emits A p\<close>: every journal entry of every run of \<open>p\<close> satisfies \<open>A\<close>. It distributes over
  the program, so it is proved without following the paths one by one.
\<close>

definition emits :: "('e \<Rightarrow> bool) \<Rightarrow> (('w, 'm, 'e) machine, 'a) state \<Rightarrow> bool" where
  "emits A p \<longleftrightarrow> outcome p (\<lambda>_ es. list_all A es)"

named_theorems emits_intros \<open>introduction rules for what a program may put into the journal\<close>

lemma emits_return [emits_intros]: "emits A (ret a)"
  by (simp add: emits_def outcome_return)

lemma emits_extern [emits_intros]: "(\<And>a. A (c a)) \<Longrightarrow> emits A (extern c f)"
  by (simp add: emits_def outcome_extern)

lemma emits_note [emits_intros]: "A e \<Longrightarrow> emits A (note_event e)"
  by (simp add: emits_def outcome_note)

lemma emits_get_mem [emits_intros]: "emits A get_mem"
  by (simp add: emits_def outcome_get_mem)

lemma emits_put_mem [emits_intros]: "emits A (put_mem m)"
  by (simp add: emits_def outcome_put_mem)

lemma emits_bind [emits_intros]:
  assumes "emits A p" and "\<And>a. emits A (k a)"
  shows "emits A (State_Monad.bind p k)"
  unfolding emits_def
proof (rule outcome_bind)
  show "outcome p (\<lambda>a es. outcome (k a) (\<lambda>b es'. list_all A (es @ es')))"
    using assms(1) unfolding emits_def
  proof (rule outcome_mono)
    fix a es assume "list_all A es"
    then show "outcome (k a) (\<lambda>b es'. list_all A (es @ es'))"
      using assms(2) [of a] unfolding emits_def by (auto elim: outcome_mono)
  qed
qed

lemma emits_mono: "emits A p \<Longrightarrow> (\<And>e. A e \<Longrightarrow> B e) \<Longrightarrow> emits B p"
  unfolding emits_def by (erule outcome_mono) (auto simp: list_all_iff)

lemma emitsD: "emits A p \<Longrightarrow> e \<in> set (emitted p s) \<Longrightarrow> A e"
  unfolding emits_def by (drule outcomeD [of _ _ s]) (simp add: list_all_iff)

lemma emits_outcome: "emits A p \<Longrightarrow> outcome p (\<lambda>_ es. list_all A es)"
  by (simp add: emits_def)

section \<open>Invariants of the process memory\<close>

definition keeps :: "('m \<Rightarrow> bool) \<Rightarrow> (('w, 'm, 'e) machine, 'a) state \<Rightarrow> bool" where
  "keeps I p \<longleftrightarrow> (\<forall>s. I (mem s) \<longrightarrow> I (mem (final_of p s)))"

lemma keeps_return [keeps_intros]: "keeps I (ret a)"
  by (simp add: keeps_def final_of_def)

lemma keeps_extern [keeps_intros]: "keeps I (extern c f)"
  by (auto simp: keeps_def final_of_def extern_def split: prod.splits)

lemma keeps_note [keeps_intros]: "keeps I (note_event e)"
  by (simp add: keeps_def final_of_def note_event_def)

lemma keeps_get_mem [keeps_intros]: "keeps I get_mem"
  by (simp add: keeps_def final_of_def get_mem_def)

lemma keeps_bind [keeps_intros]:
  "keeps I p \<Longrightarrow> (\<And>a. keeps I (k a)) \<Longrightarrow> keeps I (State_Monad.bind p k)"
  by (auto simp: keeps_def final_of_def split: prod.splits)

lemma keepsD: "keeps I p \<Longrightarrow> I (mem s) \<Longrightarrow> I (mem (final_of p s))"
  by (simp add: keeps_def)

text \<open>Case distinctions in a program: each branch with what is known there.\<close>

lemma outcome_case [outcome_intros]:
  "(\<And>e. r = Inl e \<Longrightarrow> outcome (f e) P) \<Longrightarrow> (\<And>x. r = Inr x \<Longrightarrow> outcome (g x) P)
     \<Longrightarrow> outcome (case r of Inl e \<Rightarrow> f e | Inr x \<Rightarrow> g x) P"
  "(q = None \<Longrightarrow> outcome h P) \<Longrightarrow> (\<And>x. q = Some x \<Longrightarrow> outcome (k x) P)
     \<Longrightarrow> outcome (case q of None \<Rightarrow> h | Some x \<Rightarrow> k x) P"
  "(b \<Longrightarrow> outcome p P) \<Longrightarrow> (\<not> b \<Longrightarrow> outcome p' P) \<Longrightarrow> outcome (if b then p else p') P"
  "(\<And>x y. z = (x, y) \<Longrightarrow> outcome (c x y) P) \<Longrightarrow> outcome (case z of (x, y) \<Rightarrow> c x y) P"
  "outcome (d v) P \<Longrightarrow> outcome (let x = v in d x) P"
  by (auto split: sum.splits option.splits prod.splits)

lemma emits_case [emits_intros]:
  "(\<And>e. r = Inl e \<Longrightarrow> emits A (f e)) \<Longrightarrow> (\<And>x. r = Inr x \<Longrightarrow> emits A (g x))
     \<Longrightarrow> emits A (case r of Inl e \<Rightarrow> f e | Inr x \<Rightarrow> g x)"
  "(q = None \<Longrightarrow> emits A h) \<Longrightarrow> (\<And>x. q = Some x \<Longrightarrow> emits A (k x))
     \<Longrightarrow> emits A (case q of None \<Rightarrow> h | Some x \<Rightarrow> k x)"
  "(b \<Longrightarrow> emits A p) \<Longrightarrow> (\<not> b \<Longrightarrow> emits A p') \<Longrightarrow> emits A (if b then p else p')"
  "(\<And>x y. z = (x, y) \<Longrightarrow> emits A (c x y)) \<Longrightarrow> emits A (case z of (x, y) \<Rightarrow> c x y)"
  "emits A (d v) \<Longrightarrow> emits A (let x = v in d x)"
  by (auto split: sum.splits option.splits prod.splits)

lemma keeps_case [keeps_intros]:
  "(\<And>e. r = Inl e \<Longrightarrow> keeps I (f e)) \<Longrightarrow> (\<And>x. r = Inr x \<Longrightarrow> keeps I (g x))
     \<Longrightarrow> keeps I (case r of Inl e \<Rightarrow> f e | Inr x \<Rightarrow> g x)"
  "(q = None \<Longrightarrow> keeps I h) \<Longrightarrow> (\<And>x. q = Some x \<Longrightarrow> keeps I (k x))
     \<Longrightarrow> keeps I (case q of None \<Rightarrow> h | Some x \<Rightarrow> k x)"
  "(b \<Longrightarrow> keeps I p) \<Longrightarrow> (\<not> b \<Longrightarrow> keeps I p') \<Longrightarrow> keeps I (if b then p else p')"
  "(\<And>x y. z = (x, y) \<Longrightarrow> keeps I (c x y)) \<Longrightarrow> keeps I (case z of (x, y) \<Rightarrow> c x y)"
  "keeps I (d v) \<Longrightarrow> keeps I (let x = v in d x)"
  by (auto split: sum.splits option.splits prod.splits)

section \<open>Running a program step by step\<close>

lemmas run_simps = result_of_def final_of_def emitted_def extern_def note_event_def
  get_mem_def put_mem_def

lemma keeps_modify:
  "(\<And>m. I m \<Longrightarrow> I (f m)) \<Longrightarrow> (\<And>m. keeps I (k m)) \<Longrightarrow>
   keeps I (State_Monad.bind get_mem (\<lambda>m. State_Monad.bind (put_mem (f m)) (\<lambda>_. k m)))"
  by (simp add: keeps_def run_simps)

lemma result_of_bind: "result_of (State_Monad.bind p k) s = result_of (k (result_of p s)) (final_of p s)"
  by (simp add: result_of_def final_of_def split: prod.splits)

lemma final_of_bind: "final_of (State_Monad.bind p k) s = final_of (k (result_of p s)) (final_of p s)"
  by (simp add: result_of_def final_of_def split: prod.splits)

lemma emitted_bind:
  assumes "outcome p (\<lambda>_ _. True)" and "\<And>a. outcome (k a) (\<lambda>_ _. True)"
  shows "emitted (State_Monad.bind p k) s = emitted p s @ emitted (k (result_of p s)) (final_of p s)"
proof -
  have "journal (final_of (State_Monad.bind p k) s) =
      journal s @ emitted p s @ emitted (k (result_of p s)) (final_of p s)"
    by (simp only: final_of_bind outcome_journal [OF assms(2)] outcome_journal [OF assms(1)] append_assoc)
  then show ?thesis by (simp add: emitted_def [of "State_Monad.bind p k"])
qed

section \<open>Counting and lists\<close>

lemma length_filter_le_one:
  "(\<And>i j. i < j \<Longrightarrow> j < length xs \<Longrightarrow> \<not> (P (xs ! i) \<and> P (xs ! j)))
   \<Longrightarrow> length (filter P xs) \<le> 1"
proof (induction xs)
  case (Cons x xs)
  have IH: "length (filter P xs) \<le> 1"
    using Cons.prems [of "Suc i" "Suc j" for i j] by (intro Cons.IH) auto
  show ?case
  proof (cases "P x")
    case True
    then have "\<not> P (xs ! j)" if "j < length xs" for j
      using Cons.prems [of 0 "Suc j"] that by simp
    then have "filter P xs = []" by (metis filter_False in_set_conv_nth)
    then show ?thesis using True by simp
  qed (use IH in simp)
qed simp

end
