(* ===== verification/Monitor.thy ===== *)
theory Monitor
  imports Prelude
begin

text \<open>
  Properties of the order of interactions. A monitor is an automaton that reads the journal:
  from a state and an entry it goes to the next state, or stops (\<open>None\<close>) when the entry is
  an answer the property does not assume the outside to give. \<open>monitored mon I p J\<close> says that
  a run of \<open>p\<close> that starts in a monitor state in \<open>I\<close> and is not stopped ends in \<open>J\<close>; its rules
  are those of a Hoare logic.
\<close>

fun run_mon :: "('q \<Rightarrow> 'e \<Rightarrow> 'q option) \<Rightarrow> 'q \<Rightarrow> 'e list \<Rightarrow> 'q option" where
  "run_mon mon q [] = Some q"
| "run_mon mon q (e # es) = (case mon q e of None \<Rightarrow> None | Some q' \<Rightarrow> run_mon mon q' es)"

lemma run_mon_append:
  "run_mon mon q (es @ es') = (case run_mon mon q es of None \<Rightarrow> None | Some q' \<Rightarrow> run_mon mon q' es')"
  by (induction es arbitrary: q) (auto split: option.splits)

definition monitored ::
  "('q \<Rightarrow> 'e \<Rightarrow> 'q option) \<Rightarrow> ('q \<Rightarrow> bool) \<Rightarrow> (('w, 'm, 'e) machine, 'a) state \<Rightarrow> ('a \<Rightarrow> 'q \<Rightarrow> bool) \<Rightarrow> bool"
where
  "monitored mon I p J \<longleftrightarrow>
     outcome p (\<lambda>r es. \<forall>q q'. I q \<longrightarrow> run_mon mon q es = Some q' \<longrightarrow> J r q')"

named_theorems monitored_intros \<open>rules of the monitor logic\<close>

lemma monitored_return [monitored_intros]: "(\<And>q. I q \<Longrightarrow> J a q) \<Longrightarrow> monitored mon I (ret a) J"
  by (simp add: monitored_def outcome_return)

lemma monitored_extern [monitored_intros]:
  "(\<And>a q q'. I q \<Longrightarrow> mon q (c a) = Some q' \<Longrightarrow> J a q') \<Longrightarrow> monitored mon I (extern c f) J"
  unfolding monitored_def by (rule outcome_extern) (auto split: option.splits)

lemma monitored_note [monitored_intros]:
  "(\<And>q q'. I q \<Longrightarrow> mon q e = Some q' \<Longrightarrow> J () q') \<Longrightarrow> monitored mon I (note_event e) J"
  unfolding monitored_def by (rule outcome_note) (auto split: option.splits)

lemma monitored_get_mem [monitored_intros]: "(\<And>m q. I q \<Longrightarrow> J m q) \<Longrightarrow> monitored mon I get_mem J"
  by (simp add: monitored_def outcome_get_mem)

lemma monitored_put_mem [monitored_intros]: "(\<And>q. I q \<Longrightarrow> J () q) \<Longrightarrow> monitored mon I (put_mem m) J"
  by (simp add: monitored_def outcome_put_mem)

lemma monitored_bind:
  assumes p: "monitored mon I p M" and k: "\<And>a. monitored mon (M a) (k a) J"
  shows "monitored mon I (State_Monad.bind p k) J"
  unfolding monitored_def
proof (rule outcome_bind, rule outcome_mono)
  show "outcome p (\<lambda>a es. \<forall>q q'. I q \<longrightarrow> run_mon mon q es = Some q' \<longrightarrow> M a q')"
    using p by (simp add: monitored_def)
  fix a es
  assume M: "\<forall>q q'. I q \<longrightarrow> run_mon mon q es = Some q' \<longrightarrow> M a q'"
  show "outcome (k a) (\<lambda>r es'. \<forall>q q'. I q \<longrightarrow> run_mon mon q (es @ es') = Some q' \<longrightarrow> J r q')"
    using k [of a] M unfolding monitored_def
    by (auto simp: run_mon_append split: option.splits elim!: outcome_mono)
qed

text \<open>Case distinctions.\<close>

lemma monitored_case [monitored_intros]:
  "(\<And>e. r = Inl e \<Longrightarrow> monitored mon I (f e) J) \<Longrightarrow> (\<And>x. r = Inr x \<Longrightarrow> monitored mon I (g x) J)
     \<Longrightarrow> monitored mon I (case r of Inl e \<Rightarrow> f e | Inr x \<Rightarrow> g x) J"
  "(q = None \<Longrightarrow> monitored mon I h J) \<Longrightarrow> (\<And>x. q = Some x \<Longrightarrow> monitored mon I (k x) J)
     \<Longrightarrow> monitored mon I (case q of None \<Rightarrow> h | Some x \<Rightarrow> k x) J"
  "(b \<Longrightarrow> monitored mon I p J) \<Longrightarrow> (\<not> b \<Longrightarrow> monitored mon I p' J) \<Longrightarrow> monitored mon I (if b then p else p') J"
  "(\<And>x y. z = (x, y) \<Longrightarrow> monitored mon I (c x y) J) \<Longrightarrow> monitored mon I (case z of (x, y) \<Rightarrow> c x y) J"
  "monitored mon I (d v) J \<Longrightarrow> monitored mon I (let x = v in d x) J"
  by (auto split: sum.splits option.splits prod.splits)

lemma monitored_post:
  "monitored mon I p J \<Longrightarrow> (\<And>a q. J a q \<Longrightarrow> K a q) \<Longrightarrow> monitored mon I p K"
  unfolding monitored_def by (erule outcome_mono) blast

lemma monitored_pre:
  "monitored mon I p J \<Longrightarrow> (\<And>q. H q \<Longrightarrow> I q) \<Longrightarrow> monitored mon H p J"
  unfolding monitored_def by (erule outcome_mono) blast

text \<open>A program whose entries leave the monitor where it is keeps every assertion.\<close>

lemma run_mon_neutral:
  "list_all (\<lambda>e. \<forall>q. mon q e = Some q) es \<Longrightarrow> run_mon mon q es = Some q"
  by (induction es) auto

lemma monitored_neutral:
  "emits (\<lambda>e. \<forall>q. mon q e = Some q) p \<Longrightarrow> (\<And>a q. I q \<Longrightarrow> J a q) \<Longrightarrow> monitored mon I p J"
  unfolding monitored_def emits_def by (erule outcome_mono) (auto simp: run_mon_neutral)

lemma monitoredD:
  "monitored mon I p J \<Longrightarrow> I q \<Longrightarrow> run_mon mon q (emitted p s) = Some q' \<Longrightarrow> J (result_of p s) q'"
  unfolding monitored_def by (drule outcomeD [of _ _ s]) blast

lemma monitored_bind_neutral:
  "emits (\<lambda>e. \<forall>q. mon q e = Some q) p \<Longrightarrow> (\<And>a. monitored mon I (k a) J)
   \<Longrightarrow> monitored mon I (State_Monad.bind p k) J"
  by (rule monitored_bind [where M = "\<lambda>_. I"]) (simp_all add: monitored_neutral)

section \<open>Evidence\<close>

text \<open>
  \<open>guarded K A G p\<close>: a run of \<open>p\<close> makes an interaction \<open>A\<close> only if its journal, together
  with the entries \<open>K\<close> written before, holds the evidence \<open>G\<close>. Evidence is a property of the
  entries that stays when more are written.
\<close>

definition guarded ::
  "'e list \<Rightarrow> ('e \<Rightarrow> bool) \<Rightarrow> ('e list \<Rightarrow> bool) \<Rightarrow> (('w, 'm, 'e) machine, 'a) state \<Rightarrow> bool" where
  "guarded K A G p \<longleftrightarrow> outcome p (\<lambda>_ es. list_ex A es \<longrightarrow> G (es @ K))"

definition persistent :: "('e list \<Rightarrow> bool) \<Rightarrow> bool" where
  "persistent G \<longleftrightarrow> (\<forall>es ds. G es \<and> set es \<subseteq> set ds \<longrightarrow> G ds)"

lemma persistentD: "persistent G \<Longrightarrow> G es \<Longrightarrow> set es \<subseteq> set ds \<Longrightarrow> G ds"
  unfolding persistent_def by blast

lemma persistent_append: "persistent G \<Longrightarrow> G es \<Longrightarrow> G (ds @ es)" "persistent G \<Longrightarrow> G es \<Longrightarrow> G (es @ ds)"
  by (erule persistentD, assumption, simp)+

named_theorems guarded_intros \<open>introduction rules for programs that act on evidence only\<close>

lemma list_ex_none: "list_all (\<lambda>e. \<not> A e) es \<longleftrightarrow> \<not> list_ex A es"
  by (induction es) auto

lemma guarded_silent: "emits (\<lambda>e. \<not> A e) p \<Longrightarrow> guarded K A G p"
  unfolding guarded_def emits_def by (erule outcome_mono) (simp add: list_ex_none)

lemma guarded_return [guarded_intros]: "guarded K A G (ret a)"
  by (intro guarded_silent emits_intros)

lemma guarded_bind:
  assumes G: "persistent G" and p: "emits (\<lambda>e. \<not> A e) p" and k: "\<And>a. guarded K A G (k a)"
  shows "guarded K A G (State_Monad.bind p k)"
  unfolding guarded_def
proof (rule outcome_bind, rule outcome_mono)
  show "outcome p (\<lambda>_ es. list_all (\<lambda>e. \<not> A e) es)" using p by (simp add: emits_def)
  fix a es
  assume "list_all (\<lambda>e. \<not> A e) es"
  then show "outcome (k a) (\<lambda>_ es'. list_ex A (es @ es') \<longrightarrow> G ((es @ es') @ K))"
    using k [of a] persistent_append(1) [OF G] by (auto simp: guarded_def list_ex_none elim: outcome_mono)
qed

text \<open>What a call answers is known to what follows.\<close>

lemma guarded_extern:
  assumes G: "persistent G" and quiet: "\<And>a. \<not> A (c a)" and k: "\<And>a. guarded (c a # K) A G (k a)"
  shows "guarded K A G (State_Monad.bind (extern c f) k)"
  unfolding guarded_def
proof (intro outcome_intros)
  fix a
  show "outcome (k a) (\<lambda>_ es'. list_ex A ([c a] @ es') \<longrightarrow> G (([c a] @ es') @ K))"
    using k [of a] unfolding guarded_def
    by (rule outcome_mono) (auto simp: quiet intro: persistentD [OF G])
qed

lemma guarded_bind_outcome:
  assumes G: "persistent G"
    and p: "outcome p (\<lambda>a es. list_all (\<lambda>e. \<not> A e) es \<and> guarded (es @ K) A G (k a))"
  shows "guarded K A G (State_Monad.bind p k)"
  unfolding guarded_def
proof (rule outcome_bind, rule outcome_mono [OF p])
  fix a es
  assume a: "list_all (\<lambda>e. \<not> A e) es \<and> guarded (es @ K) A G (k a)"
  then have "outcome (k a) (\<lambda>_ es'. list_ex A es' \<longrightarrow> G (es' @ es @ K))" by (simp add: guarded_def)
  then show "outcome (k a) (\<lambda>_ es'. list_ex A (es @ es') \<longrightarrow> G ((es @ es') @ K))"
    by (rule outcome_mono) (use a in \<open>auto simp: list_ex_none intro: persistentD [OF G]\<close>)
qed

lemma guarded_sub: "guarded K B G p \<Longrightarrow> (\<And>e. A e \<Longrightarrow> B e) \<Longrightarrow> guarded K A G p"
  unfolding guarded_def by (erule outcome_mono) (auto simp: list_ex_iff)

text \<open>Inside, the evidence may be a stronger one.\<close>

lemma guarded_weaken:
  "guarded [] A H p \<Longrightarrow> (\<And>es. H es \<Longrightarrow> G (es @ K)) \<Longrightarrow> guarded K A G p"
  unfolding guarded_def by (erule outcome_mono) auto

lemma guarded_case [guarded_intros]:
  "(\<And>e. r = Inl e \<Longrightarrow> guarded K A G (f e)) \<Longrightarrow> (\<And>x. r = Inr x \<Longrightarrow> guarded K A G (g x))
     \<Longrightarrow> guarded K A G (case r of Inl e \<Rightarrow> f e | Inr x \<Rightarrow> g x)"
  "(q = None \<Longrightarrow> guarded K A G h) \<Longrightarrow> (\<And>x. q = Some x \<Longrightarrow> guarded K A G (k x))
     \<Longrightarrow> guarded K A G (case q of None \<Rightarrow> h | Some x \<Rightarrow> k x)"
  "(b \<Longrightarrow> guarded K A G p) \<Longrightarrow> (\<not> b \<Longrightarrow> guarded K A G p') \<Longrightarrow> guarded K A G (if b then p else p')"
  "(\<And>x y. z = (x, y) \<Longrightarrow> guarded K A G (c x y)) \<Longrightarrow> guarded K A G (case z of (x, y) \<Rightarrow> c x y)"
  "guarded K A G (d v) \<Longrightarrow> guarded K A G (let x = v in d x)"
  by (auto split: sum.splits option.splits prod.splits)

lemma guardedD:
  "guarded [] A G p \<Longrightarrow> e \<in> set (emitted p s) \<Longrightarrow> A e \<Longrightarrow> G (emitted p s)"
  unfolding guarded_def by (drule outcomeD [of _ _ s]) (auto simp: list_ex_iff)

section \<open>What the continuation knows\<close>

lemma emits_bind_known:
  assumes p: "outcome p (\<lambda>a es. list_all A es \<and> Q a)" and k: "\<And>a. Q a \<Longrightarrow> emits A (k a)"
  shows "emits A (State_Monad.bind p k)"
  unfolding emits_def
proof (rule outcome_bind, rule outcome_mono [OF p])
  fix a es
  assume a: "list_all A es \<and> Q a"
  then show "outcome (k a) (\<lambda>b es'. list_all A (es @ es'))"
    using k [of a] unfolding emits_def by (auto elim: outcome_mono)
qed

section \<open>How often\<close>

text \<open>\<open>at_most n A p\<close>: a run of \<open>p\<close> makes at most \<open>n\<close> interactions \<open>A\<close>.\<close>

definition at_most :: "nat \<Rightarrow> ('e \<Rightarrow> bool) \<Rightarrow> (('w, 'm, 'e) machine, 'a) state \<Rightarrow> bool" where
  "at_most n A p \<longleftrightarrow> outcome p (\<lambda>_ es. length (filter A es) \<le> n)"

named_theorems at_most_intros \<open>introduction rules for bounds on the number of interactions\<close>

lemma at_most_silent: "emits (\<lambda>e. \<not> A e) p \<Longrightarrow> at_most n A p"
  unfolding at_most_def emits_def by (erule outcome_mono) (simp add: list_all_iff filter_False)

lemma at_most_return [at_most_intros]: "at_most n A (ret a)"
  by (intro at_most_silent emits_intros)

lemma at_most_extern [at_most_intros]: "0 < n \<Longrightarrow> at_most n A (extern c f)"
  unfolding at_most_def by (intro outcome_intros) simp

lemma at_most_bind:
  assumes p: "at_most m A p" and k: "\<And>a. at_most n A (k a)"
  shows "at_most (m + n) A (State_Monad.bind p k)"
  unfolding at_most_def
proof (rule outcome_bind, rule outcome_mono)
  show "outcome p (\<lambda>_ es. length (filter A es) \<le> m)" using p by (simp add: at_most_def)
  fix a es
  assume "length (filter A es) \<le> m"
  then show "outcome (k a) (\<lambda>_ es'. length (filter A (es @ es')) \<le> m + n)"
    using k [of a] by (auto simp: at_most_def elim!: outcome_mono)
qed

lemma at_most_first: "at_most n A p \<Longrightarrow> (\<And>a. emits (\<lambda>e. \<not> A e) (k a)) \<Longrightarrow> at_most n A (State_Monad.bind p k)"
  using at_most_bind [of n A p 0 k] by (simp add: at_most_silent)

lemma at_most_after: "emits (\<lambda>e. \<not> A e) p \<Longrightarrow> (\<And>a. at_most n A (k a)) \<Longrightarrow> at_most n A (State_Monad.bind p k)"
  using at_most_bind [of 0 A p n k] by (simp add: at_most_silent)

lemma at_most_case [at_most_intros]:
  "(\<And>e. r = Inl e \<Longrightarrow> at_most n A (f e)) \<Longrightarrow> (\<And>x. r = Inr x \<Longrightarrow> at_most n A (g x))
     \<Longrightarrow> at_most n A (case r of Inl e \<Rightarrow> f e | Inr x \<Rightarrow> g x)"
  "(q = None \<Longrightarrow> at_most n A h) \<Longrightarrow> (\<And>x. q = Some x \<Longrightarrow> at_most n A (k x))
     \<Longrightarrow> at_most n A (case q of None \<Rightarrow> h | Some x \<Rightarrow> k x)"
  "(b \<Longrightarrow> at_most n A p) \<Longrightarrow> (\<not> b \<Longrightarrow> at_most n A p') \<Longrightarrow> at_most n A (if b then p else p')"
  "(\<And>x y. z = (x, y) \<Longrightarrow> at_most n A (c x y)) \<Longrightarrow> at_most n A (case z of (x, y) \<Rightarrow> c x y)"
  "at_most n A (d v) \<Longrightarrow> at_most n A (let x = v in d x)"
  by (auto split: sum.splits option.splits prod.splits)

lemma at_mostD: "at_most n A p \<Longrightarrow> length (filter A (emitted p s)) \<le> n"
  unfolding at_most_def by (drule outcomeD [of _ _ s]) simp

section \<open>A program that starts with a call\<close>

text \<open>With the answer of the first call given, a property of the rest is one of the whole.\<close>

lemma first_call:
  assumes "f (world s) = (a, w)" and "outcome (k a) Q"
  shows "\<exists>es. emitted (State_Monad.bind (extern c f) k) s = c a # es \<and>
    Q (result_of (State_Monad.bind (extern c f) k) s) es"
proof -
  let ?t = "s\<lparr>world := w, journal := journal s @ [c a]\<rparr>"
  have run: "run_state (State_Monad.bind (extern c f) k) s = run_state (k a) ?t"
    using assms(1) by (simp add: extern_def)
  obtain es where "journal (final_of (k a) ?t) = journal ?t @ es" "Q (result_of (k a) ?t) es"
    using assms(2) unfolding outcome_def by blast
  then show ?thesis
    by (intro exI [of _ es]) (simp add: emitted_def final_of_def result_of_def run del: run_state_bind)
qed

end
