(* ===== verification/Api_Types.thy ===== *)
theory Api_Types
  imports Prelude
begin

text \<open>
  The data of the API group (\<open>api/v1alpha1\<close>): one record per Go struct, with the source's
  field names behind a prefix per struct. A pointer field is an option, a Go slice a list
  (the operator never tells a nil slice from an empty one), a map of strings to strings the
  list of its pairs in key order (so equality of lists is \<open>reflect.DeepEqual\<close> on non-empty
  maps), a string type with declared constants a string with abbreviations. The Kubernetes
  metadata and condition types are the fields of \<open>metav1\<close> the operator reads or writes;
  \<open>LastTransitionTime\<close>, which it does neither, is left out.
\<close>

section \<open>Kubernetes data the operator handles\<close>

type_synonym ObjectKey = "string \<times> string"

datatype okind = KInstance | KTeam | KPipeline | KJob | KBuild | KResource | KWorker

text \<open>There are finitely many kinds, so a statement about all of them can be evaluated.\<close>

instantiation okind :: enum
begin

definition enum_okind :: "okind list" where
  "enum_okind = [KInstance, KTeam, KPipeline, KJob, KBuild, KResource, KWorker]"

definition enum_all_okind :: "(okind \<Rightarrow> bool) \<Rightarrow> bool" where
  "enum_all_okind P \<longleftrightarrow> list_all P (enum_class.enum :: okind list)"

definition enum_ex_okind :: "(okind \<Rightarrow> bool) \<Rightarrow> bool" where
  "enum_ex_okind P \<longleftrightarrow> list_ex P (enum_class.enum :: okind list)"

instance
proof
  show all: "(UNIV :: okind set) = set enum_class.enum"
  proof (rule UNIV_eq_I)
    fix k :: okind
    show "k \<in> set enum_class.enum" by (cases k) (simp_all add: enum_okind_def)
  qed
  show "distinct (enum_class.enum :: okind list)" by (simp add: enum_okind_def)
  show "enum_class.enum_all P \<longleftrightarrow> Ball UNIV P" for P :: "okind \<Rightarrow> bool"
    unfolding all by (simp add: enum_all_okind_def list_all_iff)
  show "enum_class.enum_ex P \<longleftrightarrow> Bex UNIV P" for P :: "okind \<Rightarrow> bool"
    unfolding all by (simp add: enum_ex_okind_def list_ex_iff)
qed

end

record OwnerReference =
  or_kind :: okind
  or_name :: string
  or_uid :: string
  or_controller :: bool

record ObjectMeta =
  om_name :: string
  om_namespace :: string
  om_uid :: string
  om_generation :: int
  om_resourceVersion :: string
  om_creationTimestamp :: timestamp
  om_deletionTimestamp :: "timestamp option"
  om_finalizers :: "string list"
  om_ownerReferences :: "OwnerReference list"

datatype ConditionStatus = ConditionTrue | ConditionFalse | ConditionUnknown

record Condition =
  c_type :: string
  c_status :: ConditionStatus
  c_reason :: string
  c_message :: string
  c_observedGeneration :: int

type_synonym string_map = "(string \<times> string) list"

record Secret =
  secret_generation :: int
  secret_data :: string_map

record ConfigMap =
  cm_data :: string_map

section \<open>Common types and names\<close>

record LocalObjectReference =
  ref_name :: string
  ref_namespace :: string

definition ResolveNamespace :: "LocalObjectReference \<Rightarrow> string \<Rightarrow> string" where
  "ResolveNamespace r defaultNS = (if ref_namespace r \<noteq> '''' then ref_namespace r else defaultNS)"

record SecretKeySelector =
  sks_name :: string
  sks_key :: string

record ConfigMapKeyRef =
  cmr_name :: string
  cmr_key :: string

type_synonym ReclaimPolicy = string

abbreviation ReclaimDelete :: ReclaimPolicy where
  "ReclaimDelete \<equiv> ''Delete''"

abbreviation ReclaimOrphan :: ReclaimPolicy where
  "ReclaimOrphan \<equiv> ''Orphan''"

section \<open>Build\<close>

type_synonym BuildPhase = string

abbreviation BuildPhasePending :: BuildPhase where "BuildPhasePending \<equiv> ''pending''"
abbreviation BuildPhaseStarted :: BuildPhase where "BuildPhaseStarted \<equiv> ''started''"
abbreviation BuildPhaseSucceeded :: BuildPhase where "BuildPhaseSucceeded \<equiv> ''succeeded''"
abbreviation BuildPhaseFailed :: BuildPhase where "BuildPhaseFailed \<equiv> ''failed''"
abbreviation BuildPhaseErrored :: BuildPhase where "BuildPhaseErrored \<equiv> ''errored''"
abbreviation BuildPhaseAborted :: BuildPhase where "BuildPhaseAborted \<equiv> ''aborted''"

record BuildIO =
  bio_name :: string
  bio_version :: string_map
  bio_firstOccurrence :: "bool option"

record BuildSpec =
  bs_jobRef :: "LocalObjectReference option"
  bs_buildID :: "i32 option"
  bs_rerunOf :: string
  bs_comment :: string
  bs_canceled :: bool
  bs_ttlSecondsAfterFinished :: "i32 option"
  bs_suspend :: bool

record BuildStatus =
  bt_conditions :: "Condition list"
  bt_buildID :: "i32 option"
  bt_buildName :: string
  bt_concourseStatus :: BuildPhase
  bt_startTime :: "timestamp option"
  bt_endTime :: "timestamp option"
  bt_duration :: "duration option"
  bt_apiURL :: string
  bt_createdBy :: string
  bt_observedGeneration :: int
  bt_webURL :: string
  bt_inputs :: "BuildIO list"
  bt_outputs :: "BuildIO list"
  bt_comment :: string
  bt_rerunOf :: string

record Build =
  build_meta :: ObjectMeta
  build_spec :: BuildSpec
  build_status :: BuildStatus

section \<open>Job\<close>

record JobInputStatus =
  jin_name :: string
  jin_resource :: string
  jin_trigger :: bool
  jin_passed :: "string list"

record JobOutputStatus =
  jout_name :: string
  jout_resource :: string

record JobSpec =
  js_pipelineRef :: LocalObjectReference
  js_jobName :: string
  js_paused :: bool
  js_successfulBuildsHistoryLimit :: "i32 option"
  js_failedBuildsHistoryLimit :: "i32 option"
  js_suspend :: bool

record JobStatus =
  jt_conditions :: "Condition list"
  jt_resolvedName :: string
  jt_paused :: "bool option"
  jt_webURL :: string
  jt_jobID :: "i32 option"
  jt_hasNewInputs :: "bool option"
  jt_groups :: "string list"
  jt_inputs :: "JobInputStatus list"
  jt_outputs :: "JobOutputStatus list"
  jt_nextBuildID :: "i32 option"
  jt_nextBuildStatus :: BuildPhase
  jt_disableManualTrigger :: "bool option"
  jt_pausedBy :: string
  jt_pausedAt :: "timestamp option"
  jt_nextBuildName :: string
  jt_lastBuildID :: "i32 option"
  jt_lastBuildStatus :: BuildPhase
  jt_lastBuildTime :: "timestamp option"
  jt_observedGeneration :: int

record Job =
  job_meta :: ObjectMeta
  job_spec :: JobSpec
  job_status :: JobStatus

section \<open>Team\<close>

record TeamRole =
  role_role :: string
  role_users :: "string list"
  role_groups :: "string list"

record TeamSpec =
  ts_instanceRef :: LocalObjectReference
  ts_teamName :: string
  ts_roles :: "TeamRole list"
  ts_allowDestroy :: bool
  ts_reclaimPolicy :: ReclaimPolicy
  ts_suspend :: bool

record TeamStatus =
  tt_conditions :: "Condition list"
  tt_teamID :: "i32 option"
  tt_resolvedName :: string
  tt_webURL :: string
  tt_lastApplied :: "timestamp option"
  tt_observedGeneration :: int

record Team =
  team_meta :: ObjectMeta
  team_spec :: TeamSpec
  team_status :: TeamStatus

section \<open>Pipeline\<close>

record PipelineConfig =
  pc_inline :: string
  pc_configMapRef :: "ConfigMapKeyRef option"

record PipelineVar =
  pv_name :: string
  pv_value :: string
  pv_valueFrom :: "SecretKeySelector option"

record PipelineJobStatus =
  pjs_name :: string
  pjs_paused :: bool
  pjs_lastBuildStatus :: BuildPhase

record PipelineResourceStatus =
  prs_name :: string
  prs_pinned :: bool
  prs_type :: string

record PipelineGroupStatus =
  pgs_name :: string
  pgs_jobs :: "string list"
  pgs_resources :: "string list"

record PipelineResourceTypeStatus =
  prt_name :: string
  prt_type :: string
  prt_privileged :: bool
  prt_tags :: "string list"

record PipelineSpec =
  ps_teamRef :: LocalObjectReference
  ps_pipelineName :: string
  ps_config :: PipelineConfig
  ps_vars :: "PipelineVar list"
  ps_paused :: bool
  ps_exposed :: bool
  ps_reclaimPolicy :: ReclaimPolicy
  ps_suspend :: bool
  ps_archived :: bool

record PipelineStatus =
  pt_conditions :: "Condition list"
  pt_pipelineID :: "i32 option"
  pt_resolvedName :: string
  pt_webURL :: string
  pt_configHash :: string
  pt_paused :: "bool option"
  pt_exposed :: "bool option"
  pt_archived :: "bool option"
  pt_pausedBy :: string
  pt_pausedAt :: "timestamp option"
  pt_lastUpdated :: "timestamp option"
  pt_groupCount :: "i32 option"
  pt_jobs :: "PipelineJobStatus list"
  pt_resources :: "PipelineResourceStatus list"
  pt_groups :: "PipelineGroupStatus list"
  pt_resourceTypes :: "PipelineResourceTypeStatus list"
  pt_observedGeneration :: int

record Pipeline =
  pipeline_meta :: ObjectMeta
  pipeline_spec :: PipelineSpec
  pipeline_status :: PipelineStatus

section \<open>Resource\<close>

record ResourceSpec =
  rs_pipelineRef :: LocalObjectReference
  rs_resourceName :: string
  rs_pinnedVersion :: string_map
  rs_checkInterval :: "duration option"
  rs_pinComment :: string
  rs_disabledVersions :: "string_map list"
  rs_suspend :: bool

record ResourceStatus =
  rt_conditions :: "Condition list"
  rt_resolvedName :: string
  rt_webURL :: string
  rt_lastChecked :: "timestamp option"
  rt_latestVersion :: string_map
  rt_pinnedVersionID :: "i32 option"
  rt_pinned :: "bool option"
  rt_disabledVersionIDs :: "i32 list"
  rt_observedGeneration :: int

record Resource =
  resource_meta :: ObjectMeta
  resource_spec :: ResourceSpec
  resource_status :: ResourceStatus

section \<open>Worker\<close>

record WorkerResourceTypeStatus =
  wrt_type :: string
  wrt_version :: string
  wrt_privileged :: bool

type_synonym WorkerLifecycle = string

abbreviation WorkerLifecycleRunning :: WorkerLifecycle where "WorkerLifecycleRunning \<equiv> ''Running''"
abbreviation WorkerLifecycleDraining :: WorkerLifecycle where "WorkerLifecycleDraining \<equiv> ''Draining''"
abbreviation WorkerLifecycleRemoved :: WorkerLifecycle where "WorkerLifecycleRemoved \<equiv> ''Removed''"

type_synonym WorkerPhase = string

abbreviation WorkerPhaseRunning :: WorkerPhase where "WorkerPhaseRunning \<equiv> ''running''"
abbreviation WorkerPhaseLanding :: WorkerPhase where "WorkerPhaseLanding \<equiv> ''landing''"
abbreviation WorkerPhaseLanded :: WorkerPhase where "WorkerPhaseLanded \<equiv> ''landed''"
abbreviation WorkerPhaseRetiring :: WorkerPhase where "WorkerPhaseRetiring \<equiv> ''retiring''"
abbreviation WorkerPhaseStalled :: WorkerPhase where "WorkerPhaseStalled \<equiv> ''stalled''"
abbreviation WorkerPhaseMissing :: WorkerPhase where "WorkerPhaseMissing \<equiv> ''missing''"

record WorkerSpec =
  ws_instanceRef :: LocalObjectReference
  ws_workerName :: string
  ws_lifecycle :: WorkerLifecycle
  ws_suspend :: bool

record WorkerStatus =
  wt_conditions :: "Condition list"
  wt_phase :: WorkerPhase
  wt_resolvedName :: string
  wt_platform :: string
  wt_tags :: "string list"
  wt_activeContainers :: "i32 option"
  wt_activeVolumes :: "i32 option"
  wt_version :: string
  wt_startTime :: "timestamp option"
  wt_ephemeral :: bool
  wt_team :: string
  wt_activeTasks :: "i32 option"
  wt_resourceTypes :: "WorkerResourceTypeStatus list"
  wt_observedGeneration :: int

record Worker =
  worker_meta :: ObjectMeta
  worker_spec :: WorkerSpec
  worker_status :: WorkerStatus

section \<open>Instance\<close>

record PasswordGrant =
  pg_username :: string
  pg_passwordRef :: SecretKeySelector
  pg_clientID :: string
  pg_clientSecretRef :: "SecretKeySelector option"

record TokenAuth =
  ta_tokenRef :: SecretKeySelector

record InstanceAuth =
  auth_password :: "PasswordGrant option"
  auth_token :: "TokenAuth option"

record WallConfig =
  wall_message :: string
  wall_ttl :: "duration option"

record TLSConfig =
  tls_caRef :: "SecretKeySelector option"
  tls_insecureSkipVerify :: bool

record InstanceSpec =
  is_url :: string
  is_auth :: InstanceAuth
  is_tls :: "TLSConfig option"
  is_allowedNamespaces :: "string list"
  is_healthProbeInterval :: "duration option"
  is_suspend :: bool
  is_defaultTeam :: string
  is_wall :: "WallConfig option"

record InstanceStatus =
  it_conditions :: "Condition list"
  it_version :: string
  it_workerVersion :: string
  it_clusterName :: string
  it_externalURL :: string
  it_workerCount :: "i32 option"
  it_stalledWorkers :: "i32 option"
  it_runningWorkers :: "i32 option"
  it_landingWorkers :: "i32 option"
  it_webURL :: string
  it_featureFlags :: "(string \<times> bool) list"
  it_authenticatedUser :: string
  it_authenticatedAdmin :: "bool option"
  it_wallMessage :: string
  it_teamCount :: "i32 option"
  it_pipelineCount :: "i32 option"
  it_authSecretGeneration :: int
  it_observedGeneration :: int

record Instance =
  instance_meta :: ObjectMeta
  instance_spec :: InstanceSpec
  instance_status :: InstanceStatus

abbreviation ConditionReady :: string where "ConditionReady \<equiv> ''Ready''"
abbreviation ConditionAuthenticated :: string where "ConditionAuthenticated \<equiv> ''Authenticated''"
abbreviation ConditionWorkersHealthy :: string where "ConditionWorkersHealthy \<equiv> ''WorkersHealthy''"
abbreviation ConditionConfigWarning :: string where "ConditionConfigWarning \<equiv> ''ConfigWarning''"
abbreviation ConditionConfigSynced :: string where "ConditionConfigSynced \<equiv> ''ConfigSynced''"
abbreviation ConditionLastBuildSucceeded :: string where
  "ConditionLastBuildSucceeded \<equiv> ''LastBuildSucceeded''"
abbreviation ConditionCheckHealthy :: string where "ConditionCheckHealthy \<equiv> ''CheckHealthy''"
abbreviation ConditionComplete :: string where "ConditionComplete \<equiv> ''Complete''"
abbreviation ConditionStalled :: string where "ConditionStalled \<equiv> ''Stalled''"
abbreviation ConditionStateTransitioning :: string where
  "ConditionStateTransitioning \<equiv> ''StateTransitioning''"

section \<open>Names in Concourse\<close>

definition ResolvedTeamName :: "Team \<Rightarrow> string" where
  "ResolvedTeamName team =
     (if ts_teamName (team_spec team) \<noteq> '''' then ts_teamName (team_spec team)
      else om_name (team_meta team))"

definition ResolvedPipelineName :: "Pipeline \<Rightarrow> string" where
  "ResolvedPipelineName pipeline =
     (if ps_pipelineName (pipeline_spec pipeline) \<noteq> '''' then ps_pipelineName (pipeline_spec pipeline)
      else om_name (pipeline_meta pipeline))"

definition ResolvedJobName :: "Job \<Rightarrow> string" where
  "ResolvedJobName job =
     (if js_jobName (job_spec job) \<noteq> '''' then js_jobName (job_spec job)
      else om_name (job_meta job))"

definition ResolvedResourceName :: "Resource \<Rightarrow> string" where
  "ResolvedResourceName resource =
     (if rs_resourceName (resource_spec resource) \<noteq> '''' then rs_resourceName (resource_spec resource)
      else om_name (resource_meta resource))"

definition ResolvedWorkerName :: "Worker \<Rightarrow> string" where
  "ResolvedWorkerName worker =
     (if ws_workerName (worker_spec worker) \<noteq> '''' then ws_workerName (worker_spec worker)
      else om_name (worker_meta worker))"

end
