(* ===== verification/External.thy ===== *)
theory External
  imports Api_Types
begin

text \<open>
  The boundary of the program. The Kubernetes API server, Concourse, the clock and the
  third-party Go packages are not part of the repository, so they are parameters: an \<open>env\<close>
  holds one function per call the operator makes, and every definition that makes the call
  takes the \<open>env\<close>. Each call goes through a wrapper that enters the call and its response
  into the journal. The hypotheses on third-party packages that theorems use are the
  predicates of the last section; nothing is assumed of the API server or of Concourse
  unless a theorem says so.
\<close>

section \<open>Errors\<close>

text \<open>
  An error from the Kubernetes client, by the class \<open>apierrors.IsNotFound\<close> and
  \<open>apierrors.IsConflict\<close> put it in, with its text; an error of Concourse is its text.
\<close>

datatype kerr = KNotFound string | KConflict string | KOther string

fun kerr_text :: "kerr \<Rightarrow> string" where
  "kerr_text (KNotFound m) = m"
| "kerr_text (KConflict m) = m"
| "kerr_text (KOther m) = m"

type_synonym goerr = string

fun ignore_not_found :: "kerr \<Rightarrow> goerr option" where
  "ignore_not_found (KNotFound m) = None"
| "ignore_not_found e = Some (kerr_text e)"

section \<open>HTTP and Concourse clients\<close>

text \<open>
  A client is the value its constructor calls describe: the literals that
  \<open>internal/concourse/auth.go\<close> builds, and the arguments of \<open>goconcourse.NewClient\<close>. What a
  client does when it is called is the \<open>env\<close>'s business.
\<close>

record tls_config =
  tc_insecureSkipVerify :: bool
  tc_rootCAs :: "string option"

record oauth_config =
  oc_clientID :: string
  oc_clientSecret :: string
  oc_tokenURL :: string
  oc_scopes :: "string list"

record passwordTokenSource =
  pts_oauthCfg :: oauth_config
  pts_transport :: tls_config
  pts_username :: string
  pts_password :: string

datatype token_source =
    ReuseTokenSource passwordTokenSource
  | StaticTokenSource string string \<comment> \<open>access token, token type\<close>

record http_client =
  hc_source :: token_source
  hc_base :: tls_config

datatype goclient = NewClient (gc_url: string) (gc_http: http_client) (gc_tracing: bool)

section \<open>Data of the Concourse API\<close>

text \<open>The fields of the \<open>atc\<close> types that the operator reads.\<close>

record atc_build =
  ab_id :: int
  ab_name :: string
  ab_status :: string
  ab_apiURL :: string
  ab_startTime :: int
  ab_endTime :: int
  ab_createdBy :: "string option"

record atc_build_input =
  abi_name :: string
  abi_version :: string_map
  abi_firstOccurrence :: bool

record atc_build_output =
  abo_name :: string
  abo_version :: string_map

record atc_build_io =
  abio_inputs :: "atc_build_input list"
  abio_outputs :: "atc_build_output list"

record atc_group =
  ag_name :: string
  ag_jobs :: "string list"
  ag_resources :: "string list"

record atc_pipeline =
  ap_id :: int
  ap_groups :: "atc_group list"
  ap_lastUpdated :: int
  ap_paused :: bool
  ap_public :: bool
  ap_archived :: bool
  ap_pausedBy :: string
  ap_pausedAt :: int

record atc_resource_type =
  art_name :: string
  art_type :: string
  art_privileged :: bool
  art_tags :: "string list"

record atc_job_input =
  aji_name :: string
  aji_resource :: string
  aji_trigger :: bool
  aji_passed :: "string list"

record atc_job_output =
  ajo_name :: string
  ajo_resource :: string

record atc_job =
  aj_id :: int
  aj_name :: string
  aj_paused :: bool
  aj_pausedBy :: string
  aj_pausedAt :: int
  aj_hasNewInputs :: bool
  aj_groups :: "string list"
  aj_disableManualTrigger :: bool
  aj_nextBuild :: "atc_build option"
  aj_finishedBuild :: "atc_build option"
  aj_inputs :: "atc_job_input list"
  aj_outputs :: "atc_job_output list"

record atc_resource =
  ar_name :: string
  ar_type :: string
  ar_pinComment :: string
  ar_pinnedVersion :: "string_map option" \<comment> \<open>a nil map is \<open>None\<close>\<close>

record atc_resource_version =
  arv_id :: int
  arv_version :: string_map

record atc_worker_resource_type =
  awr_type :: string
  awr_version :: string
  awr_privileged :: bool

record atc_worker =
  aw_name :: string
  aw_state :: string
  aw_platform :: string
  aw_tags :: "string list"
  aw_activeContainers :: int
  aw_activeVolumes :: int
  aw_activeTasks :: int
  aw_version :: string
  aw_ephemeral :: bool
  aw_team :: string
  aw_startTime :: int
  aw_resourceTypes :: "atc_worker_resource_type list"

record atc_info =
  ai_version :: string
  ai_workerVersion :: string
  ai_clusterName :: string
  ai_externalURL :: string
  ai_featureFlags :: "(string \<times> bool) list"

record atc_user_info =
  aui_userName :: string
  aui_isAdmin :: bool

type_synonym config_warning = string \<comment> \<open>the message of a \<open>ConfigWarning\<close>\<close>

type_synonym team_auth = "string \<rightharpoonup> (string \<rightharpoonup> string list)"

datatype atc_event = StatusEvent string | OtherEvent

datatype stream_error = StreamEOF | StreamError string

text \<open>The response of the PUT that sets a build comment: status code, status line, body.\<close>

record http_response =
  hr_statusCode :: int
  hr_status :: string
  hr_body :: string

section \<open>The journal\<close>

text \<open>
  What the operator asks of the outside, each entry with the response it got. Reads and
  writes are apart, so that ``changes nothing in Concourse'' is ``no \<open>AWrite\<close>''.
  A team-level Concourse call carries client, team and, where there is one, pipeline.
\<close>

datatype (plugins only: code) k_read =
    GetInstance ObjectKey "kerr + Instance"
  | GetTeam ObjectKey "kerr + Team"
  | GetPipeline ObjectKey "kerr + Pipeline"
  | GetJob ObjectKey "kerr + Job"
  | GetBuild ObjectKey "kerr + Build"
  | GetResource ObjectKey "kerr + Resource"
  | GetWorker ObjectKey "kerr + Worker"
  | GetSecret ObjectKey "kerr + Secret"
  | GetConfigMap ObjectKey "kerr + ConfigMap"
  | ListBuilds string "kerr + Build list"
  | ListInstances string "kerr + Instance list"

datatype (plugins only: code) k_write =
    UpdateInstance Instance "kerr + Instance"
  | UpdateTeam Team "kerr + Team"
  | UpdatePipeline Pipeline "kerr + Pipeline"
  | UpdateJob Job "kerr + Job"
  | UpdateBuild Build "kerr + Build"
  | UpdateResource Resource "kerr + Resource"
  | UpdateWorker Worker "kerr + Worker"
  | StatusInstance Instance "kerr + Instance"
  | StatusTeam Team "kerr + Team"
  | StatusPipeline Pipeline "kerr + Pipeline"
  | StatusJob Job "kerr + Job"
  | StatusBuild Build "kerr + Build"
  | StatusResource Resource "kerr + Resource"
  | StatusWorker Worker "kerr + Worker"
  | DeleteBuild Build "kerr option"

datatype (plugins only: code) a_read =
    GetInfo goclient "goerr + atc_info"
  | ListWorkers goclient "goerr + atc_worker list"
  | UserInfo goclient "goerr + atc_user_info"
  | GetWall goclient "goerr + string"
  | ListTeams goclient "goerr + string list"
  | ListPipelines goclient "goerr + atc_pipeline list"
  | ReadBuild goclient string "goerr + atc_build option"
  | BuildResources goclient int "goerr + atc_build_io option"
  | BuildEvents goclient string "goerr + int option"
  | NextEvent int "stream_error + atc_event"
  | ReadPipeline goclient string string "goerr + atc_pipeline option"
  | ResourceTypes goclient string string "goerr + atc_resource_type list"
  | ListJobs goclient string string "goerr + atc_job list"
  | ListResources goclient string string "goerr + atc_resource list"
  | PipelineConfigVersion goclient string string "goerr + string option"
  | ReadJob goclient string string string "goerr + atc_job option"
  | ReadResource goclient string string string "goerr + atc_resource option"
  | ResourceVersions goclient string string string int "string_map option"
      "goerr + atc_resource_version list option"

datatype (plugins only: code) a_write =
    CreateJobBuild goclient string string string "goerr + atc_build"
  | RerunJobBuild goclient string string string string "goerr + atc_build"
  | AbortBuild goclient string "goerr option"
  | PutBuildComment http_client string string "goerr + http_response"
  | CustomBuildComment goclient int string "goerr option"
  | CreateOrUpdateTeam goclient string "team_auth option" "goerr + int \<times> config_warning list"
  | DestroyTeam goclient string "goerr option"
  | SetPipelineConfig goclient string string string string "goerr + config_warning list"
  | DeletePipeline goclient string string "goerr option"
  | ArchivePipeline goclient string string "goerr option"
  | PausePipeline goclient string string "goerr option"
  | UnpausePipeline goclient string string "goerr option"
  | ExposePipeline goclient string string "goerr option"
  | HidePipeline goclient string string "goerr option"
  | PauseJob goclient string string string "goerr option"
  | UnpauseJob goclient string string string "goerr option"
  | UnpinResource goclient string string string "goerr option"
  | SetPinComment goclient string string string string "goerr option"
  | PinResourceVersion goclient string string string int "goerr option"
  | DisableResourceVersion goclient string string string int "goerr option"
  | EnableResourceVersion goclient string string string int "goerr option"
  | CheckResource goclient string string string "string_map option" "goerr option"
  | SetWall goclient string duration "goerr option"
  | ClearWall goclient "goerr option"
  | LandWorker goclient string "goerr option"
  | PruneWorker goclient string "goerr option"
  | PasswordToken oauth_config string string "goerr + string"

datatype event_type = EventTypeNormal | EventTypeWarning

datatype (plugins only: code) io =
    KRead k_read
  | KWrite k_write
  | ARead a_read
  | AWrite a_write
  | Event okind ObjectKey event_type string string
  | Clock timestamp
  | SpawnWatch goclient int ObjectKey
  | Enqueue ObjectKey

section \<open>The process memory\<close>

text \<open>
  What lives in the process between reconciles: the client cache's \<open>store\<close>
  (\<open>internal/concourse/client_cache.go\<close>) and the Build reconciler's \<open>watchers\<close>.
\<close>

record memory =
  mem_store :: "string \<rightharpoonup> goclient"
  mem_watchers :: "string set"

type_synonym ('w, 'a) prog = "(('w, memory, io) machine, 'a) state"

section \<open>The parameters\<close>

type_synonym ('w, 'a) op = "'w \<Rightarrow> 'a \<times> 'w"

record 'w k8s_api =
  x_get_instance :: "ObjectKey \<Rightarrow> ('w, kerr + Instance) op"
  x_get_team :: "ObjectKey \<Rightarrow> ('w, kerr + Team) op"
  x_get_pipeline :: "ObjectKey \<Rightarrow> ('w, kerr + Pipeline) op"
  x_get_job :: "ObjectKey \<Rightarrow> ('w, kerr + Job) op"
  x_get_build :: "ObjectKey \<Rightarrow> ('w, kerr + Build) op"
  x_get_resource :: "ObjectKey \<Rightarrow> ('w, kerr + Resource) op"
  x_get_worker :: "ObjectKey \<Rightarrow> ('w, kerr + Worker) op"
  x_get_secret :: "ObjectKey \<Rightarrow> ('w, kerr + Secret) op"
  x_get_configmap :: "ObjectKey \<Rightarrow> ('w, kerr + ConfigMap) op"
  x_list_builds :: "string \<Rightarrow> ('w, kerr + Build list) op"
  x_list_instances :: "string \<Rightarrow> ('w, kerr + Instance list) op"
  x_update_instance :: "Instance \<Rightarrow> ('w, kerr + Instance) op"
  x_update_team :: "Team \<Rightarrow> ('w, kerr + Team) op"
  x_update_pipeline :: "Pipeline \<Rightarrow> ('w, kerr + Pipeline) op"
  x_update_job :: "Job \<Rightarrow> ('w, kerr + Job) op"
  x_update_build :: "Build \<Rightarrow> ('w, kerr + Build) op"
  x_update_resource :: "Resource \<Rightarrow> ('w, kerr + Resource) op"
  x_update_worker :: "Worker \<Rightarrow> ('w, kerr + Worker) op"
  x_status_instance :: "Instance \<Rightarrow> ('w, kerr + Instance) op"
  x_status_team :: "Team \<Rightarrow> ('w, kerr + Team) op"
  x_status_pipeline :: "Pipeline \<Rightarrow> ('w, kerr + Pipeline) op"
  x_status_job :: "Job \<Rightarrow> ('w, kerr + Job) op"
  x_status_build :: "Build \<Rightarrow> ('w, kerr + Build) op"
  x_status_resource :: "Resource \<Rightarrow> ('w, kerr + Resource) op"
  x_status_worker :: "Worker \<Rightarrow> ('w, kerr + Worker) op"
  x_delete_build :: "Build \<Rightarrow> ('w, kerr option) op"

record 'w atc_api =
  x_get_info :: "goclient \<Rightarrow> ('w, goerr + atc_info) op"
  x_list_workers :: "goclient \<Rightarrow> ('w, goerr + atc_worker list) op"
  x_user_info :: "goclient \<Rightarrow> ('w, goerr + atc_user_info) op"
  x_get_wall :: "goclient \<Rightarrow> ('w, goerr + string) op"
  x_set_wall :: "goclient \<Rightarrow> string \<Rightarrow> duration \<Rightarrow> ('w, goerr option) op"
  x_clear_wall :: "goclient \<Rightarrow> ('w, goerr option) op"
  x_list_teams :: "goclient \<Rightarrow> ('w, goerr + string list) op"
  x_list_pipelines :: "goclient \<Rightarrow> ('w, goerr + atc_pipeline list) op"
  x_abort_build :: "goclient \<Rightarrow> string \<Rightarrow> ('w, goerr option) op"
  x_build :: "goclient \<Rightarrow> string \<Rightarrow> ('w, goerr + atc_build option) op"
  x_build_resources :: "goclient \<Rightarrow> int \<Rightarrow> ('w, goerr + atc_build_io option) op"
  x_build_events :: "goclient \<Rightarrow> string \<Rightarrow> ('w, goerr + int option) op"
  x_next_event :: "int \<Rightarrow> ('w, stream_error + atc_event) op"
  x_land_worker :: "goclient \<Rightarrow> string \<Rightarrow> ('w, goerr option) op"
  x_prune_worker :: "goclient \<Rightarrow> string \<Rightarrow> ('w, goerr option) op"
  x_put_comment :: "http_client \<Rightarrow> string \<Rightarrow> string \<Rightarrow> ('w, goerr + http_response) op"
  x_password_token :: "oauth_config \<Rightarrow> string \<Rightarrow> string \<Rightarrow> ('w, goerr + string) op"

record 'w atc_team_api =
  x_create_job_build :: "goclient \<Rightarrow> string \<Rightarrow> string \<Rightarrow> string \<Rightarrow> ('w, goerr + atc_build) op"
  x_rerun_job_build :: "goclient \<Rightarrow> string \<Rightarrow> string \<Rightarrow> string \<Rightarrow> string \<Rightarrow> ('w, goerr + atc_build) op"
  x_create_or_update_team :: "goclient \<Rightarrow> string \<Rightarrow> team_auth option \<Rightarrow> ('w, goerr + int \<times> config_warning list) op"
  x_destroy_team :: "goclient \<Rightarrow> string \<Rightarrow> ('w, goerr option) op"
  x_pipeline :: "goclient \<Rightarrow> string \<Rightarrow> string \<Rightarrow> ('w, goerr + atc_pipeline option) op"
  x_resource_types :: "goclient \<Rightarrow> string \<Rightarrow> string \<Rightarrow> ('w, goerr + atc_resource_type list) op"
  x_list_jobs :: "goclient \<Rightarrow> string \<Rightarrow> string \<Rightarrow> ('w, goerr + atc_job list) op"
  x_list_resources :: "goclient \<Rightarrow> string \<Rightarrow> string \<Rightarrow> ('w, goerr + atc_resource list) op"
  x_pipeline_config :: "goclient \<Rightarrow> string \<Rightarrow> string \<Rightarrow> ('w, goerr + string option) op"
  x_set_pipeline_config :: "goclient \<Rightarrow> string \<Rightarrow> string \<Rightarrow> string \<Rightarrow> string \<Rightarrow> ('w, goerr + config_warning list) op"
  x_delete_pipeline :: "goclient \<Rightarrow> string \<Rightarrow> string \<Rightarrow> ('w, goerr option) op"
  x_archive_pipeline :: "goclient \<Rightarrow> string \<Rightarrow> string \<Rightarrow> ('w, goerr option) op"
  x_pause_pipeline :: "goclient \<Rightarrow> string \<Rightarrow> string \<Rightarrow> ('w, goerr option) op"
  x_unpause_pipeline :: "goclient \<Rightarrow> string \<Rightarrow> string \<Rightarrow> ('w, goerr option) op"
  x_expose_pipeline :: "goclient \<Rightarrow> string \<Rightarrow> string \<Rightarrow> ('w, goerr option) op"
  x_hide_pipeline :: "goclient \<Rightarrow> string \<Rightarrow> string \<Rightarrow> ('w, goerr option) op"
  x_job :: "goclient \<Rightarrow> string \<Rightarrow> string \<Rightarrow> string \<Rightarrow> ('w, goerr + atc_job option) op"
  x_pause_job :: "goclient \<Rightarrow> string \<Rightarrow> string \<Rightarrow> string \<Rightarrow> ('w, goerr option) op"
  x_unpause_job :: "goclient \<Rightarrow> string \<Rightarrow> string \<Rightarrow> string \<Rightarrow> ('w, goerr option) op"
  x_resource :: "goclient \<Rightarrow> string \<Rightarrow> string \<Rightarrow> string \<Rightarrow> ('w, goerr + atc_resource option) op"
  x_resource_versions :: "goclient \<Rightarrow> string \<Rightarrow> string \<Rightarrow> string \<Rightarrow> int \<Rightarrow> string_map option \<Rightarrow>
    ('w, goerr + atc_resource_version list option) op"
  x_unpin_resource :: "goclient \<Rightarrow> string \<Rightarrow> string \<Rightarrow> string \<Rightarrow> ('w, goerr option) op"
  x_set_pin_comment :: "goclient \<Rightarrow> string \<Rightarrow> string \<Rightarrow> string \<Rightarrow> string \<Rightarrow> ('w, goerr option) op"
  x_pin_resource_version :: "goclient \<Rightarrow> string \<Rightarrow> string \<Rightarrow> string \<Rightarrow> int \<Rightarrow> ('w, goerr option) op"
  x_disable_resource_version :: "goclient \<Rightarrow> string \<Rightarrow> string \<Rightarrow> string \<Rightarrow> int \<Rightarrow> ('w, goerr option) op"
  x_enable_resource_version :: "goclient \<Rightarrow> string \<Rightarrow> string \<Rightarrow> string \<Rightarrow> int \<Rightarrow> ('w, goerr option) op"
  x_check_resource :: "goclient \<Rightarrow> string \<Rightarrow> string \<Rightarrow> string \<Rightarrow> string_map option \<Rightarrow> ('w, goerr option) op"

text \<open>
  The pure parts of third-party packages (\<open>meta\<close>, \<open>controllerutil\<close>, \<open>metav1\<close>, \<open>retry\<close>)
  and the parts of the Go library whose output the operator only passes on (SHA-256, PEM
  parsing, \<open>%q\<close> and \<open>%v\<close>, \<open>json.Marshal\<close>, the order \<open>sort.Slice\<close> leaves equal elements
  in, the order in which \<open>range\<close> walks a map).
\<close>

record 'w libs =
  l_set_status_condition :: "Condition list \<Rightarrow> Condition \<Rightarrow> Condition list"
  l_is_status_condition_true :: "Condition list \<Rightarrow> string \<Rightarrow> bool"
  l_contains_finalizer :: "string list \<Rightarrow> string \<Rightarrow> bool"
  l_add_finalizer :: "string list \<Rightarrow> string \<Rightarrow> string list"
  l_remove_finalizer :: "string list \<Rightarrow> string \<Rightarrow> string list"
  l_set_controller_reference :: "okind \<Rightarrow> ObjectMeta \<Rightarrow> okind \<Rightarrow> ObjectMeta \<Rightarrow> goerr + OwnerReference list"
  l_is_controlled_by :: "ObjectMeta \<Rightarrow> ObjectMeta \<Rightarrow> bool"
  l_retry_on_conflict :: "('w, kerr + Build) prog \<Rightarrow> ('w, kerr + Build) prog"
  l_sha256_hex :: "string \<Rightarrow> string"
  l_append_certs_ok :: "string \<Rightarrow> bool"
  l_client_http :: "goclient \<Rightarrow> http_client option"
  l_client_url :: "goclient \<Rightarrow> string"
  l_marshal_comment :: "string \<Rightarrow> goerr + string"
  l_new_request :: "string \<Rightarrow> goerr option"
  l_trim_space :: "string \<Rightarrow> string"
  l_quote :: "string \<Rightarrow> string"
  l_show_map :: "string_map \<Rightarrow> string"
  l_sort_builds :: "(Build \<Rightarrow> Build \<Rightarrow> bool) \<Rightarrow> Build list \<Rightarrow> Build list"
  l_range :: "(i32 \<times> string_map) list \<Rightarrow> (i32 \<times> string_map) list"

text \<open>
  \<open>e_recorder\<close> and \<open>e_event_ch\<close> say whether the reconciler's \<open>Recorder\<close> and \<open>eventCh\<close> are
  non-nil, \<open>e_set_comment\<close> is the Build reconciler's optional \<open>setBuildComment\<close> field.
\<close>

record 'w env =
  e_k8s :: "'w k8s_api"
  e_atc :: "'w atc_api"
  e_team :: "'w atc_team_api"
  e_libs :: "'w libs"
  e_now :: "('w, timestamp) op"
  e_recorder :: bool
  e_event_ch :: bool
  e_set_comment :: "(goclient \<Rightarrow> int \<Rightarrow> string \<Rightarrow> ('w, goerr option) op) option"

end
