(* ===== verification/Calls.thy ===== *)
theory Calls
  imports External "HOL-Library.Multiset"
begin

text \<open>
  One program per call the operator makes to the outside: the \<open>env\<close>'s operation, with the
  call and its response entered into the journal. Below them, the small helpers of
  \<open>internal/controller/conditions.go\<close> and the hypotheses on third-party packages.
\<close>

section \<open>Calls to the Kubernetes API\<close>

abbreviation k_get_instance :: "'w env \<Rightarrow> ObjectKey \<Rightarrow> ('w, kerr + Instance) prog" where
  "k_get_instance env key \<equiv> extern (\<lambda>r. KRead (GetInstance key r)) (x_get_instance (e_k8s env) key)"

abbreviation k_get_team :: "'w env \<Rightarrow> ObjectKey \<Rightarrow> ('w, kerr + Team) prog" where
  "k_get_team env key \<equiv> extern (\<lambda>r. KRead (GetTeam key r)) (x_get_team (e_k8s env) key)"

abbreviation k_get_pipeline :: "'w env \<Rightarrow> ObjectKey \<Rightarrow> ('w, kerr + Pipeline) prog" where
  "k_get_pipeline env key \<equiv> extern (\<lambda>r. KRead (GetPipeline key r)) (x_get_pipeline (e_k8s env) key)"

abbreviation k_get_job :: "'w env \<Rightarrow> ObjectKey \<Rightarrow> ('w, kerr + Job) prog" where
  "k_get_job env key \<equiv> extern (\<lambda>r. KRead (GetJob key r)) (x_get_job (e_k8s env) key)"

abbreviation k_get_build :: "'w env \<Rightarrow> ObjectKey \<Rightarrow> ('w, kerr + Build) prog" where
  "k_get_build env key \<equiv> extern (\<lambda>r. KRead (GetBuild key r)) (x_get_build (e_k8s env) key)"

abbreviation k_get_resource :: "'w env \<Rightarrow> ObjectKey \<Rightarrow> ('w, kerr + Resource) prog" where
  "k_get_resource env key \<equiv> extern (\<lambda>r. KRead (GetResource key r)) (x_get_resource (e_k8s env) key)"

abbreviation k_get_worker :: "'w env \<Rightarrow> ObjectKey \<Rightarrow> ('w, kerr + Worker) prog" where
  "k_get_worker env key \<equiv> extern (\<lambda>r. KRead (GetWorker key r)) (x_get_worker (e_k8s env) key)"

abbreviation k_get_secret :: "'w env \<Rightarrow> ObjectKey \<Rightarrow> ('w, kerr + Secret) prog" where
  "k_get_secret env key \<equiv> extern (\<lambda>r. KRead (GetSecret key r)) (x_get_secret (e_k8s env) key)"

abbreviation k_get_configmap :: "'w env \<Rightarrow> ObjectKey \<Rightarrow> ('w, kerr + ConfigMap) prog" where
  "k_get_configmap env key \<equiv> extern (\<lambda>r. KRead (GetConfigMap key r)) (x_get_configmap (e_k8s env) key)"

abbreviation k_list_builds :: "'w env \<Rightarrow> string \<Rightarrow> ('w, kerr + Build list) prog" where
  "k_list_builds env ns \<equiv> extern (\<lambda>r. KRead (ListBuilds ns r)) (x_list_builds (e_k8s env) ns)"

abbreviation k_list_instances :: "'w env \<Rightarrow> string \<Rightarrow> ('w, kerr + Instance list) prog" where
  "k_list_instances env ns \<equiv> extern (\<lambda>r. KRead (ListInstances ns r)) (x_list_instances (e_k8s env) ns)"

abbreviation k_update_instance :: "'w env \<Rightarrow> Instance \<Rightarrow> ('w, kerr + Instance) prog" where
  "k_update_instance env obj \<equiv> extern (\<lambda>r. KWrite (UpdateInstance obj r)) (x_update_instance (e_k8s env) obj)"

abbreviation k_update_team :: "'w env \<Rightarrow> Team \<Rightarrow> ('w, kerr + Team) prog" where
  "k_update_team env obj \<equiv> extern (\<lambda>r. KWrite (UpdateTeam obj r)) (x_update_team (e_k8s env) obj)"

abbreviation k_update_pipeline :: "'w env \<Rightarrow> Pipeline \<Rightarrow> ('w, kerr + Pipeline) prog" where
  "k_update_pipeline env obj \<equiv> extern (\<lambda>r. KWrite (UpdatePipeline obj r)) (x_update_pipeline (e_k8s env) obj)"

abbreviation k_update_job :: "'w env \<Rightarrow> Job \<Rightarrow> ('w, kerr + Job) prog" where
  "k_update_job env obj \<equiv> extern (\<lambda>r. KWrite (UpdateJob obj r)) (x_update_job (e_k8s env) obj)"

abbreviation k_update_build :: "'w env \<Rightarrow> Build \<Rightarrow> ('w, kerr + Build) prog" where
  "k_update_build env obj \<equiv> extern (\<lambda>r. KWrite (UpdateBuild obj r)) (x_update_build (e_k8s env) obj)"

abbreviation k_update_resource :: "'w env \<Rightarrow> Resource \<Rightarrow> ('w, kerr + Resource) prog" where
  "k_update_resource env obj \<equiv> extern (\<lambda>r. KWrite (UpdateResource obj r)) (x_update_resource (e_k8s env) obj)"

abbreviation k_update_worker :: "'w env \<Rightarrow> Worker \<Rightarrow> ('w, kerr + Worker) prog" where
  "k_update_worker env obj \<equiv> extern (\<lambda>r. KWrite (UpdateWorker obj r)) (x_update_worker (e_k8s env) obj)"

abbreviation k_status_instance :: "'w env \<Rightarrow> Instance \<Rightarrow> ('w, kerr + Instance) prog" where
  "k_status_instance env obj \<equiv> extern (\<lambda>r. KWrite (StatusInstance obj r)) (x_status_instance (e_k8s env) obj)"

abbreviation k_status_team :: "'w env \<Rightarrow> Team \<Rightarrow> ('w, kerr + Team) prog" where
  "k_status_team env obj \<equiv> extern (\<lambda>r. KWrite (StatusTeam obj r)) (x_status_team (e_k8s env) obj)"

abbreviation k_status_pipeline :: "'w env \<Rightarrow> Pipeline \<Rightarrow> ('w, kerr + Pipeline) prog" where
  "k_status_pipeline env obj \<equiv> extern (\<lambda>r. KWrite (StatusPipeline obj r)) (x_status_pipeline (e_k8s env) obj)"

abbreviation k_status_job :: "'w env \<Rightarrow> Job \<Rightarrow> ('w, kerr + Job) prog" where
  "k_status_job env obj \<equiv> extern (\<lambda>r. KWrite (StatusJob obj r)) (x_status_job (e_k8s env) obj)"

abbreviation k_status_build :: "'w env \<Rightarrow> Build \<Rightarrow> ('w, kerr + Build) prog" where
  "k_status_build env obj \<equiv> extern (\<lambda>r. KWrite (StatusBuild obj r)) (x_status_build (e_k8s env) obj)"

abbreviation k_status_resource :: "'w env \<Rightarrow> Resource \<Rightarrow> ('w, kerr + Resource) prog" where
  "k_status_resource env obj \<equiv> extern (\<lambda>r. KWrite (StatusResource obj r)) (x_status_resource (e_k8s env) obj)"

abbreviation k_status_worker :: "'w env \<Rightarrow> Worker \<Rightarrow> ('w, kerr + Worker) prog" where
  "k_status_worker env obj \<equiv> extern (\<lambda>r. KWrite (StatusWorker obj r)) (x_status_worker (e_k8s env) obj)"

abbreviation k_delete_build :: "'w env \<Rightarrow> Build \<Rightarrow> ('w, kerr option) prog" where
  "k_delete_build env obj \<equiv> extern (\<lambda>r. KWrite (DeleteBuild obj r)) (x_delete_build (e_k8s env) obj)"

section \<open>Calls to Concourse through a client\<close>

abbreviation a_get_info :: "'w env \<Rightarrow> goclient \<Rightarrow> ('w, goerr + atc_info) prog" where
  "a_get_info env cl \<equiv> extern (\<lambda>r. ARead (GetInfo cl r)) (x_get_info (e_atc env) cl)"

abbreviation a_list_workers :: "'w env \<Rightarrow> goclient \<Rightarrow> ('w, goerr + atc_worker list) prog" where
  "a_list_workers env cl \<equiv> extern (\<lambda>r. ARead (ListWorkers cl r)) (x_list_workers (e_atc env) cl)"

abbreviation a_user_info :: "'w env \<Rightarrow> goclient \<Rightarrow> ('w, goerr + atc_user_info) prog" where
  "a_user_info env cl \<equiv> extern (\<lambda>r. ARead (UserInfo cl r)) (x_user_info (e_atc env) cl)"

abbreviation a_get_wall :: "'w env \<Rightarrow> goclient \<Rightarrow> ('w, goerr + string) prog" where
  "a_get_wall env cl \<equiv> extern (\<lambda>r. ARead (GetWall cl r)) (x_get_wall (e_atc env) cl)"

abbreviation a_set_wall :: "'w env \<Rightarrow> goclient \<Rightarrow> string \<Rightarrow> duration \<Rightarrow> ('w, goerr option) prog" where
  "a_set_wall env cl msg ttl \<equiv> extern (\<lambda>r. AWrite (SetWall cl msg ttl r)) (x_set_wall (e_atc env) cl msg ttl)"

abbreviation a_clear_wall :: "'w env \<Rightarrow> goclient \<Rightarrow> ('w, goerr option) prog" where
  "a_clear_wall env cl \<equiv> extern (\<lambda>r. AWrite (ClearWall cl r)) (x_clear_wall (e_atc env) cl)"

abbreviation a_list_teams :: "'w env \<Rightarrow> goclient \<Rightarrow> ('w, goerr + string list) prog" where
  "a_list_teams env cl \<equiv> extern (\<lambda>r. ARead (ListTeams cl r)) (x_list_teams (e_atc env) cl)"

abbreviation a_list_pipelines :: "'w env \<Rightarrow> goclient \<Rightarrow> ('w, goerr + atc_pipeline list) prog" where
  "a_list_pipelines env cl \<equiv> extern (\<lambda>r. ARead (ListPipelines cl r)) (x_list_pipelines (e_atc env) cl)"

abbreviation a_abort_build :: "'w env \<Rightarrow> goclient \<Rightarrow> string \<Rightarrow> ('w, goerr option) prog" where
  "a_abort_build env cl bid \<equiv> extern (\<lambda>r. AWrite (AbortBuild cl bid r)) (x_abort_build (e_atc env) cl bid)"

abbreviation a_build :: "'w env \<Rightarrow> goclient \<Rightarrow> string \<Rightarrow> ('w, goerr + atc_build option) prog" where
  "a_build env cl bid \<equiv> extern (\<lambda>r. ARead (ReadBuild cl bid r)) (x_build (e_atc env) cl bid)"

abbreviation a_build_resources :: "'w env \<Rightarrow> goclient \<Rightarrow> int \<Rightarrow> ('w, goerr + atc_build_io option) prog" where
  "a_build_resources env cl bid \<equiv> extern (\<lambda>r. ARead (BuildResources cl bid r)) (x_build_resources (e_atc env) cl bid)"

abbreviation a_build_events :: "'w env \<Rightarrow> goclient \<Rightarrow> string \<Rightarrow> ('w, goerr + int option) prog" where
  "a_build_events env cl bid \<equiv> extern (\<lambda>r. ARead (BuildEvents cl bid r)) (x_build_events (e_atc env) cl bid)"

abbreviation a_next_event :: "'w env \<Rightarrow> int \<Rightarrow> ('w, stream_error + atc_event) prog" where
  "a_next_event env stream \<equiv> extern (\<lambda>r. ARead (NextEvent stream r)) (x_next_event (e_atc env) stream)"

abbreviation a_land_worker :: "'w env \<Rightarrow> goclient \<Rightarrow> string \<Rightarrow> ('w, goerr option) prog" where
  "a_land_worker env cl wn \<equiv> extern (\<lambda>r. AWrite (LandWorker cl wn r)) (x_land_worker (e_atc env) cl wn)"

abbreviation a_prune_worker :: "'w env \<Rightarrow> goclient \<Rightarrow> string \<Rightarrow> ('w, goerr option) prog" where
  "a_prune_worker env cl wn \<equiv> extern (\<lambda>r. AWrite (PruneWorker cl wn r)) (x_prune_worker (e_atc env) cl wn)"

abbreviation a_put_comment :: "'w env \<Rightarrow> http_client \<Rightarrow> string \<Rightarrow> string \<Rightarrow> ('w, goerr + http_response) prog" where
  "a_put_comment env hc url body \<equiv> extern (\<lambda>r. AWrite (PutBuildComment hc url body r)) (x_put_comment (e_atc env) hc url body)"

abbreviation a_password_token :: "'w env \<Rightarrow> oauth_config \<Rightarrow> string \<Rightarrow> string \<Rightarrow> ('w, goerr + string) prog" where
  "a_password_token env cfg user pw \<equiv> extern (\<lambda>r. AWrite (PasswordToken cfg user pw r)) (x_password_token (e_atc env) cfg user pw)"

section \<open>Calls to Concourse through a team\<close>

abbreviation a_create_job_build :: "'w env \<Rightarrow> goclient \<Rightarrow> string \<Rightarrow> string \<Rightarrow> string \<Rightarrow> ('w, goerr + atc_build) prog" where
  "a_create_job_build env cl tn pn jn \<equiv> extern (\<lambda>r. AWrite (CreateJobBuild cl tn pn jn r)) (x_create_job_build (e_team env) cl tn pn jn)"

abbreviation a_rerun_job_build :: "'w env \<Rightarrow> goclient \<Rightarrow> string \<Rightarrow> string \<Rightarrow> string \<Rightarrow> string \<Rightarrow> ('w, goerr + atc_build) prog" where
  "a_rerun_job_build env cl tn pn jn bn \<equiv> extern (\<lambda>r. AWrite (RerunJobBuild cl tn pn jn bn r)) (x_rerun_job_build (e_team env) cl tn pn jn bn)"

abbreviation a_create_or_update_team :: "'w env \<Rightarrow> goclient \<Rightarrow> string \<Rightarrow> team_auth option \<Rightarrow> ('w, goerr + int \<times> config_warning list) prog" where
  "a_create_or_update_team env cl tn auth \<equiv> extern (\<lambda>r. AWrite (CreateOrUpdateTeam cl tn auth r)) (x_create_or_update_team (e_team env) cl tn auth)"

abbreviation a_destroy_team :: "'w env \<Rightarrow> goclient \<Rightarrow> string \<Rightarrow> ('w, goerr option) prog" where
  "a_destroy_team env cl tn \<equiv> extern (\<lambda>r. AWrite (DestroyTeam cl tn r)) (x_destroy_team (e_team env) cl tn)"

abbreviation a_pipeline :: "'w env \<Rightarrow> goclient \<Rightarrow> string \<Rightarrow> string \<Rightarrow> ('w, goerr + atc_pipeline option) prog" where
  "a_pipeline env cl tn pn \<equiv> extern (\<lambda>r. ARead (ReadPipeline cl tn pn r)) (x_pipeline (e_team env) cl tn pn)"

abbreviation a_resource_types :: "'w env \<Rightarrow> goclient \<Rightarrow> string \<Rightarrow> string \<Rightarrow> ('w, goerr + atc_resource_type list) prog" where
  "a_resource_types env cl tn pn \<equiv> extern (\<lambda>r. ARead (ResourceTypes cl tn pn r)) (x_resource_types (e_team env) cl tn pn)"

abbreviation a_list_jobs :: "'w env \<Rightarrow> goclient \<Rightarrow> string \<Rightarrow> string \<Rightarrow> ('w, goerr + atc_job list) prog" where
  "a_list_jobs env cl tn pn \<equiv> extern (\<lambda>r. ARead (ListJobs cl tn pn r)) (x_list_jobs (e_team env) cl tn pn)"

abbreviation a_list_resources :: "'w env \<Rightarrow> goclient \<Rightarrow> string \<Rightarrow> string \<Rightarrow> ('w, goerr + atc_resource list) prog" where
  "a_list_resources env cl tn pn \<equiv> extern (\<lambda>r. ARead (ListResources cl tn pn r)) (x_list_resources (e_team env) cl tn pn)"

abbreviation a_pipeline_config :: "'w env \<Rightarrow> goclient \<Rightarrow> string \<Rightarrow> string \<Rightarrow> ('w, goerr + string option) prog" where
  "a_pipeline_config env cl tn pn \<equiv> extern (\<lambda>r. ARead (PipelineConfigVersion cl tn pn r)) (x_pipeline_config (e_team env) cl tn pn)"

abbreviation a_set_pipeline_config :: "'w env \<Rightarrow> goclient \<Rightarrow> string \<Rightarrow> string \<Rightarrow> string \<Rightarrow> string \<Rightarrow> ('w, goerr + config_warning list) prog" where
  "a_set_pipeline_config env cl tn pn ver yaml \<equiv> extern (\<lambda>r. AWrite (SetPipelineConfig cl tn pn ver yaml r)) (x_set_pipeline_config (e_team env) cl tn pn ver yaml)"

abbreviation a_delete_pipeline :: "'w env \<Rightarrow> goclient \<Rightarrow> string \<Rightarrow> string \<Rightarrow> ('w, goerr option) prog" where
  "a_delete_pipeline env cl tn pn \<equiv> extern (\<lambda>r. AWrite (DeletePipeline cl tn pn r)) (x_delete_pipeline (e_team env) cl tn pn)"

abbreviation a_archive_pipeline :: "'w env \<Rightarrow> goclient \<Rightarrow> string \<Rightarrow> string \<Rightarrow> ('w, goerr option) prog" where
  "a_archive_pipeline env cl tn pn \<equiv> extern (\<lambda>r. AWrite (ArchivePipeline cl tn pn r)) (x_archive_pipeline (e_team env) cl tn pn)"

abbreviation a_pause_pipeline :: "'w env \<Rightarrow> goclient \<Rightarrow> string \<Rightarrow> string \<Rightarrow> ('w, goerr option) prog" where
  "a_pause_pipeline env cl tn pn \<equiv> extern (\<lambda>r. AWrite (PausePipeline cl tn pn r)) (x_pause_pipeline (e_team env) cl tn pn)"

abbreviation a_unpause_pipeline :: "'w env \<Rightarrow> goclient \<Rightarrow> string \<Rightarrow> string \<Rightarrow> ('w, goerr option) prog" where
  "a_unpause_pipeline env cl tn pn \<equiv> extern (\<lambda>r. AWrite (UnpausePipeline cl tn pn r)) (x_unpause_pipeline (e_team env) cl tn pn)"

abbreviation a_expose_pipeline :: "'w env \<Rightarrow> goclient \<Rightarrow> string \<Rightarrow> string \<Rightarrow> ('w, goerr option) prog" where
  "a_expose_pipeline env cl tn pn \<equiv> extern (\<lambda>r. AWrite (ExposePipeline cl tn pn r)) (x_expose_pipeline (e_team env) cl tn pn)"

abbreviation a_hide_pipeline :: "'w env \<Rightarrow> goclient \<Rightarrow> string \<Rightarrow> string \<Rightarrow> ('w, goerr option) prog" where
  "a_hide_pipeline env cl tn pn \<equiv> extern (\<lambda>r. AWrite (HidePipeline cl tn pn r)) (x_hide_pipeline (e_team env) cl tn pn)"

abbreviation a_job :: "'w env \<Rightarrow> goclient \<Rightarrow> string \<Rightarrow> string \<Rightarrow> string \<Rightarrow> ('w, goerr + atc_job option) prog" where
  "a_job env cl tn pn jn \<equiv> extern (\<lambda>r. ARead (ReadJob cl tn pn jn r)) (x_job (e_team env) cl tn pn jn)"

abbreviation a_pause_job :: "'w env \<Rightarrow> goclient \<Rightarrow> string \<Rightarrow> string \<Rightarrow> string \<Rightarrow> ('w, goerr option) prog" where
  "a_pause_job env cl tn pn jn \<equiv> extern (\<lambda>r. AWrite (PauseJob cl tn pn jn r)) (x_pause_job (e_team env) cl tn pn jn)"

abbreviation a_unpause_job :: "'w env \<Rightarrow> goclient \<Rightarrow> string \<Rightarrow> string \<Rightarrow> string \<Rightarrow> ('w, goerr option) prog" where
  "a_unpause_job env cl tn pn jn \<equiv> extern (\<lambda>r. AWrite (UnpauseJob cl tn pn jn r)) (x_unpause_job (e_team env) cl tn pn jn)"

abbreviation a_resource :: "'w env \<Rightarrow> goclient \<Rightarrow> string \<Rightarrow> string \<Rightarrow> string \<Rightarrow> ('w, goerr + atc_resource option) prog" where
  "a_resource env cl tn pn rn \<equiv> extern (\<lambda>r. ARead (ReadResource cl tn pn rn r)) (x_resource (e_team env) cl tn pn rn)"

abbreviation a_resource_versions :: "'w env \<Rightarrow> goclient \<Rightarrow> string \<Rightarrow> string \<Rightarrow> string \<Rightarrow> int \<Rightarrow> string_map option \<Rightarrow> ('w, goerr + atc_resource_version list option) prog" where
  "a_resource_versions env cl tn pn rn lim fv \<equiv> extern (\<lambda>r. ARead (ResourceVersions cl tn pn rn lim fv r)) (x_resource_versions (e_team env) cl tn pn rn lim fv)"

abbreviation a_unpin_resource :: "'w env \<Rightarrow> goclient \<Rightarrow> string \<Rightarrow> string \<Rightarrow> string \<Rightarrow> ('w, goerr option) prog" where
  "a_unpin_resource env cl tn pn rn \<equiv> extern (\<lambda>r. AWrite (UnpinResource cl tn pn rn r)) (x_unpin_resource (e_team env) cl tn pn rn)"

abbreviation a_set_pin_comment :: "'w env \<Rightarrow> goclient \<Rightarrow> string \<Rightarrow> string \<Rightarrow> string \<Rightarrow> string \<Rightarrow> ('w, goerr option) prog" where
  "a_set_pin_comment env cl tn pn rn comment \<equiv> extern (\<lambda>r. AWrite (SetPinComment cl tn pn rn comment r)) (x_set_pin_comment (e_team env) cl tn pn rn comment)"

abbreviation a_pin_resource_version :: "'w env \<Rightarrow> goclient \<Rightarrow> string \<Rightarrow> string \<Rightarrow> string \<Rightarrow> int \<Rightarrow> ('w, goerr option) prog" where
  "a_pin_resource_version env cl tn pn rn vid \<equiv> extern (\<lambda>r. AWrite (PinResourceVersion cl tn pn rn vid r)) (x_pin_resource_version (e_team env) cl tn pn rn vid)"

abbreviation a_disable_resource_version :: "'w env \<Rightarrow> goclient \<Rightarrow> string \<Rightarrow> string \<Rightarrow> string \<Rightarrow> int \<Rightarrow> ('w, goerr option) prog" where
  "a_disable_resource_version env cl tn pn rn vid \<equiv> extern (\<lambda>r. AWrite (DisableResourceVersion cl tn pn rn vid r)) (x_disable_resource_version (e_team env) cl tn pn rn vid)"

abbreviation a_enable_resource_version :: "'w env \<Rightarrow> goclient \<Rightarrow> string \<Rightarrow> string \<Rightarrow> string \<Rightarrow> int \<Rightarrow> ('w, goerr option) prog" where
  "a_enable_resource_version env cl tn pn rn vid \<equiv> extern (\<lambda>r. AWrite (EnableResourceVersion cl tn pn rn vid r)) (x_enable_resource_version (e_team env) cl tn pn rn vid)"

abbreviation a_check_resource :: "'w env \<Rightarrow> goclient \<Rightarrow> string \<Rightarrow> string \<Rightarrow> string \<Rightarrow> string_map option \<Rightarrow> ('w, goerr option) prog" where
  "a_check_resource env cl tn pn rn fv \<equiv> extern (\<lambda>r. AWrite (CheckResource cl tn pn rn fv r)) (x_check_resource (e_team env) cl tn pn rn fv)"

abbreviation now :: "'w env \<Rightarrow> ('w, timestamp) prog" where
  "now env \<equiv> extern Clock (e_now env)"

text \<open>What a reconcile returns: \<open>RequeueAfter\<close> (0 for none) and the error, if any.\<close>

type_synonym Result = duration

type_synonym 'w reconcile = "('w, Result \<times> goerr option) prog"

section \<open>conditions.go\<close>

definition setCondition ::
  "'w env \<Rightarrow> Condition list \<Rightarrow> int \<Rightarrow> string \<Rightarrow> ConditionStatus \<Rightarrow> string \<Rightarrow> string \<Rightarrow> Condition list" where
  "setCondition env conds generation condType status reason message =
     l_set_status_condition (e_libs env) conds
       \<lparr>c_type = condType, c_status = status, c_reason = reason, c_message = message,
        c_observedGeneration = generation\<rparr>"

definition int32Ptr :: "int \<Rightarrow> i32 option" where
  "int32Ptr v = Some (to_i32 v)"

definition ptrValue :: "'a::zero option \<Rightarrow> 'a" where
  "ptrValue p = (case p of None \<Rightarrow> 0 | Some v \<Rightarrow> v)"

definition key_of :: "ObjectMeta \<Rightarrow> ObjectKey" where
  "key_of m = (om_namespace m, om_name m)"

definition recordEvent ::
  "'w env \<Rightarrow> okind \<Rightarrow> ObjectMeta \<Rightarrow> event_type \<Rightarrow> string \<Rightarrow> string \<Rightarrow> ('w, unit) prog" where
  "recordEvent env kind m eventtype reason message =
     (if e_recorder env then note_event (Event kind (key_of m) eventtype reason message)
      else ret ())"

lemma outcome_recordEvent [outcome_intros]:
  "(e_recorder env \<Longrightarrow> P () [Event kind (key_of m) t r msg]) \<Longrightarrow> (\<not> e_recorder env \<Longrightarrow> P () [])
   \<Longrightarrow> outcome (recordEvent env kind m t r msg) P"
  by (simp add: recordEvent_def outcome_note outcome_return)

lemma emits_recordEvent [emits_intros]:
  "A (Event kind (key_of m) t r msg) \<Longrightarrow> emits A (recordEvent env kind m t r msg)"
  by (simp add: recordEvent_def emits_note emits_return)

lemma keeps_recordEvent [keeps_intros]: "keeps I (recordEvent env kind m t r msg)"
  by (simp add: recordEvent_def keeps_note keeps_return)

section \<open>What is relied on of third-party packages\<close>

text \<open>
  \<open>meta.SetStatusCondition\<close> replaces the condition of the same type or adds it, and leaves
  the others; \<open>meta.IsStatusConditionTrue\<close> says whether the condition of a type is there
  and true. \<open>cond_of\<close> is \<open>meta.FindStatusCondition\<close>.
\<close>

definition cond_of :: "Condition list \<Rightarrow> string \<Rightarrow> Condition option" where
  "cond_of conds t = find (\<lambda>c. c_type c = t) conds"

definition conditions_law :: "'w env \<Rightarrow> bool" where
  "conditions_law env \<longleftrightarrow>
     (\<forall>conds c t. cond_of (l_set_status_condition (e_libs env) conds c) t =
        (if t = c_type c then Some c else cond_of conds t)) \<and>
     (\<forall>conds t. l_is_status_condition_true (e_libs env) conds t =
        (case cond_of conds t of None \<Rightarrow> False | Some c \<Rightarrow> c_status c = ConditionTrue))"

text \<open>\<open>controllerutil.ContainsFinalizer\<close>, \<open>AddFinalizer\<close> and \<open>RemoveFinalizer\<close> treat the
  finalizers as a set.\<close>

definition finalizers_law :: "'w env \<Rightarrow> bool" where
  "finalizers_law env \<longleftrightarrow>
     (\<forall>fs f. l_contains_finalizer (e_libs env) fs f = (f \<in> set fs)) \<and>
     (\<forall>fs f. set (l_add_finalizer (e_libs env) fs f) = insert f (set fs)) \<and>
     (\<forall>fs f. set (l_remove_finalizer (e_libs env) fs f) = set fs - {f})"

text \<open>
  \<open>retry.RetryOnConflict\<close> runs the body, and runs it again for as long as it fails with a
  conflict and attempts are left; it returns what the last attempt returned.
\<close>

primrec attempts :: "nat \<Rightarrow> ('w, kerr + Build) prog \<Rightarrow> ('w, kerr + Build) prog" where
  "attempts 0 body = body"
| "attempts (Suc n) body = do {
     r \<leftarrow> body;
     (case r of Inl (KConflict m) \<Rightarrow> attempts n body | _ \<Rightarrow> ret r) }"

definition retry_law :: "'w env \<Rightarrow> bool" where
  "retry_law env \<longleftrightarrow> (\<exists>n. \<forall>body. l_retry_on_conflict (e_libs env) body = attempts n body)"

text \<open>\<open>sort.Slice\<close> permutes the slice and leaves it sorted for the comparison.\<close>

definition sort_law :: "'w env \<Rightarrow> bool" where
  "sort_law env \<longleftrightarrow> (\<forall>(key :: Build \<Rightarrow> int) bs.
     mset (l_sort_builds (e_libs env) (\<lambda>a b. key a > key b) bs) = mset bs \<and>
     sorted_wrt (\<lambda>a b. key a \<ge> key b) (l_sort_builds (e_libs env) (\<lambda>a b. key a > key b) bs))"

text \<open>\<open>range\<close> visits every entry of a map once, in some order.\<close>

definition range_law :: "'w env \<Rightarrow> bool" where
  "range_law env \<longleftrightarrow> (\<forall>m. mset (l_range (e_libs env) m) = mset m)"

lemma cond_of_set [simp]:
  "conditions_law env \<Longrightarrow> cond_of (setCondition env conds g t st r msg) t' =
     (if t' = t then Some \<lparr>c_type = t, c_status = st, c_reason = r, c_message = msg,
        c_observedGeneration = g\<rparr> else cond_of conds t')"
  by (simp add: conditions_law_def setCondition_def)

lemma attempts_outcome:
  assumes step: "\<And>P. (\<And>r es. Q r es \<Longrightarrow> P r es) \<Longrightarrow> outcome body P"
    and base: "\<And>r es. Q r es \<Longrightarrow> R r es"
    and again: "\<And>m es r es'. Q (Inl (KConflict m)) es \<Longrightarrow> R r es' \<Longrightarrow> R r (es @ es')"
  shows "outcome (attempts n body) R"
proof (induction n)
  case 0
  then show ?case using step base by simp
next
  case (Suc n)
  have "outcome body (\<lambda>r es. outcome (case r of Inl (KConflict m) \<Rightarrow> attempts n body | _ \<Rightarrow> ret r)
      (\<lambda>r' es'. R r' (es @ es')))"
  proof (rule step)
    fix r es
    assume Q: "Q r es"
    show "outcome (case r of Inl (KConflict m) \<Rightarrow> attempts n body | _ \<Rightarrow> ret r)
        (\<lambda>r' es'. R r' (es @ es'))"
      using Q base Suc again
      by (auto split: sum.splits kerr.splits intro!: outcome_return intro: outcome_mono)
  qed
  then show ?case by (simp add: outcome_bind)
qed

lemma attempts_emits: "emits A body \<Longrightarrow> emits A (attempts n body)"
  by (induction n) (auto intro!: emits_bind emits_return split: sum.splits kerr.splits)

lemma attempts_keeps: "keeps I body \<Longrightarrow> keeps I (attempts n body)"
  by (induction n) (auto intro!: keeps_bind keeps_return split: sum.splits kerr.splits)

end
