(* ===== verification/Example_Env.thy ===== *)
theory Example_Env
  imports Calls
begin

text \<open>
  A concrete outside world on which properties are evaluated: a cluster that holds one
  object of every kind, all of them Ready, that accepts every write and echoes the object,
  and a Concourse that performs every request. Examples replace single operations of it.
  The third-party packages are implementations that satisfy the hypotheses of \<open>Calls\<close>.
\<close>

section \<open>Third-party packages\<close>

definition demo_set_condition :: "Condition list \<Rightarrow> Condition \<Rightarrow> Condition list" where
  "demo_set_condition conds c =
     (if \<exists>x\<in>set conds. c_type x = c_type c
      then map (\<lambda>x. if c_type x = c_type c then c else x) conds
      else conds @ [c])"

definition demo_condition_true :: "Condition list \<Rightarrow> string \<Rightarrow> bool" where
  "demo_condition_true conds t =
     (case cond_of conds t of None \<Rightarrow> False | Some c \<Rightarrow> c_status c = ConditionTrue)"

primrec demo_insert :: "('a \<Rightarrow> 'a \<Rightarrow> bool) \<Rightarrow> 'a \<Rightarrow> 'a list \<Rightarrow> 'a list" where
  "demo_insert lt x [] = [x]"
| "demo_insert lt x (y # ys) = (if lt y x then y # demo_insert lt x ys else x # y # ys)"

definition demo_sort :: "('a \<Rightarrow> 'a \<Rightarrow> bool) \<Rightarrow> 'a list \<Rightarrow> 'a list" where
  "demo_sort lt xs = foldr (demo_insert lt) xs []"

definition demo_libs :: "'w libs" where
  "demo_libs =
  \<lparr>l_set_status_condition = demo_set_condition,
    l_is_status_condition_true = demo_condition_true,
    l_contains_finalizer = (\<lambda>fs f. f \<in> set fs),
    l_add_finalizer = (\<lambda>fs f. if f \<in> set fs then fs else fs @ [f]),
    l_remove_finalizer = (\<lambda>fs f. filter (\<lambda>x. x \<noteq> f) fs),
    l_set_controller_reference = (\<lambda>k m k' m'. Inr [\<lparr>or_kind = k, or_name = om_name m,
      or_uid = om_uid m, or_controller = True\<rparr>]),
    l_is_controlled_by = (\<lambda>m m'. list_ex (\<lambda>r. or_controller r \<and> or_uid r = om_uid m')
      (om_ownerReferences m)),
    l_retry_on_conflict = attempts 4,
    l_sha256_hex = (\<lambda>s. s),
    l_append_certs_ok = (\<lambda>pem. pem \<noteq> ''''),
    l_client_http = (\<lambda>cl. Some (gc_http cl)),
    l_client_url = gc_url,
    l_marshal_comment = (\<lambda>s. Inr s),
    l_new_request = (\<lambda>url. None),
    l_trim_space = (\<lambda>s. s),
    l_quote = (\<lambda>s. CHR 0x22 # s @ [CHR 0x22]),
    l_show_map = (\<lambda>m. ''map''),
    l_sort_builds = demo_sort,
    l_range = (\<lambda>m. m)\<rparr>"

section \<open>Objects\<close>

definition demo_meta :: "string \<Rightarrow> ObjectMeta" where
  "demo_meta n = \<lparr>om_name = n, om_namespace = ''ci'', om_uid = n, om_generation = 1,
     om_resourceVersion = ''1'', om_creationTimestamp = 0, om_deletionTimestamp = None,
     om_finalizers = [], om_ownerReferences = []\<rparr>"

definition demo_ref :: "string \<Rightarrow> LocalObjectReference" where
  "demo_ref n = \<lparr>ref_name = n, ref_namespace = ''''\<rparr>"

definition demo_ready :: "Condition list" where
  "demo_ready = [\<lparr>c_type = ConditionReady, c_status = ConditionTrue, c_reason = ''Ready'',
     c_message = '''', c_observedGeneration = 1\<rparr>]"

definition demo_instance_spec :: InstanceSpec where
  "demo_instance_spec = \<lparr>is_url = ''http://ci'', is_auth = \<lparr>auth_password = None,
     auth_token = Some \<lparr>ta_tokenRef = \<lparr>sks_name = ''creds'', sks_key =
     ''token''\<rparr>\<rparr>\<rparr>, is_tls = None, is_allowedNamespaces = [],
     is_healthProbeInterval = None, is_suspend = False, is_defaultTeam = '''', is_wall =
     None\<rparr>"

definition demo_instance_status :: InstanceStatus where
  "demo_instance_status = \<lparr>it_conditions = demo_ready, it_version = '''', it_workerVersion
     = '''', it_clusterName = '''', it_externalURL = '''', it_workerCount = None,
     it_stalledWorkers = None, it_runningWorkers = None, it_landingWorkers = None, it_webURL =
     '''', it_featureFlags = [], it_authenticatedUser = '''', it_authenticatedAdmin = None,
     it_wallMessage = '''', it_teamCount = None, it_pipelineCount = None, it_authSecretGeneration
     = 0, it_observedGeneration = 0\<rparr>"

definition demo_instance :: Instance where
  "demo_instance = \<lparr>instance_meta = demo_meta ''main'', instance_spec = demo_instance_spec,
     instance_status = demo_instance_status\<rparr>"

definition demo_team_spec :: TeamSpec where
  "demo_team_spec = \<lparr>ts_instanceRef = demo_ref ''main'', ts_teamName = '''', ts_roles = [],
     ts_allowDestroy = False, ts_reclaimPolicy = '''', ts_suspend = False\<rparr>"

definition demo_team_status :: TeamStatus where
  "demo_team_status = \<lparr>tt_conditions = demo_ready, tt_teamID = None, tt_resolvedName =
     '''', tt_webURL = '''', tt_lastApplied = None, tt_observedGeneration = 0\<rparr>"

definition demo_team :: Team where
  "demo_team = \<lparr>team_meta = demo_meta ''team'', team_spec = demo_team_spec, team_status =
     demo_team_status\<rparr>"

definition demo_pipeline_spec :: PipelineSpec where
  "demo_pipeline_spec = \<lparr>ps_teamRef = demo_ref ''team'', ps_pipelineName = '''', ps_config
     = \<lparr>pc_inline = ''jobs: []'', pc_configMapRef = None\<rparr>, ps_vars = [], ps_paused =
     False, ps_exposed = False, ps_reclaimPolicy = '''', ps_suspend = False, ps_archived =
     False\<rparr>"

definition demo_pipeline_status :: PipelineStatus where
  "demo_pipeline_status = \<lparr>pt_conditions = demo_ready, pt_pipelineID = None,
     pt_resolvedName = '''', pt_webURL = '''', pt_configHash = '''', pt_paused = None, pt_exposed
     = None, pt_archived = None, pt_pausedBy = '''', pt_pausedAt = None, pt_lastUpdated = None,
     pt_groupCount = None, pt_jobs = [], pt_resources = [], pt_groups = [], pt_resourceTypes = [],
     pt_observedGeneration = 0\<rparr>"

definition demo_pipeline :: Pipeline where
  "demo_pipeline = \<lparr>pipeline_meta = demo_meta ''pipeline'', pipeline_spec =
     demo_pipeline_spec, pipeline_status = demo_pipeline_status\<rparr>"

definition demo_job_spec :: JobSpec where
  "demo_job_spec = \<lparr>js_pipelineRef = demo_ref ''pipeline'', js_jobName = '''', js_paused =
     False, js_successfulBuildsHistoryLimit = None, js_failedBuildsHistoryLimit = None, js_suspend
     = False\<rparr>"

definition demo_job_status :: JobStatus where
  "demo_job_status = \<lparr>jt_conditions = demo_ready, jt_resolvedName = '''', jt_paused = None,
     jt_webURL = '''', jt_jobID = None, jt_hasNewInputs = None, jt_groups = [], jt_inputs = [],
     jt_outputs = [], jt_nextBuildID = None, jt_nextBuildStatus = '''', jt_disableManualTrigger =
     None, jt_pausedBy = '''', jt_pausedAt = None, jt_nextBuildName = '''', jt_lastBuildID = None,
     jt_lastBuildStatus = '''', jt_lastBuildTime = None, jt_observedGeneration = 0\<rparr>"

definition demo_job :: Job where
  "demo_job = \<lparr>job_meta = demo_meta ''job'', job_spec = demo_job_spec, job_status =
     demo_job_status\<rparr>"

definition demo_build_spec :: BuildSpec where
  "demo_build_spec = \<lparr>bs_jobRef = Some (demo_ref ''job''), bs_buildID = None, bs_rerunOf =
     '''', bs_comment = '''', bs_canceled = False, bs_ttlSecondsAfterFinished = None, bs_suspend =
     False\<rparr>"

definition demo_build_status :: BuildStatus where
  "demo_build_status = \<lparr>bt_conditions = [], bt_buildID = None, bt_buildName = '''',
     bt_concourseStatus = '''', bt_startTime = None, bt_endTime = None, bt_duration = None,
     bt_apiURL = '''', bt_createdBy = '''', bt_observedGeneration = 0, bt_webURL = '''', bt_inputs
     = [], bt_outputs = [], bt_comment = '''', bt_rerunOf = ''''\<rparr>"

definition demo_build :: Build where
  "demo_build = \<lparr>build_meta = demo_meta ''build'', build_spec = demo_build_spec,
     build_status = demo_build_status\<rparr>"

definition demo_resource_spec :: ResourceSpec where
  "demo_resource_spec = \<lparr>rs_pipelineRef = demo_ref ''pipeline'', rs_resourceName = '''',
     rs_pinnedVersion = [], rs_checkInterval = None, rs_pinComment = '''', rs_disabledVersions =
     [], rs_suspend = False\<rparr>"

definition demo_resource_status :: ResourceStatus where
  "demo_resource_status = \<lparr>rt_conditions = demo_ready, rt_resolvedName = '''', rt_webURL =
     '''', rt_lastChecked = None, rt_latestVersion = [], rt_pinnedVersionID = None, rt_pinned =
     None, rt_disabledVersionIDs = [], rt_observedGeneration = 0\<rparr>"

definition demo_resource :: Resource where
  "demo_resource = \<lparr>resource_meta = demo_meta ''resource'', resource_spec =
     demo_resource_spec, resource_status = demo_resource_status\<rparr>"

definition demo_worker_spec :: WorkerSpec where
  "demo_worker_spec = \<lparr>ws_instanceRef = demo_ref ''main'', ws_workerName = '''',
     ws_lifecycle = WorkerLifecycleRunning, ws_suspend = False\<rparr>"

definition demo_worker_status :: WorkerStatus where
  "demo_worker_status = \<lparr>wt_conditions = demo_ready, wt_phase = '''', wt_resolvedName =
     '''', wt_platform = '''', wt_tags = [], wt_activeContainers = None, wt_activeVolumes = None,
     wt_version = '''', wt_startTime = None, wt_ephemeral = False, wt_team = '''', wt_activeTasks
     = None, wt_resourceTypes = [], wt_observedGeneration = 0\<rparr>"

definition demo_worker :: Worker where
  "demo_worker = \<lparr>worker_meta = demo_meta ''worker'', worker_spec = demo_worker_spec,
     worker_status = demo_worker_status\<rparr>"

definition demo_secret :: Secret where
  "demo_secret = \<lparr>secret_generation = 0, secret_data = [(''token'', ''t0'')]\<rparr>"

definition demo_info :: atc_info where
  "demo_info = \<lparr>ai_version = ''8.0'', ai_workerVersion = ''2.5'', ai_clusterName = '''',
     ai_externalURL = '''', ai_featureFlags = []\<rparr>"

definition demo_atc_build :: atc_build where
  "demo_atc_build = \<lparr>ab_id = 7, ab_name = ''1'', ab_status = ''started'', ab_apiURL = '''',
     ab_startTime = 0, ab_endTime = 0, ab_createdBy = None\<rparr>"

definition demo_atc_pipeline :: atc_pipeline where
  "demo_atc_pipeline = \<lparr>ap_id = 3, ap_groups = [], ap_lastUpdated = 0, ap_paused = False,
     ap_public = False, ap_archived = False, ap_pausedBy = '''', ap_pausedAt = 0\<rparr>"

definition demo_atc_job :: atc_job where
  "demo_atc_job = \<lparr>aj_id = 5, aj_name = ''job'', aj_paused = False, aj_pausedBy = '''',
     aj_pausedAt = 0, aj_hasNewInputs = False, aj_groups = [], aj_disableManualTrigger = False,
     aj_nextBuild = None, aj_finishedBuild = None, aj_inputs = [], aj_outputs = []\<rparr>"

definition demo_atc_resource :: atc_resource where
  "demo_atc_resource = \<lparr>ar_name = ''resource'', ar_type = '''', ar_pinComment = '''',
     ar_pinnedVersion = None\<rparr>"

definition demo_version :: atc_resource_version where
  "demo_version = \<lparr>arv_id = 11, arv_version = [(''ref'', ''abc'')]\<rparr>"

section \<open>The cluster, Concourse and the process\<close>

definition demo_k8s :: "'w k8s_api" where
  "demo_k8s =
  \<lparr>x_get_instance = (\<lambda>_ w. (Inr demo_instance, w)),
    x_get_team = (\<lambda>_ w. (Inr demo_team, w)),
    x_get_pipeline = (\<lambda>_ w. (Inr demo_pipeline, w)),
    x_get_job = (\<lambda>_ w. (Inr demo_job, w)),
    x_get_build = (\<lambda>_ w. (Inr demo_build, w)),
    x_get_resource = (\<lambda>_ w. (Inr demo_resource, w)),
    x_get_worker = (\<lambda>_ w. (Inr demo_worker, w)),
    x_get_secret = (\<lambda>_ w. (Inr demo_secret, w)),
    x_get_configmap = (\<lambda>_ w. (Inr \<lparr>cm_data = []\<rparr>, w)),
    x_list_builds = (\<lambda>_ w. (Inr [demo_build], w)),
    x_list_instances = (\<lambda>_ w. (Inr [demo_instance], w)),
    x_update_instance = (\<lambda>obj w. (Inr obj, w)),
    x_update_team = (\<lambda>obj w. (Inr obj, w)),
    x_update_pipeline = (\<lambda>obj w. (Inr obj, w)),
    x_update_job = (\<lambda>obj w. (Inr obj, w)),
    x_update_build = (\<lambda>obj w. (Inr obj, w)),
    x_update_resource = (\<lambda>obj w. (Inr obj, w)),
    x_update_worker = (\<lambda>obj w. (Inr obj, w)),
    x_status_instance = (\<lambda>obj w. (Inr obj, w)),
    x_status_team = (\<lambda>obj w. (Inr obj, w)),
    x_status_pipeline = (\<lambda>obj w. (Inr obj, w)),
    x_status_job = (\<lambda>obj w. (Inr obj, w)),
    x_status_build = (\<lambda>obj w. (Inr obj, w)),
    x_status_resource = (\<lambda>obj w. (Inr obj, w)),
    x_status_worker = (\<lambda>obj w. (Inr obj, w)),
    x_delete_build = (\<lambda>_ w. (None, w))\<rparr>"

definition demo_atc :: "'w atc_api" where
  "demo_atc =
  \<lparr>x_get_info = (\<lambda>_ w. (Inr demo_info, w)),
    x_list_workers = (\<lambda>_ w. (Inr [], w)),
    x_user_info = (\<lambda>_ w. (Inr \<lparr>aui_userName = ''operator'', aui_isAdmin = True\<rparr>, w)),
    x_get_wall = (\<lambda>_ w. (Inr '''', w)),
    x_set_wall = (\<lambda>_ _ _ w. (None, w)),
    x_clear_wall = (\<lambda>_ w. (None, w)),
    x_list_teams = (\<lambda>_ w. (Inr [], w)),
    x_list_pipelines = (\<lambda>_ w. (Inr [], w)),
    x_abort_build = (\<lambda>_ _ w. (None, w)),
    x_build = (\<lambda>_ _ w. (Inr (Some demo_atc_build), w)),
    x_build_resources = (\<lambda>_ _ w. (Inr None, w)),
    x_build_events = (\<lambda>_ _ w. (Inr (Some 0), w)),
    x_next_event = (\<lambda>_ w. (Inl StreamEOF, w)),
    x_land_worker = (\<lambda>_ _ w. (None, w)),
    x_prune_worker = (\<lambda>_ _ w. (None, w)),
    x_put_comment = (\<lambda>_ _ _ w. (Inr \<lparr>hr_statusCode = 200, hr_status = ''200 OK'', hr_body = ''''\<rparr>, w)),
    x_password_token = (\<lambda>_ _ _ w. (Inr ''token'', w))\<rparr>"

definition demo_team_api :: "'w atc_team_api" where
  "demo_team_api =
  \<lparr>x_create_job_build = (\<lambda>_ _ _ _ w. (Inr demo_atc_build, w)),
    x_rerun_job_build = (\<lambda>_ _ _ _ _ w. (Inr demo_atc_build, w)),
    x_create_or_update_team = (\<lambda>_ _ _ w. (Inr (1, []), w)),
    x_destroy_team = (\<lambda>_ _ w. (None, w)),
    x_pipeline = (\<lambda>_ _ _ w. (Inr (Some demo_atc_pipeline), w)),
    x_resource_types = (\<lambda>_ _ _ w. (Inr [], w)),
    x_list_jobs = (\<lambda>_ _ _ w. (Inr [], w)),
    x_list_resources = (\<lambda>_ _ _ w. (Inr [], w)),
    x_pipeline_config = (\<lambda>_ _ _ w. (Inr (Some ''1''), w)),
    x_set_pipeline_config = (\<lambda>_ _ _ _ _ w. (Inr [], w)),
    x_delete_pipeline = (\<lambda>_ _ _ w. (None, w)),
    x_archive_pipeline = (\<lambda>_ _ _ w. (None, w)),
    x_pause_pipeline = (\<lambda>_ _ _ w. (None, w)),
    x_unpause_pipeline = (\<lambda>_ _ _ w. (None, w)),
    x_expose_pipeline = (\<lambda>_ _ _ w. (None, w)),
    x_hide_pipeline = (\<lambda>_ _ _ w. (None, w)),
    x_job = (\<lambda>_ _ _ _ w. (Inr (Some demo_atc_job), w)),
    x_pause_job = (\<lambda>_ _ _ _ w. (None, w)),
    x_unpause_job = (\<lambda>_ _ _ _ w. (None, w)),
    x_resource = (\<lambda>_ _ _ _ w. (Inr (Some demo_atc_resource), w)),
    x_resource_versions = (\<lambda>_ _ _ _ _ _ w. (Inr (Some [demo_version]), w)),
    x_unpin_resource = (\<lambda>_ _ _ _ w. (None, w)),
    x_set_pin_comment = (\<lambda>_ _ _ _ _ w. (None, w)),
    x_pin_resource_version = (\<lambda>_ _ _ _ _ w. (None, w)),
    x_disable_resource_version = (\<lambda>_ _ _ _ _ w. (None, w)),
    x_enable_resource_version = (\<lambda>_ _ _ _ _ w. (None, w)),
    x_check_resource = (\<lambda>_ _ _ _ _ w. (None, w))\<rparr>"

definition demo_env :: "'w env" where
  "demo_env = \<lparr>e_k8s = demo_k8s, e_atc = demo_atc, e_team = demo_team_api, e_libs = demo_libs,
     e_now = (\<lambda>w. (0, w)), e_recorder = True, e_event_ch = True, e_set_comment = None\<rparr>"

text \<open>A process that has just started, outside a world \<open>w\<close>.\<close>

definition demo_start :: "'w \<Rightarrow> ('w, memory, io) machine" where
  "demo_start w = \<lparr>world = w, mem = \<lparr>mem_store = Map.empty, mem_watchers = {}\<rparr>, journal = []\<rparr>"

section \<open>Evaluation\<close>

text \<open>
  The objects stay folded under evaluation, their fields are read by these rules; the
  congruence rules evaluate a program from its start, one call at a time.
\<close>

lemma demo_libs_sel [simp]:
  "l_set_status_condition demo_libs = demo_set_condition"
  "l_is_status_condition_true demo_libs = demo_condition_true"
  "l_contains_finalizer demo_libs = (\<lambda>fs f. f \<in> set fs)"
  "l_add_finalizer demo_libs = (\<lambda>fs f. if f \<in> set fs then fs else fs @ [f])"
  "l_remove_finalizer demo_libs = (\<lambda>fs f. filter (\<lambda>x. x \<noteq> f) fs)"
  "l_set_controller_reference demo_libs = (\<lambda>k m k' m'. Inr [\<lparr>or_kind = k, or_name = om_name m, or_uid = om_uid m, or_controller = True\<rparr>])"
  "l_is_controlled_by demo_libs = (\<lambda>m m'. list_ex (\<lambda>r. or_controller r \<and> or_uid r = om_uid m') (om_ownerReferences m))"
  "l_retry_on_conflict demo_libs = attempts 4"
  "l_sha256_hex demo_libs = (\<lambda>s. s)"
  "l_append_certs_ok demo_libs = (\<lambda>pem. pem \<noteq> '''')"
  "l_client_http demo_libs = (\<lambda>cl. Some (gc_http cl))"
  "l_client_url demo_libs = gc_url"
  "l_marshal_comment demo_libs = (\<lambda>s. Inr s)"
  "l_new_request demo_libs = (\<lambda>url. None)"
  "l_trim_space demo_libs = (\<lambda>s. s)"
  "l_quote demo_libs = (\<lambda>s. CHR 0x22 # s @ [CHR 0x22])"
  "l_show_map demo_libs = (\<lambda>m. ''map'')"
  "l_sort_builds demo_libs = demo_sort"
  "l_range demo_libs = (\<lambda>m. m)"
  by (simp_all add: demo_libs_def)

lemma demo_meta_sel [simp]:
  "om_name (demo_meta n) = n"
  "om_namespace (demo_meta n) = ''ci''"
  "om_uid (demo_meta n) = n"
  "om_generation (demo_meta n) = 1"
  "om_resourceVersion (demo_meta n) = ''1''"
  "om_creationTimestamp (demo_meta n) = 0"
  "om_deletionTimestamp (demo_meta n) = None"
  "om_finalizers (demo_meta n) = []"
  "om_ownerReferences (demo_meta n) = []"
  by (simp_all add: demo_meta_def)

lemma demo_instance_spec_sel [simp]:
  "is_url demo_instance_spec = ''http://ci''"
  "is_auth demo_instance_spec = \<lparr>auth_password = None, auth_token = Some \<lparr>ta_tokenRef = \<lparr>sks_name = ''creds'', sks_key = ''token''\<rparr>\<rparr>\<rparr>"
  "is_tls demo_instance_spec = None"
  "is_allowedNamespaces demo_instance_spec = []"
  "is_healthProbeInterval demo_instance_spec = None"
  "is_suspend demo_instance_spec = False"
  "is_defaultTeam demo_instance_spec = ''''"
  "is_wall demo_instance_spec = None"
  by (simp_all add: demo_instance_spec_def)

lemma demo_instance_status_sel [simp]:
  "it_conditions demo_instance_status = demo_ready"
  "it_version demo_instance_status = ''''"
  "it_workerVersion demo_instance_status = ''''"
  "it_clusterName demo_instance_status = ''''"
  "it_externalURL demo_instance_status = ''''"
  "it_workerCount demo_instance_status = None"
  "it_stalledWorkers demo_instance_status = None"
  "it_runningWorkers demo_instance_status = None"
  "it_landingWorkers demo_instance_status = None"
  "it_webURL demo_instance_status = ''''"
  "it_featureFlags demo_instance_status = []"
  "it_authenticatedUser demo_instance_status = ''''"
  "it_authenticatedAdmin demo_instance_status = None"
  "it_wallMessage demo_instance_status = ''''"
  "it_teamCount demo_instance_status = None"
  "it_pipelineCount demo_instance_status = None"
  "it_authSecretGeneration demo_instance_status = 0"
  "it_observedGeneration demo_instance_status = 0"
  by (simp_all add: demo_instance_status_def)

lemma demo_instance_sel [simp]:
  "instance_meta demo_instance = demo_meta ''main''"
  "instance_spec demo_instance = demo_instance_spec"
  "instance_status demo_instance = demo_instance_status"
  by (simp_all add: demo_instance_def)

lemma demo_team_spec_sel [simp]:
  "ts_instanceRef demo_team_spec = demo_ref ''main''"
  "ts_teamName demo_team_spec = ''''"
  "ts_roles demo_team_spec = []"
  "ts_allowDestroy demo_team_spec = False"
  "ts_reclaimPolicy demo_team_spec = ''''"
  "ts_suspend demo_team_spec = False"
  by (simp_all add: demo_team_spec_def)

lemma demo_team_status_sel [simp]:
  "tt_conditions demo_team_status = demo_ready"
  "tt_teamID demo_team_status = None"
  "tt_resolvedName demo_team_status = ''''"
  "tt_webURL demo_team_status = ''''"
  "tt_lastApplied demo_team_status = None"
  "tt_observedGeneration demo_team_status = 0"
  by (simp_all add: demo_team_status_def)

lemma demo_team_sel [simp]:
  "team_meta demo_team = demo_meta ''team''"
  "team_spec demo_team = demo_team_spec"
  "team_status demo_team = demo_team_status"
  by (simp_all add: demo_team_def)

lemma demo_pipeline_spec_sel [simp]:
  "ps_teamRef demo_pipeline_spec = demo_ref ''team''"
  "ps_pipelineName demo_pipeline_spec = ''''"
  "ps_config demo_pipeline_spec = \<lparr>pc_inline = ''jobs: []'', pc_configMapRef = None\<rparr>"
  "ps_vars demo_pipeline_spec = []"
  "ps_paused demo_pipeline_spec = False"
  "ps_exposed demo_pipeline_spec = False"
  "ps_reclaimPolicy demo_pipeline_spec = ''''"
  "ps_suspend demo_pipeline_spec = False"
  "ps_archived demo_pipeline_spec = False"
  by (simp_all add: demo_pipeline_spec_def)

lemma demo_pipeline_status_sel [simp]:
  "pt_conditions demo_pipeline_status = demo_ready"
  "pt_pipelineID demo_pipeline_status = None"
  "pt_resolvedName demo_pipeline_status = ''''"
  "pt_webURL demo_pipeline_status = ''''"
  "pt_configHash demo_pipeline_status = ''''"
  "pt_paused demo_pipeline_status = None"
  "pt_exposed demo_pipeline_status = None"
  "pt_archived demo_pipeline_status = None"
  "pt_pausedBy demo_pipeline_status = ''''"
  "pt_pausedAt demo_pipeline_status = None"
  "pt_lastUpdated demo_pipeline_status = None"
  "pt_groupCount demo_pipeline_status = None"
  "pt_jobs demo_pipeline_status = []"
  "pt_resources demo_pipeline_status = []"
  "pt_groups demo_pipeline_status = []"
  "pt_resourceTypes demo_pipeline_status = []"
  "pt_observedGeneration demo_pipeline_status = 0"
  by (simp_all add: demo_pipeline_status_def)

lemma demo_pipeline_sel [simp]:
  "pipeline_meta demo_pipeline = demo_meta ''pipeline''"
  "pipeline_spec demo_pipeline = demo_pipeline_spec"
  "pipeline_status demo_pipeline = demo_pipeline_status"
  by (simp_all add: demo_pipeline_def)

lemma demo_job_spec_sel [simp]:
  "js_pipelineRef demo_job_spec = demo_ref ''pipeline''"
  "js_jobName demo_job_spec = ''''"
  "js_paused demo_job_spec = False"
  "js_successfulBuildsHistoryLimit demo_job_spec = None"
  "js_failedBuildsHistoryLimit demo_job_spec = None"
  "js_suspend demo_job_spec = False"
  by (simp_all add: demo_job_spec_def)

lemma demo_job_status_sel [simp]:
  "jt_conditions demo_job_status = demo_ready"
  "jt_resolvedName demo_job_status = ''''"
  "jt_paused demo_job_status = None"
  "jt_webURL demo_job_status = ''''"
  "jt_jobID demo_job_status = None"
  "jt_hasNewInputs demo_job_status = None"
  "jt_groups demo_job_status = []"
  "jt_inputs demo_job_status = []"
  "jt_outputs demo_job_status = []"
  "jt_nextBuildID demo_job_status = None"
  "jt_nextBuildStatus demo_job_status = ''''"
  "jt_disableManualTrigger demo_job_status = None"
  "jt_pausedBy demo_job_status = ''''"
  "jt_pausedAt demo_job_status = None"
  "jt_nextBuildName demo_job_status = ''''"
  "jt_lastBuildID demo_job_status = None"
  "jt_lastBuildStatus demo_job_status = ''''"
  "jt_lastBuildTime demo_job_status = None"
  "jt_observedGeneration demo_job_status = 0"
  by (simp_all add: demo_job_status_def)

lemma demo_job_sel [simp]:
  "job_meta demo_job = demo_meta ''job''"
  "job_spec demo_job = demo_job_spec"
  "job_status demo_job = demo_job_status"
  by (simp_all add: demo_job_def)

lemma demo_build_spec_sel [simp]:
  "bs_jobRef demo_build_spec = Some (demo_ref ''job'')"
  "bs_buildID demo_build_spec = None"
  "bs_rerunOf demo_build_spec = ''''"
  "bs_comment demo_build_spec = ''''"
  "bs_canceled demo_build_spec = False"
  "bs_ttlSecondsAfterFinished demo_build_spec = None"
  "bs_suspend demo_build_spec = False"
  by (simp_all add: demo_build_spec_def)

lemma demo_build_status_sel [simp]:
  "bt_conditions demo_build_status = []"
  "bt_buildID demo_build_status = None"
  "bt_buildName demo_build_status = ''''"
  "bt_concourseStatus demo_build_status = ''''"
  "bt_startTime demo_build_status = None"
  "bt_endTime demo_build_status = None"
  "bt_duration demo_build_status = None"
  "bt_apiURL demo_build_status = ''''"
  "bt_createdBy demo_build_status = ''''"
  "bt_observedGeneration demo_build_status = 0"
  "bt_webURL demo_build_status = ''''"
  "bt_inputs demo_build_status = []"
  "bt_outputs demo_build_status = []"
  "bt_comment demo_build_status = ''''"
  "bt_rerunOf demo_build_status = ''''"
  by (simp_all add: demo_build_status_def)

lemma demo_build_sel [simp]:
  "build_meta demo_build = demo_meta ''build''"
  "build_spec demo_build = demo_build_spec"
  "build_status demo_build = demo_build_status"
  by (simp_all add: demo_build_def)

lemma demo_resource_spec_sel [simp]:
  "rs_pipelineRef demo_resource_spec = demo_ref ''pipeline''"
  "rs_resourceName demo_resource_spec = ''''"
  "rs_pinnedVersion demo_resource_spec = []"
  "rs_checkInterval demo_resource_spec = None"
  "rs_pinComment demo_resource_spec = ''''"
  "rs_disabledVersions demo_resource_spec = []"
  "rs_suspend demo_resource_spec = False"
  by (simp_all add: demo_resource_spec_def)

lemma demo_resource_status_sel [simp]:
  "rt_conditions demo_resource_status = demo_ready"
  "rt_resolvedName demo_resource_status = ''''"
  "rt_webURL demo_resource_status = ''''"
  "rt_lastChecked demo_resource_status = None"
  "rt_latestVersion demo_resource_status = []"
  "rt_pinnedVersionID demo_resource_status = None"
  "rt_pinned demo_resource_status = None"
  "rt_disabledVersionIDs demo_resource_status = []"
  "rt_observedGeneration demo_resource_status = 0"
  by (simp_all add: demo_resource_status_def)

lemma demo_resource_sel [simp]:
  "resource_meta demo_resource = demo_meta ''resource''"
  "resource_spec demo_resource = demo_resource_spec"
  "resource_status demo_resource = demo_resource_status"
  by (simp_all add: demo_resource_def)

lemma demo_worker_spec_sel [simp]:
  "ws_instanceRef demo_worker_spec = demo_ref ''main''"
  "ws_workerName demo_worker_spec = ''''"
  "ws_lifecycle demo_worker_spec = WorkerLifecycleRunning"
  "ws_suspend demo_worker_spec = False"
  by (simp_all add: demo_worker_spec_def)

lemma demo_worker_status_sel [simp]:
  "wt_conditions demo_worker_status = demo_ready"
  "wt_phase demo_worker_status = ''''"
  "wt_resolvedName demo_worker_status = ''''"
  "wt_platform demo_worker_status = ''''"
  "wt_tags demo_worker_status = []"
  "wt_activeContainers demo_worker_status = None"
  "wt_activeVolumes demo_worker_status = None"
  "wt_version demo_worker_status = ''''"
  "wt_startTime demo_worker_status = None"
  "wt_ephemeral demo_worker_status = False"
  "wt_team demo_worker_status = ''''"
  "wt_activeTasks demo_worker_status = None"
  "wt_resourceTypes demo_worker_status = []"
  "wt_observedGeneration demo_worker_status = 0"
  by (simp_all add: demo_worker_status_def)

lemma demo_worker_sel [simp]:
  "worker_meta demo_worker = demo_meta ''worker''"
  "worker_spec demo_worker = demo_worker_spec"
  "worker_status demo_worker = demo_worker_status"
  by (simp_all add: demo_worker_def)

lemma demo_secret_sel [simp]:
  "secret_generation demo_secret = 0"
  "secret_data demo_secret = [(''token'', ''t0'')]"
  by (simp_all add: demo_secret_def)

lemma demo_info_sel [simp]:
  "ai_version demo_info = ''8.0''"
  "ai_workerVersion demo_info = ''2.5''"
  "ai_clusterName demo_info = ''''"
  "ai_externalURL demo_info = ''''"
  "ai_featureFlags demo_info = []"
  by (simp_all add: demo_info_def)

lemma demo_atc_build_sel [simp]:
  "ab_id demo_atc_build = 7"
  "ab_name demo_atc_build = ''1''"
  "ab_status demo_atc_build = ''started''"
  "ab_apiURL demo_atc_build = ''''"
  "ab_startTime demo_atc_build = 0"
  "ab_endTime demo_atc_build = 0"
  "ab_createdBy demo_atc_build = None"
  by (simp_all add: demo_atc_build_def)

lemma demo_atc_pipeline_sel [simp]:
  "ap_id demo_atc_pipeline = 3"
  "ap_groups demo_atc_pipeline = []"
  "ap_lastUpdated demo_atc_pipeline = 0"
  "ap_paused demo_atc_pipeline = False"
  "ap_public demo_atc_pipeline = False"
  "ap_archived demo_atc_pipeline = False"
  "ap_pausedBy demo_atc_pipeline = ''''"
  "ap_pausedAt demo_atc_pipeline = 0"
  by (simp_all add: demo_atc_pipeline_def)

lemma demo_atc_job_sel [simp]:
  "aj_id demo_atc_job = 5"
  "aj_name demo_atc_job = ''job''"
  "aj_paused demo_atc_job = False"
  "aj_pausedBy demo_atc_job = ''''"
  "aj_pausedAt demo_atc_job = 0"
  "aj_hasNewInputs demo_atc_job = False"
  "aj_groups demo_atc_job = []"
  "aj_disableManualTrigger demo_atc_job = False"
  "aj_nextBuild demo_atc_job = None"
  "aj_finishedBuild demo_atc_job = None"
  "aj_inputs demo_atc_job = []"
  "aj_outputs demo_atc_job = []"
  by (simp_all add: demo_atc_job_def)

lemma demo_atc_resource_sel [simp]:
  "ar_name demo_atc_resource = ''resource''"
  "ar_type demo_atc_resource = ''''"
  "ar_pinComment demo_atc_resource = ''''"
  "ar_pinnedVersion demo_atc_resource = None"
  by (simp_all add: demo_atc_resource_def)

lemma demo_version_sel [simp]:
  "arv_id demo_version = 11"
  "arv_version demo_version = [(''ref'', ''abc'')]"
  by (simp_all add: demo_version_def)

lemma demo_k8s_sel [simp]:
  "x_get_instance demo_k8s = (\<lambda>_ w. (Inr demo_instance, w))"
  "x_get_team demo_k8s = (\<lambda>_ w. (Inr demo_team, w))"
  "x_get_pipeline demo_k8s = (\<lambda>_ w. (Inr demo_pipeline, w))"
  "x_get_job demo_k8s = (\<lambda>_ w. (Inr demo_job, w))"
  "x_get_build demo_k8s = (\<lambda>_ w. (Inr demo_build, w))"
  "x_get_resource demo_k8s = (\<lambda>_ w. (Inr demo_resource, w))"
  "x_get_worker demo_k8s = (\<lambda>_ w. (Inr demo_worker, w))"
  "x_get_secret demo_k8s = (\<lambda>_ w. (Inr demo_secret, w))"
  "x_get_configmap demo_k8s = (\<lambda>_ w. (Inr \<lparr>cm_data = []\<rparr>, w))"
  "x_list_builds demo_k8s = (\<lambda>_ w. (Inr [demo_build], w))"
  "x_list_instances demo_k8s = (\<lambda>_ w. (Inr [demo_instance], w))"
  "x_update_instance demo_k8s = (\<lambda>obj w. (Inr obj, w))"
  "x_update_team demo_k8s = (\<lambda>obj w. (Inr obj, w))"
  "x_update_pipeline demo_k8s = (\<lambda>obj w. (Inr obj, w))"
  "x_update_job demo_k8s = (\<lambda>obj w. (Inr obj, w))"
  "x_update_build demo_k8s = (\<lambda>obj w. (Inr obj, w))"
  "x_update_resource demo_k8s = (\<lambda>obj w. (Inr obj, w))"
  "x_update_worker demo_k8s = (\<lambda>obj w. (Inr obj, w))"
  "x_status_instance demo_k8s = (\<lambda>obj w. (Inr obj, w))"
  "x_status_team demo_k8s = (\<lambda>obj w. (Inr obj, w))"
  "x_status_pipeline demo_k8s = (\<lambda>obj w. (Inr obj, w))"
  "x_status_job demo_k8s = (\<lambda>obj w. (Inr obj, w))"
  "x_status_build demo_k8s = (\<lambda>obj w. (Inr obj, w))"
  "x_status_resource demo_k8s = (\<lambda>obj w. (Inr obj, w))"
  "x_status_worker demo_k8s = (\<lambda>obj w. (Inr obj, w))"
  "x_delete_build demo_k8s = (\<lambda>_ w. (None, w))"
  by (simp_all add: demo_k8s_def)

lemma demo_atc_sel [simp]:
  "x_get_info demo_atc = (\<lambda>_ w. (Inr demo_info, w))"
  "x_list_workers demo_atc = (\<lambda>_ w. (Inr [], w))"
  "x_user_info demo_atc = (\<lambda>_ w. (Inr \<lparr>aui_userName = ''operator'', aui_isAdmin = True\<rparr>, w))"
  "x_get_wall demo_atc = (\<lambda>_ w. (Inr '''', w))"
  "x_set_wall demo_atc = (\<lambda>_ _ _ w. (None, w))"
  "x_clear_wall demo_atc = (\<lambda>_ w. (None, w))"
  "x_list_teams demo_atc = (\<lambda>_ w. (Inr [], w))"
  "x_list_pipelines demo_atc = (\<lambda>_ w. (Inr [], w))"
  "x_abort_build demo_atc = (\<lambda>_ _ w. (None, w))"
  "x_build demo_atc = (\<lambda>_ _ w. (Inr (Some demo_atc_build), w))"
  "x_build_resources demo_atc = (\<lambda>_ _ w. (Inr None, w))"
  "x_build_events demo_atc = (\<lambda>_ _ w. (Inr (Some 0), w))"
  "x_next_event demo_atc = (\<lambda>_ w. (Inl StreamEOF, w))"
  "x_land_worker demo_atc = (\<lambda>_ _ w. (None, w))"
  "x_prune_worker demo_atc = (\<lambda>_ _ w. (None, w))"
  "x_put_comment demo_atc = (\<lambda>_ _ _ w. (Inr \<lparr>hr_statusCode = 200, hr_status = ''200 OK'', hr_body = ''''\<rparr>, w))"
  "x_password_token demo_atc = (\<lambda>_ _ _ w. (Inr ''token'', w))"
  by (simp_all add: demo_atc_def)

lemma demo_team_api_sel [simp]:
  "x_create_job_build demo_team_api = (\<lambda>_ _ _ _ w. (Inr demo_atc_build, w))"
  "x_rerun_job_build demo_team_api = (\<lambda>_ _ _ _ _ w. (Inr demo_atc_build, w))"
  "x_create_or_update_team demo_team_api = (\<lambda>_ _ _ w. (Inr (1, []), w))"
  "x_destroy_team demo_team_api = (\<lambda>_ _ w. (None, w))"
  "x_pipeline demo_team_api = (\<lambda>_ _ _ w. (Inr (Some demo_atc_pipeline), w))"
  "x_resource_types demo_team_api = (\<lambda>_ _ _ w. (Inr [], w))"
  "x_list_jobs demo_team_api = (\<lambda>_ _ _ w. (Inr [], w))"
  "x_list_resources demo_team_api = (\<lambda>_ _ _ w. (Inr [], w))"
  "x_pipeline_config demo_team_api = (\<lambda>_ _ _ w. (Inr (Some ''1''), w))"
  "x_set_pipeline_config demo_team_api = (\<lambda>_ _ _ _ _ w. (Inr [], w))"
  "x_delete_pipeline demo_team_api = (\<lambda>_ _ _ w. (None, w))"
  "x_archive_pipeline demo_team_api = (\<lambda>_ _ _ w. (None, w))"
  "x_pause_pipeline demo_team_api = (\<lambda>_ _ _ w. (None, w))"
  "x_unpause_pipeline demo_team_api = (\<lambda>_ _ _ w. (None, w))"
  "x_expose_pipeline demo_team_api = (\<lambda>_ _ _ w. (None, w))"
  "x_hide_pipeline demo_team_api = (\<lambda>_ _ _ w. (None, w))"
  "x_job demo_team_api = (\<lambda>_ _ _ _ w. (Inr (Some demo_atc_job), w))"
  "x_pause_job demo_team_api = (\<lambda>_ _ _ _ w. (None, w))"
  "x_unpause_job demo_team_api = (\<lambda>_ _ _ _ w. (None, w))"
  "x_resource demo_team_api = (\<lambda>_ _ _ _ w. (Inr (Some demo_atc_resource), w))"
  "x_resource_versions demo_team_api = (\<lambda>_ _ _ _ _ _ w. (Inr (Some [demo_version]), w))"
  "x_unpin_resource demo_team_api = (\<lambda>_ _ _ _ w. (None, w))"
  "x_set_pin_comment demo_team_api = (\<lambda>_ _ _ _ _ w. (None, w))"
  "x_pin_resource_version demo_team_api = (\<lambda>_ _ _ _ _ w. (None, w))"
  "x_disable_resource_version demo_team_api = (\<lambda>_ _ _ _ _ w. (None, w))"
  "x_enable_resource_version demo_team_api = (\<lambda>_ _ _ _ _ w. (None, w))"
  "x_check_resource demo_team_api = (\<lambda>_ _ _ _ _ w. (None, w))"
  by (simp_all add: demo_team_api_def)

lemma demo_env_sel [simp]:
  "e_k8s demo_env = demo_k8s"
  "e_atc demo_env = demo_atc"
  "e_team demo_env = demo_team_api"
  "e_libs demo_env = demo_libs"
  "e_now demo_env = (\<lambda>w. (0, w))"
  "e_recorder demo_env = True"
  "e_event_ch demo_env = True"
  "e_set_comment demo_env = None"
  by (simp_all add: demo_env_def)

lemma demo_ref_sel [simp]:
  "ref_name (demo_ref n) = n"
  "ref_namespace (demo_ref n) = ''''"
  by (simp_all add: demo_ref_def)

lemma demo_cond_of_ready [simp]: "demo_condition_true demo_ready ConditionReady"
  by (simp add: demo_condition_true_def demo_ready_def cond_of_def)

lemma eval_bind: "p = p' \<Longrightarrow> State_Monad.bind p k = State_Monad.bind p' k"
  by simp

lemma eval_extern: "f = f' \<Longrightarrow> extern c f = extern c f'"
  by simp

lemma eval_let: "v = v' \<Longrightarrow> Let v f = Let v' f"
  by simp

lemmas eval_cong = eval_bind eval_extern eval_let sum.case_cong_weak prod.case_cong_weak
  option.case_cong_weak

lemmas eval_simps = run_simps demo_start_def Let_def

section \<open>The hypotheses hold\<close>

lemma find_map_same:
  "(\<exists>x\<in>set conds. c_type x = c_type c) \<Longrightarrow>
   find (\<lambda>x. c_type x = c_type c) (map (\<lambda>x. if c_type x = c_type c then c else x) conds) = Some c"
  by (induction conds) auto

lemma find_map_other:
  "t \<noteq> c_type c \<Longrightarrow>
   find (\<lambda>x. c_type x = t) (map (\<lambda>x. if c_type x = c_type c then c else x) conds)
     = find (\<lambda>x. c_type x = t) conds"
  by (induction conds) auto

lemma find_append: "find P (xs @ ys) = (case find P xs of None \<Rightarrow> find P ys | Some x \<Rightarrow> Some x)"
  by (induction xs) auto

lemma cond_of_demo:
  "cond_of (demo_set_condition conds c) t = (if t = c_type c then Some c else cond_of conds t)"
proof (cases "\<exists>x\<in>set conds. c_type x = c_type c")
  case True
  then show ?thesis
    using find_map_same [of conds c] find_map_other [of t c conds]
    by (auto simp: demo_set_condition_def cond_of_def)
next
  case False
  then have "find (\<lambda>x. c_type x = c_type c) conds = None" by (auto simp: find_None_iff)
  with False show ?thesis
    by (auto simp: demo_set_condition_def cond_of_def find_append split: option.splits)
qed

lemma demo_conditions_law: "conditions_law (demo_env\<lparr>e_k8s := k, e_atc := a, e_team := t, e_recorder := r\<rparr>)"
  by (simp add: conditions_law_def demo_env_def demo_libs_def cond_of_demo demo_condition_true_def)

lemma demo_finalizers_law: "finalizers_law (demo_env\<lparr>e_k8s := k, e_atc := a, e_team := t, e_recorder := r\<rparr>)"
  by (auto simp: finalizers_law_def demo_env_def demo_libs_def)

lemma demo_retry_law: "retry_law (demo_env\<lparr>e_k8s := k, e_atc := a, e_team := t, e_recorder := r\<rparr>)"
  by (auto simp: retry_law_def demo_env_def demo_libs_def)

lemma demo_range_law: "range_law (demo_env\<lparr>e_k8s := k, e_atc := a, e_team := t, e_recorder := r\<rparr>)"
  by (simp add: range_law_def demo_env_def demo_libs_def)

lemma mset_demo_insert [simp]: "mset (demo_insert lt x ys) = add_mset x (mset ys)"
  by (induction ys) auto

lemma mset_demo_sort [simp]: "mset (demo_sort lt xs) = mset xs"
  by (induction xs) (auto simp: demo_sort_def)

lemma sorted_demo_insert:
  fixes key :: "'a \<Rightarrow> int"
  shows "sorted_wrt (\<lambda>a b. key a \<ge> key b) ys \<Longrightarrow>
    sorted_wrt (\<lambda>a b. key a \<ge> key b) (demo_insert (\<lambda>a b. key a > key b) x ys)"
proof (induction ys)
  case (Cons y ys)
  have "set (demo_insert (\<lambda>a b. key a > key b) x ys) = insert x (set ys)"
    by (metis mset_demo_insert set_mset_add_mset_insert set_mset_mset)
  with Cons show ?case by auto
qed simp

lemma sorted_demo_sort:
  fixes key :: "'a \<Rightarrow> int"
  shows "sorted_wrt (\<lambda>a b. key a \<ge> key b) (demo_sort (\<lambda>a b. key a > key b) xs)"
  by (induction xs) (auto simp: demo_sort_def sorted_demo_insert)

lemma demo_sort_law: "sort_law (demo_env\<lparr>e_k8s := k, e_atc := a, e_team := t, e_recorder := r\<rparr>)"
  by (simp add: sort_law_def demo_env_def demo_libs_def sorted_demo_sort)

end
