(* ===== verification/Auth_Client.thy ===== *)
theory Auth_Client
  imports Calls
begin

text \<open>
  \<open>internal/concourse/auth.go\<close>: the HTTP client for an Instance, built from the Secrets its
  spec names. A failure is \<open>Inl\<close> with the text of the wrapped error.
\<close>

section \<open>Reading secrets\<close>

definition readSecretKey :: "'w env \<Rightarrow> string \<Rightarrow> SecretKeySelector \<Rightarrow> ('w, goerr + string) prog" where
  "readSecretKey env namespace ref = do {
     r \<leftarrow> k_get_secret env (namespace, sks_name ref);
     (case r of
        Inl err \<Rightarrow> ret (Inl (''get secret '' @ namespace @ ''/'' @ sks_name ref @ '': '' @ kerr_text err))
      | Inr secret \<Rightarrow>
          (case map_of (secret_data secret) (sks_key ref) of
             None \<Rightarrow> ret (Inl (''key '' @ l_quote (e_libs env) (sks_key ref)
               @ '' not found in secret '' @ namespace @ ''/'' @ sks_name ref))
           | Some val \<Rightarrow> ret (Inr val))) }"

definition buildTLSConfig :: "'w env \<Rightarrow> string \<Rightarrow> TLSConfig option \<Rightarrow> ('w, goerr + tls_config) prog" where
  "buildTLSConfig env namespace cfg =
     (case cfg of
        None \<Rightarrow> ret (Inr \<lparr>tc_insecureSkipVerify = False, tc_rootCAs = None\<rparr>)
      | Some cfg \<Rightarrow>
          (case tls_caRef cfg of
             None \<Rightarrow> ret (Inr \<lparr>tc_insecureSkipVerify = tls_insecureSkipVerify cfg, tc_rootCAs = None\<rparr>)
           | Some caRef \<Rightarrow> do {
               caData \<leftarrow> readSecretKey env namespace caRef;
               (case caData of
                  Inl err \<Rightarrow> ret (Inl (''read CA cert: '' @ err))
                | Inr pem \<Rightarrow>
                    (if \<not> l_append_certs_ok (e_libs env) pem
                     then ret (Inl (''failed to parse CA certificate from secret '' @ namespace
                       @ ''/'' @ sks_name caRef))
                     else ret (Inr \<lparr>tc_insecureSkipVerify = tls_insecureSkipVerify cfg,
                       tc_rootCAs = Some pem\<rparr>))) }))"

section \<open>Building the HTTP client\<close>

abbreviation flyOAuthClientID :: string where "flyOAuthClientID \<equiv> ''fly''"
abbreviation flyOAuthClientSecret :: string where "flyOAuthClientSecret \<equiv> ''Zmx5''"

definition passwordHTTPClient ::
  "'w env \<Rightarrow> string \<Rightarrow> string \<Rightarrow> PasswordGrant \<Rightarrow> tls_config \<Rightarrow> ('w, goerr + http_client) prog" where
  "passwordHTTPClient env namespace url grant transport = do {
     password \<leftarrow> readSecretKey env namespace (pg_passwordRef grant);
     (case password of
        Inl err \<Rightarrow> ret (Inl (''read password grant password: '' @ err))
      | Inr password \<Rightarrow> do {
          let clientID = (if pg_clientID grant = '''' then flyOAuthClientID else pg_clientID grant);
          clientSecret \<leftarrow> (case pg_clientSecretRef grant of
             None \<Rightarrow> ret (Inr flyOAuthClientSecret)
           | Some sref \<Rightarrow> readSecretKey env namespace sref);
          (case clientSecret of
             Inl err \<Rightarrow> ret (Inl (''read password grant client secret: '' @ err))
           | Inr clientSecret \<Rightarrow> ret (Inr
               \<lparr>hc_source = ReuseTokenSource
                  \<lparr>pts_oauthCfg =
                     \<lparr>oc_clientID = clientID, oc_clientSecret = clientSecret,
                      oc_tokenURL = url @ ''/sky/issuer/token'',
                      oc_scopes = [''openid'', ''profile'', ''email'', ''federated:id'', ''groups'']\<rparr>,
                   pts_transport = transport, pts_username = pg_username grant,
                   pts_password = password\<rparr>,
                hc_base = transport\<rparr>)) }) }"

definition tokenHTTPClient ::
  "'w env \<Rightarrow> string \<Rightarrow> TokenAuth \<Rightarrow> tls_config \<Rightarrow> ('w, goerr + http_client) prog" where
  "tokenHTTPClient env namespace ta transport = do {
     token \<leftarrow> readSecretKey env namespace (ta_tokenRef ta);
     (case token of
        Inl err \<Rightarrow> ret (Inl (''read token auth: '' @ err))
      | Inr token \<Rightarrow> ret (Inr \<lparr>hc_source = StaticTokenSource token ''bearer'', hc_base = transport\<rparr>)) }"

definition BuildHTTPClient :: "'w env \<Rightarrow> string \<Rightarrow> InstanceSpec \<Rightarrow> ('w, goerr + http_client) prog" where
  "BuildHTTPClient env namespace spec = do {
     tlsCfg \<leftarrow> buildTLSConfig env namespace (is_tls spec);
     (case tlsCfg of
        Inl err \<Rightarrow> ret (Inl (''build TLS config: '' @ err))
      | Inr transport \<Rightarrow>
          (case auth_password (is_auth spec) of
             Some grant \<Rightarrow> passwordHTTPClient env namespace (is_url spec) grant transport
           | None \<Rightarrow>
               (case auth_token (is_auth spec) of
                  Some ta \<Rightarrow> tokenHTTPClient env namespace ta transport
                | None \<Rightarrow> ret (Inl ''instance auth is required: set spec.auth.password or spec.auth.token'')))) }"

definition NewConcourseClient :: "string \<Rightarrow> http_client \<Rightarrow> goclient" where
  "NewConcourseClient url httpClient = NewClient url httpClient False"

text \<open>The method \<open>Token\<close> of \<open>passwordTokenSource\<close>: every call is a password grant.\<close>

definition Token :: "'w env \<Rightarrow> passwordTokenSource \<Rightarrow> ('w, goerr + string) prog" where
  "Token env s = do {
     token \<leftarrow> a_password_token env (pts_oauthCfg s) (pts_username s) (pts_password s);
     (case token of
        Inl err \<Rightarrow> ret (Inl (''oauth2 password grant: '' @ err))
      | Inr token \<Rightarrow> ret (Inr token)) }"

definition AuthSecretGeneration :: "'w env \<Rightarrow> string \<Rightarrow> InstanceSpec \<Rightarrow> ('w, int) prog" where
  "AuthSecretGeneration env namespace spec = do {
     let name =
       (case auth_password (is_auth spec) of
          Some grant \<Rightarrow> Some (sks_name (pg_passwordRef grant))
        | None \<Rightarrow>
            (case auth_token (is_auth spec) of
               Some ta \<Rightarrow> Some (sks_name (ta_tokenRef ta))
             | None \<Rightarrow> None));
     (case name of
        None \<Rightarrow> ret 0
      | Some name \<Rightarrow> do {
          r \<leftarrow> k_get_secret env (namespace, name);
          (case r of Inl err \<Rightarrow> ret 0 | Inr secret \<Rightarrow> ret (secret_generation secret)) }) }"

lemmas auth_defs = BuildHTTPClient_def buildTLSConfig_def passwordHTTPClient_def
  tokenHTTPClient_def readSecretKey_def AuthSecretGeneration_def

section \<open>What building a client does\<close>

text \<open>The secrets a spec names, in the order they are read.\<close>

definition spec_secrets :: "InstanceSpec \<Rightarrow> string list" where
  "spec_secrets spec =
     (case is_tls spec of None \<Rightarrow> [] | Some cfg \<Rightarrow>
        (case tls_caRef cfg of None \<Rightarrow> [] | Some ca \<Rightarrow> [sks_name ca])) @
     (case auth_password (is_auth spec) of
        Some grant \<Rightarrow> sks_name (pg_passwordRef grant) #
          (case pg_clientSecretRef grant of None \<Rightarrow> [] | Some r \<Rightarrow> [sks_name r])
      | None \<Rightarrow> (case auth_token (is_auth spec) of None \<Rightarrow> [] | Some ta \<Rightarrow> [sks_name (ta_tokenRef ta)]))"

definition is_secret_read :: "string \<Rightarrow> string list \<Rightarrow> io \<Rightarrow> bool" where
  "is_secret_read ns names e \<longleftrightarrow> (\<exists>n r. e = KRead (GetSecret (ns, n) r) \<and> n \<in> set names)"

lemma readSecretKey_emits [emits_intros]:
  "(\<And>r. A (KRead (GetSecret (ns, sks_name ref) r))) \<Longrightarrow> emits A (readSecretKey env ns ref)"
  unfolding readSecretKey_def by (intro emits_intros)

lemma readSecretKey_keeps [keeps_intros]: "keeps I (readSecretKey env ns ref)"
  unfolding readSecretKey_def by (intro keeps_intros)

lemma BuildHTTPClient_secrets:
  "emits (is_secret_read ns (spec_secrets spec)) (BuildHTTPClient env ns spec)"
  unfolding BuildHTTPClient_def buildTLSConfig_def passwordHTTPClient_def tokenHTTPClient_def
  by (intro emits_intros) (auto simp: is_secret_read_def spec_secrets_def)

lemma AuthSecretGeneration_secrets:
  "emits (is_secret_read ns (spec_secrets spec)) (AuthSecretGeneration env ns spec)"
  unfolding AuthSecretGeneration_def
  by (intro emits_intros) (auto simp: is_secret_read_def spec_secrets_def split: option.splits)

lemma BuildHTTPClient_keeps [keeps_intros]: "keeps I (BuildHTTPClient env ns spec)"
  unfolding BuildHTTPClient_def buildTLSConfig_def passwordHTTPClient_def tokenHTTPClient_def
  by (intro keeps_intros)

lemma AuthSecretGeneration_keeps [keeps_intros]: "keeps I (AuthSecretGeneration env ns spec)"
  unfolding AuthSecretGeneration_def by (intro keeps_intros)

end
