(* ===== verification/Client_Cache.thy ===== *)
theory Client_Cache
  imports Auth_Client Example_Env
begin

text \<open>
  \<open>internal/concourse/client_cache.go\<close>: the store of Concourse clients, one per Instance,
  keyed by namespace, name and resource version. The operations on the store are pure here
  (each runs under the mutex, so it is one atomic step); \<open>GetOrBuild\<close> is the program over
  them. The abstract specification is the interface \<open>client_cache\<close>: what a lookup returns is
  decided by the last operation on the same Instance, whatever other operations interleave.
\<close>

section \<open>The store\<close>

type_synonym store = "string \<rightharpoonup> goclient"

definition NewCache :: store where
  "NewCache = Map.empty"

definition cachePrefix :: "Instance \<Rightarrow> string" where
  "cachePrefix i = om_namespace (instance_meta i) @ ''/'' @ om_name (instance_meta i) @ ''@''"

definition cacheKey :: "Instance \<Rightarrow> string" where
  "cacheKey i = om_namespace (instance_meta i) @ ''/'' @ om_name (instance_meta i) @ ''@''
     @ om_resourceVersion (instance_meta i)"

definition Cache_Get :: "store \<Rightarrow> Instance \<Rightarrow> goclient option" where
  "Cache_Get st i = st (cacheKey i)"

definition Cache_Evict :: "store \<Rightarrow> Instance \<Rightarrow> store" where
  "Cache_Evict st i = (\<lambda>k. if has_prefix k (cachePrefix i) then None else st k)"

definition Cache_Set :: "store \<Rightarrow> Instance \<Rightarrow> goclient \<Rightarrow> store" where
  "Cache_Set st i cl =
     (\<lambda>k. if has_prefix k (cachePrefix i) then None else st k)(cacheKey i \<mapsto> cl)"

definition GetOrBuild :: "'w env \<Rightarrow> Instance \<Rightarrow> ('w, goerr + goclient) prog" where
  "GetOrBuild env i = do {
     m \<leftarrow> get_mem;
     (case Cache_Get (mem_store m) i of
        Some cl \<Rightarrow> ret (Inr cl)
      | None \<Rightarrow> do {
          httpClient \<leftarrow> BuildHTTPClient env (om_namespace (instance_meta i)) (instance_spec i);
          (case httpClient of
             Inl err \<Rightarrow> ret (Inl err)
           | Inr hc \<Rightarrow> do {
               let cl = NewConcourseClient (is_url (instance_spec i)) hc;
               m \<leftarrow> get_mem;
               put_mem (m\<lparr>mem_store := Cache_Set (mem_store m) i cl\<rparr>);
               ret (Inr cl) }) }) }"

definition Evict :: "Instance \<Rightarrow> ('w, unit) prog" where
  "Evict i = do {
     m \<leftarrow> get_mem;
     put_mem (m\<lparr>mem_store := Cache_Evict (mem_store m) i\<rparr>) }"

section \<open>Keys\<close>

text \<open>
  Namespaces and names are DNS labels, so they hold neither separator; then the prefix of
  a key gives back the Instance it belongs to.
\<close>

definition name_ok :: "string \<Rightarrow> bool" where
  "name_ok s \<longleftrightarrow> CHR ''/'' \<notin> set s \<and> CHR ''@'' \<notin> set s"

definition inst_ok :: "Instance \<Rightarrow> bool" where
  "inst_ok i \<longleftrightarrow> name_ok (om_namespace (instance_meta i)) \<and> name_ok (om_name (instance_meta i))"

definition same_instance :: "Instance \<Rightarrow> Instance \<Rightarrow> bool" where
  "same_instance i j \<longleftrightarrow> key_of (instance_meta i) = key_of (instance_meta j)"

lemma append_sep_inject:
  "c \<notin> set xs \<Longrightarrow> c \<notin> set ys \<Longrightarrow> xs @ c # us = ys @ c # vs \<Longrightarrow> xs = ys \<and> us = vs"
proof (induction xs arbitrary: ys)
  case Nil
  then show ?case by (cases ys) auto
next
  case (Cons x xs)
  then show ?case by (cases ys) auto
qed

lemma cacheKey_prefix: "cacheKey i = cachePrefix i @ om_resourceVersion (instance_meta i)"
  by (simp add: cacheKey_def cachePrefix_def)

lemma has_prefix_cacheKey:
  assumes "inst_ok i" and "inst_ok j"
  shows "has_prefix (cacheKey j) (cachePrefix i) \<longleftrightarrow> same_instance i j"
proof
  assume "has_prefix (cacheKey j) (cachePrefix i)"
  then obtain t where t: "cacheKey j = cachePrefix i @ t" by (auto simp: has_prefix_iff)
  then have "om_namespace (instance_meta j) @ CHR ''/'' # (om_name (instance_meta j) @ ''@''
        @ om_resourceVersion (instance_meta j))
      = om_namespace (instance_meta i) @ CHR ''/'' # (om_name (instance_meta i) @ ''@'' @ t)"
    by (simp add: cacheKey_def cachePrefix_def)
  from append_sep_inject [OF _ _ this] assms have
    ns: "om_namespace (instance_meta j) = om_namespace (instance_meta i)" and
    rest: "om_name (instance_meta j) @ CHR ''@'' # om_resourceVersion (instance_meta j)
      = om_name (instance_meta i) @ CHR ''@'' # t"
    by (simp_all add: inst_ok_def name_ok_def)
  from append_sep_inject [OF _ _ rest] assms
  have "om_name (instance_meta j) = om_name (instance_meta i)"
    by (simp add: inst_ok_def name_ok_def)
  with ns show "same_instance i j" by (simp add: same_instance_def key_of_def)
next
  assume "same_instance i j"
  then have "cachePrefix j = cachePrefix i"
    by (simp add: same_instance_def key_of_def cachePrefix_def)
  then show "has_prefix (cacheKey j) (cachePrefix i)" by (simp add: cacheKey_prefix)
qed

lemma cacheKey_eq:
  assumes "inst_ok i" and "inst_ok j"
  shows "cacheKey i = cacheKey j \<longleftrightarrow>
    same_instance i j \<and> om_resourceVersion (instance_meta i) = om_resourceVersion (instance_meta j)"
proof
  assume eq: "cacheKey i = cacheKey j"
  then have "has_prefix (cacheKey j) (cachePrefix i)" by (metis cacheKey_prefix has_prefix_append)
  then have "same_instance i j" using has_prefix_cacheKey [OF assms] by simp
  then have "cachePrefix i = cachePrefix j"
    by (simp add: same_instance_def key_of_def cachePrefix_def)
  then show "same_instance i j \<and>
      om_resourceVersion (instance_meta i) = om_resourceVersion (instance_meta j)"
    using eq \<open>same_instance i j\<close> by (simp add: cacheKey_prefix)
next
  assume "same_instance i j \<and>
      om_resourceVersion (instance_meta i) = om_resourceVersion (instance_meta j)"
  then show "cacheKey i = cacheKey j" by (simp add: same_instance_def key_of_def cacheKey_def)
qed

lemma same_instance_refl [simp]: "same_instance i i"
  by (simp add: same_instance_def)

section \<open>The interface of the cache\<close>

datatype ('i, 'c) cache_op = OpSet 'i 'c | OpEvict 'i

fun op_target :: "('i, 'c) cache_op \<Rightarrow> 'i" where
  "op_target (OpSet i c) = i"
| "op_target (OpEvict i) = i"

locale client_cache =
  fixes empty :: 's
    and lookup :: "'s \<Rightarrow> 'i \<Rightarrow> 'c option"
    and store_client :: "'s \<Rightarrow> 'i \<Rightarrow> 'c \<Rightarrow> 's"
    and evict :: "'s \<Rightarrow> 'i \<Rightarrow> 's"
    and same :: "'i \<Rightarrow> 'i \<Rightarrow> bool"
    and version :: "'i \<Rightarrow> 'v"
    and ok :: "'i \<Rightarrow> bool"
  assumes lookup_empty: "lookup empty j = None"
    and lookup_store: "ok i \<Longrightarrow> ok j \<Longrightarrow> lookup (store_client s i c) j =
      (if same i j then (if version i = version j then Some c else None) else lookup s j)"
    and lookup_evict: "ok i \<Longrightarrow> ok j \<Longrightarrow> lookup (evict s i) j = (if same i j then None else lookup s j)"
begin

text \<open>What a sequence of operations leaves, whoever performed them.\<close>

lemma lookup_after_other:
  "ok (op_target x) \<Longrightarrow> ok j \<Longrightarrow> \<not> same (op_target x) j \<Longrightarrow>
   lookup (case x of OpSet i c \<Rightarrow> store_client s i c | OpEvict i \<Rightarrow> evict s i) j = lookup s j"
  by (cases x) (simp_all add: lookup_store lookup_evict)

lemma lookup_history:
  assumes "\<forall>x\<in>set xs. ok (op_target x)" and "ok j"
  shows "lookup (foldl (\<lambda>s x. case x of OpSet i c \<Rightarrow> store_client s i c | OpEvict i \<Rightarrow> evict s i) empty xs) j =
    (case filter (\<lambda>x. same (op_target x) j) (rev xs) of
       [] \<Rightarrow> None
     | OpEvict i # _ \<Rightarrow> None
     | OpSet i c # _ \<Rightarrow> (if version i = version j then Some c else None))"
  using assms
proof (induction xs rule: rev_induct)
  case Nil
  then show ?case by (simp add: lookup_empty)
next
  case (snoc x xs)
  show ?case
  proof (cases "same (op_target x) j")
    case True
    with snoc.prems show ?thesis by (cases x) (simp_all add: lookup_store lookup_evict)
  next
    case False
    with snoc show ?thesis by (simp add: lookup_after_other)
  qed
qed

text \<open>A lookup that hits returns what was stored for this very version of the object.\<close>

lemma hit_was_stored:
  assumes "\<forall>x\<in>set xs. ok (op_target x)" and "ok j"
    and "lookup (foldl (\<lambda>s x. case x of OpSet i c \<Rightarrow> store_client s i c | OpEvict i \<Rightarrow> evict s i) empty xs) j
      = Some c"
  shows "\<exists>i. OpSet i c \<in> set xs \<and> same i j \<and> version i = version j"
proof -
  let ?f = "filter (\<lambda>x. same (op_target x) j) (rev xs)"
  from assms obtain i r where f: "?f = OpSet i c # r" and v: "version i = version j"
    by (auto simp: lookup_history split: list.splits cache_op.splits if_splits)
  from f have "OpSet i c \<in> set ?f" by simp
  with v show ?thesis by auto
qed

end

interpretation cc: client_cache NewCache Cache_Get Cache_Set Cache_Evict same_instance
  "\<lambda>i. om_resourceVersion (instance_meta i)" inst_ok
proof unfold_locales
  fix i j :: Instance and s c
  assume ok: "inst_ok i" "inst_ok j"
  show "Cache_Get (Cache_Set s i c) j =
      (if same_instance i j
       then if om_resourceVersion (instance_meta i) = om_resourceVersion (instance_meta j)
            then Some c else None
       else Cache_Get s j)"
    using cacheKey_eq [OF ok] has_prefix_cacheKey [OF ok]
    by (auto simp: Cache_Get_def Cache_Set_def)
  show "Cache_Get (Cache_Evict s i) j = (if same_instance i j then None else Cache_Get s j)"
    using has_prefix_cacheKey [OF ok] by (auto simp: Cache_Get_def Cache_Evict_def)
qed (simp add: Cache_Get_def NewCache_def)

section \<open>The store in use\<close>

text \<open>All operations ever performed on the store, in the order the mutex let them through.\<close>

definition run_store :: "(Instance, goclient) cache_op list \<Rightarrow> store" where
  "run_store xs = foldl (\<lambda>st x. case x of OpSet i cl \<Rightarrow> Cache_Set st i cl
     | OpEvict i \<Rightarrow> Cache_Evict st i) NewCache xs"

text \<open>The operations that others perform from a store on.\<close>

definition after_ops :: "store \<Rightarrow> (Instance, goclient) cache_op list \<Rightarrow> store" where
  "after_ops st xs = foldl (\<lambda>st x. case x of OpSet i cl \<Rightarrow> Cache_Set st i cl
     | OpEvict i \<Rightarrow> Cache_Evict st i) st xs"

text \<open>An Instance stays without a client as long as none is set for it.\<close>

definition never_set :: "Instance \<Rightarrow> (Instance, goclient) cache_op list \<Rightarrow> bool" where
  "never_set j xs \<longleftrightarrow> (\<forall>x\<in>set xs. inst_ok (op_target x) \<and> (\<forall>i cl. x = OpSet i cl \<longrightarrow> \<not> same_instance i j))"

lemma still_no_client:
  "Cache_Get st j = None \<Longrightarrow> inst_ok j \<Longrightarrow> never_set j xs \<Longrightarrow> Cache_Get (after_ops st xs) j = None"
proof (induction xs arbitrary: st)
  case (Cons x xs)
  then show ?case
    by (cases x) (auto simp: never_set_def after_ops_def cc.lookup_store cc.lookup_evict)
qed (simp add: after_ops_def)

text \<open>At most one client per Instance: the store never holds two versions of one.\<close>

definition one_per_instance :: "store \<Rightarrow> bool" where
  "one_per_instance st \<longleftrightarrow> (\<forall>i k k'. inst_ok i \<and> k \<in> dom st \<and> k' \<in> dom st \<and>
     has_prefix k (cachePrefix i) \<and> has_prefix k' (cachePrefix i) \<longrightarrow> k = k')"

lemma one_per_instance_Evict: "one_per_instance st \<Longrightarrow> one_per_instance (Cache_Evict st i)"
  unfolding one_per_instance_def Cache_Evict_def dom_def by auto

lemma one_per_instance_Set:
  assumes "one_per_instance st" and i: "inst_ok i"
  shows "one_per_instance (Cache_Set st i cl)"
  unfolding one_per_instance_def
proof (intro allI impI)
  fix j k k'
  assume h: "inst_ok j \<and> k \<in> dom (Cache_Set st i cl) \<and> k' \<in> dom (Cache_Set st i cl) \<and>
    has_prefix k (cachePrefix j) \<and> has_prefix k' (cachePrefix j)"
  have old: "x = cacheKey i \<or> x \<in> dom st \<and> \<not> has_prefix x (cachePrefix i)"
    if "x \<in> dom (Cache_Set st i cl)" for x
    using that by (auto simp: Cache_Set_def dom_def split: if_splits)
  have pref: "cachePrefix j = cachePrefix i" if "has_prefix (cacheKey i) (cachePrefix j)"
    using that has_prefix_cacheKey [of j i] h i
    by (simp add: same_instance_def key_of_def cachePrefix_def)
  show "k = k'"
    using old [of k] old [of k'] pref h assms(1) unfolding one_per_instance_def by metis
qed

lemma run_store_one_per_instance:
  "\<forall>x\<in>set xs. inst_ok (op_target x) \<Longrightarrow> one_per_instance (run_store xs)"
proof (induction xs rule: rev_induct)
  case Nil
  then show ?case by (simp add: run_store_def NewCache_def one_per_instance_def)
next
  case (snoc x xs)
  then have IH: "one_per_instance (run_store xs)" by simp
  show ?case
    using one_per_instance_Set one_per_instance_Evict IH snoc.prems
    by (cases x) (auto simp: run_store_def)
qed

lemma GetOrBuild_hit_run:
  "Cache_Get (mem_store (mem s)) i = Some cl \<Longrightarrow> run_state (GetOrBuild env i) s = (Inr cl, s)"
  by (simp add: GetOrBuild_def get_mem_def)

lemma GetOrBuild_secrets:
  "emits (is_secret_read (om_namespace (instance_meta i)) (spec_secrets (instance_spec i)))
     (GetOrBuild env i)"
  unfolding GetOrBuild_def by (intro emits_intros BuildHTTPClient_secrets)

lemma GetOrBuild_emits [emits_intros]:
  "(\<And>ns n r. A (KRead (GetSecret (ns, n) r))) \<Longrightarrow> emits A (GetOrBuild env i)"
  by (rule emits_mono [OF GetOrBuild_secrets]) (auto simp: is_secret_read_def)

lemma Evict_emits [emits_intros]: "emits A (Evict i)"
  unfolding Evict_def by (intro emits_intros)

lemma outcome_Evict [outcome_intros]: "P () [] \<Longrightarrow> outcome (Evict i) P"
  unfolding Evict_def by (intro outcome_intros) simp

text \<open>On a miss the client is built.\<close>

lemma GetOrBuild_miss_run:
  assumes "Cache_Get (mem_store (mem s)) i = None"
  shows "run_state (GetOrBuild env i) s = run_state (do {
    r \<leftarrow> BuildHTTPClient env (om_namespace (instance_meta i)) (instance_spec i);
    (case r of
       Inl err \<Rightarrow> ret (Inl err)
     | Inr hc \<Rightarrow> do {
         let cl = NewConcourseClient (is_url (instance_spec i)) hc;
         m \<leftarrow> get_mem;
         put_mem (m\<lparr>mem_store := Cache_Set (mem_store m) i cl\<rparr>);
         ret (Inr cl) }) }) s"
proof -
  have "run_state get_mem s = (mem s, s)" by (simp add: get_mem_def)
  then show ?thesis using assms by (simp add: GetOrBuild_def)
qed

text \<open>A client that was built is found again, until the Instance changes or is evicted.\<close>

lemma GetOrBuild_stores:
  assumes "result_of (GetOrBuild env i) s = Inr cl"
  shows "Cache_Get (mem_store (mem (final_of (GetOrBuild env i) s))) i = Some cl"
proof (cases "Cache_Get (mem_store (mem s)) i")
  case None
  have mem: "mem (final_of (BuildHTTPClient env ns spec) s) = mem s" for ns spec
    by (rule keepsD [where I = "\<lambda>m. m = mem s", OF BuildHTTPClient_keeps refl])
  from None assms show ?thesis
    by (auto simp: GetOrBuild_def Cache_Get_def Cache_Set_def run_simps Let_def split: prod.splits sum.splits)
next
  case (Some c)
  with assms show ?thesis by (simp add: GetOrBuild_hit_run result_of_def final_of_def)
qed

section \<open>Properties\<close>

lemma run_store_def':
  "run_store xs = foldl (\<lambda>s x. case x of OpSet i c \<Rightarrow> Cache_Set s i c | OpEvict i \<Rightarrow> Cache_Evict s i) NewCache xs"
  by (simp add: run_store_def)

text \<open>C7: The store implements its abstract specification: after any sequence of \<open>Set\<close> and
  \<open>Evict\<close> calls, by any goroutines on any Instances, a lookup is decided by the last
  call on the same Instance alone. It misses after an eviction or when there was no call,
  and hits exactly when the last \<open>Set\<close> was made for the resource version now looked up.\<close>

theorem cache_lookup_history:
  assumes "\<forall>x\<in>set xs. inst_ok (op_target x)" and "inst_ok j"
  shows "Cache_Get (run_store xs) j =
    (case filter (\<lambda>x. same_instance (op_target x) j) (rev xs) of
       [] \<Rightarrow> None
     | OpEvict i # _ \<Rightarrow> None
     | OpSet i cl # _ \<Rightarrow>
         (if om_resourceVersion (instance_meta i) = om_resourceVersion (instance_meta j)
          then Some cl else None))"
  unfolding run_store_def' using assms by (rule cc.lookup_history)

lemma demo_inst_ok [simp]: "inst_ok demo_instance"
  by (simp add: inst_ok_def name_ok_def)

theorem cache_lookup_history_witness:
  "\<forall>cl. Cache_Get (run_store [OpSet demo_instance cl]) demo_instance = Some cl"
  by (subst cache_lookup_history) simp_all

text \<open>The store never holds clients of two versions of one Instance: whatever was set and
  evicted before, two keys with the prefix of one Instance are the same key, so a client with
  old credentials is gone as soon as the client of a newer version is stored.\<close>

lemma cache_one_client_per_instance:
  assumes "\<forall>x\<in>set xs. inst_ok (op_target x)" and "inst_ok i"
    and "run_store xs k \<noteq> None" and "run_store xs k' \<noteq> None"
    and "has_prefix k (cachePrefix i)" and "has_prefix k' (cachePrefix i)"
  shows "k = k'"
  using run_store_one_per_instance [OF assms(1)] assms(2-6) unfolding one_per_instance_def by blast

lemma cache_one_client_per_instance_example:
  "\<exists>cl. run_store [OpSet demo_instance cl] (cacheKey demo_instance) = Some cl \<and> cacheKey demo_instance = cachePrefix demo_instance @ ''1''"
proof -
  have "cacheKey demo_instance = cachePrefix demo_instance @ ''1''"
    by (rule cache_one_client_per_instance [of "[OpSet demo_instance cl]" demo_instance for cl])
      (simp_all add: run_store_def Cache_Set_def cacheKey_prefix)
  then show ?thesis by (simp add: run_store_def Cache_Set_def)
qed

text \<open>Building the client of an Instance, without the cache.\<close>

abbreviation build_client :: "'w env \<Rightarrow> Instance \<Rightarrow> ('w, goerr + http_client) prog" where
  "build_client env i \<equiv> BuildHTTPClient env (om_namespace (instance_meta i)) (instance_spec i)"

lemma build_client_mem: "mem (final_of (build_client env i) s) = mem s"
  by (rule keepsD [where I = "\<lambda>m. m = mem s", OF BuildHTTPClient_keeps refl])

lemma GetOrBuild_miss:
  assumes "Cache_Get (mem_store (mem s)) i = None"
  shows "result_of (GetOrBuild env i) s = map_sum id (NewConcourseClient (is_url (instance_spec i))) (result_of (build_client env i) s)"
    and "result_of (GetOrBuild env i) s = Inr cl \<Longrightarrow>
      mem_store (mem (final_of (GetOrBuild env i) s)) = Cache_Set (mem_store (mem s)) i cl"
  using GetOrBuild_miss_run [OF assms, of env] build_client_mem [of env i s]
  by (auto simp: run_simps result_of_def final_of_def Let_def split: prod.splits sum.splits)

text \<open>
  What was stored is handed out again without any request, whatever the Secrets hold by then: a
  rotated Secret is not noticed as long as the version of the Instance stays the same.
\<close>

lemma cached_client_kept:
  assumes "result_of (GetOrBuild env i) s = Inr cl"
    and "mem_store (mem t) = mem_store (mem (final_of (GetOrBuild env i) s))"
  shows "result_of (GetOrBuild env' i) t = Inr cl \<and> final_of (GetOrBuild env' i) t = t"
  using GetOrBuild_hit_run [of t i cl env'] GetOrBuild_stores [OF assms(1)] assms(2)
  by (simp add: result_of_def final_of_def)

text \<open>C24: A cached client is as good as one built anew: after \<open>GetOrBuild\<close> built and stored a client, the
  next call for this Instance gives exactly what building a client for the Instance as it is now
  would give. In an unchanged version, that is at the price of no request at all, as long as the
  Secrets read as they did when the client was built (after a rotation see \<open>cached_client_kept\<close>); in a
  changed version the client is built for the new one.\<close>

theorem client_reused:
  assumes "inst_ok i" and "inst_ok j" and "same_instance i j"
    and "Cache_Get (mem_store (mem s)) i = None" and "result_of (GetOrBuild env i) s = Inr cl"
    and "mem_store (mem t) = mem_store (mem (final_of (GetOrBuild env i) s))"
    and "om_resourceVersion (instance_meta i) = om_resourceVersion (instance_meta j) \<longrightarrow>
      instance_spec i = instance_spec j \<and> result_of (build_client env' j) t = result_of (build_client env i) s"
  shows "result_of (GetOrBuild env' j) t =
      map_sum id (NewConcourseClient (is_url (instance_spec j))) (result_of (build_client env' j) t) \<and>
    (om_resourceVersion (instance_meta i) = om_resourceVersion (instance_meta j) \<longrightarrow>
      result_of (GetOrBuild env' j) t = Inr cl \<and> final_of (GetOrBuild env' j) t = t)"
proof (cases "om_resourceVersion (instance_meta i) = om_resourceVersion (instance_meta j)")
  case True
  then have "cacheKey j = cacheKey i" using cacheKey_eq [OF assms(1,2)] assms(3) by simp
  then have "Cache_Get (mem_store (mem t)) j = Some cl"
    using GetOrBuild_stores [OF assms(5)] assms(6) by (simp add: Cache_Get_def)
  from GetOrBuild_hit_run [OF this, of env'] GetOrBuild_miss(1) [OF assms(4), of env] True assms(5,7)
  show ?thesis by (simp add: result_of_def final_of_def)
next
  case False
  have "Cache_Get (mem_store (mem t)) j = None"
    using cc.lookup_store [OF assms(1,2), of "mem_store (mem s)" cl] assms(3,6) False
    by (simp add: GetOrBuild_miss(2) [OF assms(4,5)])
  from GetOrBuild_miss(1) [OF this] False show ?thesis by simp
qed

theorem client_reused_witness:
  "\<exists>cl. result_of (GetOrBuild demo_env demo_instance)
     (final_of (GetOrBuild demo_env demo_instance) (demo_start ())) = Inr cl"
proof -
  let ?t = "final_of (GetOrBuild demo_env demo_instance) (demo_start ())"
  have built: "result_of (GetOrBuild demo_env demo_instance) (demo_start ()) =
      Inr (NewClient ''http://ci'' \<lparr>hc_source = StaticTokenSource ''t0'' ''bearer'',
        hc_base = \<lparr>tc_insecureSkipVerify = False, tc_rootCAs = None\<rparr>\<rparr> False)"
    by (simp add: eval_simps GetOrBuild_def auth_defs NewConcourseClient_def Cache_Get_def cong: eval_cong)
  have miss: "Cache_Get (mem_store (mem (demo_start ()))) demo_instance = None"
    by (simp add: demo_start_def Cache_Get_def)
  have same: "result_of (build_client demo_env demo_instance) ?t = result_of (build_client demo_env demo_instance) (demo_start ())"
    by (simp add: eval_simps GetOrBuild_def auth_defs NewConcourseClient_def Cache_Get_def cong: eval_cong)
  from client_reused [OF demo_inst_ok demo_inst_ok same_instance_refl miss built refl, of demo_env] same
  show ?thesis by blast
qed

text \<open>Building a client is confined: it writes nothing, neither to the cluster nor to
  Concourse, and everything it reads is a Secret in the namespace of the Instance that the
  spec of the Instance names.\<close>

lemma client_build_reads_own_secrets:
  assumes "e \<in> set (emitted (GetOrBuild env i) s)"
  shows "\<exists>n r. e = KRead (GetSecret (om_namespace (instance_meta i), n) r) \<and>
    n \<in> set (spec_secrets (instance_spec i))"
  using emitsD [OF GetOrBuild_secrets assms] by (simp add: is_secret_read_def)

lemma client_build_reads_own_secrets_example:
  "\<exists>n r. KRead (GetSecret (''ci'', ''creds'') (Inr demo_secret)) = KRead (GetSecret (''ci'', n) r) \<and>
    n \<in> set (spec_secrets (instance_spec demo_instance))"
proof -
  have "KRead (GetSecret (''ci'', ''creds'') (Inr demo_secret))
      \<in> set (emitted (GetOrBuild demo_env demo_instance) (demo_start ()))"
    by (simp add: eval_simps GetOrBuild_def auth_defs Cache_Get_def cong: eval_cong)
  from client_build_reads_own_secrets [OF this] show ?thesis by simp
qed

end
