(* ===== verification/Resolver.thy ===== *)
theory Resolver
  imports Client_Cache Monitor
begin

text \<open>
  \<open>internal/controller/resolver.go\<close>: the walk from an object up to its Instance, which
  yields the Concourse client only if every ancestor is there and Ready. The interface
  \<open>chain_resolver\<close> states what the reconcilers rely on; they call Concourse only behind it.
\<close>

section \<open>The resolvers\<close>

definition refKey :: "string \<Rightarrow> LocalObjectReference \<Rightarrow> ObjectKey" where
  "refKey ns ref = (ResolveNamespace ref ns, ref_name ref)"

definition namespaceAllowed :: "'w env \<Rightarrow> Instance \<Rightarrow> string \<Rightarrow> goerr option" where
  "namespaceAllowed env inst ns =
     (if ns = om_namespace (instance_meta inst) then None
      else if list_ex (\<lambda>allowed. allowed = ns \<or> allowed = ''*'')
        (is_allowedNamespaces (instance_spec inst)) then None
      else Some (''namespace '' @ l_quote (e_libs env) ns @ '' is not allowed to reference instance ''
        @ om_namespace (instance_meta inst) @ ''/'' @ om_name (instance_meta inst)))"

definition isReady :: "'w env \<Rightarrow> Condition list \<Rightarrow> bool" where
  "isReady env conditions = l_is_status_condition_true (e_libs env) conditions ConditionReady"

definition resolveInstanceForTeam :: "'w env \<Rightarrow> Team \<Rightarrow> ('w, goerr + goclient) prog" where
  "resolveInstanceForTeam env team = do {
     r \<leftarrow> k_get_instance env (refKey (om_namespace (team_meta team)) (ts_instanceRef (team_spec team)));
     (case r of
        Inl err \<Rightarrow> ret (Inl (''get instance '' @ ref_name (ts_instanceRef (team_spec team))
          @ '': '' @ kerr_text err))
      | Inr inst \<Rightarrow>
          (case namespaceAllowed env inst (om_namespace (team_meta team)) of
             Some err \<Rightarrow> ret (Inl err)
           | None \<Rightarrow>
               (if \<not> isReady env (it_conditions (instance_status inst))
                then ret (Inl (''instance '' @ om_name (instance_meta inst) @ '' is not ready''))
                else do {
                  cl \<leftarrow> GetOrBuild env inst;
                  (case cl of
                     Inl err \<Rightarrow> ret (Inl (''get client for instance '' @ om_name (instance_meta inst)
                       @ '': '' @ err))
                   | Inr cl \<Rightarrow> ret (Inr cl)) }))) }"

definition resolveClientForPipeline ::
  "'w env \<Rightarrow> Pipeline \<Rightarrow> ('w, goerr + goclient \<times> string) prog" where
  "resolveClientForPipeline env pipeline = do {
     r \<leftarrow> k_get_team env (refKey (om_namespace (pipeline_meta pipeline)) (ps_teamRef (pipeline_spec pipeline)));
     (case r of
        Inl err \<Rightarrow> ret (Inl (''get team '' @ ref_name (ps_teamRef (pipeline_spec pipeline))
          @ '': '' @ kerr_text err))
      | Inr team \<Rightarrow>
          (if \<not> isReady env (tt_conditions (team_status team))
           then ret (Inl (''team '' @ om_name (team_meta team) @ '' is not ready''))
           else do {
             cl \<leftarrow> resolveInstanceForTeam env team;
             (case cl of
                Inl err \<Rightarrow> ret (Inl err)
              | Inr cl \<Rightarrow> ret (Inr (cl, ResolvedTeamName team))) })) }"

definition resolveClientForJob ::
  "'w env \<Rightarrow> Job \<Rightarrow> ('w, goerr + goclient \<times> string \<times> string) prog" where
  "resolveClientForJob env job = do {
     r \<leftarrow> k_get_pipeline env (refKey (om_namespace (job_meta job)) (js_pipelineRef (job_spec job)));
     (case r of
        Inl err \<Rightarrow> ret (Inl (''get pipeline '' @ ref_name (js_pipelineRef (job_spec job))
          @ '': '' @ kerr_text err))
      | Inr pipeline \<Rightarrow>
          (if \<not> isReady env (pt_conditions (pipeline_status pipeline))
           then ret (Inl (''pipeline '' @ om_name (pipeline_meta pipeline) @ '' is not ready''))
           else do {
             cl \<leftarrow> resolveClientForPipeline env pipeline;
             (case cl of
                Inl err \<Rightarrow> ret (Inl err)
              | Inr (cl, teamName) \<Rightarrow> ret (Inr (cl, teamName, ResolvedPipelineName pipeline))) })) }"

text \<open>The base of the links into the Concourse UI.\<close>

definition base_url :: "Instance \<Rightarrow> string" where
  "base_url i = (if it_externalURL (instance_status i) = '''' then is_url (instance_spec i)
     else it_externalURL (instance_status i))"

section \<open>Evidence in the journal\<close>

text \<open>
  That an ancestor was ready is a fact about the journal: the reconciler read it from the
  API server, and what it read was Ready. Once there, such a fact stays.
\<close>

definition is_awrite :: "io \<Rightarrow> bool" where
  "is_awrite e = (case e of AWrite a \<Rightarrow> True | _ \<Rightarrow> False)"

definition is_kread :: "io \<Rightarrow> bool" where
  "is_kread e = (case e of KRead a \<Rightarrow> True | _ \<Rightarrow> False)"

definition is_event :: "io \<Rightarrow> bool" where
  "is_event e = (case e of Event k key t r m \<Rightarrow> True | _ \<Rightarrow> False)"

definition is_kwrite :: "io \<Rightarrow> bool" where
  "is_kwrite e = (case e of KWrite x \<Rightarrow> True | _ \<Rightarrow> False)"

lemma io_kinds [simp]:
  "\<not> is_awrite (KRead kr)"
  "\<not> is_awrite (KWrite kw)"
  "\<not> is_awrite (ARead ar)"
  "is_awrite (AWrite aw)"
  "\<not> is_awrite (Event ok key et r m)"
  "\<not> is_awrite (Clock ts)"
  "\<not> is_awrite (SpawnWatch cl i key)"
  "\<not> is_awrite (Enqueue key)"
  "is_kread (KRead kr)"
  "\<not> is_kread (KWrite kw)"
  "\<not> is_kread (ARead ar)"
  "\<not> is_kread (AWrite aw)"
  "\<not> is_kread (Event ok key et r m)"
  "\<not> is_kread (Clock ts)"
  "\<not> is_kread (SpawnWatch cl i key)"
  "\<not> is_kread (Enqueue key)"
  "\<not> is_event (KRead kr)"
  "\<not> is_event (KWrite kw)"
  "\<not> is_event (ARead ar)"
  "\<not> is_event (AWrite aw)"
  "is_event (Event ok key et r m)"
  "\<not> is_event (Clock ts)"
  "\<not> is_event (SpawnWatch cl i key)"
  "\<not> is_event (Enqueue key)"
  "\<not> is_kwrite (KRead kr)"
  "is_kwrite (KWrite kw)"
  "\<not> is_kwrite (ARead ar)"
  "\<not> is_kwrite (AWrite aw)"
  "\<not> is_kwrite (Event ok key et r m)"
  "\<not> is_kwrite (Clock ts)"
  "\<not> is_kwrite (SpawnWatch cl i key)"
  "\<not> is_kwrite (Enqueue key)"
  by (simp_all add: is_awrite_def is_kread_def is_event_def is_kwrite_def)

lemma reads_write_nothing:
  "list_all is_kread es \<Longrightarrow> filter is_awrite es = []"
  "list_all is_event es \<Longrightarrow> filter is_awrite es = []"
  "list_all (\<lambda>e. \<not> is_awrite e) es \<Longrightarrow> filter is_awrite es = []"
  by (auto simp: list_all_iff filter_empty_conv is_kread_def is_event_def is_awrite_def split: io.splits)

text \<open>A condition of a status, up to its message.\<close>

definition cond_is :: "Condition list \<Rightarrow> string \<Rightarrow> ConditionStatus \<Rightarrow> string \<Rightarrow> bool" where
  "cond_is conds t st reason \<longleftrightarrow> (\<exists>c. cond_of conds t = Some c \<and> c_status c = st \<and> c_reason c = reason)"

lemma cond_is_set [simp]:
  "conditions_law env \<Longrightarrow> cond_is (setCondition env cs g t st r m) t' st' r' =
     (if t' = t then st' = st \<and> r' = r else cond_is cs t' st' r')"
  by (auto simp: cond_is_def)

definition saw_instance :: "'w env \<Rightarrow> Team \<Rightarrow> io list \<Rightarrow> bool" where
  "saw_instance env team es \<longleftrightarrow> (\<exists>inst.
     KRead (GetInstance (refKey (om_namespace (team_meta team)) (ts_instanceRef (team_spec team))) (Inr inst)) \<in> set es \<and>
     namespaceAllowed env inst (om_namespace (team_meta team)) = None \<and>
     isReady env (it_conditions (instance_status inst)))"

definition saw_team :: "'w env \<Rightarrow> Pipeline \<Rightarrow> io list \<Rightarrow> bool" where
  "saw_team env pipeline es \<longleftrightarrow> (\<exists>team.
     KRead (GetTeam (refKey (om_namespace (pipeline_meta pipeline)) (ps_teamRef (pipeline_spec pipeline))) (Inr team)) \<in> set es \<and>
     isReady env (tt_conditions (team_status team)) \<and> saw_instance env team es)"

definition saw_pipeline :: "'w env \<Rightarrow> Job \<Rightarrow> io list \<Rightarrow> bool" where
  "saw_pipeline env job es \<longleftrightarrow> (\<exists>pipeline.
     KRead (GetPipeline (refKey (om_namespace (job_meta job)) (js_pipelineRef (job_spec job))) (Inr pipeline)) \<in> set es \<and>
     isReady env (pt_conditions (pipeline_status pipeline)) \<and> saw_team env pipeline es)"

section \<open>The interface of a resolver\<close>

locale chain_resolver =
  fixes resolve :: "'o \<Rightarrow> ('w, goerr + 'r) prog"
    and ready :: "'o \<Rightarrow> io list \<Rightarrow> bool"
  assumes persistent: "persistent (ready x)"
    and reads_only: "emits is_kread (resolve x)"
    and success_ready: "outcome (resolve x) (\<lambda>r es. isl r \<or> ready x es)"
begin

lemma known: "outcome (resolve x) (\<lambda>r es. list_all is_kread es \<and> (isl r \<or> ready x es))"
  by (intro outcome_conj success_ready emits_outcome reads_only)

text \<open>What comes after a successful resolution is behind the gate, whatever it does.\<close>

lemma gate:
  assumes "\<And>err. emits (\<lambda>e. \<not> is_awrite e) (h err)" and "\<And>y. outcome (k y) (\<lambda>_ _. True)"
  shows "guarded [] is_awrite (ready x) (State_Monad.bind (resolve x) (\<lambda>r. case r of Inl err \<Rightarrow> h err | Inr y \<Rightarrow> k y))"
  unfolding guarded_def append_Nil2
proof (rule outcome_bind, rule outcome_mono [OF known])
  fix r :: "goerr + 'r" and es
  assume r: "list_all is_kread es \<and> (isl r \<or> ready x es)"
  then have quiet: "\<not> list_ex is_awrite es"
    by (auto simp: list_all_iff list_ex_iff is_kread_def is_awrite_def split: io.splits)
  show "outcome (case r of Inl err \<Rightarrow> h err | Inr y \<Rightarrow> k y)
      (\<lambda>_ es'. list_ex is_awrite (es @ es') \<longrightarrow> ready x (es @ es'))"
  proof (cases r)
    case (Inl err)
    have "outcome (h err) (\<lambda>_ es'. list_all (\<lambda>e. \<not> is_awrite e) es')"
      using assms(1) [of err] by (simp add: emits_def)
    then have "outcome (h err) (\<lambda>_ es'. list_ex is_awrite (es @ es') \<longrightarrow> ready x (es @ es'))"
      by (rule outcome_mono) (use quiet in \<open>simp add: list_ex_none\<close>)
    then show ?thesis by (simp add: Inl)
  next
    case (Inr y)
    have "outcome (k y) (\<lambda>_ es'. list_ex is_awrite (es @ es') \<longrightarrow> ready x (es @ es'))"
      using assms(2) [of y] by (rule outcome_mono) (use r Inr persistent_append [OF persistent [of x]] in auto)
    then show ?thesis by (simp add: Inr)
  qed
qed

lemma writes_nothing: "emits (\<lambda>e. \<not> is_awrite e) (resolve x)"
  by (rule emits_mono [OF reads_only]) (auto simp: is_kread_def is_awrite_def split: io.splits)

end

section \<open>The resolvers implement it\<close>

lemma persistent_saw:
  "persistent (saw_instance env team)" "persistent (saw_team env p)" "persistent (saw_pipeline env j)"
  unfolding persistent_def saw_pipeline_def saw_team_def saw_instance_def by blast+

lemmas saw_append [simp] = persistent_saw [THEN persistent_append(1)]
lemmas saw_Cons [simp] = saw_append [of _ _ _ "[e]" for e, simplified]

lemma GetOrBuild_reads: "emits is_kread (GetOrBuild env i)"
  by (rule GetOrBuild_emits) (simp add: is_kread_def)

lemma resolveInstance_reads: "emits is_kread (resolveInstanceForTeam env team)"
  unfolding resolveInstanceForTeam_def
  by (intro emits_intros GetOrBuild_reads) (simp_all add: is_kread_def)

lemma resolvePipeline_reads: "emits is_kread (resolveClientForPipeline env pipeline)"
  unfolding resolveClientForPipeline_def
  by (intro emits_intros resolveInstance_reads) (simp_all add: is_kread_def)

lemma resolveJob_reads: "emits is_kread (resolveClientForJob env job)"
  unfolding resolveClientForJob_def
  by (intro emits_intros resolvePipeline_reads) (simp_all add: is_kread_def)

lemma total_outcome: "emits A p \<Longrightarrow> outcome p (\<lambda>_ _. True)"
  unfolding emits_def by (erule outcome_mono) simp

lemma resolveInstance_success:
  "outcome (resolveInstanceForTeam env team) (\<lambda>r es. isl r \<or> saw_instance env team es)"
  unfolding resolveInstanceForTeam_def
  by (intro outcome_intros outcome_mono [OF total_outcome [OF GetOrBuild_reads]])
    (auto simp: saw_instance_def)

lemma resolvePipeline_success:
  "outcome (resolveClientForPipeline env p) (\<lambda>r es. isl r \<or> saw_team env p es)"
  unfolding resolveClientForPipeline_def
  by (intro outcome_intros outcome_mono [OF resolveInstance_success])
    (auto simp: saw_team_def)

lemma resolveJob_success:
  "outcome (resolveClientForJob env j) (\<lambda>r es. isl r \<or> saw_pipeline env j es)"
  unfolding resolveClientForJob_def
  by (intro outcome_intros outcome_mono [OF resolvePipeline_success])
    (auto simp: saw_pipeline_def)

interpretation team_chain: chain_resolver "resolveInstanceForTeam env" "saw_instance env" for env
  by unfold_locales (rule persistent_saw resolveInstance_reads resolveInstance_success)+

interpretation pipeline_chain: chain_resolver "resolveClientForPipeline env" "saw_team env" for env
  by unfold_locales (rule persistent_saw resolvePipeline_reads resolvePipeline_success)+

interpretation job_chain: chain_resolver "resolveClientForJob env" "saw_pipeline env" for env
  by unfold_locales (rule persistent_saw resolveJob_reads resolveJob_success)+

lemma emits_of_reads: "emits is_kread p \<Longrightarrow> (\<And>k. A (KRead k)) \<Longrightarrow> emits A p"
  by (erule emits_mono) (simp add: is_kread_def split: io.splits)

lemmas resolver_emits [emits_intros] = resolveInstance_reads [THEN emits_of_reads]
  resolvePipeline_reads [THEN emits_of_reads] resolveJob_reads [THEN emits_of_reads]

lemma at_most_recordEvent [at_most_intros]:
  "0 < n \<Longrightarrow> at_most n A (recordEvent env kind m t r msg)"
  unfolding recordEvent_def at_most_def by (intro outcome_intros) auto

section \<open>Through the cache\<close>

text \<open>A client that a Team resolves to is what the cache gives for the Instance that was read.\<close>

lemma resolve_through_cache:
  assumes "x_get_instance (e_k8s env) (refKey (om_namespace (team_meta team)) (ts_instanceRef (team_spec team))) (world t) = (Inr j, w)"
    and "result_of (resolveInstanceForTeam env team) t = Inr cl"
  shows "\<exists>u. mem u = mem t \<and> result_of (GetOrBuild env j) u = Inr cl \<and>
    set (emitted (GetOrBuild env j) u) \<subseteq> set (emitted (resolveInstanceForTeam env team) t)"
proof -
  let ?u = "t\<lparr>world := w, journal := journal t @ [KRead (GetInstance (refKey (om_namespace (team_meta team))
    (ts_instanceRef (team_spec team))) (Inr j))]\<rparr>"
  let ?k = "\<lambda>cl. case cl of Inl err \<Rightarrow> ret (Inl (''get client for instance '' @ om_name (instance_meta j) @ '': '' @ err))
     | Inr cl \<Rightarrow> ret (Inr cl)"
  have "namespaceAllowed env j (om_namespace (team_meta team)) = None \<and> isReady env (it_conditions (instance_status j))"
    using assms by (auto simp: resolveInstanceForTeam_def extern_def result_of_def split: option.splits if_splits)
  then have run: "run_state (resolveInstanceForTeam env team) t = run_state (State_Monad.bind (GetOrBuild env j) ?k) ?u"
    using assms(1) by (simp add: resolveInstanceForTeam_def extern_def split: prod.split sum.split)
  have total: "outcome (GetOrBuild env j) (\<lambda>_ _. True)" by (rule total_outcome [OF GetOrBuild_reads])
  have k: "outcome (?k r) (\<lambda>_ _. True)" for r :: "goerr + goclient" by (intro outcome_intros TrueI)
  have both: "outcome (State_Monad.bind (GetOrBuild env j) ?k) (\<lambda>_ _. True)"
    by (rule outcome_bind, rule outcome_mono [OF total], rule k)
  have "final_of (resolveInstanceForTeam env team) t = final_of (State_Monad.bind (GetOrBuild env j) ?k) ?u"
    by (simp only: final_of_def run)
  then have "journal (final_of (resolveInstanceForTeam env team) t) =
      journal ?u @ emitted (GetOrBuild env j) ?u @ emitted (?k (result_of (GetOrBuild env j) ?u)) (final_of (GetOrBuild env j) ?u)"
    by (simp only: outcome_journal [OF both] emitted_bind [OF total k])
  then have "set (emitted (GetOrBuild env j) ?u) \<subseteq> set (emitted (resolveInstanceForTeam env team) t)"
    by (auto simp: emitted_def [of "resolveInstanceForTeam env team"])
  moreover have "result_of (GetOrBuild env j) ?u = Inr cl"
    using assms(2) run by (auto simp: result_of_def final_of_def split: prod.splits sum.splits)
  ultimately show ?thesis by (intro exI [of _ ?u]) simp
qed

section \<open>Properties\<close>

text \<open>What a resolved client is good for: all of the chain it came through.\<close>

definition resolved_through ::
  "'w env \<Rightarrow> Job \<Rightarrow> Pipeline \<Rightarrow> Team \<Rightarrow> Instance \<Rightarrow> io list \<Rightarrow> bool" where
  "resolved_through env job pipeline team inst es \<longleftrightarrow>
     KRead (GetPipeline (refKey (om_namespace (job_meta job)) (js_pipelineRef (job_spec job))) (Inr pipeline)) \<in> set es \<and>
     KRead (GetTeam (refKey (om_namespace (pipeline_meta pipeline)) (ps_teamRef (pipeline_spec pipeline))) (Inr team)) \<in> set es \<and>
     KRead (GetInstance (refKey (om_namespace (team_meta team)) (ts_instanceRef (team_spec team))) (Inr inst)) \<in> set es \<and>
     isReady env (pt_conditions (pipeline_status pipeline)) \<and>
     isReady env (tt_conditions (team_status team)) \<and>
     isReady env (it_conditions (instance_status inst)) \<and>
     (om_namespace (team_meta team) = om_namespace (instance_meta inst) \<or>
      om_namespace (team_meta team) \<in> set (is_allowedNamespaces (instance_spec inst)) \<or>
      ''*'' \<in> set (is_allowedNamespaces (instance_spec inst)))"

lemma namespaceAllowed_iff:
  "namespaceAllowed env inst ns = None \<longleftrightarrow>
     ns = om_namespace (instance_meta inst) \<or> ns \<in> set (is_allowedNamespaces (instance_spec inst)) \<or>
     ''*'' \<in> set (is_allowedNamespaces (instance_spec inst))"
  by (auto simp: namespaceAllowed_def list_ex_iff)

lemma resolveJob_evidence:
  "outcome (resolveClientForJob env job) (\<lambda>r es. \<forall>cl tn pn. r = Inr (cl, tn, pn) \<longrightarrow>
     (\<exists>pipeline team inst. resolved_through env job pipeline team inst es \<and>
        tn = ResolvedTeamName team \<and> pn = ResolvedPipelineName pipeline))"
  unfolding resolveClientForJob_def resolveClientForPipeline_def resolveInstanceForTeam_def
  by (intro outcome_intros outcome_mono [OF total_outcome [OF GetOrBuild_reads]])
    (auto simp: resolved_through_def namespaceAllowed_iff)

text \<open>C19: A client is handed out only through a ready chain: when the resolver of a Job
  returns a client, it read from the API server the Pipeline, the Team and the Instance that the
  references of the chain name, each was Ready, the Team's namespace is the Instance's own or
  one the Instance allows, and the names returned are those of that Team and Pipeline.\<close>

theorem resolved_client_has_ready_chain:
  assumes "result_of (resolveClientForJob env job) s = Inr (cl, tn, pn)"
  shows "\<exists>pipeline team inst.
    resolved_through env job pipeline team inst (emitted (resolveClientForJob env job) s) \<and>
    tn = ResolvedTeamName team \<and> pn = ResolvedPipelineName pipeline"
  using outcomeD [OF resolveJob_evidence, of env job s] assms by blast

lemmas resolver_eval = resolveClientForJob_def resolveClientForPipeline_def
  resolveInstanceForTeam_def isReady_def namespaceAllowed_def GetOrBuild_def auth_defs
  Cache_Get_def NewConcourseClient_def

definition demo_client :: goclient where
  "demo_client = NewClient ''http://ci'' \<lparr>hc_source = StaticTokenSource ''t0'' ''bearer'',
     hc_base = \<lparr>tc_insecureSkipVerify = False, tc_rootCAs = None\<rparr>\<rparr> False"

lemma demo_resolve:
  "result_of (resolveClientForJob demo_env demo_job) (demo_start ()) = Inr (demo_client, ''team'', ''pipeline'')"
  by (simp add: eval_simps resolver_eval demo_client_def ResolvedTeamName_def ResolvedPipelineName_def
      cong: eval_cong)

theorem resolved_client_has_ready_chain_witness:
  "\<exists>pipeline team (inst :: Instance). ''team'' = ResolvedTeamName team \<and> ''pipeline'' = ResolvedPipelineName pipeline \<and>
     isReady (demo_env :: unit env) (it_conditions (instance_status inst))"
proof -
  from resolved_client_has_ready_chain [OF demo_resolve]
  obtain pipeline team inst where
    "resolved_through (demo_env :: unit env) demo_job pipeline team inst
       (emitted (resolveClientForJob demo_env demo_job) (demo_start ()))"
    "''team'' = ResolvedTeamName team" "''pipeline'' = ResolvedPipelineName pipeline"
    by blast
  then show ?thesis by (auto simp: resolved_through_def)
qed

text \<open>C25: The converse: when the three objects the chain names are there and Ready, the Instance
  allows the namespaces of the Job, the Pipeline and the Team, and the client is in the cache, the
  resolver does return that client, with the names of the Team and the Pipeline, and leaves the
  process memory as it was.\<close>

theorem ready_chain_resolves:
  assumes p: "\<And>w. fst (x_get_pipeline (e_k8s env)
        (refKey (om_namespace (job_meta job)) (js_pipelineRef (job_spec job))) w) = Inr pipeline"
    and t: "\<And>w. fst (x_get_team (e_k8s env)
        (refKey (om_namespace (pipeline_meta pipeline)) (ps_teamRef (pipeline_spec pipeline))) w) = Inr team"
    and i: "\<And>w. fst (x_get_instance (e_k8s env)
        (refKey (om_namespace (team_meta team)) (ts_instanceRef (team_spec team))) w) = Inr inst"
    and ready: "isReady env (pt_conditions (pipeline_status pipeline))"
      "isReady env (tt_conditions (team_status team))" "isReady env (it_conditions (instance_status inst))"
    and allowed: "\<forall>ns\<in>{om_namespace (job_meta job), om_namespace (pipeline_meta pipeline), om_namespace (team_meta team)}.
      ns = om_namespace (instance_meta inst) \<or> ns \<in> set (is_allowedNamespaces (instance_spec inst)) \<or>
      ''*'' \<in> set (is_allowedNamespaces (instance_spec inst))"
    and "Cache_Get (mem_store (mem s)) inst = Some cl"
  shows "result_of (resolveClientForJob env job) s =
      Inr (cl, ResolvedTeamName team, ResolvedPipelineName pipeline) \<and>
    mem (final_of (resolveClientForJob env job) s) = mem s"
proof -
  have "namespaceAllowed env inst (om_namespace (team_meta team)) = None"
    using allowed by (simp add: namespaceAllowed_iff)
  with assms(4-6,8) show ?thesis
    by (simp add: resolveClientForJob_def resolveClientForPipeline_def resolveInstanceForTeam_def
        GetOrBuild_def run_simps case_prod_beta p t i)
qed

theorem ready_chain_resolves_witness:
  "\<forall>cl. result_of (resolveClientForJob demo_env demo_job)
     (demo_start ()\<lparr>mem := \<lparr>mem_store = Cache_Set NewCache demo_instance cl, mem_watchers = {}\<rparr>\<rparr>)
   = Inr (cl, ''team'', ''pipeline'')"
proof
  fix cl
  show "result_of (resolveClientForJob demo_env demo_job)
     (demo_start ()\<lparr>mem := \<lparr>mem_store = Cache_Set NewCache demo_instance cl, mem_watchers = {}\<rparr>\<rparr>)
   = Inr (cl, ''team'', ''pipeline'')"
    using ready_chain_resolves [of demo_env demo_job demo_pipeline demo_team demo_instance
        "demo_start ()\<lparr>mem := \<lparr>mem_store = Cache_Set NewCache demo_instance cl, mem_watchers = {}\<rparr>\<rparr>" cl]
    by (simp add: isReady_def Cache_Get_def Cache_Set_def demo_start_def
        ResolvedTeamName_def ResolvedPipelineName_def)
qed

end
