(* ===== verification/Build_Controller.thy ===== *)
theory Build_Controller
  imports Resolver Monitor
begin

text \<open>
  \<open>internal/controller/build_controller.go\<close>: the reconciler of a Build. A method that
  changes the object it is given returns the changed object; a method that may end the
  reconcile returns the result to end it with as an option.
\<close>

section \<open>Phases\<close>

definition isTerminal :: "BuildPhase \<Rightarrow> bool" where
  "isTerminal s \<longleftrightarrow> s = BuildPhaseSucceeded \<or> s = BuildPhaseFailed \<or>
     s = BuildPhaseErrored \<or> s = BuildPhaseAborted"

definition mapPhaseToReason :: "string \<Rightarrow> string" where
  "mapPhaseToReason phase =
     (if phase = ''pending'' then ''Pending''
      else if phase = ''started'' then ''Started''
      else if phase = ''succeeded'' then ''Succeeded''
      else if phase = ''failed'' then ''Failed''
      else if phase = ''errored'' then ''Errored''
      else if phase = ''aborted'' then ''Aborted''
      else ''Unknown'')"

section \<open>Small updates of a Build\<close>

abbreviation map_build_status :: "(BuildStatus \<Rightarrow> BuildStatus) \<Rightarrow> Build \<Rightarrow> Build" where
  "map_build_status f b \<equiv> b\<lparr>build_status := f (build_status b)\<rparr>"

definition build_cond ::
  "'w env \<Rightarrow> Build \<Rightarrow> string \<Rightarrow> ConditionStatus \<Rightarrow> string \<Rightarrow> string \<Rightarrow> Build" where
  "build_cond env b t st reason msg = map_build_status (\<lambda>s. s\<lparr>bt_conditions :=
     setCondition env (bt_conditions s) (om_generation (build_meta b)) t st reason msg\<rparr>) b"

abbreviation build_event ::
  "'w env \<Rightarrow> Build \<Rightarrow> event_type \<Rightarrow> string \<Rightarrow> string \<Rightarrow> ('w, unit) prog" where
  "build_event env b t reason msg \<equiv> recordEvent env KBuild (build_meta b) t reason msg"

section \<open>Suspend, deletion, terminal state\<close>

definition handleBuildLifecycle :: "'w env \<Rightarrow> Build \<Rightarrow> ('w, bool \<times> goerr option) prog" where
  "handleBuildLifecycle env build =
     (if bs_suspend (build_spec build) then do {
        let build = build_cond env build ConditionReady ConditionFalse ''Suspended''
          ''Reconciliation is suspended'';
        r \<leftarrow> k_status_build env build;
        (case r of
           Inl err \<Rightarrow> ret (True, Some (''update status: '' @ kerr_text err))
         | Inr _ \<Rightarrow> ret (True, None)) }
      else if om_deletionTimestamp (build_meta build) \<noteq> None then ret (True, None)
      else if isTerminal (bt_concourseStatus (build_status build)) then ret (True, None)
      else ret (False, None))"

section \<open>Triggering\<close>

definition persist_body :: "'w env \<Rightarrow> Build \<Rightarrow> ('w, kerr + Build) prog" where
  "persist_body env build = do {
     r \<leftarrow> k_get_build env (key_of (build_meta build));
     (case r of
        Inl err \<Rightarrow> ret (Inl err)
      | Inr latest \<Rightarrow>
          (if bt_buildID (build_status latest) \<noteq> None
           then ret (Inr (build
             \<lparr>build_meta := (build_meta build)\<lparr>om_resourceVersion := om_resourceVersion (build_meta latest)\<rparr>,
              build_status := build_status latest\<rparr>))
           else do {
             let latest = map_build_status (\<lambda>s. s
               \<lparr>bt_buildID := bt_buildID (build_status build),
                bt_buildName := bt_buildName (build_status build),
                bt_apiURL := bt_apiURL (build_status build),
                bt_startTime := bt_startTime (build_status build),
                bt_rerunOf := bt_rerunOf (build_status build)\<rparr>) latest;
             u \<leftarrow> k_status_build env latest;
             (case u of
                Inl err \<Rightarrow> ret (Inl err)
              | Inr latest \<Rightarrow> ret (Inr (build
                  \<lparr>build_meta := (build_meta build)\<lparr>om_resourceVersion := om_resourceVersion (build_meta latest)\<rparr>,
                   build_status := build_status latest\<rparr>))) })) }"

definition persistBuildTracking :: "'w env \<Rightarrow> Build \<Rightarrow> ('w, kerr + Build) prog" where
  "persistBuildTracking env build = l_retry_on_conflict (e_libs env) (persist_body env build)"

definition trigger_build ::
  "'w env \<Rightarrow> Build \<Rightarrow> goclient \<Rightarrow> string \<Rightarrow> string \<Rightarrow> string \<Rightarrow> ('w, goerr + atc_build) prog" where
  "trigger_build env build cl teamName pipelineName jobName =
     (if bs_rerunOf (build_spec build) \<noteq> ''''
      then a_rerun_job_build env cl teamName pipelineName jobName (bs_rerunOf (build_spec build))
      else a_create_job_build env cl teamName pipelineName jobName)"

definition track_created :: "Build \<Rightarrow> atc_build \<Rightarrow> Build" where
  "track_created build ab = map_build_status (\<lambda>s. s
     \<lparr>bt_buildID := int32Ptr (ab_id ab),
      bt_buildName := ab_name ab,
      bt_apiURL := ab_apiURL ab,
      bt_startTime := (if ab_startTime ab > 0 then Some (unix_time (ab_startTime ab)) else bt_startTime s),
      bt_rerunOf := (if bs_rerunOf (build_spec build) \<noteq> '''' then bs_rerunOf (build_spec build)
        else bt_rerunOf s)\<rparr>) build"

definition ensureBuildTriggered ::
  "'w env \<Rightarrow> Build \<Rightarrow> goclient \<Rightarrow> string \<Rightarrow> string \<Rightarrow> string \<Rightarrow> ('w, Build \<times> Result option) prog" where
  "ensureBuildTriggered env build cl teamName pipelineName jobName =
     (case bt_buildID (build_status build) of
        Some _ \<Rightarrow> ret (build, None)
      | None \<Rightarrow>
          (case bs_buildID (build_spec build) of
             Some bid \<Rightarrow> do {
               let build = map_build_status (\<lambda>s. s\<lparr>bt_buildID := Some bid\<rparr>) build;
               build_event env build EventTypeNormal ''Adopted''
                 (''Adopted existing Concourse build '' @ itoa (of_i32 bid));
               ret (build, None) }
           | None \<Rightarrow> do {
               r \<leftarrow> trigger_build env build cl teamName pipelineName jobName;
               (case r of
                  Inl err \<Rightarrow> do {
                    build_event env build EventTypeWarning ''TriggerFailed''
                      (''Failed to trigger Concourse build: '' @ err);
                    let build = build_cond env build ConditionReady ConditionFalse ''TriggerFailed'' err;
                    k_status_build env build;
                    ret (build, Some (seconds 30)) }
                | Inr ab \<Rightarrow> do {
                    let build = track_created build ab;
                    build_event env build EventTypeNormal ''Triggered''
                      (if bs_rerunOf (build_spec build) \<noteq> ''''
                       then ''Triggered Concourse build '' @ ab_name ab @ '' as a rerun of build ''
                         @ bs_rerunOf (build_spec build)
                       else ''Triggered Concourse build '' @ ab_name ab);
                    p \<leftarrow> persistBuildTracking env build;
                    (case p of
                       Inl err \<Rightarrow> ret (build, Some (seconds 2))
                     | Inr build \<Rightarrow> ret (build, None)) }) }))"

section \<open>Observing\<close>

definition observe_fields :: "BuildStatus \<Rightarrow> atc_build \<Rightarrow> BuildStatus" where
  "observe_fields s ab = s
     \<lparr>bt_concourseStatus := ab_status ab,
      bt_buildName := (if ab_name ab \<noteq> '''' then ab_name ab else bt_buildName s),
      bt_apiURL := (if ab_apiURL ab \<noteq> '''' then ab_apiURL ab else bt_apiURL s),
      bt_startTime := (if ab_startTime ab > 0 then Some (unix_time (ab_startTime ab)) else bt_startTime s),
      bt_endTime := (if ab_endTime ab > 0 then Some (unix_time (ab_endTime ab)) else bt_endTime s),
      bt_createdBy := (case ab_createdBy ab of None \<Rightarrow> bt_createdBy s | Some u \<Rightarrow> u)\<rparr>"

definition map_build_io :: "BuildStatus \<Rightarrow> atc_build_io \<Rightarrow> BuildStatus" where
  "map_build_io s io = s
     \<lparr>bt_inputs := map (\<lambda>i. \<lparr>bio_name = abi_name i, bio_version = abi_version i,
        bio_firstOccurrence = Some (abi_firstOccurrence i)\<rparr>) (abio_inputs io),
      bt_outputs := map (\<lambda>out. \<lparr>bio_name = abo_name out, bio_version = abo_version out,
        bio_firstOccurrence = None\<rparr>) (abio_outputs io)\<rparr>"

definition build_web_url ::
  "'w env \<Rightarrow> Build \<Rightarrow> Job \<Rightarrow> string \<Rightarrow> string \<Rightarrow> string \<Rightarrow> ('w, Build) prog" where
  "build_web_url env build job teamName pipelineName jobName = do {
     p \<leftarrow> k_get_pipeline env (refKey (om_namespace (job_meta job)) (js_pipelineRef (job_spec job)));
     (case p of Inl _ \<Rightarrow> ret build | Inr pipelineObj \<Rightarrow> do {
        t \<leftarrow> k_get_team env (refKey (om_namespace (pipeline_meta pipelineObj)) (ps_teamRef (pipeline_spec pipelineObj)));
        (case t of Inl _ \<Rightarrow> ret build | Inr teamObj \<Rightarrow> do {
           i \<leftarrow> k_get_instance env (refKey (om_namespace (team_meta teamObj)) (ts_instanceRef (team_spec teamObj)));
           (case i of Inl _ \<Rightarrow> ret build | Inr instanceObj \<Rightarrow>
              (if base_url instanceObj \<noteq> '''' \<and> bt_buildName (build_status build) \<noteq> ''''
               then ret (map_build_status (\<lambda>s. s\<lparr>bt_webURL :=
                 trim_suffix (base_url instanceObj) ''/'' @ ''/teams/'' @ teamName @ ''/pipelines/''
                 @ pipelineName @ ''/jobs/'' @ jobName @ ''/builds/'' @ bt_buildName s\<rparr>) build)
               else ret build)) }) }) }"

definition observeBuild ::
  "'w env \<Rightarrow> Build \<Rightarrow> goclient \<Rightarrow> int \<Rightarrow> Job \<Rightarrow> string \<Rightarrow> string \<Rightarrow> string \<Rightarrow> ('w, Build \<times> Result option) prog" where
  "observeBuild env build cl buildID job teamName pipelineName jobName = do {
     r \<leftarrow> a_build env cl (itoa buildID);
     (if r = Inr None \<and> \<not> isTerminal (bt_concourseStatus (build_status build)) then do {
        build_event env build EventTypeWarning ''BuildVanished''
          (''Concourse build '' @ itoa buildID
           @ '' disappeared before completing (pipeline likely recreated); re-triggering'');
        let build = map_build_status (\<lambda>s. s\<lparr>bt_buildID := None, bt_buildName := '''',
          bt_concourseStatus := ''''\<rparr>) build;
        k_status_build env build;
        ret (build, Some (seconds 5)) }
      else do {
        let build = (case r of Inr (Some ab) \<Rightarrow> map_build_status (\<lambda>s. observe_fields s ab) build
          | _ \<Rightarrow> build);
        io \<leftarrow> a_build_resources env cl buildID;
        let build = (case io of Inr (Some bio) \<Rightarrow> map_build_status (\<lambda>s. map_build_io s bio) build
          | _ \<Rightarrow> build);
        build \<leftarrow> build_web_url env build job teamName pipelineName jobName;
        ret (build, None) }) }"

section \<open>Comments\<close>

definition setBuildComment :: "'w env \<Rightarrow> goclient \<Rightarrow> int \<Rightarrow> string \<Rightarrow> ('w, goerr option) prog" where
  "setBuildComment env cl buildID comment =
     (case l_client_http (e_libs env) cl of
        None \<Rightarrow> ret (Some ''no HTTP client available for setting build comment'')
      | Some httpClient \<Rightarrow>
          (case l_marshal_comment (e_libs env) comment of
             Inl err \<Rightarrow> ret (Some (''marshal comment body: '' @ err))
           | Inr body \<Rightarrow> do {
               let url = trim_suffix (l_client_url (e_libs env) cl) ''/'' @ ''/api/v1/builds/''
                 @ itoa buildID @ ''/comment'';
               (case l_new_request (e_libs env) url of
                  Some err \<Rightarrow> ret (Some (''build comment request: '' @ err))
                | None \<Rightarrow> do {
                    resp \<leftarrow> a_put_comment env httpClient url body;
                    (case resp of
                       Inl err \<Rightarrow> ret (Some (''set build comment: '' @ err))
                     | Inr resp \<Rightarrow>
                         (if hr_statusCode resp < 200 \<or> hr_statusCode resp \<ge> 300
                          then ret (Some (''set build comment: unexpected status '' @ hr_status resp
                            @ '': '' @ l_trim_space (e_libs env) (take 512 (hr_body resp))))
                          else ret None)) }) }))"

definition reconcileComment ::
  "'w env \<Rightarrow> Build \<Rightarrow> goclient \<Rightarrow> int \<Rightarrow> ('w, Build \<times> bool) prog" where
  "reconcileComment env build cl buildID =
     (let comment = bs_comment (build_spec build) in
      if comment = '''' \<or> comment = bt_comment (build_status build) then ret (build, False)
      else if buildID = 0 then ret (build, False)
      else do {
        r \<leftarrow> (case e_set_comment env of
           Some f \<Rightarrow> extern (\<lambda>r. AWrite (CustomBuildComment cl buildID comment r)) (f cl buildID comment)
         | None \<Rightarrow> setBuildComment env cl buildID comment);
        (case r of
           Some err \<Rightarrow> do {
             build_event env build EventTypeWarning ''CommentFailed''
               (''Failed to set comment on build '' @ itoa buildID @ '': '' @ err);
             ret (build_cond env build ConditionReady ConditionFalse ''CommentFailed'' err, True) }
         | None \<Rightarrow> do {
             let build = map_build_status (\<lambda>s. s\<lparr>bt_comment := comment\<rparr>) build;
             build_event env build EventTypeNormal ''CommentSet'' (''Set comment on build '' @ itoa buildID);
             ret (build, False) }) })"

section \<open>The rest of a reconcile\<close>

definition set_duration :: "Build \<Rightarrow> Build" where
  "set_duration build =
     (case (bt_startTime (build_status build), bt_endTime (build_status build)) of
        (Some s, Some e) \<Rightarrow> map_build_status (\<lambda>st. st\<lparr>bt_duration := Some (time_sub e s)\<rparr>) build
      | _ \<Rightarrow> build)"

definition set_complete :: "'w env \<Rightarrow> Build \<Rightarrow> Build" where
  "set_complete env build =
     (if isTerminal (bt_concourseStatus (build_status build))
      then build_cond env build ConditionComplete ConditionTrue
        (mapPhaseToReason (bt_concourseStatus (build_status build))) ''''
      else if bt_buildID (build_status build) \<noteq> None
      then build_cond env build ConditionComplete ConditionFalse ''InProgress'' ''''
      else build_cond env build ConditionComplete ConditionUnknown ''Pending'' ''build not yet triggered'')"

definition start_watch :: "goclient \<Rightarrow> int \<Rightarrow> ObjectKey \<Rightarrow> ('w, unit) prog" where
  "start_watch cl buildID key = do {
     m \<leftarrow> get_mem;
     let k = fst key @ ''/'' @ snd key;
     (if k \<in> mem_watchers m then ret ()
      else do {
        put_mem (m\<lparr>mem_watchers := insert k (mem_watchers m)\<rparr>);
        note_event (SpawnWatch cl buildID key) }) }"

definition finish_build ::
  "'w env \<Rightarrow> Build \<Rightarrow> goclient \<Rightarrow> int \<Rightarrow> bool \<Rightarrow> 'w reconcile" where
  "finish_build env build cl buildID commentFailed = do {
     let build = set_complete env (set_duration build);
     let build = map_build_status (\<lambda>s. s\<lparr>bt_observedGeneration := om_generation (build_meta build)\<rparr>) build;
     let build = (if commentFailed then build
       else build_cond env build ConditionReady ConditionTrue ''Tracked'' '''');
     (if bt_observedGeneration (build_status build) \<noteq> om_generation (build_meta build)
      then build_event env build EventTypeNormal ''BuildReconciled''
        (''Build '' @ om_name (build_meta build) @ '' is in phase '' @ bt_concourseStatus (build_status build))
      else ret ());
     u \<leftarrow> k_status_build env build;
     (case u of
        Inl err \<Rightarrow> ret (0, Some (''update status: '' @ kerr_text err))
      | Inr build \<Rightarrow>
          (if commentFailed then ret (seconds 30, None)
           else if isTerminal (bt_concourseStatus (build_status build)) then ret (0, None)
           else do {
             (if buildID \<noteq> 0 then start_watch cl buildID (key_of (build_meta build)) else ret ());
             ret (seconds 30, None) })) }"

definition set_build_owner :: "'w env \<Rightarrow> Build \<Rightarrow> Job \<Rightarrow> ('w, kerr + Build) prog" where
  "set_build_owner env build job =
     (if om_namespace (job_meta job) = om_namespace (build_meta build) then
        (case l_set_controller_reference (e_libs env) KJob (job_meta job) KBuild (build_meta build) of
           Inl err \<Rightarrow> ret (Inr build)
         | Inr refs \<Rightarrow>
             (if refs \<noteq> om_ownerReferences (build_meta build)
              then k_update_build env (build\<lparr>build_meta := (build_meta build)\<lparr>om_ownerReferences := refs\<rparr>\<rparr>)
              else ret (Inr build)))
      else ret (Inr build))"

definition track_build ::
  "'w env \<Rightarrow> Build \<Rightarrow> Job \<Rightarrow> goclient \<Rightarrow> string \<Rightarrow> string \<Rightarrow> 'w reconcile" where
  "track_build env build job cl teamName pipelineName = do {
     let jobName = ResolvedJobName job;
     (build, handled) \<leftarrow> ensureBuildTriggered env build cl teamName pipelineName jobName;
     (case handled of
        Some res \<Rightarrow> ret (res, None)
      | None \<Rightarrow> do {
          let buildID = of_i32 (ptrValue (bt_buildID (build_status build)));
          (if bs_canceled (build_spec build) \<and> buildID \<noteq> 0 then do {
             e \<leftarrow> a_abort_build env cl (itoa buildID);
             (case e of
                Some err \<Rightarrow> ret ()
              | None \<Rightarrow> build_event env build EventTypeNormal ''Canceling''
                  (''Requested abort of build '' @ itoa buildID)) }
           else ret ());
          (build, done) \<leftarrow> (if buildID \<noteq> 0
             then observeBuild env build cl buildID job teamName pipelineName jobName
             else ret (build, None));
          (case done of
             Some res \<Rightarrow> ret (res, None)
           | None \<Rightarrow> do {
               (build, commentFailed) \<leftarrow> (if buildID \<noteq> 0 then reconcileComment env build cl buildID
                  else ret (build, False));
               finish_build env build cl buildID commentFailed }) }) }"

definition resolve_and_track :: "'w env \<Rightarrow> Build \<Rightarrow> Job \<Rightarrow> 'w reconcile" where
  "resolve_and_track env build job = do {
     c \<leftarrow> resolveClientForJob env job;
     (case c of
        Inl err \<Rightarrow> do {
          k_status_build env (build_cond env build ConditionReady ConditionFalse ''ChainNotReady'' err);
          ret (seconds 30, None) }
      | Inr (cl, teamName, pipelineName) \<Rightarrow> track_build env build job cl teamName pipelineName) }"

definition reconcile_for_job :: "'w env \<Rightarrow> Build \<Rightarrow> Job \<Rightarrow> 'w reconcile" where
  "reconcile_for_job env build job = do {
     u \<leftarrow> set_build_owner env build job;
     (case u of
        Inl err \<Rightarrow> ret (0, Some (''set owner reference: '' @ kerr_text err))
      | Inr build \<Rightarrow> resolve_and_track env build job) }"

definition Build_Reconcile :: "'w env \<Rightarrow> ObjectKey \<Rightarrow> 'w reconcile" where
  "Build_Reconcile env req = do {
     r \<leftarrow> k_get_build env req;
     (case r of
        Inl err \<Rightarrow> ret (0, ignore_not_found err)
      | Inr build \<Rightarrow> do {
          (handled, err) \<leftarrow> handleBuildLifecycle env build;
          (if handled then ret (0, err)
           else
             (case bs_jobRef (build_spec build) of
                None \<Rightarrow> do {
                  k_status_build env (build_cond env build ConditionReady ConditionFalse ''NoJobRef''
                    ''jobRef is required'');
                  ret (0, None) }
              | Some jobRef \<Rightarrow> do {
                  j \<leftarrow> k_get_job env (refKey (om_namespace (build_meta build)) jobRef);
                  (case j of
                     Inl err \<Rightarrow> ret (0, ignore_not_found err)
                   | Inr job \<Rightarrow> reconcile_for_job env build job) })) }) }"

section \<open>The watcher\<close>

text \<open>
  The goroutine a reconcile starts. Its loop runs until the stream ends, fails or reports a
  terminal status, which the outside decides; \<open>fuel\<close> bounds the number of events, and
  \<open>None\<close> is ``still waiting''. Its context is \<open>context.Background()\<close>, which is never done.
\<close>

definition enqueue_build :: "'w env \<Rightarrow> ObjectKey \<Rightarrow> ('w, unit) prog" where
  "enqueue_build env key = (if e_event_ch env then note_event (Enqueue key) else ret ())"

primrec watch_loop :: "nat \<Rightarrow> 'w env \<Rightarrow> int \<Rightarrow> ObjectKey \<Rightarrow> ('w, unit option) prog" where
  "watch_loop 0 env stream key = ret None"
| "watch_loop (Suc fuel) env stream key = do {
     ev \<leftarrow> a_next_event env stream;
     (case ev of
        Inl err \<Rightarrow> do { enqueue_build env key; ret (Some ()) }
      | Inr e \<Rightarrow>
          (if (case e of StatusEvent s \<Rightarrow> isTerminal s | OtherEvent \<Rightarrow> False)
           then do { enqueue_build env key; ret (Some ()) }
           else watch_loop fuel env stream key)) }"

definition watchBuildEvents ::
  "nat \<Rightarrow> 'w env \<Rightarrow> goclient \<Rightarrow> int \<Rightarrow> ObjectKey \<Rightarrow> ('w, unit option) prog" where
  "watchBuildEvents fuel env cl buildID key = do {
     r \<leftarrow> a_build_events env cl (itoa buildID);
     (case r of
        Inr (Some stream) \<Rightarrow> watch_loop fuel env stream key
      | _ \<Rightarrow> do { enqueue_build env key; ret (Some ()) }) }"

definition end_watch :: "ObjectKey \<Rightarrow> ('w, unit) prog" where
  "end_watch key = do {
     m \<leftarrow> get_mem;
     put_mem (m\<lparr>mem_watchers := mem_watchers m - {fst key @ ''/'' @ snd key}\<rparr>) }"

end
