(* ===== verification/Build_Proofs.thy ===== *)
theory Build_Proofs
  imports Build_Controller
begin

text \<open>
  What the Build reconciler guarantees: when it acts on Concourse and how often, that it
  never loses track of a build it created, what a finished reconcile leaves in the status,
  and that every watcher ends with one notification and no build is watched twice.
\<close>

section \<open>What each step may do\<close>

definition is_trigger :: "io \<Rightarrow> bool" where
  "is_trigger e = (case e of
     AWrite (CreateJobBuild cl tn pn jn r) \<Rightarrow> True
   | AWrite (RerunJobBuild cl tn pn jn bn r) \<Rightarrow> True
   | _ \<Rightarrow> False)"

lemma handleBuildLifecycle_emits:
  "(\<And>b r. A (KWrite (StatusBuild b r))) \<Longrightarrow> emits A (handleBuildLifecycle env build)"
  unfolding handleBuildLifecycle_def by (intro emits_intros)

lemma set_build_owner_emits:
  "(\<And>b r. A (KWrite (UpdateBuild b r))) \<Longrightarrow> emits A (set_build_owner env build job)"
  unfolding set_build_owner_def by (intro emits_intros)

lemma persist_body_emits:
  "(\<And>k r. A (KRead (GetBuild k r))) \<Longrightarrow> (\<And>b r. A (KWrite (StatusBuild b r)))
   \<Longrightarrow> emits A (persist_body env build)"
  unfolding persist_body_def by (intro emits_intros)

lemma persistBuildTracking_emits:
  "retry_law env \<Longrightarrow> (\<And>k r. A (KRead (GetBuild k r))) \<Longrightarrow> (\<And>b r. A (KWrite (StatusBuild b r)))
   \<Longrightarrow> emits A (persistBuildTracking env build)"
  unfolding persistBuildTracking_def retry_law_def
  by (auto intro!: attempts_emits persist_body_emits)

lemma build_web_url_emits: "emits is_kread (build_web_url env build job tn pn jn)"
  unfolding build_web_url_def by (intro emits_intros) (simp_all add: is_kread_def)

lemma observeBuild_emits:
  "(\<And>k. A (KRead k)) \<Longrightarrow> (\<And>r. A (ARead r)) \<Longrightarrow> (\<And>k key t r m. A (Event k key t r m)) \<Longrightarrow>
   (\<And>b r. A (KWrite (StatusBuild b r))) \<Longrightarrow> emits A (observeBuild env build cl i job tn pn jn)"
  unfolding observeBuild_def
  by (intro emits_intros emits_of_reads [OF build_web_url_emits])

lemma setBuildComment_emits:
  "(\<And>h u b r. A (AWrite (PutBuildComment h u b r))) \<Longrightarrow> emits A (setBuildComment env cl i comment)"
  unfolding setBuildComment_def by (intro emits_intros)

lemma reconcileComment_emits:
  "(\<And>h u b r. A (AWrite (PutBuildComment h u b r))) \<Longrightarrow>
   (\<And>c i s r. A (AWrite (CustomBuildComment c i s r))) \<Longrightarrow>
   (\<And>k key t r m. A (Event k key t r m)) \<Longrightarrow> emits A (reconcileComment env build cl i)"
  unfolding reconcileComment_def by (intro emits_intros setBuildComment_emits)

lemma start_watch_emits:
  "A (SpawnWatch cl i key) \<Longrightarrow> emits A (start_watch cl i key)"
  unfolding start_watch_def by (intro emits_intros)

lemma finish_build_emits:
  "(\<And>b r. A (KWrite (StatusBuild b r))) \<Longrightarrow> (\<And>k key t r m. A (Event k key t r m)) \<Longrightarrow>
   (\<And>c i k. A (SpawnWatch c i k)) \<Longrightarrow> emits A (finish_build env build cl i failed)"
  unfolding finish_build_def by (intro emits_intros start_watch_emits)

lemmas build_emits = handleBuildLifecycle_emits set_build_owner_emits observeBuild_emits
  reconcileComment_emits finish_build_emits persistBuildTracking_emits

lemma ensure_at_most_one:
  assumes "retry_law env"
  shows "at_most 1 is_trigger (ensureBuildTriggered env build cl tn pn jn)"
  unfolding ensureBuildTriggered_def trigger_build_def
  by (intro at_most_intros at_most_first emits_intros persistBuildTracking_emits [OF assms])
    (auto simp: is_trigger_def)

lemma ensure_known:
  "bt_buildID (build_status build) \<noteq> None \<or> bs_buildID (build_spec build) \<noteq> None
   \<Longrightarrow> emits is_event (ensureBuildTriggered env build cl tn pn jn)"
  unfolding ensureBuildTriggered_def
  by (intro emits_intros) (auto simp: is_event_def)

section \<open>Triggering at most once\<close>

lemma track_build_at_most_one:
  assumes "retry_law env"
  shows "at_most 1 is_trigger (track_build env build job cl tn pn)"
  unfolding track_build_def
  by (intro at_most_intros at_most_first ensure_at_most_one [OF assms] emits_intros build_emits)
    (simp_all add: is_trigger_def)

lemma resolve_and_track_at_most_one:
  assumes "retry_law env"
  shows "at_most 1 is_trigger (resolve_and_track env build job)"
  unfolding resolve_and_track_def
  by (intro at_most_after at_most_intros track_build_at_most_one [OF assms] emits_intros at_most_silent)
    (simp_all add: is_trigger_def)

lemma Build_Reconcile_at_most_one:
  assumes "retry_law env"
  shows "at_most 1 is_trigger (Build_Reconcile env req)"
  unfolding Build_Reconcile_def
    reconcile_for_job_def
  by (intro at_most_after at_most_intros resolve_and_track_at_most_one [OF assms] emits_intros
      handleBuildLifecycle_emits set_build_owner_emits at_most_silent)
    (simp_all add: is_trigger_def)

text \<open>The Build that the reconcile works on after the owner reference is set.\<close>

definition worked_on :: "ObjectKey \<Rightarrow> Build \<Rightarrow> io list \<Rightarrow> bool" where
  "worked_on req b es \<longleftrightarrow> (\<exists>b0. KRead (GetBuild req (Inr b0)) \<in> set es \<and>
     \<not> bs_suspend (build_spec b0) \<and> om_deletionTimestamp (build_meta b0) = None \<and>
     \<not> isTerminal (bt_concourseStatus (build_status b0)) \<and> bs_jobRef (build_spec b0) \<noteq> None \<and>
     (b = b0 \<or> (\<exists>x. KWrite (UpdateBuild x (Inr b)) \<in> set es)))"

lemma lifecycle_outcome:
  "outcome (handleBuildLifecycle env b) (\<lambda>r es. list_all (\<lambda>e. \<exists>x y. e = KWrite (StatusBuild x y)) es \<and>
     (\<not> fst r \<longrightarrow> es = [] \<and> \<not> bs_suspend (build_spec b) \<and> om_deletionTimestamp (build_meta b) = None \<and>
        \<not> isTerminal (bt_concourseStatus (build_status b))))"
  unfolding handleBuildLifecycle_def by (intro outcome_intros) auto

lemma owner_outcome:
  "outcome (set_build_owner env b job) (\<lambda>r es. list_all (\<lambda>e. \<exists>x y. e = KWrite (UpdateBuild x y)) es \<and>
     (\<forall>b'. r = Inr b' \<longrightarrow> b' = b \<and> es = [] \<or> (\<exists>x. es = [KWrite (UpdateBuild x (Inr b'))])))"
  unfolding set_build_owner_def by (intro outcome_intros) auto

text \<open>A trigger that suits the Build: only for one that tracks and adopts none, and of the right kind.\<close>

definition trigger_of :: "Build \<Rightarrow> io \<Rightarrow> bool" where
  "trigger_of b e \<longleftrightarrow> (is_trigger e \<longrightarrow>
     bt_buildID (build_status b) = None \<and> bs_buildID (build_spec b) = None \<and>
     (case e of
        AWrite (CreateJobBuild cl tn pn jn r) \<Rightarrow> bs_rerunOf (build_spec b) = ''''
      | AWrite (RerunJobBuild cl tn pn jn bn r) \<Rightarrow> bs_rerunOf (build_spec b) = bn \<and> bn \<noteq> ''''
      | _ \<Rightarrow> True))"

lemma track_build_trigger_of:
  assumes "retry_law env"
  shows "emits (trigger_of b) (track_build env b job cl tn pn)"
  unfolding track_build_def ensureBuildTriggered_def trigger_build_def
  by (intro emits_intros build_emits assms) (auto simp: trigger_of_def is_trigger_def)

text \<open>
  What the tracking part does for the Build it works on is what the whole reconcile does for
  it. \<open>F b e\<close> says that the entry \<open>e\<close> suits the Build \<open>b\<close>.
\<close>

lemma resolve_and_track_suits:
  assumes track: "\<And>cl tn pn. emits (F b) (track_build env b job cl tn pn)"
    and k: "\<And>x. F b (KRead x)" "\<And>x. F b (KWrite x)"
  shows "emits (F b) (resolve_and_track env b job)"
  unfolding resolve_and_track_def by (intro emits_intros track k)

lemma reconcile_for_job_suits:
  assumes track: "\<And>b cl tn pn. emits (F b) (track_build env b job cl tn pn)"
    and k: "\<And>b x. F b (KRead x)" "\<And>b x. F b (KWrite x)"
  shows "outcome (reconcile_for_job env b job)
      (\<lambda>_ es. \<exists>b'. (b' = b \<or> (\<exists>x. KWrite (UpdateBuild x (Inr b')) \<in> set es)) \<and> list_all (F b') es)"
  unfolding reconcile_for_job_def
proof (rule outcome_bind, rule outcome_mono [OF owner_outcome])
  fix u :: "kerr + Build" and es
  assume u: "list_all (\<lambda>e. \<exists>x y. e = KWrite (UpdateBuild x y)) es \<and>
    (\<forall>b'. u = Inr b' \<longrightarrow> b' = b \<and> es = [] \<or> (\<exists>x. es = [KWrite (UpdateBuild x (Inr b'))]))"
  then have quiet: "list_all (F b') es" for b'
    by (auto simp: list_all_iff k)
  show "outcome (case u of Inl err \<Rightarrow> ret (0, Some (''set owner reference: '' @ kerr_text err))
      | Inr build \<Rightarrow> resolve_and_track env build job)
    (\<lambda>_ es'. \<exists>b'. (b' = b \<or> (\<exists>x. KWrite (UpdateBuild x (Inr b')) \<in> set (es @ es'))) \<and>
      list_all (F b') (es @ es'))"
  proof (cases u)
    case (Inl err)
    then show ?thesis using quiet by (auto intro!: outcome_return)
  next
    case (Inr b')
    have "emits (F b') (resolve_and_track env b' job)"
      by (intro resolve_and_track_suits track k)
    from emits_outcome [OF this]
    show ?thesis unfolding Inr sum.case
    proof (rule outcome_mono)
      fix es'
      assume "list_all (F b') es'"
      then show "\<exists>b''. (b'' = b \<or> (\<exists>x. KWrite (UpdateBuild x (Inr b'')) \<in> set (es @ es'))) \<and>
          list_all (F b'') (es @ es')"
        using u Inr quiet [of b'] by (intro exI [of _ b']) auto
    qed
  qed
qed

lemma worked_on_read:
  "KRead (GetBuild req (Inr b0)) \<in> set es \<Longrightarrow> \<not> bs_suspend (build_spec b0) \<Longrightarrow>
   om_deletionTimestamp (build_meta b0) = None \<Longrightarrow> \<not> isTerminal (bt_concourseStatus (build_status b0)) \<Longrightarrow>
   bs_jobRef (build_spec b0) = Some jr \<Longrightarrow> b = b0 \<or> (\<exists>x. KWrite (UpdateBuild x (Inr b)) \<in> set es)
   \<Longrightarrow> worked_on req b es"
  by (auto simp: worked_on_def)

lemma Build_Reconcile_suits:
  assumes track: "\<And>b job cl tn pn. emits (F b) (track_build env b job cl tn pn)"
    and k: "\<And>b x. F b (KRead x)" "\<And>b x. F b (KWrite x)"
    and A: "\<And>x. \<not> A (KRead x)" "\<And>x. \<not> A (KWrite x)"
  shows "outcome (Build_Reconcile env req) (\<lambda>_ es.
    list_ex A es \<longrightarrow> (\<exists>b. worked_on req b es \<and> list_all (F b) es))"
proof -
  have quiet: "list_all (\<lambda>e. \<exists>x y. e = KWrite (StatusBuild x y)) es \<Longrightarrow> \<not> list_ex A es" for es
    by (auto simp: list_all_iff list_ex_iff A)
  show ?thesis
    unfolding Build_Reconcile_def
    apply (intro outcome_intros)
      apply (simp add: A)
     apply (rule outcome_mono [OF lifecycle_outcome])
     apply (intro outcome_intros outcome_mono [OF reconcile_for_job_suits [where F = F, OF track k]])
         apply (auto simp: A k dest: quiet)
     apply (rule exI, rule conjI, rule worked_on_read, auto)+
    done
qed

lemma Build_Reconcile_trigger:
  assumes law: "retry_law env"
  shows "outcome (Build_Reconcile env req) (\<lambda>_ es.
    list_ex is_trigger es \<longrightarrow> (\<exists>b. worked_on req b es \<and> list_all (trigger_of b) es))"
  by (rule Build_Reconcile_suits) (simp_all add: track_build_trigger_of [OF law] trigger_of_def is_trigger_def)


lemmas build_eval = Build_Reconcile_def reconcile_for_job_def resolve_and_track_def
  handleBuildLifecycle_def isTerminal_def set_build_owner_def track_build_def trigger_build_def
  track_created_def ensureBuildTriggered_def persistBuildTracking_def persist_body_def
  observeBuild_def observe_fields_def map_build_io_def build_web_url_def base_url_def
  reconcileComment_def setBuildComment_def finish_build_def set_complete_def set_duration_def
  start_watch_def build_cond_def recordEvent_def refKey_def ResolveNamespace_def resolver_eval
  ResolvedTeamName_def ResolvedPipelineName_def ResolvedJobName_def int32Ptr_def ptrValue_def
  key_of_def

abbreviation demo_req :: "string \<Rightarrow> ObjectKey" where
  "demo_req n \<equiv> (''ci'', n)"

definition demo_trigger :: io where
  "demo_trigger = AWrite (CreateJobBuild demo_client ''team'' ''pipeline'' ''job'' (Inr demo_atc_build))"

lemma demo_build_run:
  "demo_trigger \<in> set (emitted (Build_Reconcile demo_env (demo_req ''build'')) (demo_start ()))"
  by (simp add: demo_trigger_def demo_client_def eval_simps build_eval eval_nat_numeral cong: eval_cong)

lemma demo_env_retry_law: "retry_law demo_env"
  by (auto simp: retry_law_def)


section \<open>Behind the gate\<close>

lemma track_build_total: "retry_law env \<Longrightarrow> outcome (track_build env build job cl tn pn) (\<lambda>_ _. True)"
  by (rule total_outcome [OF track_build_trigger_of])

lemma resolve_and_track_guarded:
  "retry_law env \<Longrightarrow> guarded [] is_awrite (saw_pipeline env job) (resolve_and_track env build job)"
  unfolding resolve_and_track_def
  by (rule job_chain.gate) (auto intro!: emits_intros track_build_total split: prod.split simp: is_awrite_def)

definition saw_job_chain :: "'w env \<Rightarrow> ObjectKey \<Rightarrow> io list \<Rightarrow> bool" where
  "saw_job_chain env req es \<longleftrightarrow> (\<exists>build jobRef job.
     KRead (GetBuild req (Inr build)) \<in> set es \<and> bs_jobRef (build_spec build) = Some jobRef \<and>
     KRead (GetJob (refKey (om_namespace (build_meta build)) jobRef) (Inr job)) \<in> set es \<and>
     saw_pipeline env job es)"

lemma reconcile_for_job_guarded:
  "retry_law env \<Longrightarrow> guarded [] is_awrite (saw_pipeline env job) (reconcile_for_job env build job)"
  unfolding reconcile_for_job_def
  by (intro guarded_bind guarded_intros resolve_and_track_guarded persistent_saw set_build_owner_emits)
    (simp_all add: is_awrite_def)

lemma saw_job_chainI:
  "saw_pipeline env job es \<Longrightarrow> bs_jobRef (build_spec build) = Some jobRef \<Longrightarrow>
   saw_job_chain env req (es @ [KRead (GetJob (refKey (om_namespace (build_meta build)) jobRef) (Inr job)),
     KRead (GetBuild req (Inr build))])"
  using persistent_append(2) [OF persistent_saw(3)] unfolding saw_job_chain_def
  by (intro exI [of _ build] exI [of _ jobRef] exI [of _ job]) simp

lemma persistent_saw_job_chain: "persistent (saw_job_chain env req)"
  unfolding persistent_def saw_job_chain_def
  using persistent_saw(3) [unfolded persistent_def] by blast

lemma Build_Reconcile_guarded:
  assumes "retry_law env"
  shows "guarded [] is_awrite (saw_job_chain env req) (Build_Reconcile env req)"
  unfolding Build_Reconcile_def
  by (intro guarded_extern guarded_intros persistent_saw_job_chain
      guarded_bind [OF persistent_saw_job_chain handleBuildLifecycle_emits]
      guarded_weaken [OF reconcile_for_job_guarded [OF assms]])
    (auto simp: is_awrite_def intro: saw_job_chainI)

text \<open>C26: The Build reconciler changes Concourse only behind a ready chain: a reconcile that
  writes anything to Concourse (a trigger, an abort, a comment) has read the Build, the Job its
  \<open>jobRef\<close> names, and for that Job a Pipeline, a Team and an Instance that are all Ready, in a
  namespace the Instance allows.\<close>

theorem build_writes_behind_ready_chain:
  assumes "retry_law env"
    and "e \<in> set (emitted (Build_Reconcile env req) s)" and "is_awrite e"
  shows "\<exists>build jobRef job.
    KRead (GetBuild req (Inr build)) \<in> set (emitted (Build_Reconcile env req) s) \<and>
    bs_jobRef (build_spec build) = Some jobRef \<and>
    KRead (GetJob (refKey (om_namespace (build_meta build)) jobRef) (Inr job))
      \<in> set (emitted (Build_Reconcile env req) s) \<and>
    saw_pipeline env job (emitted (Build_Reconcile env req) s)"
  using guardedD [OF Build_Reconcile_guarded [OF assms(1)] assms(2,3)]
  unfolding saw_job_chain_def .

theorem build_writes_behind_ready_chain_witness:
  "\<exists>job :: Job. saw_pipeline (demo_env :: unit env) job (emitted (Build_Reconcile demo_env (demo_req ''build''))
     (demo_start ()))"
proof -
  have "is_awrite demo_trigger" by (simp add: demo_trigger_def is_awrite_def)
  from build_writes_behind_ready_chain [OF demo_env_retry_law demo_build_run this]
  show ?thesis by blast
qed

section \<open>At rest\<close>

text \<open>A Build that is suspended, being deleted or finished is left alone. The whole reconcile
  of a suspended Build is to read it and to write back its status with only the condition
  Ready set to False with reason Suspended; of one that is deleted or terminal, to read it.
  Concourse is not contacted, no Secret is read and the process memory stays as it was.\<close>

lemma build_at_rest:
  assumes "x_get_build (e_k8s env) req (world s) = (Inr b, w)"
    and "bs_suspend (build_spec b) \<or> om_deletionTimestamp (build_meta b) \<noteq> None \<or>
      isTerminal (bt_concourseStatus (build_status b))"
  shows "mem (final_of (Build_Reconcile env req) s) = mem s \<and>
    (if bs_suspend (build_spec b)
     then \<exists>r. emitted (Build_Reconcile env req) s = [KRead (GetBuild req (Inr b)),
        KWrite (StatusBuild (build_cond env b ConditionReady ConditionFalse ''Suspended''
          ''Reconciliation is suspended'') r)]
     else emitted (Build_Reconcile env req) s = [KRead (GetBuild req (Inr b))] \<and>
        result_of (Build_Reconcile env req) s = (0, None))"
  using assms
  by (cases "bs_suspend (build_spec b)"; cases "om_deletionTimestamp (build_meta b)")
    (simp_all add: Build_Reconcile_def handleBuildLifecycle_def run_simps Let_def
      split: prod.split sum.split cong: eval_cong)

definition demo_done :: Build where
  "demo_done = demo_build\<lparr>build_status := demo_build_status\<lparr>bt_concourseStatus := ''succeeded''\<rparr>\<rparr>"

abbreviation with_build :: "Build \<Rightarrow> 'w env \<Rightarrow> 'w env" where
  "with_build b env \<equiv> env\<lparr>e_k8s := (e_k8s env)\<lparr>x_get_build := (\<lambda>_ w. (Inr b, w))\<rparr>\<rparr>"

lemma build_at_rest_example:
  "emitted (Build_Reconcile (with_build demo_done demo_env) (demo_req ''build'')) (demo_start ())
     = [KRead (GetBuild (demo_req ''build'') (Inr demo_done))]"
  using build_at_rest [of "with_build demo_done demo_env" "demo_req ''build''" "demo_start ()" demo_done "()"]
  by (simp add: demo_done_def isTerminal_def)

section \<open>No build is lost\<close>

text \<open>
  The bookkeeping over a history of reconciles of one Build. \<open>id_view c\<close> follows the build ID
  \<open>c\<close> that the API server has recorded; it stops at an answer that contradicts it (a stale
  read, another writer). \<open>tally\<close> counts on the side the builds created, less those that
  Concourse said it no longer has.
\<close>

definition id_view :: "i32 option \<Rightarrow> io \<Rightarrow> i32 option option" where
  "id_view c e = (case e of
     KRead (GetBuild k (Inr b)) \<Rightarrow> (if bt_buildID (build_status b) = c then Some c else None)
   | KWrite (UpdateBuild x (Inr b)) \<Rightarrow> (if bt_buildID (build_status b) = c then Some c else None)
   | KWrite (StatusBuild x (Inr b)) \<Rightarrow>
       (if bt_buildID (build_status b) = bt_buildID (build_status x)
        then Some (bt_buildID (build_status x)) else None)
   | _ \<Rightarrow> Some c)"

definition is_created :: "io \<Rightarrow> bool" where
  "is_created e = (case e of
     AWrite (CreateJobBuild cl tn pn jn (Inr b)) \<Rightarrow> True
   | AWrite (RerunJobBuild cl tn pn jn bn (Inr b)) \<Rightarrow> True
   | _ \<Rightarrow> False)"

definition is_vanished :: "io \<Rightarrow> bool" where
  "is_vanished e = (case e of ARead (ReadBuild cl i (Inr None)) \<Rightarrow> True | _ \<Rightarrow> False)"

fun tally :: "i32 option \<times> int \<Rightarrow> io \<Rightarrow> (i32 option \<times> int) option" where
  "tally (c, g) e = (case id_view c e of None \<Rightarrow> None
     | Some c' \<Rightarrow> Some (c', g + (if is_created e then 1 else 0) - (if is_vanished e then 1 else 0)))"

lemma run_tally:
  "run_mon id_view c es = Some c' \<Longrightarrow>
   run_mon tally (c, g) es = Some (c', g + int (length (filter is_created es)) - int (length (filter is_vanished es)))"
proof (induction es arbitrary: c g)
  case (Cons e es)
  then obtain d where d: "id_view c e = Some d" "run_mon id_view d es = Some c'"
    by (auto split: option.splits)
  have "\<not> (is_created e \<and> is_vanished e)"
    by (simp add: is_created_def is_vanished_def split: io.splits)
  with d Cons.IH [OF d(2)] show ?case by auto
qed simp

definition allowance :: "i32 option \<Rightarrow> int" where
  "allowance c = (if c = None then 0 else 1)"

text \<open>Before a trigger the local copy agrees with the server; after it, it tracks a build.\<close>

definition agrees :: "Build \<Rightarrow> i32 option \<times> int \<Rightarrow> bool" where
  "agrees b q \<longleftrightarrow> bt_buildID (build_status b) = fst q \<and> snd q \<le> allowance (fst q)"

definition tracks :: "Build \<Rightarrow> i32 option \<times> int \<Rightarrow> bool" where
  "tracks b q \<longleftrightarrow> bt_buildID (build_status b) \<noteq> None \<and> snd q \<le> allowance (fst q)"

definition balanced :: "int \<Rightarrow> i32 option \<times> int \<Rightarrow> bool" where
  "balanced lost q \<longleftrightarrow> snd q \<le> allowance (fst q) + lost"

lemma tally_neutral:
  "is_event e \<or> (\<exists>x. e = AWrite x \<and> \<not> is_created e) \<or> (\<exists>x. e = ARead x \<and> \<not> is_vanished e) \<or>
   (\<exists>x. e = KRead x \<and> (\<forall>k r. x \<noteq> GetBuild k r)) \<or> (\<exists>c i k. e = SpawnWatch c i k) \<Longrightarrow> tally q e = Some q"
  by (cases q) (auto simp: id_view_def is_created_def is_vanished_def is_event_def split: io.splits k_read.splits)

lemma build_cond_status [simp]:
  "bt_buildID (build_status (build_cond env b t st r m)) = bt_buildID (build_status b)"
  "build_meta (build_cond env b t st r m) = build_meta b"
  "build_spec (build_cond env b t st r m) = build_spec b"
  by (simp_all add: build_cond_def)

lemma lifecycle_tally: "monitored tally (agrees b) (handleBuildLifecycle env b) (\<lambda>_. agrees b)"
  unfolding handleBuildLifecycle_def
  by (intro monitored_intros monitored_bind [where M = "\<lambda>_. agrees b"])
    (auto simp: agrees_def id_view_def is_created_def is_vanished_def split: if_splits sum.splits)

lemma owner_tally:
  "monitored tally (agrees b) (set_build_owner env b job)
     (\<lambda>r q. balanced 0 q \<and> (\<forall>b'. r = Inr b' \<longrightarrow> agrees b' q))"
  unfolding set_build_owner_def
  by (intro monitored_intros)
    (auto simp: agrees_def balanced_def id_view_def is_created_def is_vanished_def split: if_splits sum.splits)

lemma monitored_attempts:
  assumes body: "monitored mon I body (\<lambda>r q. case r of Inl _ \<Rightarrow> I q | Inr b \<Rightarrow> J b q)"
  shows "monitored mon I (attempts n body) (\<lambda>r q. case r of Inl _ \<Rightarrow> I q | Inr b \<Rightarrow> J b q)"
proof (induction n)
  case 0
  then show ?case using body by simp
next
  case (Suc n)
  have again: "monitored mon (\<lambda>q. case r of Inl _ \<Rightarrow> I q | Inr b \<Rightarrow> J b q)
      (case r of Inl (KConflict m) \<Rightarrow> attempts n body | _ \<Rightarrow> ret r)
      (\<lambda>r q. case r of Inl _ \<Rightarrow> I q | Inr b \<Rightarrow> J b q)" for r
  proof (cases r)
    case (Inl e)
    then show ?thesis using Suc by (cases e) (simp_all add: monitored_return)
  qed (simp add: monitored_return)
  show ?case unfolding attempts.simps by (rule monitored_bind [OF body again])
qed

definition pending :: "Build \<Rightarrow> i32 option \<times> int \<Rightarrow> bool" where
  "pending b q \<longleftrightarrow> bt_buildID (build_status b) \<noteq> None \<and> snd q \<le> 1"

lemma persist_body_tally:
  "monitored tally (pending b) (persist_body env b)
     (\<lambda>r q. case r of Inl _ \<Rightarrow> pending b q | Inr b' \<Rightarrow> tracks b' q)"
  unfolding persist_body_def
  apply (rule monitored_bind [where M = "\<lambda>r q. pending b q \<and> (case r of Inl _ \<Rightarrow> True
      | Inr l \<Rightarrow> bt_buildID (build_status l) = fst q)"])
   apply (intro monitored_intros)
   apply (auto simp: pending_def id_view_def is_created_def is_vanished_def split: if_splits sum.splits)[1]
  apply (intro monitored_intros monitored_bind [where M = "\<lambda>r q. pending b q \<and> (case r of Inl _ \<Rightarrow> True
      | Inr l \<Rightarrow> bt_buildID (build_status l) \<noteq> None \<and> fst q \<noteq> None)"])
      apply (auto simp: pending_def tracks_def allowance_def id_view_def is_created_def is_vanished_def
      split: if_splits sum.splits)
   apply metis+
  done

lemma persist_tally:
  "retry_law env \<Longrightarrow> monitored tally (pending b) (persistBuildTracking env b)
     (\<lambda>r q. case r of Inl _ \<Rightarrow> pending b q | Inr b' \<Rightarrow> tracks b' q)"
  unfolding persistBuildTracking_def retry_law_def
  by (auto intro!: monitored_attempts persist_body_tally)

lemma track_created_id [simp]: "bt_buildID (build_status (track_created b ab)) \<noteq> None"
  by (simp add: track_created_def int32Ptr_def)

lemma trigger_tally:
  "monitored tally (\<lambda>q. fst q = None \<and> snd q \<le> 0) (trigger_build env b cl tn pn jn)
     (\<lambda>r q. fst q = None \<and> (case r of Inl _ \<Rightarrow> snd q \<le> 0 | Inr _ \<Rightarrow> snd q \<le> 1))"
  unfolding trigger_build_def
  by (intro monitored_intros)
    (auto simp: id_view_def is_created_def is_vanished_def split: sum.splits)

lemma event_neutral: "emits (\<lambda>e. \<forall>q. tally q e = Some q) (recordEvent env kind m t r msg)"
  by (intro emits_intros) (simp add: tally_neutral is_event_def)

lemma failed_tally:
  assumes "bt_buildID (build_status b) = None"
  shows "monitored tally (\<lambda>q. fst q = None \<and> snd q \<le> 0) (k_status_build env b) (\<lambda>_. balanced 0)"
  using assms
  by (intro monitored_intros)
    (auto simp: balanced_def allowance_def id_view_def is_created_def is_vanished_def split: if_splits sum.splits)

lemma ensure_tally:
  assumes "retry_law env"
  shows "monitored tally (agrees b) (ensureBuildTriggered env b cl tn pn jn)
    (\<lambda>(b', h) q. case h of None \<Rightarrow> tracks b' q
      | Some res \<Rightarrow> balanced (if res = seconds 2 then 1 else 0) q)"
proof (cases "bt_buildID (build_status b)")
  case (Some i)
  then show ?thesis unfolding ensureBuildTriggered_def
    by (auto simp: agrees_def tracks_def intro!: monitored_return)
next
  case None
  have start: "agrees b q \<Longrightarrow> fst q = None \<and> snd q \<le> 0" for q
    using None by (auto simp: agrees_def allowance_def split: if_splits)
  show ?thesis
    unfolding ensureBuildTriggered_def None option.case
  proof (rule monitored_case(2))
    fix bid
    show "monitored tally (agrees b) (do {
        let build = map_build_status (\<lambda>s. s\<lparr>bt_buildID := Some bid\<rparr>) b;
        build_event env build EventTypeNormal ''Adopted''
          (''Adopted existing Concourse build '' @ itoa (of_i32 bid));
        ret (build, None) })
      (\<lambda>(b', h) q. case h of None \<Rightarrow> tracks b' q
        | Some res \<Rightarrow> balanced (if res = seconds 2 then 1 else 0) q)"
      unfolding Let_def
      by (intro monitored_bind_neutral [OF event_neutral] monitored_return)
        (simp add: agrees_def tracks_def)
  next
    show "monitored tally (agrees b) (State_Monad.bind (trigger_build env b cl tn pn jn) (\<lambda>r.
        case r of Inl err \<Rightarrow> do {
          build_event env b EventTypeWarning ''TriggerFailed'' (''Failed to trigger Concourse build: '' @ err);
          let build = build_cond env b ConditionReady ConditionFalse ''TriggerFailed'' err;
          k_status_build env build;
          ret (build, Some (seconds 30)) }
        | Inr ab \<Rightarrow> do {
          let build = track_created b ab;
          build_event env build EventTypeNormal ''Triggered'' (msg build ab);
          p \<leftarrow> persistBuildTracking env build;
          (case p of Inl err \<Rightarrow> ret (build, Some (seconds 2)) | Inr build \<Rightarrow> ret (build, None)) }))
      (\<lambda>(b', h) q. case h of None \<Rightarrow> tracks b' q
        | Some res \<Rightarrow> balanced (if res = seconds 2 then 1 else 0) q)" for msg
      apply (rule monitored_pre [OF monitored_bind [OF trigger_tally] start])
       apply (rule monitored_case(1))
        apply (simp only: Let_def sum.case)
        apply (intro monitored_bind_neutral [OF event_neutral])
        apply (rule monitored_pre [OF monitored_bind [OF failed_tally]])
          apply (simp add: None)
         apply (rule monitored_return, simp add: balanced_def seconds_def)
        apply simp
       apply (simp only: Let_def sum.case)
       apply (intro monitored_bind_neutral [OF event_neutral])
       apply (rule monitored_pre [OF monitored_bind [OF persist_tally [OF assms]]])
        apply (intro monitored_intros)
         apply (auto simp: pending_def balanced_def allowance_def split: sum.splits)
      done
  qed
qed

text \<open>Observing: a build that is not found leaves room for one more.\<close>

definition observed :: "Build \<times> Result option \<Rightarrow> i32 option \<times> int \<Rightarrow> bool" where
  "observed r q = (case snd r of None \<Rightarrow> tracks (fst r) q | Some res \<Rightarrow> balanced 0 q)"

lemma web_url_id:
  "outcome (build_web_url env b job tn pn jn) (\<lambda>r es. bt_buildID (build_status r) = bt_buildID (build_status b))"
  unfolding build_web_url_def by (intro outcome_intros) simp_all

lemma web_url_tally: "monitored tally (tracks b) (build_web_url env b job tn pn jn) tracks"
proof -
  have neutral: "emits (\<lambda>e. \<forall>q. tally q e = Some q) (build_web_url env b job tn pn jn)"
    unfolding build_web_url_def by (intro emits_intros) (simp_all add: tally_neutral)
  have "outcome (build_web_url env b job tn pn jn) (\<lambda>r es. list_all (\<lambda>e. \<forall>q. tally q e = Some q) es \<and>
      bt_buildID (build_status r) = bt_buildID (build_status b))"
    by (intro outcome_conj emits_outcome neutral web_url_id)
  then show ?thesis
    unfolding monitored_def
    by (rule outcome_mono) (auto simp: run_mon_neutral tracks_def)
qed

lemma vanished_tally:
  "bt_buildID (build_status b) = None \<Longrightarrow>
   monitored tally (\<lambda>q. snd q \<le> 0) (k_status_build env b) (\<lambda>_. balanced 0)"
  by (intro monitored_intros)
    (auto simp: balanced_def allowance_def id_view_def is_created_def is_vanished_def split: if_splits sum.splits)

lemma observe_tally:
  "monitored tally (tracks b) (observeBuild env b cl i job tn pn jn) observed"
  unfolding observeBuild_def
  apply (rule monitored_bind [where M = "\<lambda>r q. tracks b q \<and> (r = Inr None \<longrightarrow> snd q \<le> 0)"])
   apply (rule monitored_extern)
   apply (auto simp: tracks_def allowance_def id_view_def is_created_def is_vanished_def split: if_splits sum.splits option.splits)[1]
  apply (rule monitored_case(3))
   apply (simp only: Let_def)
   apply (intro monitored_bind_neutral [OF event_neutral])
   apply (rule monitored_pre [OF monitored_bind [OF vanished_tally]])
     apply simp
    apply (intro monitored_return)
    apply (simp add: observed_def)
   apply simp
  apply (simp only: Let_def)
  apply (rule monitored_bind_neutral, intro emits_intros)
   apply (simp add: tally_neutral is_vanished_def)
  apply (rule monitored_pre [OF monitored_bind [OF web_url_tally]])
   apply (intro monitored_return)
   apply (simp add: observed_def)
  apply (auto simp: tracks_def observe_fields_def map_build_io_def split: sum.splits option.splits)
  done

lemma comment_id:
  "outcome (reconcileComment env b cl i) (\<lambda>r es. bt_buildID (build_status (fst r)) = bt_buildID (build_status b))"
  unfolding reconcileComment_def setBuildComment_def by (intro outcome_intros) simp_all

lemma comment_tally:
  "monitored tally (tracks b) (reconcileComment env b cl i) (\<lambda>r. tracks (fst r))"
proof -
  have neutral: "emits (\<lambda>e. \<forall>q. tally q e = Some q) (reconcileComment env b cl i)"
    by (intro reconcileComment_emits) (simp_all add: tally_neutral is_created_def is_event_def)
  have "outcome (reconcileComment env b cl i) (\<lambda>r es. list_all (\<lambda>e. \<forall>q. tally q e = Some q) es \<and>
      bt_buildID (build_status (fst r)) = bt_buildID (build_status b))"
    by (intro outcome_conj emits_outcome neutral comment_id)
  then show ?thesis
    unfolding monitored_def by (rule outcome_mono) (auto simp: run_mon_neutral tracks_def)
qed

lemma finish_id [simp]:
  "bt_buildID (build_status (set_duration b)) = bt_buildID (build_status b)"
  "bt_buildID (build_status (set_complete env b)) = bt_buildID (build_status b)"
  by (simp_all add: set_duration_def set_complete_def split: option.split)

lemma start_watch_neutral: "emits (\<lambda>e. \<forall>q. tally q e = Some q) (start_watch cl i key)"
  by (rule start_watch_emits) (simp add: tally_neutral)

lemma saved_tally:
  "bt_buildID (build_status x) = bt_buildID (build_status b) \<Longrightarrow>
   monitored tally (tracks b) (k_status_build env x) (\<lambda>_. balanced 0)"
  by (intro monitored_intros)
    (auto simp: tracks_def balanced_def allowance_def id_view_def is_created_def is_vanished_def
      split: if_splits sum.splits)

lemma finish_tally: "monitored tally (tracks b) (finish_build env b cl i failed) (\<lambda>_. balanced 0)"
  unfolding finish_build_def Let_def
  apply (rule monitored_bind_neutral, intro emits_intros)
   apply (simp add: tally_neutral is_event_def)
  apply (rule monitored_bind [OF saved_tally])
   apply simp
  apply (rule monitored_neutral, intro emits_intros start_watch_neutral)
  apply simp
  done

lemma track_tally:
  assumes "retry_law env"
  shows "monitored tally (agrees b) (track_build env b job cl tn pn)
    (\<lambda>r. balanced (if r = (seconds 2, None) then 1 else 0))"
  unfolding track_build_def Let_def
  apply (rule monitored_bind [OF ensure_tally [OF assms]])
  apply (rule monitored_case(4), simp only: prod.case)
  apply (rule monitored_case(2))
   apply (simp only: option.case)
   apply (rule monitored_bind_neutral)
    apply (intro emits_intros)
     apply (simp_all add: tally_neutral is_created_def is_event_def)[2]
   apply (rule monitored_bind [where M = observed])
    apply (intro monitored_case observe_tally monitored_return)
    apply (simp add: observed_def)
   apply (rule monitored_case(4))
   apply (rule monitored_case(2))
    apply (rule monitored_bind [where M = "\<lambda>r. tracks (fst r)"])
     apply (intro monitored_case monitored_pre [OF comment_tally] monitored_return)
      apply (simp_all add: observed_def)[2]
    apply (rule monitored_case(4))
    apply (rule monitored_post [OF monitored_pre [OF finish_tally]])
     apply (simp_all add: balanced_def)[2]
   apply (rule monitored_return)
   apply (simp add: observed_def balanced_def)
  apply (simp only: option.case)
  apply (rule monitored_return)
  apply (simp add: balanced_def)
  done

lemma agrees_balanced: "agrees b q \<Longrightarrow> balanced 0 q"
  by (simp add: agrees_def balanced_def)

lemma chain_tally: "emits (\<lambda>e. \<forall>q. tally q e = Some q) (resolveClientForJob env job)"
  unfolding resolveClientForJob_def resolveClientForPipeline_def resolveInstanceForTeam_def
  by (intro emits_intros) (simp_all add: tally_neutral)

definition settled :: "Result \<times> goerr option \<Rightarrow> i32 option \<times> int \<Rightarrow> bool" where
  "settled r = balanced (if r = (seconds 2, None) then 1 else 0)"

lemma settled_balanced: "balanced 0 q \<Longrightarrow> settled r q"
  by (simp add: settled_def balanced_def)

lemma status_tally:
  "bt_buildID (build_status x) = bt_buildID (build_status b) \<Longrightarrow>
   monitored tally (agrees b) (k_status_build env x) (\<lambda>_. agrees b)"
  by (intro monitored_intros)
    (auto simp: agrees_def id_view_def is_created_def is_vanished_def split: if_splits sum.splits)

lemma resolve_tally:
  "retry_law env \<Longrightarrow> monitored tally (agrees b) (resolve_and_track env b job) settled"
  unfolding resolve_and_track_def
  apply (rule monitored_bind_neutral [OF chain_tally])
  apply (rule monitored_case(1))
   apply (rule monitored_bind [OF status_tally])
    apply simp
   apply (rule monitored_return, simp add: settled_balanced agrees_balanced)
  apply (rule monitored_case(4))+
  apply (rule monitored_post [OF track_tally])
   apply (simp_all add: settled_def)
  done

lemma for_job_tally:
  "retry_law env \<Longrightarrow> monitored tally (agrees b) (reconcile_for_job env b job) settled"
  unfolding reconcile_for_job_def
  apply (rule monitored_bind [OF owner_tally])
  apply (rule monitored_case(1))
   apply (rule monitored_return, simp add: settled_balanced)
  apply (rule monitored_pre [OF resolve_tally])
   apply simp_all
  done

lemma Build_Reconcile_tally:
  assumes law: "retry_law env"
  shows "monitored tally (balanced 0) (Build_Reconcile env req) settled"
  unfolding Build_Reconcile_def
  apply (rule monitored_bind [where M = "\<lambda>r q. balanced 0 q \<and> (\<forall>b. r = Inr b \<longrightarrow> agrees b q)"])
   apply (intro monitored_intros)
   apply (auto simp: agrees_def balanced_def id_view_def is_created_def is_vanished_def split: if_splits sum.splits)[1]
  apply (rule monitored_case(1))
   apply (rule monitored_return, simp add: settled_balanced)
  apply (rule monitored_pre [OF monitored_bind [OF lifecycle_tally]])
   apply (rule monitored_case(4))
   apply (rule monitored_case(3))
    apply (rule monitored_return, simp add: settled_balanced agrees_balanced)
   apply (rule monitored_case(2))
    apply (rule monitored_bind [OF status_tally])
     apply simp
    apply (rule monitored_return, simp add: settled_balanced agrees_balanced)
   apply (rule monitored_bind_neutral)
    apply (intro emits_intros, simp add: tally_neutral)
   apply (rule monitored_case(1))
    apply (rule monitored_return, simp add: settled_balanced agrees_balanced)
   apply (rule for_job_tally [OF law])
  apply simp
  done

text \<open>A history: the reconciles of one Build, each on the machine as it is by then.\<close>

definition history :: "'w env \<Rightarrow> ObjectKey \<Rightarrow> ('w, memory, io) machine list \<Rightarrow> io list" where
  "history env req ss = concat (map (emitted (Build_Reconcile env req)) ss)"

lemma history_balanced:
  assumes law: "retry_law env" and "run_mon id_view c (history env req ss) = Some c'"
    and "g \<le> allowance c + lost"
  shows "g + int (length (filter is_created (history env req ss)))
     \<le> allowance c' + lost + int (length (filter is_vanished (history env req ss)))
       + int (length (filter (\<lambda>s. result_of (Build_Reconcile env req) s = (seconds 2, None)) ss))"
  using assms(2,3)
proof (induction ss arbitrary: c g lost)
  case (Cons s ss)
  let ?es = "emitted (Build_Reconcile env req) s"
  let ?n = "int (length (filter is_created ?es))" and ?v = "int (length (filter is_vanished ?es))"
  from Cons.prems(1) obtain d where d: "run_mon id_view c ?es = Some d"
    "run_mon id_view d (history env req ss) = Some c'"
    by (auto simp: history_def run_mon_append split: option.splits)
  have "settled (result_of (Build_Reconcile env req) s) (d, (g - lost) + ?n - ?v)"
    by (rule monitoredD [OF Build_Reconcile_tally [OF law] _ run_tally [OF d(1)]])
      (use Cons.prems(2) in \<open>simp add: balanced_def\<close>)
  then have "g + ?n - ?v \<le> allowance d + (lost + (if result_of (Build_Reconcile env req) s = (seconds 2, None) then 1 else 0))"
    by (simp add: settled_def balanced_def)
  from Cons.IH [OF d(2) this] show ?case
    by (cases "result_of (Build_Reconcile env req) s = (seconds 2, None)") (simp_all add: history_def)
qed (simp add: history_def)

text \<open>C3: No build is triggered twice. Over any history of reconciles of one Build, as long as the
  API server's answers are coherent about the recorded build ID (a read returns what was last
  written, nobody else writes it), the number of Concourse builds created is at most one, plus
  one for every time Concourse answered that a tracked build is gone, plus one for every
  reconcile that gave up persisting the new ID (the ones that requeue after two seconds).\<close>

theorem builds_created_bounded:
  assumes "retry_law env" and "run_mon id_view None (history env req ss) = Some c"
  shows "length (filter is_created (history env req ss)) \<le>
    1 + length (filter is_vanished (history env req ss))
      + length (filter (\<lambda>s. result_of (Build_Reconcile env req) s = (seconds 2, None)) ss)"
proof -
  have "allowance c \<le> 1" by (simp add: allowance_def)
  then show ?thesis using history_balanced [OF assms, of 0 0] by (simp add: allowance_def)
qed

text \<open>A server that keeps one Build, first fresh and then finished.\<close>

definition stored_env :: "Build env" where
  "stored_env = demo_env\<lparr>e_k8s := demo_k8s\<lparr>x_get_build := (\<lambda>_ w. (Inr w, w)),
     x_status_build := (\<lambda>b w. (Inr b, b))\<rparr>\<rparr>"

lemma stored_env_sel [simp]:
  "e_k8s stored_env = demo_k8s\<lparr>x_get_build := (\<lambda>_ w. (Inr w, w)), x_status_build := (\<lambda>b w. (Inr b, b))\<rparr>"
  "e_atc stored_env = demo_atc" "e_team stored_env = demo_team_api" "e_libs stored_env = demo_libs"
  "e_recorder stored_env = True" "e_set_comment stored_env = None"
  by (simp_all add: stored_env_def)

definition demo_finished :: Build where
  "demo_finished = demo_build\<lparr>build_status := demo_build_status
     \<lparr>bt_buildID := Some 7, bt_concourseStatus := ''succeeded''\<rparr>\<rparr>"

lemma demo_finished_sel [simp]:
  "build_meta demo_finished = demo_meta ''build''" "build_spec demo_finished = demo_build_spec"
  "bt_buildID (build_status demo_finished) = Some 7"
  "bt_concourseStatus (build_status demo_finished) = ''succeeded''"
  by (simp_all add: demo_finished_def)

lemma demo_history:
  "run_mon id_view None (history stored_env (demo_req ''build'') [demo_start demo_build, demo_start demo_finished])
    = Some (Some 7)"
proof -
  have "run_mon id_view None (emitted (Build_Reconcile stored_env (demo_req ''build'')) (demo_start demo_build))
      = Some (Some 7)"
    by (simp add: eval_simps build_eval eval_nat_numeral id_view_def to_i32_def cong: eval_cong)
  moreover have "run_mon id_view (Some 7) (emitted (Build_Reconcile stored_env (demo_req ''build''))
      (demo_start demo_finished)) = Some (Some 7)"
    by (simp add: eval_simps build_eval id_view_def cong: eval_cong)
  ultimately show ?thesis by (simp add: history_def run_mon_append)
qed

theorem builds_created_bounded_witness:
  "length (filter is_created (history stored_env (demo_req ''build'')
     [demo_start demo_build, demo_start demo_finished])) \<le>
   1 + length (filter is_vanished (history stored_env (demo_req ''build'')
     [demo_start demo_build, demo_start demo_finished]))
   + length (filter (\<lambda>s. result_of (Build_Reconcile stored_env (demo_req ''build'')) s = (seconds 2, None))
     [demo_start demo_build, demo_start demo_finished])"
  by (rule builds_created_bounded [OF _ demo_history]) (auto simp: retry_law_def)

text \<open>
  The last summand is needed: when the API server refuses the status writes, two reconciles
  create two builds.
\<close>

definition refusing_env :: "unit env" where
  "refusing_env = demo_env\<lparr>e_k8s := demo_k8s\<lparr>x_status_build := (\<lambda>b w. (Inl (KOther ''timeout''), w))\<rparr>\<rparr>"

lemma refusing_env_sel [simp]:
  "e_k8s refusing_env = demo_k8s\<lparr>x_status_build := (\<lambda>b w. (Inl (KOther ''timeout''), w))\<rparr>"
  "e_atc refusing_env = demo_atc" "e_team refusing_env = demo_team_api" "e_libs refusing_env = demo_libs"
  "e_recorder refusing_env = True"
  by (simp_all add: refusing_env_def)

lemma refused_tracking_duplicates:
  "length (filter is_created (history refusing_env (demo_req ''build'') [demo_start (), demo_start ()])) = 2"
proof -
  have "length (filter is_created (emitted (Build_Reconcile refusing_env (demo_req ''build'')) (demo_start ()))) = 1"
    by (simp add: eval_simps build_eval eval_nat_numeral is_created_def cong: eval_cong)
  then show ?thesis by (simp add: history_def)
qed

text \<open>
  A Build that adopted a build keeps to it: when that build has vanished and the tracking was
  reset, the next reconcile adopts the same ID again and triggers nothing.
\<close>

lemma vanished_adopted_again:
  assumes "bt_buildID (build_status b) = None" and "bs_buildID (build_spec b) = Some i"
  shows "outcome (ensureBuildTriggered env b cl tn pn jn) (\<lambda>r es. filter is_awrite es = [] \<and>
    bt_buildID (build_status (fst r)) = Some i \<and> snd r = None)"
  unfolding ensureBuildTriggered_def assms option.case Let_def by (intro outcome_intros) simp_all

end
