(* ===== verification/Build_Watch.thy ===== *)
theory Build_Watch
  imports Build_Proofs
begin

text \<open>
  The watchers of the Build reconciler: goroutines that follow the events of a running build
  and wake the reconciler up when it ends. A watcher that ends notifies exactly once, and
  \<open>watch_step\<close>, the transition system of reconciles and watchers, never has two watchers for
  one Build.
\<close>

section \<open>A watcher ends with one notification\<close>

definition is_enqueue :: "io \<Rightarrow> bool" where
  "is_enqueue e = (case e of Enqueue k \<Rightarrow> True | _ \<Rightarrow> False)"

text \<open>The stream, read from a world, comes to its end or to a terminal status within \<open>n\<close> events.\<close>

primrec stream_ends :: "nat \<Rightarrow> 'w env \<Rightarrow> int \<Rightarrow> 'w \<Rightarrow> bool" where
  "stream_ends 0 env stream w = False"
| "stream_ends (Suc n) env stream w =
     (case x_next_event (e_atc env) stream w of
        (Inl err, w') \<Rightarrow> True
      | (Inr (StatusEvent st), w') \<Rightarrow> isTerminal st \<or> stream_ends n env stream w'
      | (Inr OtherEvent, w') \<Rightarrow> stream_ends n env stream w')"

lemma watch_loop_notifies:
  "outcome (watch_loop fuel env stream key) (\<lambda>r es. r = Some () \<and> e_event_ch env \<longrightarrow>
     filter is_enqueue es = [Enqueue key] \<and> last es = Enqueue key)"
proof (induction fuel)
  case 0
  show ?case by (simp add: outcome_return)
next
  case (Suc fuel)
  show ?case unfolding watch_loop.simps enqueue_build_def
    by (intro outcome_intros outcome_mono [OF Suc]) (auto simp: is_enqueue_def)
qed

lemma watch_loop_ends:
  "stream_ends n env stream (world s) \<Longrightarrow> n \<le> fuel \<Longrightarrow>
   result_of (watch_loop fuel env stream key) s = Some ()"
proof (induction n arbitrary: fuel s)
  case (Suc n)
  then obtain f where f: "fuel = Suc f" "n \<le> f" by (cases fuel) auto
  obtain r w where r: "x_next_event (e_atc env) stream (world s) = (r, w)" by fastforce
  let ?t = "s\<lparr>world := w, journal := journal s @ [ARead (NextEvent stream r)]\<rparr>"
  have "result_of (watch_loop f env stream key) ?t = Some ()" if "stream_ends n env stream w"
    using Suc.IH [of ?t f] that f by simp
  then show ?case
    using Suc.prems(1) r f(1)
    by (auto simp: run_simps enqueue_build_def split: sum.splits atc_event.splits prod.splits)
qed simp

text \<open>C30: A watcher ends and wakes the reconciler: if the event stream of the build cannot be opened,
  or it ends, fails or reports a terminal status within \<open>n\<close> events, the watcher returns with
  any fuel of at least \<open>n\<close>, and it has sent exactly one notification, for its own Build, as
  its last action.\<close>

theorem watcher_notifies_once:
  assumes "x_build_events (e_atc env) cl (itoa buildID) (world s) = (r, w)"
    and "\<forall>stream. r = Inr (Some stream) \<longrightarrow> stream_ends n env stream w"
    and "n \<le> fuel" and "e_event_ch env"
  shows "result_of (watchBuildEvents fuel env cl buildID key) s = Some () \<and>
    filter is_enqueue (emitted (watchBuildEvents fuel env cl buildID key) s) = [Enqueue key] \<and>
    last (emitted (watchBuildEvents fuel env cl buildID key) s) = Enqueue key"
proof -
  let ?t = "s\<lparr>world := w, journal := journal s @ [ARead (BuildEvents cl (itoa buildID) r)]\<rparr>"
  have "result_of (watch_loop fuel env stream key) ?t = Some ()" if "r = Inr (Some stream)" for stream
    using watch_loop_ends [of n env stream ?t fuel key] assms(2,3) that by simp
  then have res: "result_of (watchBuildEvents fuel env cl buildID key) s = Some ()"
    using assms(1) unfolding watchBuildEvents_def
    by (auto simp: run_simps enqueue_build_def split: sum.splits option.splits prod.splits)
  have "outcome (watchBuildEvents fuel env cl buildID key) (\<lambda>r es. r = Some () \<and> e_event_ch env \<longrightarrow>
     filter is_enqueue es = [Enqueue key] \<and> last es = Enqueue key)"
    unfolding watchBuildEvents_def enqueue_build_def
    by (intro outcome_intros outcome_mono [OF watch_loop_notifies]) (auto simp: is_enqueue_def)
  from outcomeD [OF this, of s] res assms(4) show ?thesis by simp
qed

definition ticking_env :: "nat env" where
  "ticking_env = demo_env\<lparr>e_atc := demo_atc\<lparr>x_next_event := (\<lambda>stream w.
     (Inr (StatusEvent (if w = 0 then ''succeeded'' else ''started'')), w - 1))\<rparr>\<rparr>"

theorem watcher_notifies_once_witness:
  "filter is_enqueue (emitted (watchBuildEvents 5 ticking_env demo_client 7 (demo_req ''build'')) (demo_start 2))
     = [Enqueue (demo_req ''build'')]"
  using watcher_notifies_once [of ticking_env demo_client 7 "demo_start 2" "Inr (Some 0)" 2 3 5 "demo_req ''build''"]
  by (simp add: ticking_env_def demo_start_def isTerminal_def eval_nat_numeral)

section \<open>No build is watched twice\<close>

definition watch_key :: "ObjectKey \<Rightarrow> string" where
  "watch_key key = fst key @ ''/'' @ snd key"

text \<open>The watchers a stretch of the journal has started.\<close>

definition spawned :: "io list \<Rightarrow> ObjectKey list" where
  "spawned es = concat (map (\<lambda>e. case e of SpawnWatch cl i k \<Rightarrow> [k] | _ \<Rightarrow> []) es)"

lemma spawned_simps [simp]:
  "spawned [] = []"
  "spawned (es @ es') = spawned es @ spawned es'"
  by (simp_all add: spawned_def)

definition no_spawn :: "io \<Rightarrow> bool" where
  "no_spawn e = (case e of SpawnWatch cl i k \<Rightarrow> False | _ \<Rightarrow> True)"

lemma spawned_none: "list_all no_spawn es \<Longrightarrow> spawned es = []"
  by (induction es) (auto simp: spawned_def no_spawn_def split: io.splits)

text \<open>\<open>registers p\<close>: whatever \<open>p\<close> spawns it has registered, and it registers nothing twice.\<close>

definition registers :: "('w, 'a) prog \<Rightarrow> bool" where
  "registers p \<longleftrightarrow> (\<forall>s. \<exists>es. journal (final_of p s) = journal s @ es \<and>
     mem_watchers (mem (final_of p s)) = mem_watchers (mem s) \<union> watch_key ` set (spawned es) \<and>
     distinct (map watch_key (spawned es)) \<and>
     mem_watchers (mem s) \<inter> watch_key ` set (spawned es) = {})"

lemma registersD:
  assumes "registers p"
  shows "mem_watchers (mem (final_of p s)) = mem_watchers (mem s) \<union> watch_key ` set (spawned (emitted p s))"
    and "distinct (map watch_key (spawned (emitted p s)))"
    and "mem_watchers (mem s) \<inter> watch_key ` set (spawned (emitted p s)) = {}"
  using assms unfolding registers_def emitted_def by (metis append_eq_conv_conj)+

lemma registers_quiet:
  assumes "emits no_spawn p" and "\<And>W. keeps (\<lambda>m. mem_watchers m = W) p"
  shows "registers p"
  unfolding registers_def
proof
  fix s
  have "spawned (emitted p s) = []"
    using outcomeD [OF emits_outcome [OF assms(1)], of s] by (rule spawned_none)
  moreover have "journal (final_of p s) = journal s @ emitted p s"
    by (rule outcome_journal [OF emits_outcome [OF assms(1)]])
  moreover have "mem_watchers (mem (final_of p s)) = mem_watchers (mem s)"
    by (rule keepsD [OF assms(2) refl])
  ultimately show "\<exists>es. journal (final_of p s) = journal s @ es \<and>
     mem_watchers (mem (final_of p s)) = mem_watchers (mem s) \<union> watch_key ` set (spawned es) \<and>
     distinct (map watch_key (spawned es)) \<and> mem_watchers (mem s) \<inter> watch_key ` set (spawned es) = {}"
    by (intro exI [of _ "emitted p s"]) simp
qed

named_theorems registers_intros \<open>rules for programs that register what they spawn\<close>

lemma registers_return [registers_intros]: "registers (ret a)"
  by (intro registers_quiet emits_intros keeps_intros)

lemma registers_bind [registers_intros]:
  assumes p: "registers p" and k: "\<And>a. registers (k a)"
  shows "registers (State_Monad.bind p k)"
  unfolding registers_def
proof
  fix s
  let ?a = "result_of p s" and ?t = "final_of p s"
  obtain es where es: "journal ?t = journal s @ es"
    "mem_watchers (mem ?t) = mem_watchers (mem s) \<union> watch_key ` set (spawned es)"
    "distinct (map watch_key (spawned es))" "mem_watchers (mem s) \<inter> watch_key ` set (spawned es) = {}"
    using p unfolding registers_def by blast
  obtain ds where ds: "journal (final_of (k ?a) ?t) = journal ?t @ ds"
    "mem_watchers (mem (final_of (k ?a) ?t)) = mem_watchers (mem ?t) \<union> watch_key ` set (spawned ds)"
    "distinct (map watch_key (spawned ds))" "mem_watchers (mem ?t) \<inter> watch_key ` set (spawned ds) = {}"
    using k [of ?a] unfolding registers_def by blast
  show "\<exists>es. journal (final_of (State_Monad.bind p k) s) = journal s @ es \<and>
     mem_watchers (mem (final_of (State_Monad.bind p k) s)) = mem_watchers (mem s) \<union> watch_key ` set (spawned es) \<and>
     distinct (map watch_key (spawned es)) \<and> mem_watchers (mem s) \<inter> watch_key ` set (spawned es) = {}"
    using es ds by (intro exI [of _ "es @ ds"]) (auto simp: final_of_bind)
qed

lemma registers_case [registers_intros]:
  "(\<And>e. r = Inl e \<Longrightarrow> registers (f e)) \<Longrightarrow> (\<And>x. r = Inr x \<Longrightarrow> registers (g x))
     \<Longrightarrow> registers (case r of Inl e \<Rightarrow> f e | Inr x \<Rightarrow> g x)"
  "(q = None \<Longrightarrow> registers h) \<Longrightarrow> (\<And>x. q = Some x \<Longrightarrow> registers (k x))
     \<Longrightarrow> registers (case q of None \<Rightarrow> h | Some x \<Rightarrow> k x)"
  "(b \<Longrightarrow> registers p) \<Longrightarrow> (\<not> b \<Longrightarrow> registers p') \<Longrightarrow> registers (if b then p else p')"
  "(\<And>x y. z = (x, y) \<Longrightarrow> registers (c x y)) \<Longrightarrow> registers (case z of (x, y) \<Rightarrow> c x y)"
  "registers (d v) \<Longrightarrow> registers (let x = v in d x)"
  by (auto split: sum.splits option.splits prod.splits)

lemma registers_start_watch: "registers (start_watch cl i key)"
  unfolding registers_def
proof
  fix s
  show "\<exists>es. journal (final_of (start_watch cl i key) s) = journal s @ es \<and>
     mem_watchers (mem (final_of (start_watch cl i key) s)) = mem_watchers (mem s) \<union> watch_key ` set (spawned es) \<and>
     distinct (map watch_key (spawned es)) \<and> mem_watchers (mem s) \<inter> watch_key ` set (spawned es) = {}"
    by (cases key; cases "watch_key key \<in> mem_watchers (mem s)")
      (auto simp: start_watch_def run_simps watch_key_def spawned_def)
qed

text \<open>Everything else in a reconcile leaves the watchers alone.\<close>

lemma GetOrBuild_keeps_watchers: "keeps (\<lambda>m. mem_watchers m = W) (GetOrBuild env i)"
  unfolding GetOrBuild_def by (intro keeps_modify keeps_intros) simp

lemma resolve_keeps_watchers: "keeps (\<lambda>m. mem_watchers m = W) (resolveClientForJob env job)"
  unfolding resolveClientForJob_def resolveClientForPipeline_def resolveInstanceForTeam_def
  by (intro keeps_intros GetOrBuild_keeps_watchers)

lemma persist_keeps: "retry_law env \<Longrightarrow> keeps I (persistBuildTracking env b)"
  unfolding persistBuildTracking_def persist_body_def retry_law_def
  by (auto intro!: attempts_keeps keeps_intros)

lemma finish_registers: "registers (finish_build env b cl i failed)"
  unfolding finish_build_def
  by (intro registers_intros registers_start_watch)
    (intro registers_quiet emits_intros keeps_intros; simp add: no_spawn_def)+

lemma Build_Reconcile_registers:
  assumes "retry_law env"
  shows "registers (Build_Reconcile env req)"
  unfolding Build_Reconcile_def reconcile_for_job_def resolve_and_track_def track_build_def
    handleBuildLifecycle_def set_build_owner_def ensureBuildTriggered_def trigger_build_def
    observeBuild_def build_web_url_def reconcileComment_def setBuildComment_def
  by (intro registers_intros finish_registers)
    (intro registers_quiet emits_intros keeps_intros persistBuildTracking_emits persist_keeps
      resolve_keeps_watchers assms; simp add: no_spawn_def)+

text \<open>
  The system: the process memory and the watchers that run. A reconcile of any Build starts
  the watchers it spawns, a watcher that ends deregisters, and anything else in the process
  (other controllers, the outside) leaves the register alone.
\<close>

type_synonym 'w watch_state = "('w, memory, io) machine \<times> ObjectKey list"

inductive watch_step :: "'w env \<Rightarrow> 'w watch_state \<Rightarrow> 'w watch_state \<Rightarrow> bool" for env where
  reconciles: "watch_step env (s, run) (final_of (Build_Reconcile env req) s,
     spawned (emitted (Build_Reconcile env req) s) @ run)"
| ends: "key \<in> set run \<Longrightarrow> watch_step env (s, run) (final_of (end_watch key) s, remove1 key run)"
| elsewhere: "mem_watchers (mem s') = mem_watchers (mem s) \<Longrightarrow> watch_step env (s, run) (s', run)"

inductive watch_reachable :: "'w env \<Rightarrow> 'w watch_state \<Rightarrow> bool" for env where
  starts: "mem_watchers (mem s) = {} \<Longrightarrow> watch_reachable env (s, [])"
| steps: "watch_reachable env x \<Longrightarrow> watch_step env x y \<Longrightarrow> watch_reachable env y"

inductive_cases watch_stepE: "watch_step env (s, run) y"

definition registered :: "'w watch_state \<Rightarrow> bool" where
  "registered x \<longleftrightarrow> distinct (map watch_key (snd x)) \<and>
     mem_watchers (mem (fst x)) = watch_key ` set (snd x)"

lemma registered_ends:
  assumes "distinct (map watch_key run)" and "key \<in> set run"
  shows "distinct (map watch_key (remove1 key run)) \<and>
    watch_key ` set (remove1 key run) = watch_key ` set run - {watch_key key}"
proof -
  have "distinct run" and inj: "inj_on watch_key (set run)"
    using assms(1) by (auto simp: distinct_map)
  then have "set (remove1 key run) = set run - {key}" by simp
  moreover have "distinct (remove1 key run)" using \<open>distinct run\<close> by (rule distinct_remove1)
  ultimately show ?thesis using inj assms(2)
    by (auto simp: distinct_map inj_on_def)
qed

lemma watch_step_registered:
  assumes "retry_law env" and "watch_step env x y" and "registered x"
  shows "registered y"
  using assms(2,3)
proof cases
  case (reconciles s run req)
  note R = registersD [OF Build_Reconcile_registers [OF assms(1), of req], of s]
  show ?thesis using assms(3) R reconciles unfolding registered_def by auto
next
  case (ends key run s)
  then show ?thesis using assms(3) registered_ends [of run key]
    unfolding registered_def by (auto simp: end_watch_def run_simps watch_key_def)
next
  case (elsewhere s' s run)
  then show ?thesis using assms(3) unfolding registered_def by simp
qed

lemma watch_reachable_registered:
  assumes law: "retry_law env" and reach: "watch_reachable env x"
  shows "registered x"
  using reach
proof (induction rule: watch_reachable.induct)
  case (starts s)
  then show ?case by (simp add: registered_def)
next
  case (steps x y)
  then show ?case by (blast intro: watch_step_registered [OF law])
qed

text \<open>C13: No Build is watched twice: in every state the process can reach, by any sequence of
  reconciles of any Builds, watchers that end and changes elsewhere, the running watchers are
  of different Builds, and the register holds exactly their names.\<close>

theorem one_watcher_per_build:
  assumes "retry_law env" and "watch_reachable env (s, run)"
  shows "distinct run \<and> mem_watchers (mem s) = watch_key ` set run"
  using watch_reachable_registered [OF assms] by (auto simp: registered_def distinct_map)

lemma demo_id: "of_i32 (to_i32 7) = 7"
  by (simp add: of_i32_to_i32)

lemma demo_spawned:
  "spawned (emitted (Build_Reconcile demo_env (demo_req ''build'')) (demo_start ())) = [demo_req ''build'']"
  by (simp add: eval_simps build_eval eval_nat_numeral spawned_def demo_id cong: eval_cong)

theorem one_watcher_per_build_witness:
  "mem_watchers (mem (final_of (Build_Reconcile demo_env (demo_req ''build'')) (demo_start ()))) = {''ci/build''}"
proof -
  have "watch_reachable demo_env (demo_start (), [])"
    by (rule starts) (simp add: demo_start_def)
  from steps [OF this reconciles [of demo_env "demo_start ()" "[]" "demo_req ''build''"]] demo_spawned
  have "watch_reachable demo_env
      (final_of (Build_Reconcile demo_env (demo_req ''build'')) (demo_start ()), [demo_req ''build''])"
    by simp
  from one_watcher_per_build [OF demo_env_retry_law this] show ?thesis by (simp add: watch_key_def)
qed

end
