(* ===== verification/Build_Status.thy ===== *)
theory Build_Status
  imports Build_Proofs
begin

text \<open>
  What the Build reconciler reports and which changes of a running build it makes: the status
  a finished reconcile writes, when a build is aborted, when its comment is set, and what
  happens to the tracking fields.
\<close>

section \<open>The report\<close>

definition complete_report :: "Build \<Rightarrow> Condition" where
  "complete_report b =
     (if isTerminal (bt_concourseStatus (build_status b))
      then \<lparr>c_type = ConditionComplete, c_status = ConditionTrue,
        c_reason = mapPhaseToReason (bt_concourseStatus (build_status b)), c_message = '''',
        c_observedGeneration = om_generation (build_meta b)\<rparr>
      else if bt_buildID (build_status b) \<noteq> None
      then \<lparr>c_type = ConditionComplete, c_status = ConditionFalse, c_reason = ''InProgress'',
        c_message = '''', c_observedGeneration = om_generation (build_meta b)\<rparr>
      else \<lparr>c_type = ConditionComplete, c_status = ConditionUnknown, c_reason = ''Pending'',
        c_message = ''build not yet triggered'', c_observedGeneration = om_generation (build_meta b)\<rparr>)"

definition tracked_report :: "Build \<Rightarrow> Condition" where
  "tracked_report b = \<lparr>c_type = ConditionReady, c_status = ConditionTrue, c_reason = ''Tracked'',
     c_message = '''', c_observedGeneration = om_generation (build_meta b)\<rparr>"

text \<open>The object a finished reconcile writes.\<close>

definition final_build :: "'w env \<Rightarrow> Build \<Rightarrow> bool \<Rightarrow> Build" where
  "final_build env b failed =
     (let x = map_build_status (\<lambda>s. s\<lparr>bt_observedGeneration := om_generation (build_meta b)\<rparr>)
        (set_complete env (set_duration b))
      in if failed then x else build_cond env x ConditionReady ConditionTrue ''Tracked'' '''')"

lemma set_meta [simp]:
  "build_meta (set_duration b) = build_meta b" "build_spec (set_duration b) = build_spec b"
  "build_meta (set_complete env b) = build_meta b" "build_spec (set_complete env b) = build_spec b"
  "bt_concourseStatus (build_status (set_duration b)) = bt_concourseStatus (build_status b)"
  "bt_conditions (build_status (set_duration b)) = bt_conditions (build_status b)"
  "bt_observedGeneration (build_status (build_cond env b t st r m)) = bt_observedGeneration (build_status b)"
  by (simp_all add: set_duration_def set_complete_def build_cond_def split: option.split)

lemma final_build_facts:
  assumes "conditions_law env"
  shows "build_meta (final_build env b failed) = build_meta b"
    and "build_spec (final_build env b failed) = build_spec b"
    and "bt_buildID (build_status (final_build env b failed)) = bt_buildID (build_status b)"
    and "bt_observedGeneration (build_status (final_build env b failed)) = om_generation (build_meta b)"
    and "cond_of (bt_conditions (build_status (final_build env b failed))) ConditionComplete = Some (complete_report b)"
    and "cond_of (bt_conditions (build_status (final_build env b failed))) ConditionReady =
      (if failed then cond_of (bt_conditions (build_status b)) ConditionReady else Some (tracked_report b))"
  using assms
  by (simp_all add: final_build_def complete_report_def tracked_report_def set_complete_def build_cond_def Let_def)

lemma finish_outcome:
  assumes "conditions_law env"
  shows "outcome (finish_build env b cl i failed) (\<lambda>res es. \<exists>r rest.
    es = KWrite (StatusBuild (final_build env b failed) r) # rest \<and>
    (rest = [] \<or> (\<exists>b'. r = Inr b' \<and> \<not> isTerminal (bt_concourseStatus (build_status b')) \<and>
       \<not> failed \<and> i \<noteq> 0 \<and> rest = [SpawnWatch cl i (key_of (build_meta b'))])) \<and>
    (case r of Inl err \<Rightarrow> res = (0, Some (''update status: '' @ kerr_text err))
     | Inr b' \<Rightarrow> res = (if \<not> failed \<and> isTerminal (bt_concourseStatus (build_status b')) then 0 else seconds 30, None)))"
proof -
  have eq: "(if failed then map_build_status (\<lambda>s. s\<lparr>bt_observedGeneration := om_generation (build_meta b)\<rparr>)
        (set_complete env (set_duration b))
      else build_cond env (map_build_status (\<lambda>s. s\<lparr>bt_observedGeneration := om_generation (build_meta b)\<rparr>)
        (set_complete env (set_duration b))) ConditionReady ConditionTrue ''Tracked'' '''') = final_build env b failed"
    by (simp add: final_build_def Let_def)
  show ?thesis
    unfolding finish_build_def start_watch_def Let_def set_meta eq
    by (intro outcome_intros) (simp_all add: final_build_facts [OF assms])
qed

text \<open>C27: What a finished reconcile reports: it writes the status once, first of all, with
  \<open>observedGeneration\<close> the generation it worked on, the condition Complete True with the
  phase as its reason exactly when the phase is terminal, False while a build is tracked and
  Unknown otherwise, and the condition Ready True with reason Tracked, unless setting the
  comment failed, when Ready is left as that failure set it. After it only a watcher may be
  started, for a tracked build that is not terminal, and a terminal Build is not requeued.\<close>

theorem build_report:
  assumes "conditions_law env"
  shows "\<exists>x r rest. emitted (finish_build env b cl i failed) s = KWrite (StatusBuild x r) # rest \<and>
    build_meta x = build_meta b \<and> build_spec x = build_spec b \<and>
    bt_buildID (build_status x) = bt_buildID (build_status b) \<and>
    bt_observedGeneration (build_status x) = om_generation (build_meta b) \<and>
    cond_of (bt_conditions (build_status x)) ConditionComplete = Some (complete_report b) \<and>
    cond_of (bt_conditions (build_status x)) ConditionReady =
      (if failed then cond_of (bt_conditions (build_status b)) ConditionReady else Some (tracked_report b)) \<and>
    (rest = [] \<or> (\<exists>b'. r = Inr b' \<and> \<not> isTerminal (bt_concourseStatus (build_status b')) \<and>
       \<not> failed \<and> i \<noteq> 0 \<and> rest = [SpawnWatch cl i (key_of (build_meta b'))])) \<and>
    (case r of Inl err \<Rightarrow> result_of (finish_build env b cl i failed) s = (0, Some (''update status: '' @ kerr_text err))
     | Inr b' \<Rightarrow> result_of (finish_build env b cl i failed) s =
        (if \<not> failed \<and> isTerminal (bt_concourseStatus (build_status b')) then 0 else seconds 30, None))"
  using outcomeD [OF finish_outcome [OF assms], of b cl i failed s]
  by (intro exI [of _ "final_build env b failed"]) (simp add: final_build_facts [OF assms])

lemma demo_env_conditions_law: "conditions_law demo_env"
  by (simp add: conditions_law_def cond_of_demo demo_condition_true_def)

theorem build_report_witness:
  "\<exists>x r rest. emitted (finish_build demo_env demo_finished demo_client 7 False) (demo_start ())
       = KWrite (StatusBuild x r) # rest \<and>
     cond_of (bt_conditions (build_status x)) ConditionComplete = Some (complete_report demo_finished)"
  using build_report [OF demo_env_conditions_law, of demo_finished demo_client 7 False "demo_start ()"] by blast
section \<open>Comments\<close>

definition wants_comment :: "Build \<Rightarrow> int \<Rightarrow> bool" where
  "wants_comment b i \<longleftrightarrow> bs_comment (build_spec b) \<noteq> '''' \<and>
     bs_comment (build_spec b) \<noteq> bt_comment (build_status b) \<and> i \<noteq> 0"

definition comment_url :: "'w env \<Rightarrow> goclient \<Rightarrow> int \<Rightarrow> string" where
  "comment_url env cl i =
     trim_suffix (l_client_url (e_libs env) cl) ''/'' @ ''/api/v1/builds/'' @ itoa i @ ''/comment''"

text \<open>
  The request that sets the comment of the spec on build \<open>i\<close>, and whether it was accepted: by default a
  PUT to the comment URL, answered with a status of the two hundreds.
\<close>

definition comment_sent :: "'w env \<Rightarrow> Build \<Rightarrow> goclient \<Rightarrow> int \<Rightarrow> io \<Rightarrow> bool \<Rightarrow> bool" where
  "comment_sent env b cl i e ok \<longleftrightarrow> (case e_set_comment env of
     Some f \<Rightarrow> \<exists>r. e = AWrite (CustomBuildComment cl i (bs_comment (build_spec b)) r) \<and> (ok \<longleftrightarrow> r = None)
   | None \<Rightarrow> \<exists>h d r. e = AWrite (PutBuildComment h (comment_url env cl i) d r) \<and>
       l_client_http (e_libs env) cl = Some h \<and>
       l_marshal_comment (e_libs env) (bs_comment (build_spec b)) = Inr d \<and>
       (ok \<longleftrightarrow> (\<exists>resp. r = Inr resp \<and> 200 \<le> hr_statusCode resp \<and> hr_statusCode resp < 300)))"

text \<open>The request can be formed: there is an HTTP client, a body and a valid URL.\<close>

definition comment_possible :: "'w env \<Rightarrow> Build \<Rightarrow> goclient \<Rightarrow> int \<Rightarrow> bool" where
  "comment_possible env b cl i \<longleftrightarrow> e_set_comment env \<noteq> None \<or>
     l_client_http (e_libs env) cl \<noteq> None \<and> \<not> isl (l_marshal_comment (e_libs env) (bs_comment (build_spec b))) \<and>
     l_new_request (e_libs env) (comment_url env cl i) = None"

definition comment_failed :: "Build \<Rightarrow> Build \<Rightarrow> bool" where
  "comment_failed b b' \<longleftrightarrow> bt_comment (build_status b') = bt_comment (build_status b) \<and>
     (\<exists>err. cond_of (bt_conditions (build_status b')) ConditionReady =
        Some \<lparr>c_type = ConditionReady, c_status = ConditionFalse, c_reason = ''CommentFailed'',
          c_message = err, c_observedGeneration = om_generation (build_meta b)\<rparr>)"

lemma comment_failed_cond:
  "conditions_law env \<Longrightarrow> comment_failed b (build_cond env b ConditionReady ConditionFalse ''CommentFailed'' err)"
  by (simp add: comment_failed_def build_cond_def)

lemma reconcileComment_outcome:
  assumes "conditions_law env"
  shows "outcome (reconcileComment env b cl i) (\<lambda>(b', failed) es.
    (\<not> wants_comment b i \<longrightarrow> es = [] \<and> b' = b \<and> \<not> failed) \<and>
    (wants_comment b i \<longrightarrow>
       (if comment_possible env b cl i
        then \<exists>e ds. es = e # ds \<and> comment_sent env b cl i e (\<not> failed) \<and> list_all is_event ds
        else list_all is_event es \<and> failed) \<and>
       (if failed then comment_failed b b'
        else b' = map_build_status (\<lambda>st. st\<lparr>bt_comment := bs_comment (build_spec b)\<rparr>) b)))"
  unfolding reconcileComment_def setBuildComment_def Let_def wants_comment_def
  by (intro outcome_intros)
    (auto simp: assms comment_sent_def comment_possible_def comment_url_def is_event_def comment_failed_cond)

text \<open>C31: The comment is set when it is due, and only then. When the spec has a comment that differs
  from the recorded one and a build is tracked, exactly one request is made, to the comment URL of
  that build with the text of the spec, unless it cannot even be formed; otherwise nothing is done.
  If the request is accepted, the spec's comment is recorded and nothing else changes, so that
  reconciling the result again requests nothing; if it is refused or cannot be formed, the failure is
  reported: the recorded comment stays and Ready is False with reason CommentFailed.\<close>

theorem comment_set_once:
  assumes "conditions_law env" and "result_of (reconcileComment env b cl i) s = (b', failed)"
  shows "(\<not> wants_comment b i \<longrightarrow> emitted (reconcileComment env b cl i) s = [] \<and> b' = b \<and> \<not> failed) \<and>
    (wants_comment b i \<longrightarrow>
       (if comment_possible env b cl i
        then \<exists>e ds. emitted (reconcileComment env b cl i) s = e # ds \<and>
          comment_sent env b cl i e (\<not> failed) \<and> list_all is_event ds
        else list_all is_event (emitted (reconcileComment env b cl i) s) \<and> failed) \<and>
       (if failed then comment_failed b b'
        else b' = map_build_status (\<lambda>st. st\<lparr>bt_comment := bs_comment (build_spec b)\<rparr>) b)) \<and>
    (\<not> failed \<longrightarrow> emitted (reconcileComment env b' cl i) t = [])"
proof -
  note O = outcomeD [OF reconcileComment_outcome [OF assms(1), of b cl i], of s, unfolded assms(2) prod.case]
  have again: "emitted (reconcileComment env b' cl i) t = []" if "\<not> wants_comment b' i"
    using outcomeD [OF reconcileComment_outcome [OF assms(1), of b' cl i], of t] that
    by (auto split: prod.splits)
  have "\<not> wants_comment b' i" if "\<not> failed"
  proof (cases "wants_comment b i")
    case True
    with O that have "b' = map_build_status (\<lambda>st. st\<lparr>bt_comment := bs_comment (build_spec b)\<rparr>) b" by simp
    then show ?thesis by (simp add: wants_comment_def)
  next
    case False
    with O show ?thesis by simp
  qed
  with O again show ?thesis by simp
qed

definition commented_build :: Build where
  "commented_build = demo_finished\<lparr>build_spec := demo_build_spec\<lparr>bs_comment := ''nightly''\<rparr>\<rparr>"

theorem comment_set_once_witness:
  "\<exists>e ds. emitted (reconcileComment demo_env commented_build demo_client 7) (demo_start ()) = e # ds \<and>
     comment_sent (demo_env :: unit env) commented_build demo_client 7 e True \<and> list_all is_event ds"
proof -
  have "\<exists>b'. result_of (reconcileComment demo_env commented_build demo_client 7) (demo_start ()) = (b', False)"
    by (simp add: eval_simps reconcileComment_def setBuildComment_def commented_build_def demo_finished_def recordEvent_def cong: eval_cong)
  then obtain b' where r: "result_of (reconcileComment demo_env commented_build demo_client 7) (demo_start ()) = (b', False)" ..
  have "wants_comment commented_build 7" "comment_possible (demo_env :: unit env) commented_build demo_client 7"
    by (simp_all add: wants_comment_def comment_possible_def commented_build_def demo_finished_def)
  with comment_set_once [OF demo_env_conditions_law r, of "demo_start ()"] show ?thesis by simp
qed

section \<open>Aborting\<close>

definition is_abort :: "io \<Rightarrow> bool" where
  "is_abort e = (case e of AWrite (AbortBuild cl i r) \<Rightarrow> True | _ \<Rightarrow> False)"

definition abort_of :: "Build \<Rightarrow> io \<Rightarrow> bool" where
  "abort_of b e \<longleftrightarrow> (case e of
     AWrite (AbortBuild cl i r) \<Rightarrow> bs_canceled (build_spec b) \<and> i \<noteq> ''0'' \<and>
       (\<forall>k. bt_buildID (build_status b) = Some k \<longrightarrow> i = itoa (of_i32 k))
   | _ \<Rightarrow> True)"

lemma itoa_nonzero: "i \<noteq> 0 \<Longrightarrow> itoa i \<noteq> ''0''"
proof -
  assume "i \<noteq> 0"
  moreover have "itoa 0 = ''0''" by code_simp
  ultimately show ?thesis using itoa_inj [of i 0] by metis
qed

lemma persist_body_meta:
  "outcome (persist_body env b) (\<lambda>r es. \<forall>b'. r = Inr b' \<longrightarrow> build_spec b' = build_spec b)"
  unfolding persist_body_def by (intro outcome_intros) simp_all

lemma persist_spec:
  assumes "retry_law env"
  shows "outcome (persistBuildTracking env b) (\<lambda>r es. \<forall>b'. r = Inr b' \<longrightarrow> build_spec b' = build_spec b)"
proof -
  obtain n where n: "persistBuildTracking env b = attempts n (persist_body env b)"
    using assms by (auto simp: retry_law_def persistBuildTracking_def)
  show ?thesis unfolding n
    by (rule attempts_outcome [where Q = "\<lambda>r es. \<forall>b'. r = Inr b' \<longrightarrow> build_spec b' = build_spec b"])
      (rule outcome_mono [OF persist_body_meta], blast+)
qed

lemma ensure_spec:
  assumes "retry_law env"
  shows "outcome (ensureBuildTriggered env b cl tn pn jn) (\<lambda>(b', h) es.
    list_all (abort_of b) es \<and>
    (h = None \<longrightarrow> build_spec b' = build_spec b \<and> (bt_buildID (build_status b) \<noteq> None \<longrightarrow> b' = b)))"
proof -
  have "emits (abort_of b) (ensureBuildTriggered env b cl tn pn jn)"
    unfolding ensureBuildTriggered_def trigger_build_def
    by (intro emits_intros persistBuildTracking_emits assms) (simp_all add: abort_of_def)
  moreover have "outcome (ensureBuildTriggered env b cl tn pn jn) (\<lambda>(b', h) es.
    h = None \<longrightarrow> build_spec b' = build_spec b \<and> (bt_buildID (build_status b) \<noteq> None \<longrightarrow> b' = b))"
    unfolding ensureBuildTriggered_def trigger_build_def
    by (intro outcome_intros outcome_mono [OF persist_spec [OF assms]])
      (simp_all add: track_created_def)
  ultimately show ?thesis
    by (auto dest: emits_outcome intro: outcome_mono [OF outcome_conj])
qed

lemma track_build_abort:
  assumes "retry_law env"
  shows "emits (abort_of b) (track_build env b job cl tn pn)"
  unfolding track_build_def Let_def
  apply (rule emits_bind_known [where Q = "\<lambda>(b', h). h = None \<longrightarrow> build_spec b' = build_spec b \<and>
      (bt_buildID (build_status b) \<noteq> None \<longrightarrow> b' = b)"])
   apply (rule outcome_mono [OF ensure_spec [OF assms]], auto)[1]
  apply (intro emits_intros build_emits)
           apply (auto simp: abort_of_def ptrValue_def itoa_nonzero)
  done

lemma Build_Reconcile_abort:
  assumes law: "retry_law env"
  shows "outcome (Build_Reconcile env req) (\<lambda>_ es.
    list_ex is_abort es \<longrightarrow> (\<exists>b. worked_on req b es \<and> list_all (abort_of b) es))"
  by (rule Build_Reconcile_suits) (simp_all add: track_build_abort [OF law] abort_of_def is_abort_def)

text \<open>C32: Only a canceled Build is aborted, and only the build it tracks: an abort request is made
  after reading a Build that is not suspended, deleted or finished, whose spec asks for
  cancellation, and it names the recorded build ID, never the ID 0.\<close>

theorem abort_only_canceled:
  assumes "retry_law env" and "AWrite (AbortBuild cl i r) \<in> set (emitted (Build_Reconcile env req) s)"
  shows "\<exists>b. worked_on req b (emitted (Build_Reconcile env req) s) \<and> bs_canceled (build_spec b) \<and>
    i \<noteq> ''0'' \<and> (\<forall>k. bt_buildID (build_status b) = Some k \<longrightarrow> i = itoa (of_i32 k))"
proof -
  have "list_ex is_abort (emitted (Build_Reconcile env req) s)"
    using assms(2) unfolding list_ex_iff by (intro bexI) (simp_all add: is_abort_def)
  with outcomeD [OF Build_Reconcile_abort [OF assms(1)], of req s]
  obtain b where b: "worked_on req b (emitted (Build_Reconcile env req) s)"
    "list_all (abort_of b) (emitted (Build_Reconcile env req) s)" by blast
  with assms(2) have "abort_of b (AWrite (AbortBuild cl i r))" by (auto simp: list_all_iff)
  with b(1) show ?thesis by (auto simp: abort_of_def)
qed

definition canceled_build :: Build where
  "canceled_build = demo_build\<lparr>build_spec := demo_build_spec\<lparr>bs_canceled := True\<rparr>,
     build_status := demo_build_status\<lparr>bt_buildID := Some 7\<rparr>\<rparr>"

lemma canceled_build_sel [simp]:
  "build_meta canceled_build = demo_meta ''build''"
  "build_spec canceled_build = demo_build_spec\<lparr>bs_canceled := True\<rparr>"
  "build_status canceled_build = demo_build_status\<lparr>bt_buildID := Some 7\<rparr>"
  by (simp_all add: canceled_build_def)

lemma of_i32_7: "of_i32 7 = 7"
  by (simp add: of_i32_def)

lemma canceled_run:
  "AWrite (AbortBuild demo_client (itoa 7) None) \<in> set (emitted (Build_Reconcile
     (with_build canceled_build demo_env) (demo_req ''build'')) (demo_start ()))"
  by (simp add: demo_client_def eval_simps build_eval eval_nat_numeral of_i32_7 cong: eval_cong)

theorem abort_only_canceled_witness:
  "\<exists>b :: Build. bs_canceled (build_spec b) \<and> (\<forall>k. bt_buildID (build_status b) = Some k \<longrightarrow> itoa 7 = itoa (of_i32 k))"
proof -
  have "retry_law (with_build canceled_build demo_env)" by (auto simp: retry_law_def)
  from abort_only_canceled [OF this canceled_run] show ?thesis by blast
qed

end
