(* ===== verification/Pipeline_Controller.thy ===== *)
theory Pipeline_Controller
  imports Resolver
begin

text \<open>
  \<open>internal/controller/pipeline_controller.go\<close>: the reconciler of a Pipeline, which sets the
  pipeline's configuration in Concourse, applies its state, and reflects it into the status.
\<close>

abbreviation pipelineFinalizer :: string where
  "pipelineFinalizer \<equiv> ''concourse-ci.org/pipeline-finalizer''"

abbreviation map_pipeline_status :: "(PipelineStatus \<Rightarrow> PipelineStatus) \<Rightarrow> Pipeline \<Rightarrow> Pipeline" where
  "map_pipeline_status f p \<equiv> p\<lparr>pipeline_status := f (pipeline_status p)\<rparr>"

definition pipeline_cond ::
  "'w env \<Rightarrow> Pipeline \<Rightarrow> string \<Rightarrow> ConditionStatus \<Rightarrow> string \<Rightarrow> string \<Rightarrow> Pipeline" where
  "pipeline_cond env p t st reason msg = map_pipeline_status (\<lambda>s. s\<lparr>pt_conditions :=
     setCondition env (pt_conditions s) (om_generation (pipeline_meta p)) t st reason msg\<rparr>) p"

abbreviation pipeline_event ::
  "'w env \<Rightarrow> Pipeline \<Rightarrow> event_type \<Rightarrow> string \<Rightarrow> string \<Rightarrow> ('w, unit) prog" where
  "pipeline_event env p t reason msg \<equiv> recordEvent env KPipeline (pipeline_meta p) t reason msg"

definition set_pipeline_finalizers :: "string list \<Rightarrow> Pipeline \<Rightarrow> Pipeline" where
  "set_pipeline_finalizers fs p = p\<lparr>pipeline_meta := (pipeline_meta p)\<lparr>om_finalizers := fs\<rparr>\<rparr>"

section \<open>Deletion and finalizers\<close>

definition deletePipeline :: "'w env \<Rightarrow> Pipeline \<Rightarrow> ('w, goerr option) prog" where
  "deletePipeline env pipeline =
     (if ps_reclaimPolicy (pipeline_spec pipeline) = ReclaimOrphan then do {
        pipeline_event env pipeline EventTypeNormal ''Orphaned''
          ''Pipeline deleted from Kubernetes; Concourse pipeline remains'';
        ret None }
      else do {
        c \<leftarrow> resolveClientForPipeline env pipeline;
        (case c of
           Inl err \<Rightarrow> ret (Some err)
         | Inr (cl, teamName) \<Rightarrow> do {
             let pipelineName = ResolvedPipelineName pipeline;
             pipeline_event env pipeline EventTypeNormal ''Deleting''
               (''Deleting Concourse pipeline '' @ l_quote (e_libs env) pipelineName);
             a_delete_pipeline env cl teamName pipelineName }) })"

definition handlePipelineLifecycle ::
  "'w env \<Rightarrow> Pipeline \<Rightarrow> ('w, Pipeline \<times> bool \<times> goerr option) prog" where
  "handlePipelineLifecycle env pipeline =
     (if ps_suspend (pipeline_spec pipeline) then do {
        let pipeline = pipeline_cond env pipeline ConditionReady ConditionFalse ''Suspended''
          ''Reconciliation is suspended'';
        r \<leftarrow> k_status_pipeline env pipeline;
        (case r of
           Inl err \<Rightarrow> ret (pipeline, True, Some (''update status: '' @ kerr_text err))
         | Inr pipeline \<Rightarrow> ret (pipeline, True, None)) }
      else if om_deletionTimestamp (pipeline_meta pipeline) \<noteq> None then
        (if l_contains_finalizer (e_libs env) (om_finalizers (pipeline_meta pipeline)) pipelineFinalizer
         then do {
           e \<leftarrow> deletePipeline env pipeline;
           let pipeline = set_pipeline_finalizers (l_remove_finalizer (e_libs env)
             (om_finalizers (pipeline_meta pipeline)) pipelineFinalizer) pipeline;
           r \<leftarrow> k_update_pipeline env pipeline;
           (case r of
              Inl err \<Rightarrow> ret (pipeline, True, Some (''remove finalizer: '' @ kerr_text err))
            | Inr pipeline \<Rightarrow> ret (pipeline, True, None)) }
         else ret (pipeline, True, None))
      else if \<not> l_contains_finalizer (e_libs env) (om_finalizers (pipeline_meta pipeline)) pipelineFinalizer
      then do {
        let pipeline = set_pipeline_finalizers (l_add_finalizer (e_libs env)
          (om_finalizers (pipeline_meta pipeline)) pipelineFinalizer) pipeline;
        r \<leftarrow> k_update_pipeline env pipeline;
        (case r of
           Inl err \<Rightarrow> ret (pipeline, True, Some (''add finalizer: '' @ kerr_text err))
         | Inr pipeline \<Rightarrow> ret (pipeline, False, None)) }
      else ret (pipeline, False, None))"

definition set_pipeline_owner :: "'w env \<Rightarrow> Pipeline \<Rightarrow> ('w, kerr + Pipeline) prog" where
  "set_pipeline_owner env pipeline = do {
     t \<leftarrow> k_get_team env (refKey (om_namespace (pipeline_meta pipeline)) (ps_teamRef (pipeline_spec pipeline)));
     (case t of
        Inl _ \<Rightarrow> ret (Inr pipeline)
      | Inr team \<Rightarrow>
          (if om_namespace (team_meta team) = om_namespace (pipeline_meta pipeline) then
             (case l_set_controller_reference (e_libs env) KTeam (team_meta team) KPipeline (pipeline_meta pipeline) of
                Inl err \<Rightarrow> ret (Inr pipeline)
              | Inr refs \<Rightarrow>
                  (if refs \<noteq> om_ownerReferences (pipeline_meta pipeline)
                   then k_update_pipeline env
                     (pipeline\<lparr>pipeline_meta := (pipeline_meta pipeline)\<lparr>om_ownerReferences := refs\<rparr>\<rparr>)
                   else ret (Inr pipeline)))
           else ret (Inr pipeline))) }"

section \<open>The configuration\<close>

definition loadPipelineConfig :: "'w env \<Rightarrow> Pipeline \<Rightarrow> ('w, goerr + string) prog" where
  "loadPipelineConfig env pipeline =
     (let cfg = ps_config (pipeline_spec pipeline) in
      if pc_inline cfg \<noteq> '''' then ret (Inr (pc_inline cfg))
      else
        (case pc_configMapRef cfg of
           None \<Rightarrow> ret (Inl ''pipeline config must specify either inline or configMapRef'')
         | Some cmref \<Rightarrow> do {
             r \<leftarrow> k_get_configmap env (om_namespace (pipeline_meta pipeline), cmr_name cmref);
             (case r of
                Inl err \<Rightarrow> ret (Inl (''get configmap '' @ cmr_name cmref @ '': '' @ kerr_text err))
              | Inr cm \<Rightarrow>
                  (case map_of (cm_data cm) (cmr_key cmref) of
                     None \<Rightarrow> ret (Inl (''key '' @ l_quote (e_libs env) (cmr_key cmref)
                       @ '' not found in configmap '' @ cmr_name cmref))
                   | Some val \<Rightarrow> ret (Inr val))) }))"

definition isConfigComparisonError :: "goerr \<Rightarrow> bool" where
  "isConfigComparisonError err = str_contains err ''comparison with existing config failed''"

definition currentVersion :: "'w env \<Rightarrow> goclient \<Rightarrow> string \<Rightarrow> string \<Rightarrow> ('w, string) prog" where
  "currentVersion env cl teamName pipelineName = do {
     r \<leftarrow> a_pipeline_config env cl teamName pipelineName;
     (case r of Inr (Some v) \<Rightarrow> ret v | _ \<Rightarrow> ret '''') }"

text \<open>Fetch the version, set the configuration with it, and once more if that raced.\<close>

definition set_config ::
  "'w env \<Rightarrow> goclient \<Rightarrow> string \<Rightarrow> string \<Rightarrow> string \<Rightarrow> ('w, goerr + config_warning list) prog" where
  "set_config env cl teamName pipelineName yaml = do {
     v \<leftarrow> currentVersion env cl teamName pipelineName;
     r \<leftarrow> a_set_pipeline_config env cl teamName pipelineName v yaml;
     (case r of
        Inr warnings \<Rightarrow> ret (Inr warnings)
      | Inl err \<Rightarrow>
          (if isConfigComparisonError err then do {
             v \<leftarrow> currentVersion env cl teamName pipelineName;
             a_set_pipeline_config env cl teamName pipelineName v yaml }
           else ret (Inl err))) }"

definition warnings_cond :: "'w env \<Rightarrow> Pipeline \<Rightarrow> config_warning list \<Rightarrow> Pipeline" where
  "warnings_cond env pipeline warnings =
     (if warnings \<noteq> []
      then pipeline_cond env pipeline ConditionConfigWarning ConditionTrue ''HasWarnings''
        (itoa (int (length warnings)) @ '' warning(s): '' @ hd warnings)
      else pipeline_cond env pipeline ConditionConfigWarning ConditionFalse ''NoWarnings'' '''')"

definition syncPipelineConfig ::
  "'w env \<Rightarrow> Pipeline \<Rightarrow> goclient \<Rightarrow> string \<Rightarrow> string \<Rightarrow> string \<Rightarrow> string \<Rightarrow> ('w, Pipeline \<times> Result option) prog" where
  "syncPipelineConfig env pipeline cl teamName pipelineName yaml newHash =
     (if pt_configHash (pipeline_status pipeline) \<noteq> newHash \<or> pt_pipelineID (pipeline_status pipeline) = None
      then do {
        r \<leftarrow> set_config env cl teamName pipelineName yaml;
        (case r of
           Inl err \<Rightarrow> do {
             pipeline_event env pipeline EventTypeWarning ''SetPipelineFailed''
               (''Failed to update pipeline config: '' @ err);
             let pipeline = pipeline_cond env pipeline ConditionConfigSynced ConditionFalse ''SetPipelineFailed'' err;
             let pipeline = pipeline_cond env pipeline ConditionReady ConditionFalse ''SetPipelineFailed'' err;
             k_status_pipeline env pipeline;
             ret (pipeline, Some (seconds 30)) }
         | Inr warnings \<Rightarrow> do {
             (if warnings \<noteq> []
              then pipeline_event env pipeline EventTypeWarning ''HasWarnings''
                (''Pipeline config updated with '' @ itoa (int (length warnings)) @ '' warning(s)'')
              else ret ());
             let pipeline = warnings_cond env pipeline warnings;
             let pipeline = pipeline_cond env pipeline ConditionConfigSynced ConditionTrue ''Synced'' '''';
             let pipeline = map_pipeline_status (\<lambda>s. s\<lparr>pt_configHash := newHash\<rparr>) pipeline;
             ret (pipeline, None) }) }
      else ret (pipeline, None))"

section \<open>Archived, paused, exposed\<close>

text \<open>A state change that failed: Ready says why, and the reconcile ends.\<close>

definition state_failed ::
  "'w env \<Rightarrow> Pipeline \<Rightarrow> string \<Rightarrow> goerr \<Rightarrow> ('w, Pipeline \<times> (Result \<times> goerr option) option) prog" where
  "state_failed env pipeline reason err = do {
     let pipeline = pipeline_cond env pipeline ConditionReady ConditionFalse reason err;
     u \<leftarrow> k_status_pipeline env pipeline;
     (case u of
        Inl err2 \<Rightarrow> ret (pipeline, Some (0, Some (''update status: '' @ kerr_text err2)))
      | Inr pipeline \<Rightarrow> ret (pipeline, Some (seconds 30, None))) }"

definition apply_archived ::
  "'w env \<Rightarrow> Pipeline \<Rightarrow> goclient \<Rightarrow> string \<Rightarrow> string \<Rightarrow> ('w, Pipeline \<times> (Result \<times> goerr option) option) prog" where
  "apply_archived env pipeline cl teamName pipelineName =
     (if ps_archived (pipeline_spec pipeline) then do {
        e \<leftarrow> a_archive_pipeline env cl teamName pipelineName;
        (case e of
           Some err \<Rightarrow> do {
             pipeline_event env pipeline EventTypeWarning ''ArchiveFailed'' (''Failed to archive pipeline: '' @ err);
             state_failed env pipeline ''ArchiveFailed'' err }
         | None \<Rightarrow> ret (map_pipeline_status (\<lambda>s. s\<lparr>pt_archived := Some True\<rparr>) pipeline, None)) }
      else ret (map_pipeline_status (\<lambda>s. s\<lparr>pt_archived := Some False\<rparr>) pipeline, None))"

definition apply_paused ::
  "'w env \<Rightarrow> Pipeline \<Rightarrow> goclient \<Rightarrow> string \<Rightarrow> string \<Rightarrow> ('w, Pipeline \<times> (Result \<times> goerr option) option) prog" where
  "apply_paused env pipeline cl teamName pipelineName =
     (if ps_paused (pipeline_spec pipeline) then do {
        e \<leftarrow> a_pause_pipeline env cl teamName pipelineName;
        (case e of
           Some err \<Rightarrow> state_failed env pipeline ''PauseFailed'' err
         | None \<Rightarrow> ret (map_pipeline_status (\<lambda>s. s\<lparr>pt_paused := Some True\<rparr>) pipeline, None)) }
      else do {
        e \<leftarrow> a_unpause_pipeline env cl teamName pipelineName;
        (case e of
           Some err \<Rightarrow> state_failed env pipeline ''UnpauseFailed'' err
         | None \<Rightarrow> ret (map_pipeline_status (\<lambda>s. s\<lparr>pt_paused := Some False\<rparr>) pipeline, None)) })"

definition apply_exposed ::
  "'w env \<Rightarrow> Pipeline \<Rightarrow> goclient \<Rightarrow> string \<Rightarrow> string \<Rightarrow> ('w, Pipeline \<times> (Result \<times> goerr option) option) prog" where
  "apply_exposed env pipeline cl teamName pipelineName =
     (if ps_exposed (pipeline_spec pipeline) then do {
        e \<leftarrow> a_expose_pipeline env cl teamName pipelineName;
        (case e of
           Some err \<Rightarrow> state_failed env pipeline ''ExposeFailed'' err
         | None \<Rightarrow> ret (map_pipeline_status (\<lambda>s. s\<lparr>pt_exposed := Some True\<rparr>) pipeline, None)) }
      else do {
        e \<leftarrow> a_hide_pipeline env cl teamName pipelineName;
        (case e of
           Some err \<Rightarrow> state_failed env pipeline ''HideFailed'' err
         | None \<Rightarrow> ret (map_pipeline_status (\<lambda>s. s\<lparr>pt_exposed := Some False\<rparr>) pipeline, None)) })"

definition applyPipelineState ::
  "'w env \<Rightarrow> Pipeline \<Rightarrow> goclient \<Rightarrow> string \<Rightarrow> string \<Rightarrow> ('w, Pipeline \<times> (Result \<times> goerr option) option) prog" where
  "applyPipelineState env pipeline cl teamName pipelineName = do {
     (pipeline, h) \<leftarrow> apply_archived env pipeline cl teamName pipelineName;
     (case h of
        Some res \<Rightarrow> ret (pipeline, Some res)
      | None \<Rightarrow> do {
          (pipeline, h) \<leftarrow> apply_paused env pipeline cl teamName pipelineName;
          (case h of
             Some res \<Rightarrow> ret (pipeline, Some res)
           | None \<Rightarrow> apply_exposed env pipeline cl teamName pipelineName) }) }"

section \<open>Observing\<close>

definition observe_pipeline_fields :: "PipelineStatus \<Rightarrow> atc_pipeline \<Rightarrow> PipelineStatus" where
  "observe_pipeline_fields s p = s
     \<lparr>pt_pipelineID := int32Ptr (ap_id p),
      pt_groupCount := int32Ptr (int (length (ap_groups p))),
      pt_lastUpdated := (if ap_lastUpdated p > 0 then Some (unix_time (ap_lastUpdated p)) else pt_lastUpdated s),
      pt_paused := Some (ap_paused p),
      pt_exposed := Some (ap_public p),
      pt_archived := Some (ap_archived p),
      pt_pausedBy := ap_pausedBy p,
      pt_pausedAt := (if ap_pausedAt p > 0 then Some (unix_time (ap_pausedAt p)) else pt_pausedAt s),
      pt_groups := map (\<lambda>g. \<lparr>pgs_name = ag_name g, pgs_jobs = ag_jobs g, pgs_resources = ag_resources g\<rparr>)
        (ap_groups p)\<rparr>"

definition observePipeline :: "'w env \<Rightarrow> Pipeline \<Rightarrow> goclient \<Rightarrow> string \<Rightarrow> string \<Rightarrow> ('w, Pipeline) prog" where
  "observePipeline env pipeline cl teamName pipelineName = do {
     p \<leftarrow> a_pipeline env cl teamName pipelineName;
     let pipeline = (case p of
         Inr (Some ap) \<Rightarrow> map_pipeline_status (\<lambda>s. observe_pipeline_fields s ap) pipeline
       | _ \<Rightarrow> pipeline);
     rt \<leftarrow> a_resource_types env cl teamName pipelineName;
     let pipeline = (case rt of
         Inr rtypes \<Rightarrow> map_pipeline_status (\<lambda>s. s\<lparr>pt_resourceTypes :=
           map (\<lambda>t. \<lparr>prt_name = art_name t, prt_type = art_type t, prt_privileged = art_privileged t,
             prt_tags = art_tags t\<rparr>) rtypes\<rparr>) pipeline
       | Inl _ \<Rightarrow> pipeline);
     js \<leftarrow> a_list_jobs env cl teamName pipelineName;
     let pipeline = (case js of
         Inr jobs \<Rightarrow> map_pipeline_status (\<lambda>s. s\<lparr>pt_jobs :=
           map (\<lambda>j. \<lparr>pjs_name = aj_name j, pjs_paused = aj_paused j,
             pjs_lastBuildStatus = (case aj_finishedBuild j of None \<Rightarrow> '''' | Some b \<Rightarrow> ab_status b)\<rparr>) jobs\<rparr>) pipeline
       | Inl _ \<Rightarrow> pipeline);
     rs \<leftarrow> a_list_resources env cl teamName pipelineName;
     let pipeline = (case rs of
         Inr resources \<Rightarrow> map_pipeline_status (\<lambda>s. s\<lparr>pt_resources :=
           map (\<lambda>r. \<lparr>prs_name = ar_name r,
             prs_pinned = (ar_pinComment r \<noteq> '''' \<or>
               (case ar_pinnedVersion r of None \<Rightarrow> False | Some m \<Rightarrow> length m > 0)),
             prs_type = ar_type r\<rparr>) resources\<rparr>) pipeline
       | Inl _ \<Rightarrow> pipeline);
     ret pipeline }"

section \<open>Reconcile\<close>

definition pipeline_web_url :: "'w env \<Rightarrow> Pipeline \<Rightarrow> string \<Rightarrow> string \<Rightarrow> ('w, Pipeline) prog" where
  "pipeline_web_url env pipeline teamName pipelineName = do {
     t \<leftarrow> k_get_team env (refKey (om_namespace (pipeline_meta pipeline)) (ps_teamRef (pipeline_spec pipeline)));
     (case t of Inl _ \<Rightarrow> ret pipeline | Inr teamObj \<Rightarrow> do {
        i \<leftarrow> k_get_instance env (refKey (om_namespace (team_meta teamObj)) (ts_instanceRef (team_spec teamObj)));
        (case i of Inl _ \<Rightarrow> ret pipeline | Inr instanceObj \<Rightarrow>
           (if base_url instanceObj \<noteq> ''''
            then ret (map_pipeline_status (\<lambda>s. s\<lparr>pt_webURL := trim_suffix (base_url instanceObj) ''/''
              @ ''/teams/'' @ teamName @ ''/pipelines/'' @ pipelineName\<rparr>) pipeline)
            else ret pipeline)) }) }"

definition finish_pipeline :: "'w env \<Rightarrow> Pipeline \<Rightarrow> string \<Rightarrow> 'w reconcile" where
  "finish_pipeline env pipeline pipelineName = do {
     let pipeline = map_pipeline_status (\<lambda>s. s\<lparr>pt_observedGeneration := om_generation (pipeline_meta pipeline)\<rparr>) pipeline;
     let pipeline = pipeline_cond env pipeline ConditionReady ConditionTrue ''Ready'' '''';
     (if pt_observedGeneration (pipeline_status pipeline) \<noteq> om_generation (pipeline_meta pipeline)
      then pipeline_event env pipeline EventTypeNormal ''ConfigSynced''
        (''Pipeline '' @ l_quote (e_libs env) pipelineName @ '' synchronized successfully'')
      else ret ());
     u \<leftarrow> k_status_pipeline env pipeline;
     (case u of
        Inl err \<Rightarrow> ret (0, Some (''update status: '' @ kerr_text err))
      | Inr _ \<Rightarrow> ret (minutes 5, None)) }"

definition apply_pipeline ::
  "'w env \<Rightarrow> Pipeline \<Rightarrow> goclient \<Rightarrow> string \<Rightarrow> string \<Rightarrow> string \<Rightarrow> 'w reconcile" where
  "apply_pipeline env pipeline cl teamName pipelineName yaml = do {
     let newHash = l_sha256_hex (e_libs env) yaml;
     (pipeline, h) \<leftarrow> syncPipelineConfig env pipeline cl teamName pipelineName yaml newHash;
     (case h of
        Some res \<Rightarrow> ret (res, None)
      | None \<Rightarrow> do {
          (pipeline, h) \<leftarrow> applyPipelineState env pipeline cl teamName pipelineName;
          (case h of
             Some res \<Rightarrow> ret res
           | None \<Rightarrow> do {
               pipeline \<leftarrow> observePipeline env pipeline cl teamName pipelineName;
               finish_pipeline env pipeline pipelineName }) }) }"

definition sync_pipeline :: "'w env \<Rightarrow> Pipeline \<Rightarrow> 'w reconcile" where
  "sync_pipeline env pipeline = do {
     c \<leftarrow> resolveClientForPipeline env pipeline;
     (case c of
        Inl err \<Rightarrow> do {
          k_status_pipeline env (pipeline_cond env pipeline ConditionReady ConditionFalse ''TeamNotReady'' err);
          ret (seconds 30, None) }
      | Inr (cl, teamName) \<Rightarrow> do {
          let pipelineName = ResolvedPipelineName pipeline;
          let pipeline = map_pipeline_status (\<lambda>s. s\<lparr>pt_resolvedName := pipelineName\<rparr>) pipeline;
          pipeline \<leftarrow> pipeline_web_url env pipeline teamName pipelineName;
          y \<leftarrow> loadPipelineConfig env pipeline;
          (case y of
             Inl err \<Rightarrow> do {
               k_status_pipeline env (pipeline_cond env pipeline ConditionReady ConditionFalse ''ConfigLoadFailed'' err);
               ret (seconds 30, None) }
           | Inr yaml \<Rightarrow> apply_pipeline env pipeline cl teamName pipelineName yaml) }) }"

definition reconcile_pipeline :: "'w env \<Rightarrow> Pipeline \<Rightarrow> 'w reconcile" where
  "reconcile_pipeline env pipeline = do {
     (pipeline, handled, err) \<leftarrow> handlePipelineLifecycle env pipeline;
     (if handled then ret (0, err)
      else do {
        u \<leftarrow> set_pipeline_owner env pipeline;
        (case u of
           Inl err \<Rightarrow> ret (0, Some (''set owner reference: '' @ kerr_text err))
         | Inr pipeline \<Rightarrow> sync_pipeline env pipeline) }) }"

definition Pipeline_Reconcile :: "'w env \<Rightarrow> ObjectKey \<Rightarrow> 'w reconcile" where
  "Pipeline_Reconcile env req = do {
     r \<leftarrow> k_get_pipeline env req;
     (case r of
        Inl err \<Rightarrow> ret (0, ignore_not_found err)
      | Inr pipeline \<Rightarrow> reconcile_pipeline env pipeline) }"

end
