(* ===== verification/Pipeline_Proofs.thy ===== *)
theory Pipeline_Proofs
  imports Pipeline_Controller
begin

text \<open>
  What the Pipeline reconciler guarantees: how it sets a configuration and when, in which order
  it applies the state, what evidence it has before it changes Concourse, and what a deletion
  does.
\<close>

lemma pipeline_cond_sel [simp]:
  "pipeline_meta (pipeline_cond env p t st r m) = pipeline_meta p"
  "pipeline_spec (pipeline_cond env p t st r m) = pipeline_spec p"
  "pt_configHash (pipeline_status (pipeline_cond env p t st r m)) = pt_configHash (pipeline_status p)"
  "pt_pipelineID (pipeline_status (pipeline_cond env p t st r m)) = pt_pipelineID (pipeline_status p)"
  "pt_archived (pipeline_status (pipeline_cond env p t st r m)) = pt_archived (pipeline_status p)"
  "pt_paused (pipeline_status (pipeline_cond env p t st r m)) = pt_paused (pipeline_status p)"
  "pt_exposed (pipeline_status (pipeline_cond env p t st r m)) = pt_exposed (pipeline_status p)"
  by (simp_all add: pipeline_cond_def)

lemma warnings_cond_sel [simp]:
  "pipeline_meta (warnings_cond env p ws) = pipeline_meta p"
  "pipeline_spec (warnings_cond env p ws) = pipeline_spec p"
  "pt_configHash (pipeline_status (warnings_cond env p ws)) = pt_configHash (pipeline_status p)"
  "pt_pipelineID (pipeline_status (warnings_cond env p ws)) = pt_pipelineID (pipeline_status p)"
  by (simp_all add: warnings_cond_def)

section \<open>Setting the configuration\<close>

text \<open>The version a set request must carry after a given answer to the version query.\<close>

fun version_of :: "goerr + string option \<Rightarrow> string" where
  "version_of (Inr (Some v)) = v"
| "version_of _ = ''''"

definition one_attempt :: "goclient \<Rightarrow> string \<Rightarrow> string \<Rightarrow> string \<Rightarrow> goerr + config_warning list \<Rightarrow> io list \<Rightarrow> bool" where
  "one_attempt cl tn pn yaml r es \<longleftrightarrow> (\<exists>q. es = [ARead (PipelineConfigVersion cl tn pn q),
     AWrite (SetPipelineConfig cl tn pn (version_of q) yaml r)])"

text \<open>The protocol: one attempt, and a second one exactly when the first lost a race.\<close>

definition set_protocol ::
  "goclient \<Rightarrow> string \<Rightarrow> string \<Rightarrow> string \<Rightarrow> goerr + config_warning list \<Rightarrow> io list \<Rightarrow> bool" where
  "set_protocol cl tn pn yaml r es \<longleftrightarrow>
     one_attempt cl tn pn yaml r es \<and> (\<forall>err. r = Inl err \<longrightarrow> \<not> isConfigComparisonError err) \<or>
     (\<exists>err es1 es2. es = es1 @ es2 \<and> one_attempt cl tn pn yaml (Inl err) es1 \<and>
        isConfigComparisonError err \<and> one_attempt cl tn pn yaml r es2)"

lemma currentVersion_outcome:
  "outcome (currentVersion env cl tn pn)
     (\<lambda>v es. \<exists>q. es = [ARead (PipelineConfigVersion cl tn pn q)] \<and> v = version_of q)"
  unfolding currentVersion_def
  by (intro outcome_bind outcome_extern) (auto intro!: outcome_return split: sum.split option.split)

lemma set_config_protocol:
  "outcome (set_config env cl tn pn yaml) (set_protocol cl tn pn yaml)"
  unfolding set_config_def
  apply (rule outcome_bind, rule outcome_mono [OF currentVersion_outcome])
  apply (rule outcome_bind, rule outcome_extern)
  apply (rule outcome_case(1))
   apply (rule outcome_case(3))
    apply (rule outcome_bind, rule outcome_mono [OF currentVersion_outcome], rule outcome_extern)
    apply (simp only: set_protocol_def)
    apply (rule disjI2)
  subgoal for v es r err v' es' r'
    by (intro exI [of _ err] exI [of _ "es @ [AWrite (SetPipelineConfig cl tn pn v yaml r)]"]
        exI [of _ "es' @ [AWrite (SetPipelineConfig cl tn pn v' yaml r')]"])
      (auto simp: one_attempt_def)
   apply (rule outcome_return, auto simp: set_protocol_def one_attempt_def)[1]
  apply (rule outcome_return, auto simp: set_protocol_def one_attempt_def)[1]
  done

definition config_due :: "Pipeline \<Rightarrow> string \<Rightarrow> bool" where
  "config_due p h \<longleftrightarrow> pt_configHash (pipeline_status p) \<noteq> h \<or> pt_pipelineID (pipeline_status p) = None"

lemma sync_outcome:
  assumes "conditions_law env"
  shows "outcome (syncPipelineConfig env p cl tn pn yaml h) (\<lambda>(p', stop) es.
    if config_due p h
    then \<exists>r es1 es2. set_protocol cl tn pn yaml r es1 \<and> es = es1 @ es2 \<and> (stop = None \<longleftrightarrow> (\<exists>ws. r = Inr ws)) \<and>
      (stop = None \<longrightarrow> pt_configHash (pipeline_status p') = h \<and>
         cond_is (pt_conditions (pipeline_status p')) ConditionConfigSynced ConditionTrue ''Synced'' \<and>
         list_all (\<lambda>e. \<exists>k key t x m. e = Event k key t x m) es2) \<and>
      (stop \<noteq> None \<longrightarrow> stop = Some (seconds 30) \<and>
         (\<exists>x u. last es = KWrite (StatusPipeline x u) \<and>
            pt_configHash (pipeline_status x) = pt_configHash (pipeline_status p) \<and>
            cond_is (pt_conditions (pipeline_status x)) ConditionConfigSynced ConditionFalse ''SetPipelineFailed'' \<and>
            cond_is (pt_conditions (pipeline_status x)) ConditionReady ConditionFalse ''SetPipelineFailed''))
    else es = [] \<and> p' = p \<and> stop = None)"
proof (cases "config_due p h")
  case False
  then have fine: "\<not> (pt_configHash (pipeline_status p) \<noteq> h \<or> pt_pipelineID (pipeline_status p) = None)"
    by (simp add: config_due_def)
  show ?thesis unfolding syncPipelineConfig_def if_not_P [OF fine] if_not_P [OF False]
    by (simp add: outcome_return)
next
  case True
  then have due: "pt_configHash (pipeline_status p) \<noteq> h \<or> pt_pipelineID (pipeline_status p) = None"
    by (simp add: config_due_def)
  have synced: "cond_is (setCondition env cs g t st r m) t st r" for cs g t st r m
    using assms by (simp add: cond_is_def)
  have kept: "t \<noteq> t' \<Longrightarrow> cond_is (setCondition env cs g t' st' r' m') t st r = cond_is cs t st r"
    for cs g t st r t' st' r' m'
    using assms by (simp add: cond_is_def)
  show ?thesis
    unfolding syncPipelineConfig_def Let_def if_P [OF due] if_P [OF True]
    apply (rule outcome_bind, rule outcome_mono [OF set_config_protocol], rule outcome_case(1))
     apply (intro outcome_intros)
      apply (simp_all only: prod.case)
    subgoal for r es err u
      by (rule exI, rule exI, rule exI, intro conjI, assumption, rule refl)
        (auto simp: pipeline_cond_def synced kept)
    subgoal for r es err u
      by (rule exI, rule exI, rule exI, intro conjI, assumption, rule refl)
        (auto simp: pipeline_cond_def synced kept)
    apply (intro outcome_intros)
      apply (simp_all only: prod.case)
    subgoal for r es ws
      by (rule exI, rule exI, rule exI, intro conjI, assumption, rule refl)
        (auto simp: pipeline_cond_def synced kept)
    subgoal for r es ws
      by (rule exI, rule exI, rule exI, intro conjI, assumption, rule refl)
        (auto simp: pipeline_cond_def synced kept)
    subgoal for r es ws
      by (rule exI, rule exI, rule exI, intro conjI, assumption, rule refl)
        (auto simp: pipeline_cond_def synced kept)
    done
qed

text \<open>C9: The configuration is set when it is due, and safely. It is due exactly when its hash is
  not the recorded one or no pipeline ID is known; otherwise nothing is requested and nothing
  changes. A set request carries the version that was read just before it, the empty one if
  there was none; a second request is made exactly when the first failed with the comparison
  error, after reading the version anew, and there is never a third. Only if the last request
  succeeded is the new hash recorded and ConfigSynced set to True; if it failed, the reconcile
  ends after writing ConfigSynced and Ready False with the old hash, and retries in 30 seconds.\<close>

theorem pipeline_config_set_when_due:
  assumes "conditions_law env" and "result_of (syncPipelineConfig env p cl tn pn yaml h) s = (p', stop)"
  shows "if config_due p h
    then \<exists>r es1 es2. set_protocol cl tn pn yaml r es1 \<and>
      emitted (syncPipelineConfig env p cl tn pn yaml h) s = es1 @ es2 \<and>
      (stop = None \<longleftrightarrow> (\<exists>ws. r = Inr ws)) \<and>
      (stop = None \<longrightarrow> pt_configHash (pipeline_status p') = h \<and>
         cond_is (pt_conditions (pipeline_status p')) ConditionConfigSynced ConditionTrue ''Synced'' \<and>
         list_all (\<lambda>e. \<exists>k key t x m. e = Event k key t x m) es2) \<and>
      (stop \<noteq> None \<longrightarrow> stop = Some (seconds 30) \<and>
         (\<exists>x u. last (emitted (syncPipelineConfig env p cl tn pn yaml h) s) = KWrite (StatusPipeline x u) \<and>
            pt_configHash (pipeline_status x) = pt_configHash (pipeline_status p) \<and>
            cond_is (pt_conditions (pipeline_status x)) ConditionConfigSynced ConditionFalse ''SetPipelineFailed'' \<and>
            cond_is (pt_conditions (pipeline_status x)) ConditionReady ConditionFalse ''SetPipelineFailed''))
    else emitted (syncPipelineConfig env p cl tn pn yaml h) s = [] \<and> p' = p \<and> stop = None"
  using outcomeD [OF sync_outcome [OF assms(1), of p cl tn pn yaml h], of s, unfolded assms(2) prod.case] .

lemma demo_env_laws: "conditions_law demo_env" "finalizers_law demo_env" "retry_law demo_env"
  by (auto simp: conditions_law_def cond_of_demo demo_condition_true_def finalizers_law_def retry_law_def)

theorem pipeline_config_set_when_due_witness:
  "\<exists>p' stop r es1 es2. set_protocol demo_client ''team'' ''pipeline'' ''jobs: []'' r es1 \<and>
     result_of (syncPipelineConfig demo_env demo_pipeline demo_client ''team'' ''pipeline'' ''jobs: []'' ''h'')
       (demo_start ()) = (p', stop) \<and>
     emitted (syncPipelineConfig demo_env demo_pipeline demo_client ''team'' ''pipeline'' ''jobs: []'' ''h'')
       (demo_start ()) = es1 @ es2"
proof -
  obtain p' stop where r: "result_of (syncPipelineConfig demo_env demo_pipeline demo_client ''team''
      ''pipeline'' ''jobs: []'' ''h'') (demo_start ()) = (p', stop)" by fastforce
  have "config_due demo_pipeline ''h''" by (simp add: config_due_def)
  with pipeline_config_set_when_due [OF demo_env_laws(1) r] r show ?thesis by auto
qed

section \<open>Applying the state\<close>

datatype state_req = RArchive | RPause | RUnpause | RExpose | RHide

text \<open>The request to a pipeline with its answer, and the reason a refusal is reported with.\<close>

primrec request :: "goclient \<Rightarrow> string \<Rightarrow> string \<Rightarrow> state_req \<Rightarrow> goerr option \<Rightarrow> io" where
  "request cl tn pn RArchive r = AWrite (ArchivePipeline cl tn pn r)"
| "request cl tn pn RPause r = AWrite (PausePipeline cl tn pn r)"
| "request cl tn pn RUnpause r = AWrite (UnpausePipeline cl tn pn r)"
| "request cl tn pn RExpose r = AWrite (ExposePipeline cl tn pn r)"
| "request cl tn pn RHide r = AWrite (HidePipeline cl tn pn r)"

primrec refusal :: "state_req \<Rightarrow> string" where
  "refusal RArchive = ''ArchiveFailed''"
| "refusal RPause = ''PauseFailed''"
| "refusal RUnpause = ''UnpauseFailed''"
| "refusal RExpose = ''ExposeFailed''"
| "refusal RHide = ''HideFailed''"

definition archive_req :: "PipelineSpec \<Rightarrow> state_req list" where
  "archive_req s = (if ps_archived s then [RArchive] else [])"

definition pause_req :: "PipelineSpec \<Rightarrow> state_req list" where
  "pause_req s = [if ps_paused s then RPause else RUnpause]"

definition expose_req :: "PipelineSpec \<Rightarrow> state_req list" where
  "expose_req s = [if ps_exposed s then RExpose else RHide]"

definition wanted_state :: "PipelineSpec \<Rightarrow> state_req list" where
  "wanted_state s = archive_req s @ pause_req s @ expose_req s"

text \<open>All of a list of requests were made and succeeded, and nothing else was done.\<close>

abbreviation all_done :: "(state_req \<Rightarrow> goerr option \<Rightarrow> io) \<Rightarrow> state_req list \<Rightarrow> io list" where
  "all_done req qs \<equiv> map (\<lambda>q. req q None) qs"

text \<open>
  The refusal of \<open>q\<close> is reported: after events only, one status is written, with Ready False for the
  reason of \<open>q\<close> and the error as the message; the reconcile ends with a retry in 30 seconds, or with the error
  of the status write.
\<close>

definition refusal_reported :: "state_req \<Rightarrow> goerr \<Rightarrow> (Result \<times> goerr option) \<Rightarrow> io list \<Rightarrow> bool" where
  "refusal_reported q err res es \<longleftrightarrow> (\<exists>ds x u c. es = ds @ [KWrite (StatusPipeline x u)] \<and> list_all is_event ds \<and>
     cond_of (pt_conditions (pipeline_status x)) ConditionReady = Some c \<and>
     c_status c = ConditionFalse \<and> c_reason c = refusal q \<and> c_message c = err \<and>
     res = (case u of Inl e \<Rightarrow> (0, Some (''update status: '' @ kerr_text e)) | Inr _ \<Rightarrow> (seconds 30, None)))"

text \<open>A prefix of the requests succeeded, the next one was refused, and that was the last.\<close>

definition stopped_at :: "(state_req \<Rightarrow> goerr option \<Rightarrow> io) \<Rightarrow> state_req list \<Rightarrow> (Result \<times> goerr option) \<Rightarrow> io list \<Rightarrow> bool" where
  "stopped_at req qs res es \<longleftrightarrow> (\<exists>us q vs err fs. qs = us @ q # vs \<and>
     es = all_done req us @ req q (Some err) # fs \<and> refusal_reported q err res fs)"

lemma stopped_at_first: "refusal_reported q err res fs \<Longrightarrow> stopped_at req (q # qs) res (req q (Some err) # fs)"
  unfolding stopped_at_def by (intro exI [of _ "[]"]) auto

lemma stopped_at_append: "stopped_at req qs res es \<Longrightarrow> stopped_at req (qs @ qs') res es"
  unfolding stopped_at_def by force

lemma stopped_at_after: "stopped_at req qs' res es \<Longrightarrow> stopped_at req (qs @ qs') res (all_done req qs @ es)"
  unfolding stopped_at_def
  apply (elim exE conjE)
  subgoal for us q vs err fs by (intro exI [of _ "qs @ us"] exI [of _ q] exI [of _ vs] exI [of _ err] exI [of _ fs]) simp
  done

lemma refusal_event: "is_event e \<Longrightarrow> refusal_reported q err res es \<Longrightarrow> refusal_reported q err res (e # es)"
  unfolding refusal_reported_def
  apply (elim exE conjE)
  subgoal for ds x u c by (intro exI [of _ "e # ds"] exI [of _ x] exI [of _ u] exI [of _ c]) simp
  done

lemma state_failed_outcome:
  assumes "conditions_law env"
  shows "outcome (state_failed env p (refusal q) err)
    (\<lambda>(p', h) es. \<exists>res. h = Some res \<and> refusal_reported q err res es)"
  using assms unfolding state_failed_def Let_def refusal_reported_def
  by (intro outcome_intros) (auto simp: pipeline_cond_def intro!: exI [of _ "[]"])

lemma apply_outcomes:
  assumes "conditions_law env"
  shows "outcome (apply_archived env p cl tn pn) (\<lambda>(p', h) es. let qs = archive_req (pipeline_spec p) in
      case h of None \<Rightarrow> es = all_done (request cl tn pn) qs \<and> pipeline_spec p' = pipeline_spec p \<and>
          pt_archived (pipeline_status p') = Some (ps_archived (pipeline_spec p))
      | Some res \<Rightarrow> stopped_at (request cl tn pn) qs res es)" (is ?A)
    and "outcome (apply_paused env p cl tn pn) (\<lambda>(p', h) es. let qs = pause_req (pipeline_spec p) in
      case h of None \<Rightarrow> es = all_done (request cl tn pn) qs \<and> pipeline_spec p' = pipeline_spec p \<and>
          pt_archived (pipeline_status p') = pt_archived (pipeline_status p) \<and>
          pt_paused (pipeline_status p') = Some (ps_paused (pipeline_spec p))
      | Some res \<Rightarrow> stopped_at (request cl tn pn) qs res es)" (is ?P)
    and "outcome (apply_exposed env p cl tn pn) (\<lambda>(p', h) es. let qs = expose_req (pipeline_spec p) in
      case h of None \<Rightarrow> es = all_done (request cl tn pn) qs \<and> pipeline_spec p' = pipeline_spec p \<and>
          pt_archived (pipeline_status p') = pt_archived (pipeline_status p) \<and>
          pt_paused (pipeline_status p') = pt_paused (pipeline_status p) \<and>
          pt_exposed (pipeline_status p') = Some (ps_exposed (pipeline_spec p))
      | Some res \<Rightarrow> stopped_at (request cl tn pn) qs res es)" (is ?E)
proof -
  note failed = state_failed_outcome [OF assms]
  note first = stopped_at_first [where req = "request cl tn pn" and qs = "[]"]
  show ?A unfolding apply_archived_def Let_def
    by (intro outcome_intros failed [where q = RArchive, unfolded refusal.simps, THEN outcome_mono])
      (auto simp: archive_req_def intro!: first [where q = RArchive, unfolded request.simps] refusal_event)
  show ?P unfolding apply_paused_def Let_def
    by (intro outcome_intros failed [where q = RPause, unfolded refusal.simps, THEN outcome_mono] failed [where q = RUnpause, unfolded refusal.simps, THEN outcome_mono])
      (auto simp: pause_req_def intro: first [where q = RPause, unfolded request.simps] first [where q = RUnpause, unfolded request.simps])
  show ?E unfolding apply_exposed_def Let_def
    by (intro outcome_intros failed [where q = RExpose, unfolded refusal.simps, THEN outcome_mono] failed [where q = RHide, unfolded refusal.simps, THEN outcome_mono])
      (auto simp: expose_req_def intro: first [where q = RExpose, unfolded request.simps] first [where q = RHide, unfolded request.simps])
qed

lemma applyPipelineState_outcome:
  assumes "conditions_law env"
  shows "outcome (applyPipelineState env p cl tn pn) (\<lambda>(p', h) es.
      case h of None \<Rightarrow> es = all_done (request cl tn pn) (wanted_state (pipeline_spec p)) \<and>
          pt_archived (pipeline_status p') = Some (ps_archived (pipeline_spec p)) \<and>
          pt_paused (pipeline_status p') = Some (ps_paused (pipeline_spec p)) \<and>
          pt_exposed (pipeline_status p') = Some (ps_exposed (pipeline_spec p))
      | Some res \<Rightarrow> stopped_at (request cl tn pn) (wanted_state (pipeline_spec p)) res es)"
proof -
  note steps = apply_outcomes [OF assms, unfolded Let_def]
  show ?thesis
    unfolding applyPipelineState_def wanted_state_def
    apply (rule outcome_bind, rule outcome_mono [OF steps(1)])
    apply (intro outcome_case(4) outcome_case(2))
     apply (rule outcome_bind, rule outcome_mono [OF steps(2)])
     apply (intro outcome_case(4) outcome_case(2))
      apply (rule outcome_mono [OF steps(3)])
      apply (auto intro!: stopped_at_after split: option.splits)[1]
     apply (rule outcome_return)
     apply (auto intro!: stopped_at_after intro: stopped_at_append)[1]
    apply (rule outcome_return)
    apply (auto intro: stopped_at_append)
    done
qed

text \<open>C29: The state of the spec is applied in a fixed order and all of it: archiving if asked for,
  then pausing or unpausing, then exposing or hiding, each once, for the pipeline and the team at
  hand, in the direction the spec says, and nothing else is done. The step succeeds only if every
  one of these requests succeeded, and then the status shows the spec's state; otherwise the
  requests stop at the first that failed, Ready is written False with the reason that belongs to
  that very request and its error as the message, and the reconcile is retried after 30 seconds, or
  at once with an error when that status write fails.\<close>

theorem pipeline_state_applied_in_order:
  assumes "conditions_law env" and "result_of (applyPipelineState env p cl tn pn) s = (p', h)"
  shows "case h of
      None \<Rightarrow> emitted (applyPipelineState env p cl tn pn) s =
          all_done (request cl tn pn) (wanted_state (pipeline_spec p)) \<and>
        pt_archived (pipeline_status p') = Some (ps_archived (pipeline_spec p)) \<and>
        pt_paused (pipeline_status p') = Some (ps_paused (pipeline_spec p)) \<and>
        pt_exposed (pipeline_status p') = Some (ps_exposed (pipeline_spec p))
    | Some res \<Rightarrow> stopped_at (request cl tn pn) (wanted_state (pipeline_spec p)) res
        (emitted (applyPipelineState env p cl tn pn) s)"
  using outcomeD [OF applyPipelineState_outcome [OF assms(1), of p cl tn pn], of s, unfolded assms(2) prod.case] .

text \<open>A pipeline that is not to be paused or exposed, in a Concourse that refuses to hide it.\<close>

abbreviation no_hide_env :: "unit env" where
  "no_hide_env \<equiv> demo_env\<lparr>e_team := (e_team demo_env)\<lparr>x_hide_pipeline := (\<lambda>_ _ _ w. (Some ''no'', w))\<rparr>\<rparr>"

theorem pipeline_state_applied_in_order_witness:
  "stopped_at (request demo_client ''team'' ''pipeline'') [RUnpause, RHide] (seconds 30, None)
     (emitted (applyPipelineState no_hide_env demo_pipeline demo_client ''team'' ''pipeline'') (demo_start ()))"
proof -
  have law: "conditions_law no_hide_env" using demo_env_laws(1) by (simp add: conditions_law_def)
  have "\<exists>p'. result_of (applyPipelineState no_hide_env demo_pipeline demo_client ''team'' ''pipeline'') (demo_start ())
      = (p', Some (seconds 30, None))"
    by (simp add: eval_simps applyPipelineState_def apply_archived_def apply_paused_def apply_exposed_def
        state_failed_def cong: eval_cong)
  then obtain p' where "result_of (applyPipelineState no_hide_env demo_pipeline demo_client ''team'' ''pipeline'')
      (demo_start ()) = (p', Some (seconds 30, None))" ..
  from pipeline_state_applied_in_order [OF law this]
  show ?thesis by (simp add: wanted_state_def archive_req_def pause_req_def expose_req_def)
qed

section \<open>Deletion\<close>

lemma deletePipeline_outcome:
  "outcome (deletePipeline env p) (\<lambda>r es. list_all (\<lambda>e. is_kread e \<or> is_event e \<or> is_awrite e) es \<and>
     (if ps_reclaimPolicy (pipeline_spec p) = ReclaimOrphan then list_all is_event es \<and> r = None
      else filter is_awrite es = [] \<and> r \<noteq> None \<or>
        (\<exists>cl tn. filter is_awrite es = [AWrite (DeletePipeline cl tn (ResolvedPipelineName p) r)] \<and>
           saw_team env p es)))"
proof -
  have chain: "outcome (resolveClientForPipeline env p) (\<lambda>r es. list_all is_kread es \<and> (isl r \<or> saw_team env p es))"
    by (rule pipeline_chain.known)
  have quiet: "list_all is_kread es \<Longrightarrow> filter is_awrite es = [] \<and> list_all (\<lambda>e. is_kread e \<or> is_event e \<or> is_awrite e) es" for es
    by (auto simp: list_all_iff filter_empty_conv is_kread_def is_awrite_def split: io.splits)
  show ?thesis
    unfolding deletePipeline_def Let_def
    apply (rule outcome_case(3))
     apply (intro outcome_intros)
      apply simp_all[2]
    apply (rule outcome_bind, rule outcome_mono [OF chain])
    apply (intro outcome_intros)
      apply (simp_all add: quiet persistent_append(2) [OF persistent_saw(2)])
    done
qed

text \<open>How a deletion ends: with the finalizer gone.\<close>

definition released :: "'w env \<Rightarrow> Pipeline \<Rightarrow> Result \<times> goerr option \<Rightarrow> io list \<Rightarrow> bool" where
  "released env p res es \<longleftrightarrow>
    (if pipelineFinalizer \<notin> set (om_finalizers (pipeline_meta p)) then es = [] \<and> res = (0, None)
     else \<exists>d ds q r. es = ds @ [KWrite (UpdatePipeline q r)] \<and>
       set (om_finalizers (pipeline_meta q)) = set (om_finalizers (pipeline_meta p)) - {pipelineFinalizer} \<and>
       (snd res = None \<longleftrightarrow> (\<exists>p'. r = Inr p')) \<and>
       (if ps_reclaimPolicy (pipeline_spec p) = ReclaimOrphan then list_all is_event ds
        else filter is_awrite ds = [] \<and> d \<noteq> None \<or>
          (\<exists>cl tn. filter is_awrite ds = [AWrite (DeletePipeline cl tn (ResolvedPipelineName p) d)] \<and>
             saw_team env p ds)))"

lemma lifecycle_deletes:
  assumes "finalizers_law env" and "\<not> ps_suspend (pipeline_spec p)"
    and "om_deletionTimestamp (pipeline_meta p) \<noteq> None"
  shows "outcome (handlePipelineLifecycle env p) (\<lambda>(p', handled, err) es. handled \<and> released env p (0, err) es)"
proof -
  have del: "om_deletionTimestamp (pipeline_meta p) \<noteq> None" by fact
  show ?thesis
  proof (cases "pipelineFinalizer \<in> set (om_finalizers (pipeline_meta p))")
    case False
    then have no: "\<not> l_contains_finalizer (e_libs env) (om_finalizers (pipeline_meta p)) pipelineFinalizer"
      using assms(1) by (simp add: finalizers_law_def)
    show ?thesis
      unfolding handlePipelineLifecycle_def if_not_P [OF assms(2)] if_P [OF del] if_not_P [OF no] released_def if_P [OF False]
      by (rule outcome_return) simp
  next
    case True
    then have yes: "l_contains_finalizer (e_libs env) (om_finalizers (pipeline_meta p)) pipelineFinalizer"
      using assms(1) by (simp add: finalizers_law_def)
    have removed: "set (om_finalizers (pipeline_meta (set_pipeline_finalizers (l_remove_finalizer (e_libs env)
        (om_finalizers (pipeline_meta p)) pipelineFinalizer) p))) = set (om_finalizers (pipeline_meta p)) - {pipelineFinalizer}"
      "pipeline_spec (set_pipeline_finalizers (l_remove_finalizer (e_libs env)
        (om_finalizers (pipeline_meta p)) pipelineFinalizer) p) = pipeline_spec p"
      using assms(1) by (simp_all add: finalizers_law_def set_pipeline_finalizers_def)
    have present: "\<not> pipelineFinalizer \<notin> set (om_finalizers (pipeline_meta p))" using True by simp
    show ?thesis
      unfolding handlePipelineLifecycle_def if_not_P [OF assms(2)] if_P [OF del] if_P [OF yes] released_def if_not_P [OF present]
        Let_def
      apply (rule outcome_bind, rule outcome_mono [OF deletePipeline_outcome])
      apply (intro outcome_intros)
       apply (simp_all only: prod.case)
      subgoal for d ds r err
        by (rule conjI, simp, rule exI [of _ d], rule exI [of _ ds], rule exI, rule exI, intro conjI, simp)
          (auto simp: removed)
      subgoal for d ds r err
        by (rule conjI, simp, rule exI [of _ d], rule exI [of _ ds], rule exI, rule exI, intro conjI, simp)
          (auto simp: removed)
      done
  qed
qed

text \<open>Deleting a Pipeline CR always lets the CR go. Without our finalizer the reconcile only
  reads it; with it, the last thing it does is to write the object back without that finalizer
  and with all others kept. Under \<open>Orphan\<close> nothing but an event comes before, and Concourse is not
  touched; otherwise there is at most one request to Concourse, the deletion of this pipeline,
  made behind a ready Team and Instance. Whether that request succeeded, or was not even made
  because the chain did not resolve, makes no difference to the finalizer.\<close>

lemma pipeline_deletion_releases:
  assumes "finalizers_law env" and "x_get_pipeline (e_k8s env) req (world s) = (Inr p, w)"
    and "\<not> ps_suspend (pipeline_spec p)" and "om_deletionTimestamp (pipeline_meta p) \<noteq> None"
  shows "\<exists>es. emitted (Pipeline_Reconcile env req) s = KRead (GetPipeline req (Inr p)) # es \<and>
    released env p (result_of (Pipeline_Reconcile env req) s) es"
  unfolding Pipeline_Reconcile_def reconcile_pipeline_def
  apply (rule first_call [where f = "x_get_pipeline (e_k8s env) req" and c = "\<lambda>r. KRead (GetPipeline req r)"])
   apply (rule assms(2))
  apply (simp only: sum.case)
  apply (rule outcome_bind, rule outcome_mono [OF lifecycle_deletes [OF assms(1,3,4)]])
  apply (intro outcome_case(4) outcome_case(3) outcome_return)
   apply simp_all
  done

definition dying_pipeline :: Pipeline where
  "dying_pipeline = demo_pipeline\<lparr>pipeline_meta := (demo_meta ''pipeline'')
     \<lparr>om_deletionTimestamp := Some 0, om_finalizers := [pipelineFinalizer]\<rparr>\<rparr>"

abbreviation with_pipeline :: "Pipeline \<Rightarrow> 'w env \<Rightarrow> 'w env" where
  "with_pipeline p env \<equiv> env\<lparr>e_k8s := (e_k8s env)\<lparr>x_get_pipeline := (\<lambda>_ w. (Inr p, w))\<rparr>\<rparr>"

lemma pipeline_deletion_releases_example:
  "\<exists>es q r. emitted (Pipeline_Reconcile (with_pipeline dying_pipeline demo_env) (''ci'', ''pipeline'')) (demo_start ())
     = es @ [KWrite (UpdatePipeline q r)] \<and> pipelineFinalizer \<notin> set (om_finalizers (pipeline_meta q))"
proof -
  have law: "finalizers_law (with_pipeline dying_pipeline demo_env)" by (auto simp: finalizers_law_def)
  have "x_get_pipeline (e_k8s (with_pipeline dying_pipeline demo_env)) (''ci'', ''pipeline'') (world (demo_start ()))
      = (Inr dying_pipeline, ())" by simp
  from pipeline_deletion_releases [OF law this] obtain ds q r where
    "emitted (Pipeline_Reconcile (with_pipeline dying_pipeline demo_env) (''ci'', ''pipeline'')) (demo_start ())
      = (KRead (GetPipeline (''ci'', ''pipeline'') (Inr dying_pipeline)) # ds) @ [KWrite (UpdatePipeline q r)]"
    "set (om_finalizers (pipeline_meta q)) = {pipelineFinalizer} - {pipelineFinalizer}"
    by (auto simp: dying_pipeline_def released_def)
  then show ?thesis by (intro exI conjI) (assumption, simp)
qed

text \<open>The two cases the finalizer does not tell apart: here Concourse refused the deletion.\<close>

lemma refused_deletion_still_releases:
  "\<exists>q r. emitted (Pipeline_Reconcile (with_pipeline dying_pipeline (demo_env\<lparr>e_team := demo_team_api
       \<lparr>x_delete_pipeline := (\<lambda>_ _ _ w. (Some ''forbidden'', w))\<rparr>\<rparr>)) (''ci'', ''pipeline'')) (demo_start ()) ! 6
     = KWrite (UpdatePipeline q (Inr r)) \<and> om_finalizers (pipeline_meta q) = [] \<and>
   emitted (Pipeline_Reconcile (with_pipeline dying_pipeline (demo_env\<lparr>e_team := demo_team_api
       \<lparr>x_delete_pipeline := (\<lambda>_ _ _ w. (Some ''forbidden'', w))\<rparr>\<rparr>)) (''ci'', ''pipeline'')) (demo_start ()) ! 5
     = AWrite (DeletePipeline demo_client ''team'' ''pipeline'' (Some ''forbidden''))"
  by (simp add: eval_simps Pipeline_Reconcile_def reconcile_pipeline_def handlePipelineLifecycle_def deletePipeline_def
      dying_pipeline_def resolver_eval recordEvent_def set_pipeline_finalizers_def refKey_def
      ResolveNamespace_def ResolvedTeamName_def ResolvedPipelineName_def demo_client_def cong: eval_cong)

section \<open>Behind the gate, and only with the finalizer in place\<close>

definition is_delete :: "io \<Rightarrow> bool" where
  "is_delete e = (case e of AWrite (DeletePipeline cl tn pn r) \<Rightarrow> True | _ \<Rightarrow> False)"

text \<open>A Pipeline that may be created or changed: alive, and our finalizer is on the object.\<close>

definition guarded_pipeline :: "'w env \<Rightarrow> ObjectKey \<Rightarrow> io list \<Rightarrow> bool" where
  "guarded_pipeline env req es \<longleftrightarrow> (\<exists>p0 p.
     KRead (GetPipeline req (Inr p0)) \<in> set es \<and> \<not> ps_suspend (pipeline_spec p0) \<and>
     om_deletionTimestamp (pipeline_meta p0) = None \<and>
     (pipelineFinalizer \<in> set (om_finalizers (pipeline_meta p0)) \<or>
      (\<exists>x y. KWrite (UpdatePipeline x (Inr y)) \<in> set es \<and> pipelineFinalizer \<in> set (om_finalizers (pipeline_meta x)))) \<and>
     saw_team env p es)"

lemma persistent_guarded_pipeline: "persistent (guarded_pipeline env req)"
  unfolding persistent_def guarded_pipeline_def
  using persistent_saw(2) [unfolded persistent_def] by blast

lemma lifecycle_lives:
  assumes "finalizers_law env"
  shows "outcome (handlePipelineLifecycle env p) (\<lambda>(p', handled, err) es.
    list_all (\<lambda>e. \<not> (is_awrite e \<and> \<not> is_delete e)) es \<and>
    (\<not> handled \<longrightarrow> list_all (\<lambda>e. \<not> is_awrite e) es \<and> \<not> ps_suspend (pipeline_spec p) \<and>
       om_deletionTimestamp (pipeline_meta p) = None \<and>
       (pipelineFinalizer \<in> set (om_finalizers (pipeline_meta p)) \<or>
        (\<exists>x y. KWrite (UpdatePipeline x (Inr y)) \<in> set es \<and> pipelineFinalizer \<in> set (om_finalizers (pipeline_meta x))))))"
proof -
  have quiet: "emits (\<lambda>e. \<not> (is_awrite e \<and> \<not> is_delete e)) (deletePipeline env p)"
    unfolding deletePipeline_def by (intro emits_intros) (simp_all add: is_delete_def)
  show ?thesis
    unfolding handlePipelineLifecycle_def Let_def
    by (intro outcome_intros outcome_mono [OF emits_outcome [OF quiet]])
      (use assms in \<open>auto simp: finalizers_law_def set_pipeline_finalizers_def\<close>)
qed

lemma set_pipeline_owner_emits:
  "(\<And>x. A (KRead x)) \<Longrightarrow> (\<And>x. A (KWrite x)) \<Longrightarrow> emits A (set_pipeline_owner env p)"
  unfolding set_pipeline_owner_def by (intro emits_intros) simp_all

lemma pipeline_web_url_reads: "emits is_kread (pipeline_web_url env p tn pn)"
  unfolding pipeline_web_url_def by (intro emits_intros) simp_all

lemma loadPipelineConfig_reads: "emits is_kread (loadPipelineConfig env p)"
  unfolding loadPipelineConfig_def by (intro emits_intros) simp_all

definition no_delete :: "io \<Rightarrow> bool" where
  "no_delete e \<longleftrightarrow> \<not> is_delete e"

lemma apply_pipeline_emits: "emits no_delete (apply_pipeline env p cl tn pn yaml)"
  unfolding apply_pipeline_def syncPipelineConfig_def set_config_def currentVersion_def
    applyPipelineState_def apply_archived_def apply_paused_def apply_exposed_def state_failed_def
    observePipeline_def finish_pipeline_def
  by (intro emits_intros) (simp_all add: no_delete_def is_delete_def)

lemma sync_pipeline_emits: "emits no_delete (sync_pipeline env p)"
  unfolding sync_pipeline_def
  by (intro emits_intros apply_pipeline_emits emits_of_reads [OF pipeline_web_url_reads]
      emits_of_reads [OF loadPipelineConfig_reads])
    (simp_all add: no_delete_def is_delete_def)

lemma sync_pipeline_guarded: "guarded [] is_awrite (saw_team env p) (sync_pipeline env p)"
  unfolding sync_pipeline_def
proof (rule pipeline_chain.gate)
  fix err
  show "emits (\<lambda>e. \<not> is_awrite e) (do {
      k_status_pipeline env (pipeline_cond env p ConditionReady ConditionFalse ''TeamNotReady'' err);
      ret (seconds 30, None) })"
    by (intro emits_intros) simp
next
  fix y :: "goclient \<times> string"
  show "outcome (case y of (cl, teamName) \<Rightarrow> do {
      let pipelineName = ResolvedPipelineName p;
      let pipeline = map_pipeline_status (\<lambda>s. s\<lparr>pt_resolvedName := pipelineName\<rparr>) p;
      pipeline \<leftarrow> pipeline_web_url env pipeline teamName pipelineName;
      y \<leftarrow> loadPipelineConfig env pipeline;
      (case y of
         Inl err \<Rightarrow> do {
           k_status_pipeline env (pipeline_cond env pipeline ConditionReady ConditionFalse ''ConfigLoadFailed'' err);
           ret (seconds 30, None) }
       | Inr yaml \<Rightarrow> apply_pipeline env pipeline cl teamName pipelineName yaml) }) (\<lambda>_ _. True)"
    by (rule total_outcome [where A = no_delete], intro emits_intros apply_pipeline_emits
        emits_of_reads [OF pipeline_web_url_reads] emits_of_reads [OF loadPipelineConfig_reads])
      (simp_all add: no_delete_def is_delete_def)
qed

lemma Pipeline_Reconcile_guarded:
  assumes "finalizers_law env"
  shows "guarded [] (\<lambda>e. is_awrite e \<and> \<not> is_delete e) (guarded_pipeline env req) (Pipeline_Reconcile env req)"
  unfolding Pipeline_Reconcile_def reconcile_pipeline_def
  apply (rule guarded_extern [OF persistent_guarded_pipeline], simp)
  apply (rule guarded_case(1), rule guarded_return)
  apply (rule guarded_bind_outcome [OF persistent_guarded_pipeline])
  apply (rule outcome_mono [OF lifecycle_lives [OF assms]])
  apply (clarsimp split: prod.splits)
  apply (intro conjI impI guarded_return guarded_bind [OF persistent_guarded_pipeline] guarded_case set_pipeline_owner_emits)
    apply simp_all
  subgoal for p es p' u p''
    by (rule guarded_sub [OF guarded_weaken [OF sync_pipeline_guarded]])
      (auto simp: guarded_pipeline_def intro: persistent_append(2) [OF persistent_saw(2)])
  done

definition dying_evidence :: "'w env \<Rightarrow> Pipeline \<Rightarrow> io list \<Rightarrow> bool" where
  "dying_evidence env p es \<longleftrightarrow> om_deletionTimestamp (pipeline_meta p) \<noteq> None \<and>
     pipelineFinalizer \<in> set (om_finalizers (pipeline_meta p)) \<and>
     ps_reclaimPolicy (pipeline_spec p) \<noteq> ReclaimOrphan \<and> saw_team env p es"

lemma is_delete_awrite: "is_delete e \<Longrightarrow> is_awrite e"
  by (simp add: is_delete_def is_awrite_def split: io.splits)

lemma released_deletes:
  assumes "om_deletionTimestamp (pipeline_meta p) \<noteq> None" and "released env p res es" and "list_ex is_delete es"
  shows "dying_evidence env p es"
proof -
  have f: "pipelineFinalizer \<in> set (om_finalizers (pipeline_meta p))"
    using assms(2,3) by (cases "pipelineFinalizer \<in> set (om_finalizers (pipeline_meta p))") (simp_all add: released_def)
  then have present: "\<not> pipelineFinalizer \<notin> set (om_finalizers (pipeline_meta p))" by simp
  from assms(2) [unfolded released_def if_not_P [OF present]]
  obtain d ds q r where es: "es = ds @ [KWrite (UpdatePipeline q r)]"
    and c: "if ps_reclaimPolicy (pipeline_spec p) = ReclaimOrphan then list_all is_event ds
        else filter is_awrite ds = [] \<and> d \<noteq> None \<or>
          (\<exists>cl tn. filter is_awrite ds = [AWrite (DeletePipeline cl tn (ResolvedPipelineName p) d)] \<and> saw_team env p ds)"
    by (elim exE conjE) rule
  from assms(3) es obtain e where e: "e \<in> set ds" "is_delete e"
    by (auto simp: list_ex_iff is_delete_def)
  then have "e \<in> set (filter is_awrite ds)" by (simp add: is_delete_awrite)
  moreover have "\<not> is_event e" using e(2) by (simp add: is_delete_def is_event_def split: io.splits)
  ultimately have "ps_reclaimPolicy (pipeline_spec p) \<noteq> ReclaimOrphan \<and> saw_team env p ds"
    using c e(1) by (auto simp: list_all_iff filter_empty_conv split: if_splits)
  then show ?thesis using assms(1) f es persistent_append(2) [OF persistent_saw(2)]
    by (auto simp: dying_evidence_def)
qed

lemma lifecycle_no_delete:
  assumes "ps_suspend (pipeline_spec p) \<or> om_deletionTimestamp (pipeline_meta p) = None"
  shows "emits no_delete (handlePipelineLifecycle env p)"
  unfolding handlePipelineLifecycle_def
  by (intro emits_intros) (use assms in \<open>auto simp: no_delete_def is_delete_def\<close>)

lemma reconcile_pipeline_deletes:
  assumes "finalizers_law env"
  shows "outcome (reconcile_pipeline env p) (\<lambda>_ es. list_ex is_delete es \<longrightarrow> dying_evidence env p es)"
proof (cases "ps_suspend (pipeline_spec p) \<or> om_deletionTimestamp (pipeline_meta p) = None")
  case True
  have "emits no_delete (reconcile_pipeline env p)"
    unfolding reconcile_pipeline_def
    by (intro emits_intros lifecycle_no_delete [OF True] set_pipeline_owner_emits sync_pipeline_emits)
      (simp_all add: no_delete_def is_delete_def)
  from emits_outcome [OF this] show ?thesis
    by (rule outcome_mono) (auto simp: list_ex_iff list_all_iff no_delete_def)
next
  case False
  then have live: "\<not> ps_suspend (pipeline_spec p)" and dying: "om_deletionTimestamp (pipeline_meta p) \<noteq> None"
    by simp_all
  show ?thesis
    unfolding reconcile_pipeline_def
    apply (rule outcome_bind, rule outcome_mono [OF lifecycle_deletes [OF assms live dying]])
    apply (intro outcome_case(4) outcome_case(3) outcome_return)
     apply (auto intro: released_deletes [OF dying])
    done
qed

lemma Pipeline_Reconcile_deletes:
  assumes "finalizers_law env"
  shows "outcome (Pipeline_Reconcile env req) (\<lambda>_ es. list_ex is_delete es \<longrightarrow>
    (\<exists>p. KRead (GetPipeline req (Inr p)) \<in> set es \<and> dying_evidence env p es))"
  unfolding Pipeline_Reconcile_def
  apply (rule outcome_bind, rule outcome_extern, rule outcome_case(1))
   apply (rule outcome_return, simp add: is_delete_def)
  apply (rule outcome_mono [OF reconcile_pipeline_deletes [OF assms]])
  apply (auto simp: is_delete_def dying_evidence_def)
  done

text \<open>C16: The Pipeline reconciler changes Concourse on evidence only. Any request that changes
  Concourse is made after reading a Pipeline that is not suspended, and behind a Team and an
  Instance that are Ready. A request that creates or changes the pipeline is made for an object
  that is not being deleted and carries our finalizer, either as it was read or written before;
  a deletion only for one that is being deleted, carries it and does not ask to be orphaned.\<close>

theorem pipeline_writes_on_evidence:
  assumes "finalizers_law env"
    and "e \<in> set (emitted (Pipeline_Reconcile env req) s)" and "is_awrite e"
  shows "if is_delete e
    then \<exists>p. KRead (GetPipeline req (Inr p)) \<in> set (emitted (Pipeline_Reconcile env req) s) \<and>
      dying_evidence env p (emitted (Pipeline_Reconcile env req) s)
    else guarded_pipeline env req (emitted (Pipeline_Reconcile env req) s)"
  using outcomeD [OF Pipeline_Reconcile_deletes [OF assms(1)], of req s] assms(2,3)
    guardedD [OF Pipeline_Reconcile_guarded [OF assms(1)], of e req s]
  by (auto simp: list_ex_iff)

lemmas pipeline_eval = Pipeline_Reconcile_def reconcile_pipeline_def handlePipelineLifecycle_def
  set_pipeline_finalizers_def set_pipeline_owner_def sync_pipeline_def pipeline_web_url_def
  loadPipelineConfig_def apply_pipeline_def syncPipelineConfig_def set_config_def currentVersion_def
  base_url_def refKey_def ResolveNamespace_def recordEvent_def resolver_eval ResolvedTeamName_def
  ResolvedPipelineName_def warnings_cond_def pipeline_cond_def applyPipelineState_def
  apply_archived_def apply_paused_def apply_exposed_def observePipeline_def finish_pipeline_def

lemma demo_pipeline_run:
  "AWrite (SetPipelineConfig demo_client ''team'' ''pipeline'' ''1'' ''jobs: []'' (Inr []))
   \<in> set (emitted (Pipeline_Reconcile demo_env (''ci'', ''pipeline'')) (demo_start ()))"
  by (simp add: demo_client_def eval_simps pipeline_eval cong: eval_cong)

theorem pipeline_writes_on_evidence_witness:
  "guarded_pipeline (demo_env :: unit env) (''ci'', ''pipeline'')
     (emitted (Pipeline_Reconcile demo_env (''ci'', ''pipeline'')) (demo_start ()))"
  using pipeline_writes_on_evidence [OF demo_env_laws(2) demo_pipeline_run] by (simp add: is_delete_def)

end
