(* ===== verification/Team_Controller.thy ===== *)
theory Team_Controller
  imports Resolver
begin

text \<open>
  \<open>internal/controller/team_controller.go\<close>: the reconciler of a Team, its roles and what it
  guarantees: the auth it sends is the one the roles spell out, a team is destroyed only when
  it may be, and the finalizer goes only once the team is gone or to be left.
\<close>

abbreviation teamFinalizer :: string where
  "teamFinalizer \<equiv> ''concourse-ci.org/team-finalizer''"

abbreviation map_team_status :: "(TeamStatus \<Rightarrow> TeamStatus) \<Rightarrow> Team \<Rightarrow> Team" where
  "map_team_status f t \<equiv> t\<lparr>team_status := f (team_status t)\<rparr>"

definition team_cond ::
  "'w env \<Rightarrow> Team \<Rightarrow> string \<Rightarrow> ConditionStatus \<Rightarrow> string \<Rightarrow> string \<Rightarrow> Team" where
  "team_cond env t ct st reason msg = map_team_status (\<lambda>s. s\<lparr>tt_conditions :=
     setCondition env (tt_conditions s) (om_generation (team_meta t)) ct st reason msg\<rparr>) t"

abbreviation team_event ::
  "'w env \<Rightarrow> Team \<Rightarrow> event_type \<Rightarrow> string \<Rightarrow> string \<Rightarrow> ('w, unit) prog" where
  "team_event env t et reason msg \<equiv> recordEvent env KTeam (team_meta t) et reason msg"

definition set_team_finalizers :: "string list \<Rightarrow> Team \<Rightarrow> Team" where
  "set_team_finalizers fs t = t\<lparr>team_meta := (team_meta t)\<lparr>om_finalizers := fs\<rparr>\<rparr>"

section \<open>Roles\<close>

text \<open>\<open>auth[role][kind] = append(auth[role][kind], names...)\<close>; a missing entry reads as empty.\<close>

definition append_auth :: "team_auth \<Rightarrow> string \<Rightarrow> string \<Rightarrow> string list \<Rightarrow> team_auth" where
  "append_auth auth role kind names =
     (let m = (case auth role of None \<Rightarrow> Map.empty | Some m \<Rightarrow> m);
          old = (case m kind of None \<Rightarrow> [] | Some xs \<Rightarrow> xs)
      in auth(role \<mapsto> m(kind \<mapsto> old @ names)))"

definition add_role :: "team_auth \<Rightarrow> TeamRole \<Rightarrow> team_auth" where
  "add_role auth role =
     (let auth = (if auth (role_role role) = None then auth(role_role role \<mapsto> Map.empty) else auth);
          auth = append_auth auth (role_role role) ''users'' (role_users role)
      in append_auth auth (role_role role) ''groups'' (role_groups role))"

definition buildTeamAuth :: "TeamRole list \<Rightarrow> team_auth option" where
  "buildTeamAuth roles = (if roles = [] then None else Some (foldl add_role Map.empty roles))"

section \<open>Deletion\<close>

definition deleteTeam :: "'w env \<Rightarrow> Team \<Rightarrow> ('w, goerr option) prog" where
  "deleteTeam env team =
     (if ts_reclaimPolicy (team_spec team) = ReclaimOrphan then do {
        team_event env team EventTypeNormal ''Orphaned'' ''Team deleted from Kubernetes; Concourse team remains'';
        ret None }
      else
        (let teamName = ResolvedTeamName team in
         if teamName = ''main'' \<and> \<not> ts_allowDestroy (team_spec team) then do {
           team_event env team EventTypeWarning ''DeleteRefused'' ''Refusing to destroy reserved 'main' team'';
           ret (Some (''refusing to destroy reserved team '' @ l_quote (e_libs env) teamName
             @ ''; set spec.allowDestroy=true to override'')) }
         else do {
           c \<leftarrow> resolveInstanceForTeam env team;
           (case c of
              Inl err \<Rightarrow> ret (Some err)
            | Inr cl \<Rightarrow> do {
                team_event env team EventTypeNormal ''Deleting''
                  (''Destroying Concourse team '' @ l_quote (e_libs env) teamName);
                a_destroy_team env cl teamName }) }))"

definition finalize_team :: "'w env \<Rightarrow> Team \<Rightarrow> 'w reconcile" where
  "finalize_team env team =
     (if l_contains_finalizer (e_libs env) (om_finalizers (team_meta team)) teamFinalizer then do {
        e \<leftarrow> deleteTeam env team;
        (case e of
           Some err \<Rightarrow> do {
             k_status_team env (team_cond env team ConditionReady ConditionFalse ''DeleteFailed'' err);
             ret (seconds 30, None) }
         | None \<Rightarrow> do {
             u \<leftarrow> k_update_team env (set_team_finalizers (l_remove_finalizer (e_libs env)
               (om_finalizers (team_meta team)) teamFinalizer) team);
             (case u of
                Inl err \<Rightarrow> ret (0, Some (''remove finalizer: '' @ kerr_text err))
              | Inr _ \<Rightarrow> ret (0, None)) }) }
      else ret (0, None))"

section \<open>Reconcile\<close>

definition add_team_finalizer :: "'w env \<Rightarrow> Team \<Rightarrow> ('w, kerr + Team) prog" where
  "add_team_finalizer env team =
     (if \<not> l_contains_finalizer (e_libs env) (om_finalizers (team_meta team)) teamFinalizer
      then k_update_team env (set_team_finalizers (l_add_finalizer (e_libs env)
        (om_finalizers (team_meta team)) teamFinalizer) team)
      else ret (Inr team))"

definition set_team_owner :: "'w env \<Rightarrow> Team \<Rightarrow> ('w, kerr + Team) prog" where
  "set_team_owner env team = do {
     i \<leftarrow> k_get_instance env (refKey (om_namespace (team_meta team)) (ts_instanceRef (team_spec team)));
     (case i of
        Inl _ \<Rightarrow> ret (Inr team)
      | Inr inst \<Rightarrow>
          (if om_namespace (instance_meta inst) = om_namespace (team_meta team) then
             (case l_set_controller_reference (e_libs env) KInstance (instance_meta inst) KTeam (team_meta team) of
                Inl err \<Rightarrow> ret (Inr team)
              | Inr refs \<Rightarrow>
                  (if refs \<noteq> om_ownerReferences (team_meta team)
                   then k_update_team env (team\<lparr>team_meta := (team_meta team)\<lparr>om_ownerReferences := refs\<rparr>\<rparr>)
                   else ret (Inr team)))
           else ret (Inr team))) }"

definition team_web_url :: "'w env \<Rightarrow> Team \<Rightarrow> string \<Rightarrow> ('w, Team) prog" where
  "team_web_url env team teamName = do {
     i \<leftarrow> k_get_instance env (refKey (om_namespace (team_meta team)) (ts_instanceRef (team_spec team)));
     (case i of
        Inl _ \<Rightarrow> ret team
      | Inr instanceObj \<Rightarrow>
          (if base_url instanceObj \<noteq> ''''
           then ret (map_team_status (\<lambda>s. s\<lparr>tt_webURL :=
             trim_suffix (base_url instanceObj) ''/'' @ ''/teams/'' @ teamName\<rparr>) team)
           else ret team)) }"

definition finish_team :: "'w env \<Rightarrow> Team \<Rightarrow> string \<Rightarrow> int \<Rightarrow> config_warning list \<Rightarrow> 'w reconcile" where
  "finish_team env team teamName teamID warnings = do {
     team \<leftarrow> team_web_url env team teamName;
     t \<leftarrow> now env;
     let team = map_team_status (\<lambda>s. s\<lparr>tt_teamID := int32Ptr teamID, tt_resolvedName := teamName,
       tt_lastApplied := Some t, tt_observedGeneration := om_generation (team_meta team)\<rparr>) team;
     (if warnings \<noteq> []
      then team_event env team EventTypeWarning ''HasWarnings''
        (''Team sync completed with '' @ itoa (int (length warnings)) @ '' warning(s)'')
      else ret ());
     let team = (if warnings \<noteq> []
       then team_cond env team ConditionConfigWarning ConditionTrue ''HasWarnings''
         (itoa (int (length warnings)) @ '' warning(s): '' @ hd warnings)
       else team_cond env team ConditionConfigWarning ConditionFalse ''NoWarnings'' '''');
     let team = team_cond env team ConditionReady ConditionTrue ''Ready'' '''';
     (if tt_observedGeneration (team_status team) \<noteq> om_generation (team_meta team)
      then team_event env team EventTypeNormal ''CreatedOrUpdated''
        (''Team '' @ l_quote (e_libs env) teamName @ '' synchronized successfully'')
      else ret ());
     u \<leftarrow> k_status_team env team;
     (case u of
        Inl err \<Rightarrow> ret (0, Some (''update status: '' @ kerr_text err))
      | Inr _ \<Rightarrow> ret (minutes 5, None)) }"

definition sync_team :: "'w env \<Rightarrow> Team \<Rightarrow> 'w reconcile" where
  "sync_team env team = do {
     c \<leftarrow> resolveInstanceForTeam env team;
     (case c of
        Inl err \<Rightarrow> do {
          k_status_team env (team_cond env team ConditionReady ConditionFalse ''InstanceNotReady'' err);
          ret (seconds 30, None) }
      | Inr cl \<Rightarrow> do {
          let teamName = ResolvedTeamName team;
          r \<leftarrow> a_create_or_update_team env cl teamName (buildTeamAuth (ts_roles (team_spec team)));
          (case r of
             Inl err \<Rightarrow> do {
               team_event env team EventTypeWarning ''CreateOrUpdateFailed''
                 (''Failed to create or update team: '' @ err);
               k_status_team env (team_cond env team ConditionReady ConditionFalse ''CreateOrUpdateFailed'' err);
               ret (seconds 30, None) }
           | Inr (teamID, warnings) \<Rightarrow> finish_team env team teamName teamID warnings) }) }"

definition reconcile_team :: "'w env \<Rightarrow> Team \<Rightarrow> 'w reconcile" where
  "reconcile_team env team =
     (if ts_suspend (team_spec team) then do {
        u \<leftarrow> k_status_team env (team_cond env team ConditionReady ConditionFalse ''Suspended''
          ''Reconciliation is suspended'');
        (case u of
           Inl err \<Rightarrow> ret (0, Some (''update status: '' @ kerr_text err))
         | Inr _ \<Rightarrow> ret (0, None)) }
      else if om_deletionTimestamp (team_meta team) \<noteq> None then finalize_team env team
      else do {
        u \<leftarrow> add_team_finalizer env team;
        (case u of
           Inl err \<Rightarrow> ret (0, Some (''add finalizer: '' @ kerr_text err))
         | Inr team \<Rightarrow> do {
             u \<leftarrow> set_team_owner env team;
             (case u of
                Inl err \<Rightarrow> ret (0, Some (''set owner reference: '' @ kerr_text err))
              | Inr team \<Rightarrow> sync_team env team) }) })"

definition Team_Reconcile :: "'w env \<Rightarrow> ObjectKey \<Rightarrow> 'w reconcile" where
  "Team_Reconcile env req = do {
     r \<leftarrow> k_get_team env req;
     (case r of
        Inl err \<Rightarrow> ret (0, ignore_not_found err)
      | Inr team \<Rightarrow> reconcile_team env team) }"

section \<open>The auth that the roles spell out\<close>

text \<open>The names of one kind that the roles of one name list, in order.\<close>

definition role_names :: "(TeamRole \<Rightarrow> string list) \<Rightarrow> TeamRole list \<Rightarrow> string \<Rightarrow> string list" where
  "role_names kind roles r = concat (map kind (filter (\<lambda>x. role_role x = r) roles))"

lemma add_role_at:
  "add_role auth role r =
     (if r = role_role role
      then (let m = (case auth r of None \<Rightarrow> Map.empty | Some m \<Rightarrow> m) in
        Some (m(''users'' \<mapsto> (case m ''users'' of None \<Rightarrow> [] | Some xs \<Rightarrow> xs) @ role_users role,
          ''groups'' \<mapsto> (case m ''groups'' of None \<Rightarrow> [] | Some xs \<Rightarrow> xs) @ role_groups role)))
      else auth r)"
  by (auto simp: add_role_def append_auth_def Let_def split: option.splits)

lemma foldl_add_role:
  "foldl add_role Map.empty roles r =
     (if r \<in> role_role ` set roles
      then Some [''users'' \<mapsto> role_names role_users roles r, ''groups'' \<mapsto> role_names role_groups roles r]
      else None)"
proof (induction roles rule: rev_induct)
  case (snoc x roles)
  have none: "r \<notin> role_role ` set roles \<Longrightarrow> role_names k roles r = []" for k
    by (auto simp: role_names_def filter_empty_conv)
  show ?case using snoc none
    by (auto simp: add_role_at role_names_def Let_def fun_upd_twist)
qed simp

text \<open>C28: The auth sent for a team is the one its roles spell out: it has an entry for exactly the
  roles listed, the users of a role are those of all its bindings in order, and so are its
  groups, and nothing else; without roles no auth is sent at all.\<close>

theorem team_auth_is_roles:
  "buildTeamAuth roles = (if roles = [] then None
     else Some (\<lambda>r. if r \<in> role_role ` set roles
       then Some [''users'' \<mapsto> role_names role_users roles r, ''groups'' \<mapsto> role_names role_groups roles r]
       else None))"
  by (auto simp: buildTeamAuth_def foldl_add_role)

end
