(* ===== verification/Team_Proofs.thy ===== *)
theory Team_Proofs
  imports Team_Controller
begin

text \<open>
  What the Team reconciler guarantees about destroying a team, about its finalizer, and about
  what it applies.
\<close>

section \<open>Deleting\<close>

text \<open>A team that may be destroyed, with what was read to decide it.\<close>

definition may_destroy :: "'w env \<Rightarrow> Team \<Rightarrow> io list \<Rightarrow> bool" where
  "may_destroy env t es \<longleftrightarrow> ts_reclaimPolicy (team_spec t) \<noteq> ReclaimOrphan \<and>
     (ResolvedTeamName t = ''main'' \<longrightarrow> ts_allowDestroy (team_spec t)) \<and> saw_instance env t es"

lemma reads_no_kwrite:
  "list_all is_kread es \<Longrightarrow> list_all (\<lambda>e. \<not> is_kwrite e) es"
  by (auto simp: list_all_iff is_kread_def is_kwrite_def split: io.splits)

lemma deleteTeam_outcome:
  "outcome (deleteTeam env t) (\<lambda>r es. list_all (\<lambda>e. \<not> is_kwrite e) es \<and>
     (if ts_reclaimPolicy (team_spec t) = ReclaimOrphan then list_all is_event es \<and> r = None
      else filter is_awrite es = [] \<and> r \<noteq> None \<or>
        (\<exists>cl. filter is_awrite es = [AWrite (DestroyTeam cl (ResolvedTeamName t) r)] \<and> may_destroy env t es)))"
  unfolding deleteTeam_def Let_def
  apply (rule outcome_case(3))
   apply (intro outcome_intros)
    apply simp_all[2]
  apply (rule outcome_case(3))
   apply (intro outcome_intros)
    apply simp_all[2]
  apply (rule outcome_bind, rule outcome_mono [OF team_chain.known])
  apply (rule outcome_case(1))
   apply (rule outcome_return, simp add: reads_write_nothing reads_no_kwrite)
  apply (intro outcome_intros)
   apply (auto simp: reads_write_nothing reads_no_kwrite may_destroy_def
      persistent_append(2) [OF persistent_saw(1)])
  done

text \<open>How a deletion ends: the finalizer goes exactly when the team is gone or to be left.\<close>

definition team_released :: "'w env \<Rightarrow> Team \<Rightarrow> io list \<Rightarrow> bool" where
  "team_released env t es \<longleftrightarrow> (\<exists>ds t' r. es = ds @ [KWrite (UpdateTeam t' r)] \<and>
     list_all (\<lambda>e. \<not> is_kwrite e) ds \<and>
     set (om_finalizers (team_meta t')) = set (om_finalizers (team_meta t)) - {teamFinalizer} \<and>
     (if ts_reclaimPolicy (team_spec t) = ReclaimOrphan then list_all is_event ds
      else \<exists>cl. filter is_awrite ds = [AWrite (DestroyTeam cl (ResolvedTeamName t) None)] \<and> may_destroy env t ds))"

definition team_kept :: "'w env \<Rightarrow> Team \<Rightarrow> io list \<Rightarrow> bool" where
  "team_kept env t es \<longleftrightarrow> (\<exists>ds t' r. es = ds @ [KWrite (StatusTeam t' r)] \<and>
     list_all (\<lambda>e. \<not> is_kwrite e) ds \<and> team_meta t' = team_meta t \<and>
     cond_is (tt_conditions (team_status t')) ConditionReady ConditionFalse ''DeleteFailed'' \<and>
     (filter is_awrite ds = [] \<or>
      (\<exists>cl err. filter is_awrite ds = [AWrite (DestroyTeam cl (ResolvedTeamName t) (Some err))] \<and> may_destroy env t ds)))"

lemma team_cond_sel [simp]:
  "team_meta (team_cond env t ct st r m) = team_meta t"
  "team_spec (team_cond env t ct st r m) = team_spec t"
  by (simp_all add: team_cond_def)

lemma team_ready_false:
  "conditions_law env \<Longrightarrow> cond_is (tt_conditions (team_status (team_cond env t ct st r m))) ct st r"
  by (simp add: team_cond_def)

lemma finalize_outcome:
  assumes "finalizers_law env" and "conditions_law env"
  shows "outcome (finalize_team env t) (\<lambda>res es.
    if teamFinalizer \<notin> set (om_finalizers (team_meta t)) then es = [] \<and> res = (0, None)
    else team_released env t es \<or>
      team_kept env t es \<and> res = (seconds 30, None) \<and> ts_reclaimPolicy (team_spec t) \<noteq> ReclaimOrphan)"
proof (cases "teamFinalizer \<in> set (om_finalizers (team_meta t))")
  case False
  have no: "\<not> l_contains_finalizer (e_libs env) (om_finalizers (team_meta t)) teamFinalizer"
    using assms(1) False by (simp add: finalizers_law_def)
  show ?thesis unfolding finalize_team_def if_not_P [OF no] if_P [OF False]
    by (rule outcome_return) simp
next
  case True
  then have yes: "l_contains_finalizer (e_libs env) (om_finalizers (team_meta t)) teamFinalizer"
    using assms(1) by (simp add: finalizers_law_def)
  from True have present: "\<not> teamFinalizer \<notin> set (om_finalizers (team_meta t))" by simp
  have removed: "set (om_finalizers (team_meta (set_team_finalizers (l_remove_finalizer (e_libs env)
      (om_finalizers (team_meta t)) teamFinalizer) t))) = set (om_finalizers (team_meta t)) - {teamFinalizer}"
    using assms(1) by (simp add: finalizers_law_def set_team_finalizers_def)
  show ?thesis
    unfolding finalize_team_def if_P [OF yes] if_not_P [OF present]
    apply (rule outcome_bind, rule outcome_mono [OF deleteTeam_outcome])
    apply (rule outcome_case(2))
    subgoal for d ds
      by (intro outcome_intros disjI1)
        (unfold team_released_def, (intro exI [of _ ds] exI conjI, simp, auto simp: removed)+)
    subgoal for d ds err
      by (intro outcome_intros disjI2)
        (unfold team_kept_def, intro exI [of _ ds] exI conjI, simp, auto simp: team_ready_false [OF assms(2)] split: if_splits)
    done
qed

lemma demo_team_laws: "conditions_law demo_env" "finalizers_law demo_env"
  by (auto simp: conditions_law_def cond_of_demo demo_condition_true_def finalizers_law_def)

text \<open>C11: Deleting a Team: a dying Team that holds the finalizer ends in one of two ways. The
  finalizer is taken off, and then the team was left alone because its policy is Orphan, or
  Concourse destroyed it, once, behind an instance that was Ready; \<open>main\<close> only with
  allowDestroy. Or the finalizer stays, Ready is False with DeleteFailed, the reconcile comes
  back in 30 seconds, and the destroy request, if there was one, was refused. Without the
  finalizer nothing happens.\<close>

theorem team_deletion_ends:
  assumes "finalizers_law env" and "conditions_law env"
    and "x_get_team (e_k8s env) req (world s) = (Inr t, w)"
    and "\<not> ts_suspend (team_spec t)" and "om_deletionTimestamp (team_meta t) \<noteq> None"
  shows "\<exists>es. emitted (Team_Reconcile env req) s = KRead (GetTeam req (Inr t)) # es \<and>
    (if teamFinalizer \<notin> set (om_finalizers (team_meta t))
     then es = [] \<and> result_of (Team_Reconcile env req) s = (0, None)
     else team_released env t es \<or>
       team_kept env t es \<and> result_of (Team_Reconcile env req) s = (seconds 30, None) \<and>
       ts_reclaimPolicy (team_spec t) \<noteq> ReclaimOrphan)"
  unfolding Team_Reconcile_def
  apply (rule first_call [where f = "x_get_team (e_k8s env) req" and c = "\<lambda>r. KRead (GetTeam req r)"])
   apply (rule assms(3))
  apply (simp only: sum.case)
  unfolding reconcile_team_def if_not_P [OF assms(4)] if_P [OF assms(5)]
  by (rule finalize_outcome [OF assms(1,2)])

definition dying_team :: Team where
  "dying_team = demo_team\<lparr>team_meta := (demo_meta ''main'')
     \<lparr>om_deletionTimestamp := Some 0, om_finalizers := [teamFinalizer]\<rparr>\<rparr>"

abbreviation with_team :: "Team \<Rightarrow> 'w env \<Rightarrow> 'w env" where
  "with_team t env \<equiv> env\<lparr>e_k8s := (e_k8s env)\<lparr>x_get_team := (\<lambda>_ w. (Inr t, w))\<rparr>\<rparr>"

theorem team_deletion_ends_witness:
  "\<exists>es. emitted (Team_Reconcile (with_team dying_team demo_env) (''ci'', ''main'')) (demo_start ()) =
       KRead (GetTeam (''ci'', ''main'') (Inr dying_team)) # es \<and>
     (team_released (with_team dying_team (demo_env :: unit env)) dying_team es \<or>
      team_kept (with_team dying_team (demo_env :: unit env)) dying_team es)"
proof -
  have laws: "finalizers_law (with_team dying_team demo_env)" "conditions_law (with_team dying_team demo_env)"
    using demo_team_laws by (simp_all add: finalizers_law_def conditions_law_def)
  have read: "x_get_team (e_k8s (with_team dying_team demo_env)) (''ci'', ''main'') (world (demo_start ()))
      = (Inr dying_team, ())" by simp
  have t: "\<not> ts_suspend (team_spec dying_team)" "om_deletionTimestamp (team_meta dying_team) \<noteq> None"
    "\<not> teamFinalizer \<notin> set (om_finalizers (team_meta dying_team))"
    by (simp_all add: dying_team_def)
  from team_deletion_ends [OF laws read t(1,2), unfolded if_not_P [OF t(3)]] show ?thesis by blast
qed

section \<open>Applying\<close>

text \<open>The team as the reconcile knows it: as read, or as an update answered it.\<close>

definition team_known :: "ObjectKey \<Rightarrow> io list \<Rightarrow> Team \<Rightarrow> bool" where
  "team_known req es t \<longleftrightarrow> KRead (GetTeam req (Inr t)) \<in> set es \<or> (\<exists>x. KWrite (UpdateTeam x (Inr t)) \<in> set es)"

definition finalizer_stored :: "Team \<Rightarrow> io list \<Rightarrow> bool" where
  "finalizer_stored t es \<longleftrightarrow> teamFinalizer \<in> set (om_finalizers (team_meta t)) \<or>
     (\<exists>x u. KWrite (UpdateTeam x (Inr u)) \<in> set es \<and> teamFinalizer \<in> set (om_finalizers (team_meta x)))"

definition applied :: "'w env \<Rightarrow> ObjectKey \<Rightarrow> io \<Rightarrow> io list \<Rightarrow> bool" where
  "applied env req e es \<longleftrightarrow> (\<exists>t t' cl r.
     e = AWrite (CreateOrUpdateTeam cl (ResolvedTeamName t') (buildTeamAuth (ts_roles (team_spec t'))) r) \<and>
     KRead (GetTeam req (Inr t)) \<in> set es \<and> \<not> ts_suspend (team_spec t) \<and>
     om_deletionTimestamp (team_meta t) = None \<and> finalizer_stored t es \<and>
     team_known req es t' \<and> saw_instance env t' es)"

definition destroyed :: "'w env \<Rightarrow> ObjectKey \<Rightarrow> io \<Rightarrow> io list \<Rightarrow> bool" where
  "destroyed env req e es \<longleftrightarrow> (\<exists>t cl r. e = AWrite (DestroyTeam cl (ResolvedTeamName t) r) \<and>
     KRead (GetTeam req (Inr t)) \<in> set es \<and> \<not> ts_suspend (team_spec t) \<and>
     om_deletionTimestamp (team_meta t) \<noteq> None \<and> teamFinalizer \<in> set (om_finalizers (team_meta t)) \<and>
     may_destroy env t es)"

lemma may_destroy_append: "may_destroy env t es \<Longrightarrow> may_destroy env t (ds @ es)"
  "may_destroy env t es \<Longrightarrow> may_destroy env t (es @ ds)"
  by (simp_all add: may_destroy_def persistent_append(2) [OF persistent_saw(1)])

lemma finish_team_writes: "emits (\<lambda>e. \<not> is_awrite e) (finish_team env t tn i ws)"
  unfolding finish_team_def team_web_url_def Let_def by (intro emits_intros) simp_all

lemma sync_team_outcome:
  "outcome (sync_team env t) (\<lambda>_ es. filter is_awrite es = [] \<or>
     (\<exists>cl r. filter is_awrite es =
        [AWrite (CreateOrUpdateTeam cl (ResolvedTeamName t) (buildTeamAuth (ts_roles (team_spec t))) r)] \<and>
      saw_instance env t es))"
  unfolding sync_team_def Let_def
  apply (rule outcome_bind, rule outcome_mono [OF team_chain.known])
  apply (rule outcome_case(1))
   apply (intro outcome_intros, simp add: reads_write_nothing)
  apply (intro outcome_intros)
   apply (auto simp: reads_write_nothing persistent_append(2) [OF persistent_saw(1)])[2]
  apply (rule outcome_mono [OF emits_outcome [OF finish_team_writes]])
  apply (auto simp: reads_write_nothing list_all_iff filter_empty_conv persistent_append(2) [OF persistent_saw(1)])
  done

lemma set_team_owner_outcome:
  "outcome (set_team_owner env t) (\<lambda>r es. filter is_awrite es = [] \<and>
     (\<forall>t'. r = Inr t' \<longrightarrow> t' = t \<or> (\<exists>x. KWrite (UpdateTeam x (Inr t')) \<in> set es)))"
  unfolding set_team_owner_def by (intro outcome_intros) auto

lemma add_team_finalizer_outcome:
  assumes "finalizers_law env"
  shows "outcome (add_team_finalizer env t) (\<lambda>r es. filter is_awrite es = [] \<and>
     (\<forall>t'. r = Inr t' \<longrightarrow> finalizer_stored t es \<and> (t' = t \<or> (\<exists>x. KWrite (UpdateTeam x (Inr t')) \<in> set es))))"
  using assms unfolding add_team_finalizer_def
  by (intro outcome_intros) (auto simp: finalizer_stored_def finalizers_law_def set_team_finalizers_def)

definition destroy_only :: "'w env \<Rightarrow> Team \<Rightarrow> io list \<Rightarrow> bool" where
  "destroy_only env t es \<longleftrightarrow> filter is_awrite es = [] \<or>
    (\<exists>cl r. filter is_awrite es = [AWrite (DestroyTeam cl (ResolvedTeamName t) r)] \<and>
      teamFinalizer \<in> set (om_finalizers (team_meta t)) \<and> may_destroy env t es)"

lemma destroy_only_kwrite:
  "destroy_only env t ds \<Longrightarrow> destroy_only env t (ds @ [KWrite x])"
  unfolding destroy_only_def by (auto intro: may_destroy_append)

lemma released_writes:
  "team_released env t es \<Longrightarrow> teamFinalizer \<in> set (om_finalizers (team_meta t)) \<Longrightarrow> destroy_only env t es"
  unfolding team_released_def
  by (elim exE conjE, hypsubst, rule destroy_only_kwrite)
    (auto simp: destroy_only_def reads_write_nothing split: if_splits)

lemma kept_writes:
  "team_kept env t es \<Longrightarrow> teamFinalizer \<in> set (om_finalizers (team_meta t)) \<Longrightarrow> destroy_only env t es"
  unfolding team_kept_def
  by (elim exE conjE, hypsubst, rule destroy_only_kwrite) (auto simp: destroy_only_def)

lemma finalize_writes:
  assumes "finalizers_law env" and "conditions_law env"
  shows "outcome (finalize_team env t) (\<lambda>_ es. destroy_only env t es)"
  using finalize_outcome [OF assms, of t]
proof (rule outcome_mono)
  fix res es
  assume e: "if teamFinalizer \<notin> set (om_finalizers (team_meta t)) then es = [] \<and> res = (0, None)
    else team_released env t es \<or>
      team_kept env t es \<and> res = (seconds 30, None) \<and> ts_reclaimPolicy (team_spec t) \<noteq> ReclaimOrphan"
  show "destroy_only env t es"
  proof (cases "teamFinalizer \<in> set (om_finalizers (team_meta t))")
    case True
    with e show ?thesis using released_writes kept_writes by metis
  next
    case False
    with e show ?thesis by (simp add: destroy_only_def)
  qed
qed

section \<open>What a reconcile does to Concourse\<close>

definition team_write :: "'w env \<Rightarrow> ObjectKey \<Rightarrow> io list \<Rightarrow> bool" where
  "team_write env req es \<longleftrightarrow> filter is_awrite es = [] \<or>
     (\<exists>e. filter is_awrite es = [e] \<and> (applied env req e es \<or> destroyed env req e es))"

lemma team_write_silent: "filter is_awrite es = [] \<Longrightarrow> team_write env req es"
  by (simp add: team_write_def)

lemma destroy_only_write:
  assumes "destroy_only env t es" and "\<not> ts_suspend (team_spec t)" and "om_deletionTimestamp (team_meta t) \<noteq> None"
  shows "team_write env req (KRead (GetTeam req (Inr t)) # es)"
  using assms may_destroy_append(1) [of env t es "[KRead (GetTeam req (Inr t))]"]
  unfolding destroy_only_def team_write_def destroyed_def by auto

lemma sync_write:
  assumes "filter is_awrite as = []" and "filter is_awrite bs = []"
    and "filter is_awrite es = [] \<or>
     (\<exists>cl r. filter is_awrite es =
        [AWrite (CreateOrUpdateTeam cl (ResolvedTeamName t') (buildTeamAuth (ts_roles (team_spec t'))) r)] \<and>
      saw_instance env t' es)"
    and "\<not> ts_suspend (team_spec t)" and "om_deletionTimestamp (team_meta t) = None"
    and "finalizer_stored t as"
    and "t' = t \<or> (\<exists>x. KWrite (UpdateTeam x (Inr t')) \<in> set (as @ bs))"
  shows "team_write env req (KRead (GetTeam req (Inr t)) # as @ bs @ es)"
  using assms(3)
proof (elim disjE exE conjE)
  fix cl r
  assume w: "filter is_awrite es =
        [AWrite (CreateOrUpdateTeam cl (ResolvedTeamName t') (buildTeamAuth (ts_roles (team_spec t'))) r)]"
    and saw: "saw_instance env t' es"
  let ?j = "KRead (GetTeam req (Inr t)) # as @ bs @ es"
  have "saw_instance env t' ?j" using saw by simp
  moreover have "team_known req ?j t'" "finalizer_stored t ?j"
    using assms(6,7) by (auto simp: team_known_def finalizer_stored_def)
  ultimately have "applied env req (AWrite (CreateOrUpdateTeam cl (ResolvedTeamName t')
      (buildTeamAuth (ts_roles (team_spec t'))) r)) ?j"
    unfolding applied_def using assms(4,5) by (intro exI [of _ t] exI [of _ t'] exI conjI) simp_all
  then show ?thesis using w assms(1,2) by (auto simp: team_write_def)
qed (use assms(1,2) in \<open>simp add: team_write_silent\<close>)

lemma reconcile_team_write:
  assumes "finalizers_law env" and "conditions_law env"
  shows "outcome (reconcile_team env t) (\<lambda>_ es. team_write env req (KRead (GetTeam req (Inr t)) # es))"
  unfolding reconcile_team_def
  apply (rule outcome_case(3))
   apply (intro outcome_intros team_write_silent)
    apply simp_all[2]
  apply (rule outcome_case(3))
   apply (rule outcome_mono [OF finalize_writes [OF assms]], rule destroy_only_write, assumption+)
  apply (rule outcome_bind, rule outcome_mono [OF add_team_finalizer_outcome [OF assms(1)]])
  apply (rule outcome_case(1))
   apply (intro outcome_return team_write_silent, simp)
  apply (rule outcome_bind, rule outcome_mono [OF set_team_owner_outcome])
  apply (rule outcome_case(1))
   apply (intro outcome_return team_write_silent, simp)
  apply (rule outcome_mono [OF sync_team_outcome])
  apply (simp only: append_assoc)
  apply (rule sync_write)
        apply (auto simp: sum.inject)
  done

lemma Team_Reconcile_write:
  assumes "finalizers_law env" and "conditions_law env"
  shows "outcome (Team_Reconcile env req) (\<lambda>_ es. team_write env req es)"
  unfolding Team_Reconcile_def
  apply (intro outcome_bind outcome_extern)
  apply (rule outcome_case(1))
   apply (intro outcome_return team_write_silent, simp)
  apply (rule outcome_mono [OF reconcile_team_write [OF assms]])
  apply simp
  done

text \<open>C6: A reconcile of a Team changes Concourse at most once, and never without its reason: it
  creates or updates the team only for a Team that is alive and not suspended, with its
  finalizer already stored, under the Team's name and with exactly the auth of its roles; it
  destroys only the team of a dying Team that holds the finalizer, is not Orphan, and is not
  \<open>main\<close> unless allowDestroy; both only behind an instance that was read, allowed and Ready.\<close>

theorem team_writes_justified:
  assumes "finalizers_law env" and "conditions_law env"
    and "e \<in> set (emitted (Team_Reconcile env req) s)" and "is_awrite e"
  shows "filter is_awrite (emitted (Team_Reconcile env req) s) = [e] \<and>
    (applied env req e (emitted (Team_Reconcile env req) s) \<or>
     destroyed env req e (emitted (Team_Reconcile env req) s))"
proof -
  have e: "e \<in> set (filter is_awrite (emitted (Team_Reconcile env req) s))" using assms(3,4) by simp
  from outcomeD [OF Team_Reconcile_write [OF assms(1,2)], of req s] e
  show ?thesis unfolding team_write_def by (elim disjE exE conjE) auto
qed

lemmas team_eval = Team_Reconcile_def reconcile_team_def finalize_team_def deleteTeam_def
  set_team_finalizers_def add_team_finalizer_def set_team_owner_def sync_team_def finish_team_def
  team_web_url_def buildTeamAuth_def base_url_def refKey_def ResolveNamespace_def recordEvent_def
  resolver_eval ResolvedTeamName_def team_cond_def

lemma demo_team_run:
  "AWrite (CreateOrUpdateTeam demo_client ''team'' None (Inr (1, [])))
   \<in> set (emitted (Team_Reconcile demo_env (''ci'', ''team'')) (demo_start ()))"
  by (simp add: demo_client_def eval_simps team_eval cong: eval_cong)

theorem team_writes_justified_witness:
  "filter is_awrite (emitted (Team_Reconcile demo_env (''ci'', ''team'')) (demo_start ())) =
     [AWrite (CreateOrUpdateTeam demo_client ''team'' None (Inr (1, [])))]"
  using team_writes_justified [OF demo_team_laws(2,1) demo_team_run] by simp

end
