(* ===== verification/Job_Controller.thy ===== *)
theory Job_Controller
  imports Build_Controller
begin

text \<open>
  \<open>internal/controller/job_controller.go\<close>: the reconciler of a Job, which pauses or unpauses
  the job in Concourse, reflects it into the status, and prunes the Build objects the Job
  controls. A panic of Go ends the reconcile; the controller manager recovers it as an error.
\<close>

abbreviation map_job_status :: "(JobStatus \<Rightarrow> JobStatus) \<Rightarrow> Job \<Rightarrow> Job" where
  "map_job_status f j \<equiv> j\<lparr>job_status := f (job_status j)\<rparr>"

definition job_cond ::
  "'w env \<Rightarrow> Job \<Rightarrow> string \<Rightarrow> ConditionStatus \<Rightarrow> string \<Rightarrow> string \<Rightarrow> Job" where
  "job_cond env j t st reason msg = map_job_status (\<lambda>s. s\<lparr>jt_conditions :=
     setCondition env (jt_conditions s) (om_generation (job_meta j)) t st reason msg\<rparr>) j"

abbreviation job_event ::
  "'w env \<Rightarrow> Job \<Rightarrow> event_type \<Rightarrow> string \<Rightarrow> string \<Rightarrow> ('w, unit) prog" where
  "job_event env j t reason msg \<equiv> recordEvent env KJob (job_meta j) t reason msg"

section \<open>Suspend and deletion\<close>

definition handleJobLifecycle :: "'w env \<Rightarrow> Job \<Rightarrow> ('w, bool \<times> goerr option) prog" where
  "handleJobLifecycle env job =
     (if js_suspend (job_spec job) then do {
        r \<leftarrow> k_status_job env (job_cond env job ConditionReady ConditionFalse ''Suspended''
          ''Reconciliation is suspended'');
        (case r of
           Inl err \<Rightarrow> ret (True, Some (''update status: '' @ kerr_text err))
         | Inr _ \<Rightarrow> ret (True, None)) }
      else if om_deletionTimestamp (job_meta job) \<noteq> None then ret (True, None)
      else ret (False, None))"

section \<open>Pruning the build history\<close>

text \<open>The outcome of \<open>pruneBuilds\<close>: nil, an error, or an index out of range.\<close>

datatype prune_result = Pruned | PruneFailed goerr | PrunePanicked int

primrec delete_builds :: "'w env \<Rightarrow> Build list \<Rightarrow> ('w, prune_result) prog" where
  "delete_builds env [] = ret Pruned"
| "delete_builds env (b # bs) = do {
     e \<leftarrow> k_delete_build env b;
     (case e of
        Some err \<Rightarrow> ret (PruneFailed (kerr_text err))
      | None \<Rightarrow> delete_builds env bs) }"

text \<open>\<open>for i := int(limit); i < len(builds); i++\<close>: a negative start is out of range at once.\<close>

definition delete_beyond :: "'w env \<Rightarrow> i32 \<Rightarrow> Build list \<Rightarrow> ('w, prune_result) prog" where
  "delete_beyond env limit builds =
     (let i = of_i32 limit in
      if i < 0 then ret (PrunePanicked i) else delete_builds env (drop (nat i) builds))"

definition expired :: "timestamp \<Rightarrow> Build \<Rightarrow> bool" where
  "expired t b =
     (case (bs_ttlSecondsAfterFinished (build_spec b), bt_endTime (build_status b)) of
        (Some ttl, Some fin) \<Rightarrow>
          isTerminal (bt_concourseStatus (build_status b)) \<and> t > fin + seconds (of_i32 ttl)
      | _ \<Rightarrow> False)"

definition is_succeeded :: "Build \<Rightarrow> bool" where
  "is_succeeded b \<longleftrightarrow> bt_concourseStatus (build_status b) = BuildPhaseSucceeded"

definition is_failed :: "Build \<Rightarrow> bool" where
  "is_failed b \<longleftrightarrow> bt_concourseStatus (build_status b) = BuildPhaseFailed \<or>
     bt_concourseStatus (build_status b) = BuildPhaseErrored \<or>
     bt_concourseStatus (build_status b) = BuildPhaseAborted"

text \<open>The first loop: builds past their time to live go, the others are put in two heaps.\<close>

primrec sort_out ::
  "'w env \<Rightarrow> timestamp \<Rightarrow> Build list \<Rightarrow> Build list \<Rightarrow> Build list \<Rightarrow>
   ('w, prune_result + Build list \<times> Build list) prog" where
  "sort_out env t [] succ failed = ret (Inr (succ, failed))"
| "sort_out env t (b # bs) succ failed =
     (if expired t b then do {
        e \<leftarrow> k_delete_build env b;
        (case e of
           Some err \<Rightarrow> ret (Inl (PruneFailed (kerr_text err)))
         | None \<Rightarrow> sort_out env t bs succ failed) }
      else if is_succeeded b then sort_out env t bs (succ @ [b]) failed
      else if is_failed b then sort_out env t bs succ (failed @ [b])
      else sort_out env t bs succ failed)"

definition newest_first :: "'w env \<Rightarrow> Build list \<Rightarrow> Build list" where
  "newest_first env bs = l_sort_builds (e_libs env)
     (\<lambda>a b. om_creationTimestamp (build_meta a) > om_creationTimestamp (build_meta b)) bs"

definition history_limit :: "i32 option \<Rightarrow> i32" where
  "history_limit l = (case l of None \<Rightarrow> 3 | Some n \<Rightarrow> n)"

definition pruneBuilds :: "'w env \<Rightarrow> Job \<Rightarrow> ('w, prune_result) prog" where
  "pruneBuilds env job = do {
     r \<leftarrow> k_list_builds env (om_namespace (job_meta job));
     (case r of
        Inl err \<Rightarrow> ret (PruneFailed (kerr_text err))
      | Inr items \<Rightarrow> do {
          let owned = filter (\<lambda>b. l_is_controlled_by (e_libs env) (build_meta b) (job_meta job)) items;
          t \<leftarrow> now env;
          h \<leftarrow> sort_out env t owned [] [];
          (case h of
             Inl e \<Rightarrow> ret e
           | Inr (succ, failed) \<Rightarrow> do {
               r \<leftarrow> delete_beyond env (history_limit (js_successfulBuildsHistoryLimit (job_spec job)))
                 (newest_first env succ);
               (case r of
                  Pruned \<Rightarrow> delete_beyond env (history_limit (js_failedBuildsHistoryLimit (job_spec job)))
                    (newest_first env failed)
                | _ \<Rightarrow> ret r) }) }) }"

section \<open>Pausing\<close>

definition pause_failed ::
  "'w env \<Rightarrow> Job \<Rightarrow> string \<Rightarrow> string \<Rightarrow> goerr \<Rightarrow> ('w, Job \<times> (Result \<times> goerr option) option) prog" where
  "pause_failed env job reason msg err = do {
     job_event env job EventTypeWarning reason (msg @ err);
     let job = job_cond env job ConditionReady ConditionFalse reason err;
     u \<leftarrow> k_status_job env job;
     (case u of
        Inl err2 \<Rightarrow> ret (job, Some (0, Some (''update status: '' @ kerr_text err2)))
      | Inr job \<Rightarrow> ret (job, Some (seconds 30, None))) }"

definition applyJobPause ::
  "'w env \<Rightarrow> Job \<Rightarrow> goclient \<Rightarrow> string \<Rightarrow> string \<Rightarrow> string \<Rightarrow>
   ('w, Job \<times> (Result \<times> goerr option) option) prog" where
  "applyJobPause env job cl teamName pipelineName jobName =
     (if js_paused (job_spec job) then do {
        e \<leftarrow> a_pause_job env cl teamName pipelineName jobName;
        (case e of
           Some err \<Rightarrow> pause_failed env job ''PauseFailed'' ''Failed to pause job: '' err
         | None \<Rightarrow> ret (map_job_status (\<lambda>s. s\<lparr>jt_paused := Some True\<rparr>) job, None)) }
      else do {
        e \<leftarrow> a_unpause_job env cl teamName pipelineName jobName;
        (case e of
           Some err \<Rightarrow> pause_failed env job ''UnpauseFailed'' ''Failed to unpause job: '' err
         | None \<Rightarrow> ret (map_job_status (\<lambda>s. s\<lparr>jt_paused := Some False\<rparr>) job, None)) })"

section \<open>Observing\<close>

definition observe_job_fields :: "JobStatus \<Rightarrow> atc_job \<Rightarrow> JobStatus" where
  "observe_job_fields s j = s
     \<lparr>jt_jobID := int32Ptr (aj_id j),
      jt_hasNewInputs := Some (aj_hasNewInputs j),
      jt_groups := aj_groups j,
      jt_disableManualTrigger := Some (aj_disableManualTrigger j),
      jt_pausedBy := aj_pausedBy j,
      jt_pausedAt := (if aj_pausedAt j > 0 then Some (unix_time (aj_pausedAt j)) else jt_pausedAt s),
      jt_nextBuildID := (case aj_nextBuild j of None \<Rightarrow> None | Some b \<Rightarrow> int32Ptr (ab_id b)),
      jt_nextBuildStatus := (case aj_nextBuild j of None \<Rightarrow> '''' | Some b \<Rightarrow> ab_status b),
      jt_nextBuildName := (case aj_nextBuild j of None \<Rightarrow> '''' | Some b \<Rightarrow> ab_name b),
      jt_inputs := map (\<lambda>i. \<lparr>jin_name = aji_name i, jin_resource = aji_resource i,
        jin_trigger = aji_trigger i, jin_passed = aji_passed i\<rparr>) (aj_inputs j),
      jt_outputs := map (\<lambda>out. \<lparr>jout_name = ajo_name out, jout_resource = ajo_resource out\<rparr>) (aj_outputs j),
      jt_paused := Some (aj_paused j)\<rparr>"

definition observe_last_build :: "'w env \<Rightarrow> Job \<Rightarrow> atc_build option \<Rightarrow> Job" where
  "observe_last_build env job finished =
     (case finished of
        Some fb \<Rightarrow>
          (let job = map_job_status (\<lambda>s. s
             \<lparr>jt_lastBuildID := int32Ptr (ab_id fb),
              jt_lastBuildStatus := ab_status fb,
              jt_lastBuildTime := (if ab_endTime fb > 0 then Some (unix_time (ab_endTime fb)) else jt_lastBuildTime s)\<rparr>) job
           in if ab_status fb = BuildPhaseSucceeded
              then job_cond env job ConditionLastBuildSucceeded ConditionTrue ''Succeeded'' ''''
              else job_cond env job ConditionLastBuildSucceeded ConditionFalse (mapPhaseToReason (ab_status fb)) '''')
      | None \<Rightarrow> job_cond env job ConditionLastBuildSucceeded ConditionUnknown ''NoBuild'' ''no finished build yet'')"

section \<open>Reconcile\<close>

definition set_job_owner :: "'w env \<Rightarrow> Job \<Rightarrow> ('w, kerr + Job) prog" where
  "set_job_owner env job = do {
     p \<leftarrow> k_get_pipeline env (refKey (om_namespace (job_meta job)) (js_pipelineRef (job_spec job)));
     (case p of
        Inl _ \<Rightarrow> ret (Inr job)
      | Inr pipeline \<Rightarrow>
          (if om_namespace (pipeline_meta pipeline) = om_namespace (job_meta job) then
             (case l_set_controller_reference (e_libs env) KPipeline (pipeline_meta pipeline) KJob (job_meta job) of
                Inl err \<Rightarrow> ret (Inr job)
              | Inr refs \<Rightarrow>
                  (if refs \<noteq> om_ownerReferences (job_meta job)
                   then k_update_job env (job\<lparr>job_meta := (job_meta job)\<lparr>om_ownerReferences := refs\<rparr>\<rparr>)
                   else ret (Inr job)))
           else ret (Inr job))) }"

definition job_web_url :: "'w env \<Rightarrow> Job \<Rightarrow> string \<Rightarrow> string \<Rightarrow> string \<Rightarrow> ('w, Job) prog" where
  "job_web_url env job teamName pipelineName jobName = do {
     p \<leftarrow> k_get_pipeline env (refKey (om_namespace (job_meta job)) (js_pipelineRef (job_spec job)));
     (case p of Inl _ \<Rightarrow> ret job | Inr pipelineObj \<Rightarrow> do {
        t \<leftarrow> k_get_team env (refKey (om_namespace (pipeline_meta pipelineObj)) (ps_teamRef (pipeline_spec pipelineObj)));
        (case t of Inl _ \<Rightarrow> ret job | Inr teamObj \<Rightarrow> do {
           i \<leftarrow> k_get_instance env (refKey (om_namespace (team_meta teamObj)) (ts_instanceRef (team_spec teamObj)));
           (case i of Inl _ \<Rightarrow> ret job | Inr instanceObj \<Rightarrow>
              (if base_url instanceObj \<noteq> ''''
               then ret (map_job_status (\<lambda>s. s\<lparr>jt_webURL := trim_suffix (base_url instanceObj) ''/''
                 @ ''/teams/'' @ teamName @ ''/pipelines/'' @ pipelineName @ ''/jobs/'' @ jobName\<rparr>) job)
               else ret job)) }) }) }"

definition job_not_fetched :: "'w env \<Rightarrow> Job \<Rightarrow> 'w reconcile" where
  "job_not_fetched env job = do {
     u \<leftarrow> k_status_job env job;
     (case u of
        Inl err2 \<Rightarrow> ret (0, Some (''update status: '' @ kerr_text err2))
      | Inr _ \<Rightarrow> ret (seconds 30, None)) }"

definition finish_job :: "'w env \<Rightarrow> Job \<Rightarrow> 'w reconcile" where
  "finish_job env job = do {
     r \<leftarrow> pruneBuilds env job;
     (case r of
        PrunePanicked i \<Rightarrow> ret (0, Some (''panic: runtime error: index out of range ['' @ itoa i @ ''] [recovered]''))
      | _ \<Rightarrow> do {
          let job = map_job_status (\<lambda>s. s\<lparr>jt_observedGeneration := om_generation (job_meta job)\<rparr>) job;
          let job = job_cond env job ConditionReady ConditionTrue ''Ready'' '''';
          u \<leftarrow> k_status_job env job;
          (case u of
             Inl err \<Rightarrow> ret (0, Some (''update status: '' @ kerr_text err))
           | Inr _ \<Rightarrow> ret (minutes 1, None)) }) }"

definition observe_job :: "'w env \<Rightarrow> Job \<Rightarrow> goclient \<Rightarrow> string \<Rightarrow> string \<Rightarrow> string \<Rightarrow> 'w reconcile" where
  "observe_job env job cl teamName pipelineName jobName = do {
     r \<leftarrow> a_job env cl teamName pipelineName jobName;
     (case r of
        Inl err \<Rightarrow> do {
          job_event env job EventTypeWarning ''FetchFailed'' (''Failed to retrieve job details: '' @ err);
          let job = job_cond env job ConditionReady ConditionFalse ''FetchFailed'' err;
          job_not_fetched env (job_cond env job ConditionLastBuildSucceeded ConditionUnknown ''FetchFailed'' err) }
      | Inr None \<Rightarrow> do {
          let msg = l_quote (e_libs env) jobName @ '' not found in pipeline '' @ l_quote (e_libs env) pipelineName;
          job_event env job EventTypeWarning ''JobNotFound'' (''Job '' @ msg);
          let job = job_cond env job ConditionReady ConditionFalse ''JobNotFound'' (''job '' @ msg);
          job_not_fetched env (job_cond env job ConditionLastBuildSucceeded ConditionUnknown ''NoBuild'' ''job not found'') }
      | Inr (Some atcJob) \<Rightarrow>
          finish_job env (observe_last_build env
            (map_job_status (\<lambda>s. observe_job_fields s atcJob) job) (aj_finishedBuild atcJob))) }"

definition apply_job :: "'w env \<Rightarrow> Job \<Rightarrow> goclient \<Rightarrow> string \<Rightarrow> string \<Rightarrow> 'w reconcile" where
  "apply_job env job cl teamName pipelineName = do {
     let jobName = ResolvedJobName job;
     let job = map_job_status (\<lambda>s. s\<lparr>jt_resolvedName := jobName\<rparr>) job;
     job \<leftarrow> job_web_url env job teamName pipelineName jobName;
     (job, h) \<leftarrow> applyJobPause env job cl teamName pipelineName jobName;
     (case h of
        Some res \<Rightarrow> ret res
      | None \<Rightarrow> observe_job env job cl teamName pipelineName jobName) }"

definition reconcile_job :: "'w env \<Rightarrow> Job \<Rightarrow> 'w reconcile" where
  "reconcile_job env job = do {
     c \<leftarrow> resolveClientForJob env job;
     (case c of
        Inl err \<Rightarrow> do {
          k_status_job env (job_cond env job ConditionReady ConditionFalse ''PipelineNotReady'' err);
          ret (seconds 30, None) }
      | Inr (cl, teamName, pipelineName) \<Rightarrow> do {
          u \<leftarrow> set_job_owner env job;
          (case u of
             Inl err \<Rightarrow> ret (0, Some (''set owner reference: '' @ kerr_text err))
           | Inr job \<Rightarrow> apply_job env job cl teamName pipelineName) }) }"

definition Job_Reconcile :: "'w env \<Rightarrow> ObjectKey \<Rightarrow> 'w reconcile" where
  "Job_Reconcile env req = do {
     r \<leftarrow> k_get_job env req;
     (case r of
        Inl err \<Rightarrow> ret (0, ignore_not_found err)
      | Inr job \<Rightarrow> do {
          (handled, err) \<leftarrow> handleJobLifecycle env job;
          (if handled then ret (0, err) else reconcile_job env job) }) }"

end
