(* ===== verification/Job_Proofs.thy ===== *)
theory Job_Proofs
  imports Job_Controller
begin

text \<open>
  What the Job reconciler guarantees: pruning deletes only finished builds that the Job
  controls, and keeps the newest of each kind; Concourse is changed only by the one pause
  request the spec asks for, behind a ready chain; the status reports the last build.
\<close>

section \<open>A deletion plan\<close>

abbreviation deletion :: "Build \<times> kerr option \<Rightarrow> io" where
  "deletion d \<equiv> KWrite (DeleteBuild (fst d) (snd d))"

text \<open>A plan is a list of builds to delete; it is followed to its end or to the first failure.\<close>

definition carried_out :: "Build list \<Rightarrow> prune_result \<Rightarrow> (Build \<times> kerr option) list \<Rightarrow> bool" where
  "carried_out plan r ds \<longleftrightarrow> (case r of
     Pruned \<Rightarrow> ds = map (\<lambda>b. (b, None)) plan
   | PruneFailed err \<Rightarrow> (\<exists>before b after e. plan = before @ b # after \<and> err = kerr_text e \<and>
       ds = map (\<lambda>b. (b, None)) before @ [(b, Some e)])
   | PrunePanicked i \<Rightarrow> False)"

lemma carried_out_simps [simp]:
  "carried_out plan Pruned ds = (ds = map (\<lambda>b. (b, None)) plan)"
  "\<not> carried_out plan (PrunePanicked i) ds"
  by (simp_all add: carried_out_def)

lemma carried_out_Cons: "carried_out plan r ds \<Longrightarrow> carried_out (b # plan) r ((b, None) # ds)"
  unfolding carried_out_def by (auto split: prune_result.splits) (metis append_Cons list.map)

lemma carried_out_append:
  "carried_out plan r ds \<Longrightarrow> carried_out (done @ plan) r (map (\<lambda>b. (b, None)) done @ ds)"
  by (induction "done") (auto simp: carried_out_Cons)

lemma carried_out_stopped: "carried_out plan (PruneFailed err) ds \<Longrightarrow> carried_out (plan @ rest) (PruneFailed err) ds"
  unfolding carried_out_def prune_result.case by (elim exE conjE, intro exI conjI) (simp, assumption+)

lemma carried_out_first: "carried_out (b # plan) (PruneFailed (kerr_text e)) [(b, Some e)]"
  unfolding carried_out_def by (auto intro: exI [of _ "[]"])

lemma carried_out_subset: "carried_out plan r ds \<Longrightarrow> fst ` set ds \<subseteq> set plan"
  unfolding carried_out_def by (auto split: prune_result.splits)

lemma delete_builds_outcome:
  "outcome (delete_builds env bs) (\<lambda>r es. \<exists>ds. es = map deletion ds \<and> carried_out bs r ds)"
proof (induction bs)
  case (Cons b bs)
  show ?case
    unfolding delete_builds.simps
    apply (intro outcome_bind outcome_extern)
    apply (rule outcome_case(2))
     apply (rule outcome_mono [OF Cons.IH])
     apply (elim exE conjE)
    subgoal for e r es ds
      by (intro exI [of _ "(b, None) # ds"]) (simp add: carried_out_Cons)
    apply (rule outcome_return)
    subgoal for e err
      by (intro exI [of _ "[(b, Some err)]"]) (simp add: carried_out_first)
    done
qed (simp add: outcome_return)

lemma delete_beyond_outcome:
  assumes "0 \<le> of_i32 limit"
  shows "outcome (delete_beyond env limit bs)
    (\<lambda>r es. \<exists>ds. es = map deletion ds \<and> carried_out (drop (nat (of_i32 limit)) bs) r ds)"
  using assms delete_builds_outcome by (simp add: delete_beyond_def)

section \<open>The first loop\<close>

lemma succeeded_not_failed: "is_succeeded b \<Longrightarrow> \<not> is_failed b"
  by (simp add: is_succeeded_def is_failed_def)

abbreviation unexpired :: "timestamp \<Rightarrow> (Build \<Rightarrow> bool) \<Rightarrow> Build list \<Rightarrow> Build list" where
  "unexpired t P bs \<equiv> filter (\<lambda>b. \<not> expired t b \<and> P b) bs"

lemma sort_out_outcome:
  "outcome (sort_out env t bs succ failed) (\<lambda>r es. \<exists>ds. es = map deletion ds \<and> (case r of
     Inl e \<Rightarrow> \<exists>err. e = PruneFailed err \<and> carried_out (filter (expired t) bs) e ds
   | Inr (succ', failed') \<Rightarrow> ds = map (\<lambda>b. (b, None)) (filter (expired t) bs) \<and>
       succ' = succ @ unexpired t is_succeeded bs \<and> failed' = failed @ unexpired t is_failed bs))"
proof (induction bs arbitrary: succ failed)
  case (Cons b bs)
  show ?case
  proof (cases "expired t b")
    case True
    show ?thesis
      unfolding sort_out.simps if_P [OF True]
      apply (intro outcome_bind outcome_extern)
      apply (rule outcome_case(2))
       apply (rule outcome_mono [OF Cons.IH])
       apply (elim exE conjE)
      subgoal for e r es ds
        by (intro exI [of _ "(b, None) # ds"]) (auto simp: True carried_out_Cons split: sum.splits)
      apply (rule outcome_return)
      subgoal for e err
        by (intro exI [of _ "[(b, Some err)]"]) (simp add: True carried_out_first)
      done
  next
    case False
    show ?thesis
      unfolding sort_out.simps if_not_P [OF False]
      by (intro outcome_case(3) outcome_mono [OF Cons.IH])
        (auto simp: False succeeded_not_failed split: sum.splits)
  qed
qed (simp add: outcome_return)

section \<open>Keeping the newest\<close>

text \<open>Of \<open>bs\<close>, \<open>kept\<close> are the \<open>n\<close> newest (or all there are) and \<open>gone\<close> the others.\<close>

definition keeps_newest :: "nat \<Rightarrow> Build list \<Rightarrow> Build list \<Rightarrow> Build list \<Rightarrow> bool" where
  "keeps_newest n bs kept gone \<longleftrightarrow> mset (kept @ gone) = mset bs \<and>
     length kept = min n (length bs) \<and>
     (\<forall>k\<in>set kept. \<forall>g\<in>set gone. om_creationTimestamp (build_meta g) \<le> om_creationTimestamp (build_meta k))"

lemma newest_first_laws:
  assumes "sort_law env"
  shows "mset (newest_first env bs) = mset bs"
    and "sorted_wrt (\<lambda>a b. om_creationTimestamp (build_meta b) \<le> om_creationTimestamp (build_meta a)) (newest_first env bs)"
  using assms unfolding sort_law_def newest_first_def
  by (blast dest: spec [of _ "\<lambda>b. om_creationTimestamp (build_meta b)"])+

lemma newest_kept:
  assumes "sort_law env"
  shows "keeps_newest n bs (take n (newest_first env bs)) (drop n (newest_first env bs))"
  unfolding keeps_newest_def
proof (intro conjI)
  let ?xs = "newest_first env bs"
  show "mset (take n ?xs @ drop n ?xs) = mset bs" using newest_first_laws(1) [OF assms] by simp
  have "length ?xs = length bs" using newest_first_laws(1) [OF assms] by (rule mset_eq_length)
  then show "length (take n ?xs) = min n (length bs)" by simp
  have "sorted_wrt (\<lambda>a b. om_creationTimestamp (build_meta b) \<le> om_creationTimestamp (build_meta a))
      (take n ?xs @ drop n ?xs)"
    using newest_first_laws(2) [OF assms] by simp
  then show "\<forall>k\<in>set (take n ?xs). \<forall>g\<in>set (drop n ?xs).
      om_creationTimestamp (build_meta g) \<le> om_creationTimestamp (build_meta k)"
    unfolding sorted_wrt_append by blast
qed

section \<open>The whole pruning\<close>

abbreviation owned_builds :: "'w env \<Rightarrow> Job \<Rightarrow> Build list \<Rightarrow> Build list" where
  "owned_builds env job items \<equiv> filter (\<lambda>b. l_is_controlled_by (e_libs env) (build_meta b) (job_meta job)) items"

abbreviation success_limit :: "Job \<Rightarrow> int" where
  "success_limit job \<equiv> of_i32 (history_limit (js_successfulBuildsHistoryLimit (job_spec job)))"

abbreviation fail_limit :: "Job \<Rightarrow> int" where
  "fail_limit job \<equiv> of_i32 (history_limit (js_failedBuildsHistoryLimit (job_spec job)))"

text \<open>The plan for the builds \<open>bs\<close> the Job owns, when \<open>E\<close> says whose time to live is over.\<close>

definition prune_plan :: "(Build \<Rightarrow> bool) \<Rightarrow> Job \<Rightarrow> Build list \<Rightarrow> Build list \<Rightarrow> bool" where
  "prune_plan E job bs plan \<longleftrightarrow> (\<exists>sk sd fk fd. plan = filter E bs @ sd @ fd \<and>
     keeps_newest (nat (success_limit job)) (filter (\<lambda>b. \<not> E b \<and> is_succeeded b) bs) sk sd \<and>
     keeps_newest (nat (fail_limit job)) (filter (\<lambda>b. \<not> E b \<and> is_failed b) bs) fk fd)"

definition pruned :: "(timestamp \<Rightarrow> Build \<Rightarrow> bool) \<Rightarrow> 'w env \<Rightarrow> Job \<Rightarrow> prune_result \<Rightarrow> io list \<Rightarrow> bool" where
  "pruned E env job r es \<longleftrightarrow> (\<exists>items t plan ds.
     es = [KRead (ListBuilds (om_namespace (job_meta job)) (Inr items)), Clock t] @ map deletion ds \<and>
     prune_plan (E t) job (owned_builds env job items) plan \<and> carried_out plan r ds)"

text \<open>
  The documented time to live: so many seconds after a build that reached a terminal state ended,
  where zero or unset means that only the history limits prune it.
\<close>

definition outlived :: "timestamp \<Rightarrow> Build \<Rightarrow> bool" where
  "outlived t b \<longleftrightarrow> (\<exists>ttl fin. bs_ttlSecondsAfterFinished (build_spec b) = Some ttl \<and> 0 < of_i32 ttl \<and>
     isTerminal (bt_concourseStatus (build_status b)) \<and>
     bt_endTime (build_status b) = Some fin \<and> fin + seconds (of_i32 ttl) < t)"

definition ttl_positive :: "Build \<Rightarrow> bool" where
  "ttl_positive b \<longleftrightarrow> (\<forall>ttl. bs_ttlSecondsAfterFinished (build_spec b) = Some ttl \<longrightarrow> 0 < of_i32 ttl)"

lemma expired_outlived: "ttl_positive b \<Longrightarrow> expired t b = outlived t b"
  by (auto simp: ttl_positive_def expired_def outlived_def split: option.splits)

lemma prune_plan_cong:
  assumes "\<forall>b\<in>set bs. E b = E' b"
  shows "prune_plan E job bs plan = prune_plan E' job bs plan"
proof -
  have "filter E bs = filter E' bs" "filter (\<lambda>b. \<not> E b \<and> P b) bs = filter (\<lambda>b. \<not> E' b \<and> P b) bs" for P
    using assms by (auto intro: filter_cong)
  then show ?thesis by (simp add: prune_plan_def)
qed

lemma delete_both_outcome:
  assumes "0 \<le> of_i32 sl" and "0 \<le> of_i32 fl"
  shows "outcome (do { r \<leftarrow> delete_beyond env sl xs;
      (case r of Pruned \<Rightarrow> delete_beyond env fl ys | _ \<Rightarrow> ret r) })
    (\<lambda>r es. \<exists>ds. es = map deletion ds \<and>
      carried_out (drop (nat (of_i32 sl)) xs @ drop (nat (of_i32 fl)) ys) r ds)"
  apply (rule outcome_bind, rule outcome_mono [OF delete_beyond_outcome [OF assms(1)]])
  apply (elim exE conjE)
  subgoal for r es ds
  proof (cases r)
    case Pruned
    assume "es = map deletion ds" "carried_out (drop (nat (of_i32 sl)) xs) r ds"
    with Pruned show ?thesis
      apply simp
      apply (rule outcome_mono [OF delete_beyond_outcome [OF assms(2)]])
      apply (elim exE conjE)
      subgoal for r' es' ds'
        by (intro exI [of _ "ds @ ds'"]) (auto intro: carried_out_append)
      done
  next
    case (PruneFailed err)
    assume "es = map deletion ds" "carried_out (drop (nat (of_i32 sl)) xs) r ds"
    with PruneFailed show ?thesis by (auto intro!: outcome_return carried_out_stopped)
  next
    case (PrunePanicked i)
    assume "carried_out (drop (nat (of_i32 sl)) xs) r ds"
    with PrunePanicked show ?thesis by simp
  qed
  done

lemma after_sorting_outcome:
  assumes laws: "sort_law env" and limits: "0 \<le> success_limit job" "0 \<le> fail_limit job"
  shows "outcome (do { h \<leftarrow> sort_out env t bs [] [];
      (case h of Inl e \<Rightarrow> ret e
       | Inr (succ, failed) \<Rightarrow> do {
          r \<leftarrow> delete_beyond env (history_limit (js_successfulBuildsHistoryLimit (job_spec job))) (newest_first env succ);
          (case r of Pruned \<Rightarrow> delete_beyond env (history_limit (js_failedBuildsHistoryLimit (job_spec job)))
             (newest_first env failed) | _ \<Rightarrow> ret r) }) })
    (\<lambda>r es. \<exists>ds plan. es = map deletion ds \<and> prune_plan (expired t) job bs plan \<and> carried_out plan r ds)"
proof -
  let ?xs = "newest_first env (unexpired t is_succeeded bs)"
  let ?ys = "newest_first env (unexpired t is_failed bs)"
  let ?plan = "filter (expired t) bs @ drop (nat (success_limit job)) ?xs @ drop (nat (fail_limit job)) ?ys"
  have plan: "prune_plan (expired t) job bs ?plan"
    unfolding prune_plan_def using newest_kept [OF laws] by blast
  show ?thesis
    apply (rule outcome_bind, rule outcome_mono [OF sort_out_outcome])
    apply (elim exE conjE)
    apply (rule outcome_case(1))
    subgoal for h es ds e
      by (rule outcome_return, intro exI [of _ ds] exI [of _ ?plan])
        (auto simp: plan intro: carried_out_stopped)
    apply (rule outcome_case(4))
    subgoal for h es ds p succ failed
      apply simp
      apply (rule outcome_mono [OF delete_both_outcome [OF limits]])
      apply (elim exE conjE)
      subgoal for r es' ds'
        by (intro exI [of _ "map (\<lambda>b. (b, None)) (filter (expired t) bs) @ ds'"] exI [of _ ?plan])
          (use plan in \<open>auto intro: carried_out_append\<close>)
      done
    done
qed

lemma pruneBuilds_outcome:
  assumes "sort_law env" and "0 \<le> success_limit job" and "0 \<le> fail_limit job"
  shows "outcome (pruneBuilds env job) (\<lambda>r es. pruned expired env job r es \<or>
    (\<exists>err. es = [KRead (ListBuilds (om_namespace (job_meta job)) (Inl err))] \<and> r = PruneFailed (kerr_text err)))"
  unfolding pruneBuilds_def Let_def
  apply (intro outcome_bind outcome_extern)
  apply (rule outcome_case(1))
   apply (rule outcome_return, simp)
  apply (intro outcome_bind [of "extern _ _"] outcome_extern)
  apply (rule outcome_mono [OF after_sorting_outcome [OF assms]])
  apply (elim exE conjE)
  subgoal for r items t r' es ds plan
    by (rule disjI1) (auto simp: pruned_def intro!: exI [of _ items] exI [of _ t] exI [of _ plan] exI [of _ ds])
  done

lemma pruned_as_documented:
  assumes "pruned expired env job r es"
    and "\<forall>items. KRead (ListBuilds (om_namespace (job_meta job)) (Inr items)) \<in> set es \<longrightarrow> list_all ttl_positive items"
  shows "pruned outlived env job r es"
proof -
  from assms(1) obtain items t plan ds where
    es: "es = [KRead (ListBuilds (om_namespace (job_meta job)) (Inr items)), Clock t] @ map deletion ds"
    and plan: "prune_plan (expired t) job (owned_builds env job items) plan" "carried_out plan r ds"
    unfolding pruned_def by blast
  from es assms(2) have "\<forall>b\<in>set (owned_builds env job items). expired t b = outlived t b"
    by (auto simp: list_all_iff expired_outlived)
  from prune_plan_cong [OF this] plan(1) have "prune_plan (outlived t) job (owned_builds env job items) plan" by simp
  with es plan(2) show ?thesis unfolding pruned_def by blast
qed

text \<open>C10: Pruning keeps the newest builds. It lists the builds of the Job's namespace and follows a
  plan for those the Job controls: first all that outlived their time to live, then of the
  remaining succeeded ones all but the newest \<open>successfulBuildsHistoryLimit\<close>, then likewise of
  the failed, errored and aborted ones with \<open>failedBuildsHistoryLimit\<close> (3 when unset); no other
  build is touched. It ends with success when the plan is carried out in full, and otherwise at
  the first deletion that fails, with that error. If the list fails nothing is deleted. This is
  for limits that are not negative and times to live that are unset or positive; what the code does
  with a time to live of zero is shown by \<open>zero_ttl_deletes_at_once\<close>.\<close>

theorem prune_keeps_newest:
  assumes "sort_law env" and "0 \<le> success_limit job" and "0 \<le> fail_limit job"
    and "\<forall>items. KRead (ListBuilds (om_namespace (job_meta job)) (Inr items)) \<in> set (emitted (pruneBuilds env job) s) \<longrightarrow>
      list_all ttl_positive items"
  shows "pruned outlived env job (result_of (pruneBuilds env job) s) (emitted (pruneBuilds env job) s) \<or>
    (\<exists>err. emitted (pruneBuilds env job) s = [KRead (ListBuilds (om_namespace (job_meta job)) (Inl err))] \<and>
       result_of (pruneBuilds env job) s = PruneFailed (kerr_text err))"
  using outcomeD [OF pruneBuilds_outcome [OF assms(1-3)], of s] pruned_as_documented [OF _ assms(4)] by blast

definition old_build :: "string \<Rightarrow> string \<Rightarrow> timestamp \<Rightarrow> Build" where
  "old_build n phase t = demo_build\<lparr>build_meta := (demo_meta n)\<lparr>om_creationTimestamp := t,
     om_ownerReferences := [\<lparr>or_kind = KJob, or_name = ''job'', or_uid = ''job'', or_controller = True\<rparr>]\<rparr>,
     build_status := demo_build_status\<lparr>bt_concourseStatus := phase\<rparr>\<rparr>"

definition short_history_job :: Job where
  "short_history_job = demo_job\<lparr>job_spec := demo_job_spec\<lparr>js_successfulBuildsHistoryLimit := Some 1\<rparr>\<rparr>"

abbreviation with_builds :: "Build list \<Rightarrow> 'w env \<Rightarrow> 'w env" where
  "with_builds bs env \<equiv> env\<lparr>e_k8s := (e_k8s env)\<lparr>x_list_builds := (\<lambda>_ w. (Inr bs, w))\<rparr>\<rparr>"

lemma demo_sort_law': "sort_law (with_builds bs demo_env)"
  using demo_sort_law by (simp add: sort_law_def)

lemma of_i32_small: "of_i32 0 = 0" "of_i32 1 = 1" "of_i32 3 = 3"
  by (simp_all add: of_i32_def)

text \<open>Two succeeded builds, of which the Job keeps one: the older one goes.\<close>

abbreviation demo_history_env :: "unit env" where
  "demo_history_env \<equiv> with_builds [old_build ''a'' ''succeeded'' 1, old_build ''b'' ''succeeded'' 2] demo_env"

lemmas prune_eval = pruneBuilds_def delete_beyond_def newest_first_def history_limit_def expired_def
  is_succeeded_def is_failed_def demo_sort_def short_history_job_def old_build_def of_i32_small

lemma demo_prune_run:
  "emitted (pruneBuilds demo_history_env short_history_job) (demo_start ()) =
     [KRead (ListBuilds ''ci'' (Inr [old_build ''a'' ''succeeded'' 1, old_build ''b'' ''succeeded'' 2])), Clock 0,
      KWrite (DeleteBuild (old_build ''a'' ''succeeded'' 1) None)]"
  "result_of (pruneBuilds demo_history_env short_history_job) (demo_start ()) = Pruned"
  by (simp_all add: eval_simps prune_eval cong: eval_cong)

text \<open>A third one outlived its time to live of a second, so it goes before the older one.\<close>

definition short_lived_build :: Build where
  "short_lived_build = (old_build ''c'' ''succeeded'' 3)\<lparr>build_spec := demo_build_spec
     \<lparr>bs_ttlSecondsAfterFinished := Some 1\<rparr>, build_status := demo_build_status
     \<lparr>bt_concourseStatus := ''succeeded'', bt_endTime := Some (- seconds 10)\<rparr>\<rparr>"

abbreviation demo_ttl_builds :: "Build list" where
  "demo_ttl_builds \<equiv> [old_build ''a'' ''succeeded'' 1, old_build ''b'' ''succeeded'' 2, short_lived_build]"

abbreviation demo_ttl_env :: "unit env" where
  "demo_ttl_env \<equiv> with_builds demo_ttl_builds demo_env"

lemma demo_ttl_run:
  "emitted (pruneBuilds demo_ttl_env short_history_job) (demo_start ()) =
     [KRead (ListBuilds ''ci'' (Inr demo_ttl_builds)), Clock 0,
      KWrite (DeleteBuild short_lived_build None), KWrite (DeleteBuild (old_build ''a'' ''succeeded'' 1) None)]"
  "result_of (pruneBuilds demo_ttl_env short_history_job) (demo_start ()) = Pruned"
  by (simp_all add: eval_simps prune_eval short_lived_build_def isTerminal_def seconds_def cong: eval_cong)

lemma demo_ttl_positive: "list_all ttl_positive demo_ttl_builds"
  by (simp add: ttl_positive_def old_build_def short_lived_build_def of_i32_small)

theorem prune_keeps_newest_witness:
  "pruned outlived demo_ttl_env short_history_job Pruned
     [KRead (ListBuilds ''ci'' (Inr demo_ttl_builds)), Clock 0,
      KWrite (DeleteBuild short_lived_build None), KWrite (DeleteBuild (old_build ''a'' ''succeeded'' 1) None)]"
proof -
  have limits: "0 \<le> success_limit short_history_job" "0 \<le> fail_limit short_history_job"
    by (simp_all add: short_history_job_def history_limit_def of_i32_small)
  have "\<forall>items. KRead (ListBuilds (om_namespace (job_meta short_history_job)) (Inr items))
      \<in> set (emitted (pruneBuilds demo_ttl_env short_history_job) (demo_start ())) \<longrightarrow> list_all ttl_positive items"
    unfolding demo_ttl_run(1) using demo_ttl_positive by auto
  from prune_keeps_newest [OF demo_sort_law' limits this, unfolded demo_ttl_run] show ?thesis by simp
qed

section \<open>What is deleted\<close>

definition finished_owned :: "'w env \<Rightarrow> Job \<Rightarrow> io list \<Rightarrow> Build \<Rightarrow> bool" where
  "finished_owned env job es b \<longleftrightarrow> (\<exists>items.
     KRead (ListBuilds (om_namespace (job_meta job)) (Inr items)) \<in> set es \<and> b \<in> set items \<and>
     l_is_controlled_by (e_libs env) (build_meta b) (job_meta job) \<and>
     isTerminal (bt_concourseStatus (build_status b)))"

definition deletes_finished :: "'w env \<Rightarrow> Job \<Rightarrow> io list \<Rightarrow> bool" where
  "deletes_finished env job es \<longleftrightarrow>
     (\<forall>b r. KWrite (DeleteBuild b r) \<in> set es \<longrightarrow> finished_owned env job es b)"

definition deletes_from :: "Build list \<Rightarrow> io \<Rightarrow> bool" where
  "deletes_from bs e \<longleftrightarrow> (\<exists>b\<in>set bs. \<exists>r. e = KWrite (DeleteBuild b r))"

lemma delete_builds_from: "set bs \<subseteq> set cs \<Longrightarrow> emits (deletes_from cs) (delete_builds env bs)"
  by (induction bs) (auto intro!: emits_intros simp: deletes_from_def)

lemma delete_beyond_from: "set bs \<subseteq> set cs \<Longrightarrow> emits (deletes_from cs) (delete_beyond env limit bs)"
  unfolding delete_beyond_def Let_def
  by (intro emits_intros delete_builds_from) (auto dest: in_set_dropD)

lemma expired_terminal: "expired t b \<Longrightarrow> isTerminal (bt_concourseStatus (build_status b))"
  by (auto simp: expired_def split: option.splits)

lemma heaps_terminal:
  "is_succeeded b \<or> is_failed b \<Longrightarrow> isTerminal (bt_concourseStatus (build_status b))"
  by (auto simp: is_succeeded_def is_failed_def isTerminal_def)

abbreviation terminal_builds :: "Build list \<Rightarrow> Build list" where
  "terminal_builds bs \<equiv> filter (\<lambda>b. isTerminal (bt_concourseStatus (build_status b))) bs"

lemma sort_out_from:
  "outcome (sort_out env t bs [] []) (\<lambda>r es. list_all (deletes_from (terminal_builds bs)) es \<and>
     (\<forall>succ failed. r = Inr (succ, failed) \<longrightarrow> set succ \<subseteq> set (terminal_builds bs) \<and>
       set failed \<subseteq> set (terminal_builds bs)))"
  using sort_out_outcome [of env t bs "[]" "[]"]
proof (rule outcome_mono)
  fix r es
  assume "\<exists>ds. es = map deletion ds \<and> (case r of
       Inl e \<Rightarrow> \<exists>err. e = PruneFailed err \<and> carried_out (filter (expired t) bs) e ds
     | Inr (succ', failed') \<Rightarrow> ds = map (\<lambda>b. (b, None)) (filter (expired t) bs) \<and>
         succ' = [] @ unexpired t is_succeeded bs \<and> failed' = [] @ unexpired t is_failed bs)"
  then obtain ds where es: "es = map deletion ds" and r: "case r of
       Inl e \<Rightarrow> \<exists>err. e = PruneFailed err \<and> carried_out (filter (expired t) bs) e ds
     | Inr (succ', failed') \<Rightarrow> ds = map (\<lambda>b. (b, None)) (filter (expired t) bs) \<and>
         succ' = [] @ unexpired t is_succeeded bs \<and> failed' = [] @ unexpired t is_failed bs" by blast
  have "fst ` set ds \<subseteq> set (filter (expired t) bs)"
  proof (cases r)
    case (Inl e)
    with r have "carried_out (filter (expired t) bs) e ds" by auto
    then show ?thesis by (rule carried_out_subset)
  next
    case (Inr p)
    with r show ?thesis by (cases p) auto
  qed
  then have "list_all (deletes_from (terminal_builds bs)) es"
    using es by (fastforce simp: list_all_iff deletes_from_def dest: expired_terminal)
  then show "list_all (deletes_from (terminal_builds bs)) es \<and>
     (\<forall>succ failed. r = Inr (succ, failed) \<longrightarrow> set succ \<subseteq> set (terminal_builds bs) \<and>
       set failed \<subseteq> set (terminal_builds bs))"
    using r by (auto simp: heaps_terminal)
qed

lemma newest_first_set: "sort_law env \<Longrightarrow> set (newest_first env bs) = set bs"
  by (metis newest_first_laws(1) mset_eq_setD)

lemma after_sorting_from:
  assumes "sort_law env"
  shows "emits (deletes_from (terminal_builds bs)) (do { h \<leftarrow> sort_out env t bs [] [];
      (case h of Inl e \<Rightarrow> ret e
       | Inr (succ, failed) \<Rightarrow> do {
          r \<leftarrow> delete_beyond env sl (newest_first env succ);
          (case r of Pruned \<Rightarrow> delete_beyond env fl (newest_first env failed) | _ \<Rightarrow> ret r) }) })"
  apply (rule emits_bind_known [OF sort_out_from])
  apply (rule emits_case(1))
   apply (rule emits_return)
  apply (rule emits_case(4))
  apply (rule emits_bind)
   apply (rule delete_beyond_from, simp add: newest_first_set [OF assms])
  subgoal for h p succ failed r'
    by (cases r') (simp_all add: emits_return delete_beyond_from newest_first_set [OF assms])
  done

lemma pruneBuilds_finished:
  assumes "sort_law env"
  shows "outcome (pruneBuilds env job) (\<lambda>_ es. deletes_finished env job es)"
  unfolding pruneBuilds_def Let_def
  apply (intro outcome_bind [of "extern _ _"] outcome_extern)
  apply (rule outcome_case(1))
   apply (rule outcome_return, simp add: deletes_finished_def)
  apply (intro outcome_bind [of "extern _ _"] outcome_extern)
  apply (rule outcome_mono [OF emits_outcome [OF after_sorting_from [OF assms]]])
  subgoal for r items t r' es
    by (auto simp: deletes_finished_def finished_owned_def list_all_iff deletes_from_def)
  done

section \<open>The reconcile around it\<close>

definition no_build_delete :: "io \<Rightarrow> bool" where
  "no_build_delete e \<longleftrightarrow> (\<forall>b r. e \<noteq> KWrite (DeleteBuild b r))"

lemma deletes_finished_none: "list_all no_build_delete es \<Longrightarrow> deletes_finished env job es"
  by (auto simp: deletes_finished_def no_build_delete_def list_all_iff)

lemma deletes_finished_append:
  "list_all no_build_delete ds \<Longrightarrow> deletes_finished env job es \<Longrightarrow> deletes_finished env job (ds @ es)"
  "list_all no_build_delete ds \<Longrightarrow> deletes_finished env job es \<Longrightarrow> deletes_finished env job (es @ ds)"
  by (fastforce simp: deletes_finished_def finished_owned_def no_build_delete_def list_all_iff)+

lemma deletes_finished_meta:
  "job_meta j = job_meta j' \<Longrightarrow> deletes_finished env j es \<Longrightarrow> deletes_finished env j' es"
  by (simp add: deletes_finished_def finished_owned_def)

lemma job_cond_sel [simp]:
  "job_meta (job_cond env j t st r m) = job_meta j"
  "job_spec (job_cond env j t st r m) = job_spec j"
  by (simp_all add: job_cond_def)

lemma observe_last_build_sel [simp]:
  "job_meta (observe_last_build env j b) = job_meta j"
  "job_spec (observe_last_build env j b) = job_spec j"
  by (simp_all add: observe_last_build_def Let_def split: option.splits)

lemma quiet_outcome: "emits A p \<Longrightarrow> outcome p (\<lambda>r es. list_all A es \<and> True)"
  by (simp add: emits_def)

lemma finish_job_deletes:
  assumes "sort_law env"
  shows "outcome (finish_job env j) (\<lambda>_ es. deletes_finished env j es)"
  unfolding finish_job_def Let_def
  apply (rule outcome_bind, rule outcome_mono [OF pruneBuilds_finished [OF assms]])
  subgoal for r es
  proof -
    assume d: "deletes_finished env j es"
    have "emits no_build_delete (case r of
        PrunePanicked i \<Rightarrow> ret (0, Some (''panic: runtime error: index out of range ['' @ itoa i @ ''] [recovered]''))
      | _ \<Rightarrow> do {
          u \<leftarrow> k_status_job env (job_cond env (map_job_status (\<lambda>s. s\<lparr>jt_observedGeneration := om_generation (job_meta j)\<rparr>) j)
            ConditionReady ConditionTrue ''Ready'' '''');
          (case u of
             Inl err \<Rightarrow> ret (0, Some (''update status: '' @ kerr_text err))
           | Inr _ \<Rightarrow> ret (minutes 1, None)) })"
      by (cases r) (auto intro!: emits_intros simp: no_build_delete_def)
    from emits_outcome [OF this] show ?thesis
      by (rule outcome_mono) (rule deletes_finished_append(2) [OF _ d])
  qed
  done

lemma observe_job_deletes:
  assumes "sort_law env"
  shows "outcome (observe_job env j cl tn pn jn) (\<lambda>_ es. deletes_finished env j es)"
  unfolding observe_job_def Let_def
  apply (intro outcome_bind [of "extern _ _"] outcome_extern)
  apply (rule outcome_case(1))
   apply (rule outcome_mono [OF emits_outcome [of no_build_delete]])
    apply (unfold job_not_fetched_def, intro emits_intros, simp_all add: no_build_delete_def)[1]
   apply (rule deletes_finished_none, simp add: no_build_delete_def)
  apply (rule outcome_case(2))
   apply (rule outcome_mono [OF emits_outcome [of no_build_delete]])
    apply (unfold job_not_fetched_def, intro emits_intros, simp_all add: no_build_delete_def)[1]
   apply (rule deletes_finished_none, simp add: no_build_delete_def)
  apply (rule outcome_mono [OF finish_job_deletes [OF assms]])
  apply (rule deletes_finished_append(1), simp add: no_build_delete_def)
  apply (erule deletes_finished_meta [rotated], simp)
  done

lemma job_web_url_outcome:
  "outcome (job_web_url env j tn pn jn) (\<lambda>r es. list_all is_kread es \<and> job_meta r = job_meta j \<and> job_spec r = job_spec j)"
  unfolding job_web_url_def by (intro outcome_intros) simp_all

lemma applyJobPause_meta:
  "outcome (applyJobPause env j cl tn pn jn) (\<lambda>(r, h) es. list_all no_build_delete es \<and>
     (h = None \<longrightarrow> job_meta r = job_meta j))"
  unfolding applyJobPause_def pause_failed_def Let_def
  by (intro outcome_intros) (simp_all add: no_build_delete_def)

lemma kread_no_delete: "list_all is_kread es \<Longrightarrow> list_all no_build_delete es"
  by (auto simp: list_all_iff no_build_delete_def is_kread_def)

lemma apply_job_deletes:
  assumes "sort_law env"
  shows "outcome (apply_job env j cl tn pn) (\<lambda>_ es. deletes_finished env j es)"
  unfolding apply_job_def Let_def
  apply (rule outcome_bind, rule outcome_mono [OF job_web_url_outcome])
  apply (rule outcome_bind, rule outcome_mono [OF applyJobPause_meta])
  apply (rule outcome_case(4))
  apply (rule outcome_case(2))
   apply (rule outcome_mono [OF observe_job_deletes [OF assms]])
   apply (intro deletes_finished_append(1), simp add: kread_no_delete, simp)
   apply (erule deletes_finished_meta [rotated], simp)
  apply (intro outcome_return deletes_finished_none)
  apply (simp add: kread_no_delete)
  done

text \<open>The Job as the reconcile knows it: as read, or as the owner update answered it.\<close>

definition job_known :: "ObjectKey \<Rightarrow> io list \<Rightarrow> Job \<Rightarrow> bool" where
  "job_known req es j \<longleftrightarrow> KRead (GetJob req (Inr j)) \<in> set es \<or> (\<exists>x. KWrite (UpdateJob x (Inr j)) \<in> set es)"

lemma set_job_owner_outcome:
  "outcome (set_job_owner env j) (\<lambda>r es. list_all no_build_delete es \<and> filter is_awrite es = [] \<and>
     (\<forall>j'. r = Inr j' \<longrightarrow> j' = j \<or> (\<exists>x. KWrite (UpdateJob x (Inr j')) \<in> set es)))"
  unfolding set_job_owner_def by (intro outcome_intros) (auto simp: no_build_delete_def)

lemma lifecycle_job_outcome:
  "outcome (handleJobLifecycle env j) (\<lambda>(handled, err) es. list_all is_kwrite es \<and> list_all no_build_delete es \<and>
     (\<not> handled \<longrightarrow> es = [] \<and> \<not> js_suspend (job_spec j) \<and> om_deletionTimestamp (job_meta j) = None))"
  unfolding handleJobLifecycle_def Let_def by (intro outcome_intros) (auto simp: no_build_delete_def)

lemma reconcile_job_deletes:
  assumes "sort_law env"
  shows "outcome (reconcile_job env j) (\<lambda>_ es. \<exists>j'. (j' = j \<or> (\<exists>x. KWrite (UpdateJob x (Inr j')) \<in> set es)) \<and>
    deletes_finished env j' es)"
  unfolding reconcile_job_def
  apply (rule outcome_bind, rule outcome_mono [OF emits_outcome [OF resolveJob_reads]])
  apply (rule outcome_case(1))
   apply (intro outcome_intros exI [of _ j] conjI disjI1 refl deletes_finished_none)
   apply (simp add: kread_no_delete, simp add: no_build_delete_def)
  apply (intro outcome_case(4))
  apply (rule outcome_bind, rule outcome_mono [OF set_job_owner_outcome])
  apply (rule outcome_case(1))
   apply (intro outcome_return exI [of _ j] conjI disjI1 refl deletes_finished_none)
   apply (simp add: kread_no_delete)
  apply (rule outcome_mono [OF apply_job_deletes [OF assms]])
  subgoal for c es y cl z tn pn u es' j' res es''
    by (intro exI [of _ j'] conjI) (auto intro!: deletes_finished_append(1) simp: kread_no_delete)
  done

lemma Job_Reconcile_deletes:
  assumes "sort_law env"
  shows "outcome (Job_Reconcile env req) (\<lambda>_ es. \<exists>j j'. deletes_finished env j' es \<and>
    (list_all no_build_delete es \<or> KRead (GetJob req (Inr j)) \<in> set es \<and> job_known req es j' \<and>
       \<not> js_suspend (job_spec j) \<and> om_deletionTimestamp (job_meta j) = None))"
  unfolding Job_Reconcile_def
  apply (intro outcome_bind [of "extern _ _"] outcome_extern)
  apply (rule outcome_case(1))
   apply (rule outcome_return, simp add: no_build_delete_def deletes_finished_none)
  apply (rule outcome_bind, rule outcome_mono [OF lifecycle_job_outcome])
  apply (rule outcome_case(4))
  apply (rule outcome_case(3))
   apply (rule outcome_return, simp add: no_build_delete_def deletes_finished_none)
  apply (rule outcome_mono [OF reconcile_job_deletes [OF assms]])
  apply (elim exE conjE)
  subgoal for r j h es handled err res es' j'
    by (intro exI [of _ j] exI [of _ j'] conjI disjI2)
      (auto simp: job_known_def no_build_delete_def intro!: deletes_finished_append(1) [of "[_]", simplified])
  done

text \<open>C21: Only finished builds of the Job are deleted: a reconcile of a Job deletes a Build only
  after reading the Job, alive and not suspended, and listing the builds of its namespace; the
  Build is on that list, the Job is its controller, and it was in a terminal phase. No other
  build is ever deleted, whatever the limits are.\<close>

theorem only_finished_builds_pruned:
  assumes "sort_law env" and "KWrite (DeleteBuild b r) \<in> set (emitted (Job_Reconcile env req) s)"
  shows "\<exists>j j'. KRead (GetJob req (Inr j)) \<in> set (emitted (Job_Reconcile env req) s) \<and>
    \<not> js_suspend (job_spec j) \<and> om_deletionTimestamp (job_meta j) = None \<and>
    job_known req (emitted (Job_Reconcile env req) s) j' \<and>
    finished_owned env j' (emitted (Job_Reconcile env req) s) b"
  using outcomeD [OF Job_Reconcile_deletes [OF assms(1)], of req s] assms(2)
  by (auto simp: deletes_finished_def list_all_iff no_build_delete_def)

abbreviation demo_job_env :: "unit env" where
  "demo_job_env \<equiv> demo_history_env\<lparr>e_k8s := (e_k8s demo_history_env)
     \<lparr>x_get_job := (\<lambda>_ w. (Inr short_history_job, w)), x_update_job := (\<lambda>j w. (Inr j, w))\<rparr>\<rparr>"

lemma short_history_job_sel [simp]:
  "job_meta short_history_job = demo_meta ''job''"
  "job_status short_history_job = demo_job_status"
  "js_pipelineRef (job_spec short_history_job) = demo_ref ''pipeline''"
  "js_jobName (job_spec short_history_job) = ''''"
  "js_paused (job_spec short_history_job) = False"
  "js_suspend (job_spec short_history_job) = False"
  "js_successfulBuildsHistoryLimit (job_spec short_history_job) = Some 1"
  "js_failedBuildsHistoryLimit (job_spec short_history_job) = None"
  by (simp_all add: short_history_job_def)

lemmas job_eval = Job_Reconcile_def handleJobLifecycle_def reconcile_job_def set_job_owner_def apply_job_def
  job_web_url_def applyJobPause_def observe_job_def finish_job_def base_url_def refKey_def
  ResolveNamespace_def recordEvent_def resolver_eval ResolvedJobName_def ResolvedTeamName_def
  ResolvedPipelineName_def

lemma demo_job_run:
  "KWrite (DeleteBuild (old_build ''a'' ''succeeded'' 1) None)
     \<in> set (emitted (Job_Reconcile demo_job_env (''ci'', ''job'')) (demo_start ()))"
  by (simp add: eval_simps job_eval pruneBuilds_def delete_beyond_def newest_first_def history_limit_def
      expired_def is_succeeded_def is_failed_def demo_sort_def old_build_def of_i32_small cong: eval_cong)

theorem only_finished_builds_pruned_witness:
  "\<exists>j'. finished_owned demo_job_env j' (emitted (Job_Reconcile demo_job_env (''ci'', ''job'')) (demo_start ()))
     (old_build ''a'' ''succeeded'' 1)"
proof -
  have "sort_law demo_job_env" using demo_sort_law by (simp add: sort_law_def)
  from only_finished_builds_pruned [OF this demo_job_run] show ?thesis by blast
qed

section \<open>The pause request\<close>

definition pause_request :: "goclient \<Rightarrow> string \<Rightarrow> string \<Rightarrow> Job \<Rightarrow> goerr option \<Rightarrow> io" where
  "pause_request cl tn pn j r =
     (if js_paused (job_spec j) then AWrite (PauseJob cl tn pn (ResolvedJobName j) r)
      else AWrite (UnpauseJob cl tn pn (ResolvedJobName j) r))"

lemma applyJobPause_writes:
  "outcome (applyJobPause env j cl tn pn jn) (\<lambda>(r, h) es. \<exists>e. filter is_awrite es =
     [if js_paused (job_spec j) then AWrite (PauseJob cl tn pn jn e) else AWrite (UnpauseJob cl tn pn jn e)])"
  unfolding applyJobPause_def pause_failed_def Let_def by (intro outcome_intros) simp_all

lemma delete_builds_quiet: "emits (\<lambda>e. \<not> is_awrite e) (delete_builds env bs)"
  by (induction bs) (auto intro!: emits_intros)

lemma sort_out_quiet: "emits (\<lambda>e. \<not> is_awrite e) (sort_out env t bs succ failed)"
  by (induction bs arbitrary: succ failed) (auto intro!: emits_intros)

lemma emits_prune_case [emits_intros]:
  "emits A p \<Longrightarrow> (\<And>e. emits A (f e)) \<Longrightarrow> (\<And>i. emits A (g i)) \<Longrightarrow>
   emits A (case r of Pruned \<Rightarrow> p | PruneFailed e \<Rightarrow> f e | PrunePanicked i \<Rightarrow> g i)"
  by (cases r) simp_all

lemma observe_job_quiet: "emits (\<lambda>e. \<not> is_awrite e) (observe_job env j cl tn pn jn)"
  unfolding observe_job_def finish_job_def job_not_fetched_def pruneBuilds_def delete_beyond_def Let_def
  by (intro emits_intros delete_builds_quiet sort_out_quiet) simp_all

lemma apply_job_writes:
  "outcome (apply_job env j cl tn pn) (\<lambda>_ es. \<exists>r. filter is_awrite es = [pause_request cl tn pn j r])"
  unfolding apply_job_def Let_def
  apply (rule outcome_bind, rule outcome_mono [OF job_web_url_outcome])
  apply (rule outcome_bind, rule outcome_mono [OF applyJobPause_writes])
  apply (rule outcome_case(4))
  apply (rule outcome_case(2))
   apply (rule outcome_mono [OF emits_outcome [OF observe_job_quiet]])
   apply (auto simp: reads_write_nothing pause_request_def)[1]
  apply (rule outcome_return)
  apply (auto simp: reads_write_nothing pause_request_def)
  done

definition paused_behind_chain :: "'w env \<Rightarrow> Job \<Rightarrow> io list \<Rightarrow> io \<Rightarrow> bool" where
  "paused_behind_chain env j es e \<longleftrightarrow> (\<exists>j' pipeline team inst cl r.
     (j' = j \<or> (\<exists>x. KWrite (UpdateJob x (Inr j')) \<in> set es)) \<and>
     resolved_through env j pipeline team inst es \<and>
     e = pause_request cl (ResolvedTeamName team) (ResolvedPipelineName pipeline) j' r)"

lemma resolved_through_append:
  "resolved_through env j p t i es \<Longrightarrow> resolved_through env j p t i (es @ ds)"
  "resolved_through env j p t i es \<Longrightarrow> resolved_through env j p t i (ds @ es)"
  unfolding resolved_through_def by auto

lemma paused_behind_chain_Cons:
  "paused_behind_chain env j es e \<Longrightarrow> paused_behind_chain env j (d # es) e"
  unfolding paused_behind_chain_def using resolved_through_append(2) [of env j _ _ _ es "[d]"]
  by simp (metis)

lemma reconcile_job_writes:
  "outcome (reconcile_job env j) (\<lambda>_ es. filter is_awrite es = [] \<or>
     (\<exists>e. filter is_awrite es = [e] \<and> paused_behind_chain env j es e))"
  unfolding reconcile_job_def
  apply (rule outcome_bind)
  apply (rule outcome_mono [OF outcome_conj [OF emits_outcome [OF resolveJob_reads] resolveJob_evidence]])
  apply (elim conjE)
  apply (rule outcome_case(1))
   apply (intro outcome_intros disjI1, simp add: reads_write_nothing)
  apply (rule outcome_case(4))+
  apply (rule outcome_bind, rule outcome_mono [OF set_job_owner_outcome])
  apply (rule outcome_case(1))
   apply (rule outcome_return, rule disjI1, simp add: reads_write_nothing)
  apply (rule outcome_mono [OF apply_job_writes])
  apply (elim exE conjE)
  subgoal for c es y cl z tn pn u es' j' res es'' r
  proof (rule disjI2, intro exI conjI)
    assume c: "list_all is_kread es" "filter is_awrite es' = []" "u = Inr j'"
      "filter is_awrite es'' = [pause_request cl tn pn j' r]"
    then show "filter is_awrite (es @ es' @ es'') = [pause_request cl tn pn j' r]"
      by (simp add: reads_write_nothing)
    assume "\<forall>cl tn pn. c = Inr (cl, tn, pn) \<longrightarrow> (\<exists>pipeline team inst.
        resolved_through env j pipeline team inst es \<and> tn = ResolvedTeamName team \<and> pn = ResolvedPipelineName pipeline)"
      and "c = Inr y" "y = (cl, z)" "z = (tn, pn)"
      and own: "\<forall>j'. u = Inr j' \<longrightarrow> j' = j \<or> (\<exists>x. KWrite (UpdateJob x (Inr j')) \<in> set es')"
    then obtain pipeline team inst where "resolved_through env j pipeline team inst es"
      and "tn = ResolvedTeamName team" "pn = ResolvedPipelineName pipeline" by blast
    with own c(3) show "paused_behind_chain env j (es @ es' @ es'') (pause_request cl tn pn j' r)"
      unfolding paused_behind_chain_def using resolved_through_append(1) [of env j pipeline team inst es "es' @ es''"]
      by (intro exI [of _ j'] exI [of _ pipeline] exI [of _ team] exI [of _ inst] exI [of _ cl] exI [of _ r] conjI) auto
  qed
  done

definition job_write :: "'w env \<Rightarrow> ObjectKey \<Rightarrow> io list \<Rightarrow> io \<Rightarrow> bool" where
  "job_write env req es e \<longleftrightarrow> (\<exists>j. KRead (GetJob req (Inr j)) \<in> set es \<and> \<not> js_suspend (job_spec j) \<and>
     om_deletionTimestamp (job_meta j) = None \<and> paused_behind_chain env j es e)"

lemma Job_Reconcile_writes:
  "outcome (Job_Reconcile env req) (\<lambda>_ es. filter is_awrite es = [] \<or>
     (\<exists>e. filter is_awrite es = [e] \<and> job_write env req es e))"
  unfolding Job_Reconcile_def
  apply (intro outcome_bind [of "extern _ _"] outcome_extern)
  apply (rule outcome_case(1))
   apply (rule outcome_return, simp)
  apply (rule outcome_bind, rule outcome_mono [OF lifecycle_job_outcome])
  apply (rule outcome_case(4))
  apply (rule outcome_case(3))
   apply (rule outcome_return)
   apply (auto simp: list_all_iff filter_empty_conv is_kwrite_def is_awrite_def split: io.splits)[1]
  apply (rule outcome_mono [OF reconcile_job_writes])
  apply (auto simp: job_write_def intro: paused_behind_chain_Cons)
  done

text \<open>C33: A reconcile of a Job asks Concourse for one change at most, and it is the one the spec
  names: to pause the job when \<open>spec.paused\<close> is set, else to unpause it, under the resolved names of
  the Team and the Pipeline, and only after reading a Job that is alive and not suspended and the
  Pipeline, Team and Instance above it, all Ready and the namespace allowed.\<close>

theorem job_paused_as_specified:
  assumes "e \<in> set (emitted (Job_Reconcile env req) s)" and "is_awrite e"
  shows "filter is_awrite (emitted (Job_Reconcile env req) s) = [e] \<and>
    job_write env req (emitted (Job_Reconcile env req) s) e"
proof -
  have e: "e \<in> set (filter is_awrite (emitted (Job_Reconcile env req) s))" using assms by simp
  from outcomeD [OF Job_Reconcile_writes, of env req s] e
  show ?thesis by (elim disjE exE conjE) auto
qed

lemma demo_job_unpaused:
  "AWrite (UnpauseJob demo_client ''team'' ''pipeline'' ''job'' None)
     \<in> set (emitted (Job_Reconcile demo_env (''ci'', ''job'')) (demo_start ()))"
  by (simp add: demo_client_def eval_simps job_eval pruneBuilds_def delete_beyond_def newest_first_def
      history_limit_def demo_sort_def of_i32_small cong: eval_cong)

theorem job_paused_as_specified_witness:
  "filter is_awrite (emitted (Job_Reconcile demo_env (''ci'', ''job'')) (demo_start ())) =
     [AWrite (UnpauseJob demo_client ''team'' ''pipeline'' ''job'' None)]"
  using job_paused_as_specified [OF demo_job_unpaused] by simp

section \<open>What the status says\<close>

definition job_says :: "Job \<Rightarrow> ConditionStatus \<Rightarrow> string \<Rightarrow> ConditionStatus \<Rightarrow> string \<Rightarrow> bool" where
  "job_says x ready why verdict phase \<longleftrightarrow>
     cond_is (jt_conditions (job_status x)) ConditionReady ready why \<and>
     cond_is (jt_conditions (job_status x)) ConditionLastBuildSucceeded verdict phase"

text \<open>What \<open>LastBuildSucceeded\<close> must be for the last finished build.\<close>

fun last_build_verdict :: "atc_build option \<Rightarrow> ConditionStatus \<times> string" where
  "last_build_verdict None = (ConditionUnknown, ''NoBuild'')"
| "last_build_verdict (Some b) =
     (if ab_status b = BuildPhaseSucceeded then (ConditionTrue, ''Succeeded'')
      else (ConditionFalse, mapPhaseToReason (ab_status b)))"

definition final_status :: "(Job \<Rightarrow> bool) \<Rightarrow> Result \<Rightarrow> Result \<times> goerr option \<Rightarrow> io list \<Rightarrow> bool" where
  "final_status P after res es \<longleftrightarrow> (\<exists>ds x u. es = ds @ [KWrite (StatusJob x u)] \<and> P x \<and>
     res = (case u of Inl err \<Rightarrow> (0, Some (''update status: '' @ kerr_text err)) | Inr _ \<Rightarrow> (after, None)))"

definition job_reported :: "Job \<Rightarrow> goerr + atc_job option \<Rightarrow> Result \<times> goerr option \<Rightarrow> io list \<Rightarrow> bool" where
  "job_reported j answer res es \<longleftrightarrow> (case answer of
     Inl err \<Rightarrow> final_status (\<lambda>x. job_says x ConditionFalse ''FetchFailed'' ConditionUnknown ''FetchFailed'')
       (seconds 30) res es
   | Inr None \<Rightarrow> final_status (\<lambda>x. job_says x ConditionFalse ''JobNotFound'' ConditionUnknown ''NoBuild'')
       (seconds 30) res es
   | Inr (Some a) \<Rightarrow> final_status (\<lambda>x. case last_build_verdict (aj_finishedBuild a) of
       (verdict, phase) \<Rightarrow> job_says x ConditionTrue ''Ready'' verdict phase \<and>
         jt_observedGeneration (job_status x) = om_generation (job_meta j) \<and>
         jt_jobID (job_status x) = int32Ptr (aj_id a) \<and> jt_paused (job_status x) = Some (aj_paused a) \<and>
         job_meta x = job_meta j \<and> job_spec x = job_spec j)
       (minutes 1) res es)"

lemma final_statusI:
  "P x \<Longrightarrow> outcome (do { u \<leftarrow> k_status_job env x; (case u of
      Inl err \<Rightarrow> ret (0, Some (''update status: '' @ kerr_text err)) | Inr _ \<Rightarrow> ret (after, None)) })
    (\<lambda>res es. final_status P after res es)"
  unfolding final_status_def by (intro outcome_intros) auto

lemma final_status_after: "final_status P t res es \<Longrightarrow> final_status P t res (ds @ es)"
  unfolding final_status_def by (metis append.assoc)

lemma outcome_no_panic:
  assumes "0 \<le> of_i32 sl" and "0 \<le> of_i32 fl"
  shows "outcome (do { r \<leftarrow> delete_beyond env sl xs;
      (case r of Pruned \<Rightarrow> delete_beyond env fl ys | _ \<Rightarrow> ret r) }) (\<lambda>r _. \<forall>i. r \<noteq> PrunePanicked i)"
  by (rule outcome_mono [OF delete_both_outcome [OF assms]]) (auto simp: carried_out_def split: prune_result.splits)

lemma pruneBuilds_no_panic:
  assumes "0 \<le> success_limit job" and "0 \<le> fail_limit job"
  shows "outcome (pruneBuilds env job) (\<lambda>r _. \<forall>i. r \<noteq> PrunePanicked i)"
  unfolding pruneBuilds_def Let_def
  apply (intro outcome_bind [of "extern _ _"] outcome_extern)
  apply (rule outcome_case(1))
   apply (rule outcome_return, simp)
  apply (intro outcome_bind [of "extern _ _"] outcome_extern)
  apply (rule outcome_bind, rule outcome_mono [OF sort_out_outcome])
  apply (rule outcome_case(1))
   apply (rule outcome_return, auto)[1]
  apply (rule outcome_case(4))
  apply (rule outcome_no_panic [OF assms])
  done

lemma finish_job_reports:
  assumes "0 \<le> success_limit j" and "0 \<le> fail_limit j"
    and "P (job_cond env (map_job_status (\<lambda>s. s\<lparr>jt_observedGeneration := om_generation (job_meta j)\<rparr>) j)
        ConditionReady ConditionTrue ''Ready'' '''')"
  shows "outcome (finish_job env j) (\<lambda>res es. final_status P (minutes 1) res es)"
  unfolding finish_job_def Let_def
  apply (rule outcome_bind, rule outcome_mono [OF pruneBuilds_no_panic [OF assms(1,2)]])
  subgoal for r es
    apply (cases r)
      apply (simp only: prune_result.case, rule outcome_mono [OF final_statusI [where P = P, OF assms(3)]],
        erule final_status_after)+
    apply simp
    done
  done

lemma not_fetched_reports:
  assumes "P x"
  shows "outcome (do { job_event env j t r m; job_not_fetched env x }) (\<lambda>res es. final_status P (seconds 30) res es)"
  unfolding job_not_fetched_def
  apply (rule outcome_bind, rule outcome_mono [OF total_outcome [OF emits_recordEvent [where A = "\<lambda>_. True"]]], rule TrueI)
  apply (rule outcome_mono [OF final_statusI [where P = P, OF assms]], erule final_status_after)
  done

lemma job_says_set:
  "conditions_law env \<Longrightarrow> job_says (job_cond env (job_cond env j ConditionReady st r m)
     ConditionLastBuildSucceeded st' r' m') st r st' r'"
  by (simp add: job_says_def job_cond_def)

lemma verdict_set:
  assumes "conditions_law env"
  shows "case last_build_verdict b of (verdict, phase) \<Rightarrow>
    job_says (job_cond env (map_job_status (\<lambda>s. s\<lparr>jt_observedGeneration := g\<rparr>) (observe_last_build env j b))
      ConditionReady ConditionTrue ''Ready'' '''') ConditionTrue ''Ready'' verdict phase"
  using assms by (cases b) (auto simp: job_says_def job_cond_def observe_last_build_def Let_def)

lemma observe_last_build_fields:
  "jt_jobID (job_status (observe_last_build env j b)) = jt_jobID (job_status j)"
  "jt_paused (job_status (observe_last_build env j b)) = jt_paused (job_status j)"
  by (simp_all add: observe_last_build_def job_cond_def Let_def split: option.splits)

lemma job_cond_fields:
  "jt_jobID (job_status (job_cond env j t st r m)) = jt_jobID (job_status j)"
  "jt_paused (job_status (job_cond env j t st r m)) = jt_paused (job_status j)"
  "jt_observedGeneration (job_status (job_cond env j t st r m)) = jt_observedGeneration (job_status j)"
  by (simp_all add: job_cond_def)

text \<open>C34: What the Job's status says once the pause request went through: when the job cannot be
  read, Ready is False with FetchFailed; when Concourse does not know it, Ready is False with
  JobNotFound; both times LastBuildSucceeded is Unknown and the reconcile comes back in 30
  seconds. Otherwise the status written last has Ready True, the generation it stands for, the
  job's ID and pause state as Concourse reports them, and LastBuildSucceeded True, False with
  the phase, or Unknown, as the last finished build is succeeded, not succeeded, or missing,
  and the reconcile comes back in a minute. Pruning, even when it fails, changes nothing of it.\<close>

theorem job_report:
  assumes "conditions_law env" and "0 \<le> success_limit j" and "0 \<le> fail_limit j"
    and "x_job (e_team env) cl tn pn jn (world s) = (a, w)"
  shows "\<exists>es. emitted (observe_job env j cl tn pn jn) s = ARead (ReadJob cl tn pn jn a) # es \<and>
    job_reported j a (result_of (observe_job env j cl tn pn jn) s) es"
  unfolding observe_job_def
  apply (rule first_call [where f = "x_job (e_team env) cl tn pn jn" and c = "\<lambda>a. ARead (ReadJob cl tn pn jn a)"])
   apply (rule assms(4))
  apply (rule outcome_case(1))
   apply (simp add: job_reported_def Let_def, rule not_fetched_reports, rule job_says_set [OF assms(1)])
  apply (rule outcome_case(2))
   apply (simp add: job_reported_def Let_def, rule not_fetched_reports, rule job_says_set [OF assms(1)])
  subgoal for q b
    apply (simp add: job_reported_def)
    apply (rule finish_job_reports)
      apply (simp_all add: assms(2,3) job_cond_fields observe_last_build_fields observe_job_fields_def)
    apply (insert verdict_set [OF assms(1), where b = "aj_finishedBuild b"])
    apply (auto split: prod.splits)
    done
  done

theorem job_report_witness:
  "\<exists>es res. job_reported short_history_job (Inr (Some demo_atc_job)) res es \<and>
     emitted (observe_job demo_history_env short_history_job demo_client ''team'' ''pipeline'' ''job'') (demo_start ()) =
       ARead (ReadJob demo_client ''team'' ''pipeline'' ''job'' (Inr (Some demo_atc_job))) # es"
proof -
  have law: "conditions_law demo_history_env" using demo_conditions_law by (simp add: conditions_law_def)
  have limits: "0 \<le> success_limit short_history_job" "0 \<le> fail_limit short_history_job"
    by (simp_all add: history_limit_def of_i32_small)
  have "x_job (e_team demo_history_env) demo_client ''team'' ''pipeline'' ''job'' (world (demo_start ()))
      = (Inr (Some demo_atc_job), ())" by simp
  from job_report [OF law limits this] show ?thesis by blast
qed

section \<open>A time to live of zero\<close>

text \<open>The field's documentation says zero keeps the build until the limits prune it.\<close>

definition zero_ttl_build :: Build where
  "zero_ttl_build = (old_build ''a'' ''succeeded'' 0)\<lparr>build_spec := demo_build_spec
     \<lparr>bs_ttlSecondsAfterFinished := Some 0\<rparr>, build_status := demo_build_status
     \<lparr>bt_concourseStatus := ''succeeded'', bt_endTime := Some (- 1)\<rparr>\<rparr>"

lemma zero_ttl_deletes_at_once:
  "emitted (pruneBuilds (with_builds [zero_ttl_build] demo_env) demo_job) (demo_start ()) =
     [KRead (ListBuilds ''ci'' (Inr [zero_ttl_build])), Clock 0, KWrite (DeleteBuild zero_ttl_build None)]"
  by (simp add: eval_simps prune_eval zero_ttl_build_def isTerminal_def seconds_def cong: eval_cong)

end
