(* ===== verification/Resource_Controller.thy ===== *)
theory Resource_Controller
  imports Resolver "HOL-Library.AList"
begin

text \<open>
  \<open>internal/controller/resource_controller.go\<close>: the reconciler of a Resource, which pins the
  resource to a version, disables and re-enables versions, and triggers checks. A Go map from
  version IDs to versions is an association list without duplicate keys, in an order that is
  not looked at; ranging over it visits the entries in the order \<open>l_range\<close> gives.
\<close>

abbreviation map_resource_status :: "(ResourceStatus \<Rightarrow> ResourceStatus) \<Rightarrow> Resource \<Rightarrow> Resource" where
  "map_resource_status f r \<equiv> r\<lparr>resource_status := f (resource_status r)\<rparr>"

definition resource_cond ::
  "'w env \<Rightarrow> Resource \<Rightarrow> string \<Rightarrow> ConditionStatus \<Rightarrow> string \<Rightarrow> string \<Rightarrow> Resource" where
  "resource_cond env r t st reason msg = map_resource_status (\<lambda>s. s\<lparr>rt_conditions :=
     setCondition env (rt_conditions s) (om_generation (resource_meta r)) t st reason msg\<rparr>) r"

abbreviation resource_event ::
  "'w env \<Rightarrow> Resource \<Rightarrow> event_type \<Rightarrow> string \<Rightarrow> string \<Rightarrow> ('w, unit) prog" where
  "resource_event env r t reason msg \<equiv> recordEvent env KResource (resource_meta r) t reason msg"

section \<open>Looking up a version\<close>

text \<open>
  List up to 50 versions that match, and take the first that is equal; \<open>what\<close> is how the
  caller names the version it looks for.
\<close>

definition find_version ::
  "'w env \<Rightarrow> goclient \<Rightarrow> string \<Rightarrow> string \<Rightarrow> string \<Rightarrow> string \<Rightarrow> string_map \<Rightarrow> ('w, goerr + int) prog" where
  "find_version env cl teamName pipelineName resourceName what v = do {
     r \<leftarrow> a_resource_versions env cl teamName pipelineName resourceName 50 (Some v);
     (case r of
        Inl err \<Rightarrow> ret (Inl (''list resource versions: '' @ err))
      | Inr None \<Rightarrow> ret (Inl (''resource '' @ l_quote (e_libs env) resourceName @ '' not found when listing versions''))
      | Inr (Some versions) \<Rightarrow>
          (case find (\<lambda>x. arv_version x = v) versions of
             None \<Rightarrow> ret (Inl (what @ '' version '' @ l_show_map (e_libs env) v @ '' not found for resource ''
               @ l_quote (e_libs env) resourceName))
           | Some match \<Rightarrow> ret (Inr (arv_id match)))) }"

section \<open>The pinned version\<close>

definition unpin ::
  "'w env \<Rightarrow> goclient \<Rightarrow> string \<Rightarrow> string \<Rightarrow> string \<Rightarrow> bool \<Rightarrow> Resource \<Rightarrow> ('w, goerr + Resource) prog" where
  "unpin env cl teamName pipelineName resourceName pinned resource =
     (let resource' = map_resource_status (\<lambda>s. s\<lparr>rt_pinned := Some False, rt_pinnedVersionID := None\<rparr>) resource
      in if pinned then do {
           e \<leftarrow> a_unpin_resource env cl teamName pipelineName resourceName;
           (case e of
              Some err \<Rightarrow> ret (Inl (''unpin resource: '' @ err))
            | None \<Rightarrow> do {
                resource_event env resource EventTypeNormal ''Unpinned''
                  (''Resource '' @ l_quote (e_libs env) resourceName @ '' unpinned in Concourse'');
                ret (Inr resource') }) }
         else ret (Inr resource'))"

definition sync_pin_comment ::
  "'w env \<Rightarrow> goclient \<Rightarrow> string \<Rightarrow> string \<Rightarrow> string \<Rightarrow> string \<Rightarrow> Resource \<Rightarrow> ('w, unit) prog" where
  "sync_pin_comment env cl teamName pipelineName resourceName actual resource =
     (let desired = rs_pinComment (resource_spec resource) in
      if desired \<noteq> '''' \<and> actual \<noteq> desired
      then do { e \<leftarrow> a_set_pin_comment env cl teamName pipelineName resourceName desired; ret () }
      else ret ())"

definition pin_version ::
  "'w env \<Rightarrow> goclient \<Rightarrow> string \<Rightarrow> string \<Rightarrow> string \<Rightarrow> string_map \<Rightarrow> Resource \<Rightarrow> ('w, goerr + Resource) prog" where
  "pin_version env cl teamName pipelineName resourceName desired resource = do {
     m \<leftarrow> find_version env cl teamName pipelineName resourceName ''pinned'' desired;
     (case m of
        Inl err \<Rightarrow> ret (Inl err)
      | Inr ident \<Rightarrow> do {
          e \<leftarrow> a_pin_resource_version env cl teamName pipelineName resourceName ident;
          (case e of
             Some err \<Rightarrow> ret (Inl (''pin resource version: '' @ err))
           | None \<Rightarrow> do {
               resource_event env resource EventTypeNormal ''Pinned''
                 (''Resource '' @ l_quote (e_libs env) resourceName @ '' pinned to version '' @ l_show_map (e_libs env) desired);
               ret (Inr (map_resource_status (\<lambda>s. s\<lparr>rt_pinned := Some True,
                 rt_pinnedVersionID := int32Ptr ident\<rparr>) resource)) }) }) }"

definition syncPin ::
  "'w env \<Rightarrow> goclient \<Rightarrow> string \<Rightarrow> string \<Rightarrow> string \<Rightarrow> Resource \<Rightarrow> ('w, goerr + Resource) prog" where
  "syncPin env cl teamName pipelineName resourceName resource = do {
     r \<leftarrow> a_resource env cl teamName pipelineName resourceName;
     (case r of
        Inl err \<Rightarrow> ret (Inl err)
      | Inr None \<Rightarrow> ret (Inl (''resource '' @ l_quote (e_libs env) resourceName @ '' not found in pipeline ''
          @ l_quote (e_libs env) pipelineName))
      | Inr (Some atcRes) \<Rightarrow>
          (let desired = rs_pinnedVersion (resource_spec resource); actual = ar_pinnedVersion atcRes in
           if desired = [] then
             unpin env cl teamName pipelineName resourceName
               (case actual of None \<Rightarrow> False | Some v \<Rightarrow> v \<noteq> []) resource
           else do {
             sync_pin_comment env cl teamName pipelineName resourceName (ar_pinComment atcRes) resource;
             (if actual = Some desired
              then ret (Inr (map_resource_status (\<lambda>s. s\<lparr>rt_pinned := Some True\<rparr>) resource))
              else pin_version env cl teamName pipelineName resourceName desired resource) })) }"

section \<open>The disabled versions\<close>

type_synonym version_ids = "(i32 \<times> string_map) list"

primrec resolve_disabled ::
  "'w env \<Rightarrow> goclient \<Rightarrow> string \<Rightarrow> string \<Rightarrow> string \<Rightarrow> string_map list \<Rightarrow> version_ids \<Rightarrow>
   ('w, goerr + version_ids) prog" where
  "resolve_disabled env cl tn pn rn [] ids = ret (Inr ids)"
| "resolve_disabled env cl tn pn rn (v # vs) ids =
     (if v = [] then resolve_disabled env cl tn pn rn vs ids
      else do {
        m \<leftarrow> find_version env cl tn pn rn ''disabled'' v;
        (case m of
           Inl err \<Rightarrow> ret (Inl err)
         | Inr ident \<Rightarrow> resolve_disabled env cl tn pn rn vs (AList.update (to_i32 ident) v ids)) })"

primrec disable_versions ::
  "'w env \<Rightarrow> goclient \<Rightarrow> string \<Rightarrow> string \<Rightarrow> string \<Rightarrow> Resource \<Rightarrow> i32 set \<Rightarrow> version_ids \<Rightarrow>
   ('w, goerr option) prog" where
  "disable_versions env cl tn pn rn resource tracked [] = ret None"
| "disable_versions env cl tn pn rn resource tracked (d # ds) =
     (if fst d \<in> tracked then disable_versions env cl tn pn rn resource tracked ds
      else do {
        e \<leftarrow> a_disable_resource_version env cl tn pn rn (of_i32 (fst d));
        (case e of
           Some err \<Rightarrow> ret (Some (''disable resource version: '' @ err))
         | None \<Rightarrow> do {
             resource_event env resource EventTypeNormal ''VersionDisabled''
               (''Resource '' @ l_quote (e_libs env) rn @ '' version '' @ l_show_map (e_libs env) (snd d) @ '' disabled'');
             disable_versions env cl tn pn rn resource tracked ds }) })"

primrec enable_versions ::
  "'w env \<Rightarrow> goclient \<Rightarrow> string \<Rightarrow> string \<Rightarrow> string \<Rightarrow> Resource \<Rightarrow> version_ids \<Rightarrow> i32 list \<Rightarrow>
   ('w, goerr option) prog" where
  "enable_versions env cl tn pn rn resource desired [] = ret None"
| "enable_versions env cl tn pn rn resource desired (i # is) =
     (if map_of desired i \<noteq> None then enable_versions env cl tn pn rn resource desired is
      else do {
        e \<leftarrow> a_enable_resource_version env cl tn pn rn (of_i32 i);
        (case e of
           Some err \<Rightarrow> ret (Some (''enable resource version: '' @ err))
         | None \<Rightarrow> do {
             resource_event env resource EventTypeNormal ''VersionEnabled''
               (''Resource '' @ l_quote (e_libs env) rn @ '' version ID '' @ itoa (of_i32 i) @ '' re-enabled'');
             enable_versions env cl tn pn rn resource desired is }) })"

text \<open>\<open>slices.Sort\<close> on \<open>int32\<close> compares signed values.\<close>

definition sorted_ids :: "i32 list \<Rightarrow> i32 list" where
  "sorted_ids ids = sort_key of_i32 ids"

definition syncDisabledVersions ::
  "'w env \<Rightarrow> goclient \<Rightarrow> string \<Rightarrow> string \<Rightarrow> string \<Rightarrow> Resource \<Rightarrow> ('w, goerr + Resource) prog" where
  "syncDisabledVersions env cl tn pn rn resource = do {
     let tracked = rt_disabledVersionIDs (resource_status resource);
     d \<leftarrow> resolve_disabled env cl tn pn rn (rs_disabledVersions (resource_spec resource)) [];
     (case d of
        Inl err \<Rightarrow> ret (Inl err)
      | Inr desiredIDs \<Rightarrow> do {
          e \<leftarrow> disable_versions env cl tn pn rn resource (set tracked) (l_range (e_libs env) desiredIDs);
          (case e of
             Some err \<Rightarrow> ret (Inl err)
           | None \<Rightarrow> do {
               e \<leftarrow> enable_versions env cl tn pn rn resource desiredIDs tracked;
               (case e of
                  Some err \<Rightarrow> ret (Inl err)
                | None \<Rightarrow> ret (Inr (map_resource_status (\<lambda>s. s\<lparr>rt_disabledVersionIDs :=
                    sorted_ids (map fst (l_range (e_libs env) desiredIDs))\<rparr>) resource))) }) }) }"

section \<open>Checks and the latest version\<close>

definition shouldCheck :: "'w env \<Rightarrow> Resource \<Rightarrow> ('w, bool) prog" where
  "shouldCheck env resource =
     (case rs_checkInterval (resource_spec resource) of
        None \<Rightarrow> ret False
      | Some interval \<Rightarrow>
          (case rt_lastChecked (resource_status resource) of
             None \<Rightarrow> ret True
           | Some t \<Rightarrow> do { n \<leftarrow> now env; ret (time_sub n t \<ge> interval) }))"

definition check_resource ::
  "'w env \<Rightarrow> goclient \<Rightarrow> string \<Rightarrow> string \<Rightarrow> string \<Rightarrow> Resource \<Rightarrow> ('w, Resource) prog" where
  "check_resource env cl tn pn rn resource = do {
     due \<leftarrow> shouldCheck env resource;
     (if due then do {
        e \<leftarrow> a_check_resource env cl tn pn rn
          (if rs_pinnedVersion (resource_spec resource) \<noteq> [] then Some (rs_pinnedVersion (resource_spec resource)) else None);
        (case e of
           Some err \<Rightarrow> do {
             resource_event env resource EventTypeWarning ''CheckFailed'' (''Resource check build failed: '' @ err);
             ret (resource_cond env resource ConditionCheckHealthy ConditionFalse ''CheckFailed'' err) }
         | None \<Rightarrow> do {
             t \<leftarrow> now env;
             ret (resource_cond env (map_resource_status (\<lambda>s. s\<lparr>rt_lastChecked := Some t\<rparr>) resource)
               ConditionCheckHealthy ConditionTrue ''CheckSucceeded'' '''') }) }
      else if rt_lastChecked (resource_status resource) = None
      then ret (resource_cond env resource ConditionCheckHealthy ConditionUnknown ''CheckPending'' ''check not yet triggered'')
      else ret resource) }"

definition fetchLatestVersion ::
  "'w env \<Rightarrow> goclient \<Rightarrow> string \<Rightarrow> string \<Rightarrow> string \<Rightarrow> Resource \<Rightarrow> ('w, Resource) prog" where
  "fetchLatestVersion env cl tn pn rn resource = do {
     r \<leftarrow> a_resource_versions env cl tn pn rn 1 None;
     (case r of
        Inr (Some (latest # _)) \<Rightarrow>
          ret (map_resource_status (\<lambda>s. s\<lparr>rt_latestVersion := arv_version latest\<rparr>) resource)
      | _ \<Rightarrow> ret resource) }"

section \<open>Reconcile\<close>

definition set_resource_owner :: "'w env \<Rightarrow> Resource \<Rightarrow> Pipeline \<Rightarrow> ('w, kerr + Resource) prog" where
  "set_resource_owner env resource pipeline =
     (if om_namespace (pipeline_meta pipeline) = om_namespace (resource_meta resource) then
        (case l_set_controller_reference (e_libs env) KPipeline (pipeline_meta pipeline) KResource (resource_meta resource) of
           Inl err \<Rightarrow> ret (Inr resource)
         | Inr refs \<Rightarrow>
             (if refs \<noteq> om_ownerReferences (resource_meta resource)
              then k_update_resource env (resource\<lparr>resource_meta := (resource_meta resource)\<lparr>om_ownerReferences := refs\<rparr>\<rparr>)
              else ret (Inr resource)))
      else ret (Inr resource))"

definition resource_web_url ::
  "'w env \<Rightarrow> Resource \<Rightarrow> Pipeline \<Rightarrow> string \<Rightarrow> string \<Rightarrow> string \<Rightarrow> ('w, Resource) prog" where
  "resource_web_url env resource pipeline teamName pipelineName resourceName = do {
     t \<leftarrow> k_get_team env (refKey (om_namespace (pipeline_meta pipeline)) (ps_teamRef (pipeline_spec pipeline)));
     (case t of Inl _ \<Rightarrow> ret resource | Inr teamObj \<Rightarrow> do {
        i \<leftarrow> k_get_instance env (refKey (om_namespace (team_meta teamObj)) (ts_instanceRef (team_spec teamObj)));
        (case i of Inl _ \<Rightarrow> ret resource | Inr instanceObj \<Rightarrow>
           (if base_url instanceObj \<noteq> ''''
            then ret (map_resource_status (\<lambda>s. s\<lparr>rt_webURL := trim_suffix (base_url instanceObj) ''/''
              @ ''/teams/'' @ teamName @ ''/pipelines/'' @ pipelineName @ ''/resources/'' @ resourceName\<rparr>) resource)
            else ret resource)) }) }"

definition sync_failed :: "'w env \<Rightarrow> Resource \<Rightarrow> string \<Rightarrow> string \<Rightarrow> goerr \<Rightarrow> 'w reconcile" where
  "sync_failed env resource reason msg err = do {
     resource_event env resource EventTypeWarning reason (msg @ err);
     u \<leftarrow> k_status_resource env (resource_cond env resource ConditionReady ConditionFalse reason err);
     (case u of
        Inl err2 \<Rightarrow> ret (0, Some (''update status: '' @ kerr_text err2))
      | Inr _ \<Rightarrow> ret (seconds 30, None)) }"

definition finish_resource :: "'w env \<Rightarrow> Resource \<Rightarrow> string \<Rightarrow> 'w reconcile" where
  "finish_resource env resource resourceName = do {
     let resource = map_resource_status (\<lambda>s. s\<lparr>rt_observedGeneration := om_generation (resource_meta resource)\<rparr>) resource;
     let resource = resource_cond env resource ConditionReady ConditionTrue ''Ready'' '''';
     (if rt_observedGeneration (resource_status resource) \<noteq> om_generation (resource_meta resource)
      then resource_event env resource EventTypeNormal ''ResourceReconciled''
        (''Resource '' @ l_quote (e_libs env) resourceName @ '' synchronized successfully'')
      else ret ());
     u \<leftarrow> k_status_resource env resource;
     (case u of
        Inl err \<Rightarrow> ret (0, Some (''update status: '' @ kerr_text err))
      | Inr resource \<Rightarrow> ret (case rs_checkInterval (resource_spec resource) of
          None \<Rightarrow> minutes 5 | Some interval \<Rightarrow> interval, None)) }"

definition apply_resource ::
  "'w env \<Rightarrow> Resource \<Rightarrow> Pipeline \<Rightarrow> goclient \<Rightarrow> string \<Rightarrow> 'w reconcile" where
  "apply_resource env resource pipeline cl teamName = do {
     let pipelineName = ResolvedPipelineName pipeline;
     let resourceName = ResolvedResourceName resource;
     let resource = map_resource_status (\<lambda>s. s\<lparr>rt_resolvedName := resourceName\<rparr>) resource;
     resource \<leftarrow> resource_web_url env resource pipeline teamName pipelineName resourceName;
     r \<leftarrow> syncPin env cl teamName pipelineName resourceName resource;
     (case r of
        Inl err \<Rightarrow> sync_failed env resource ''PinFailed'' ''Failed to sync pinned version: '' err
      | Inr resource \<Rightarrow> do {
          r \<leftarrow> syncDisabledVersions env cl teamName pipelineName resourceName resource;
          (case r of
             Inl err \<Rightarrow> sync_failed env resource ''DisableVersionFailed'' ''Failed to sync disabled versions: '' err
           | Inr resource \<Rightarrow> do {
               resource \<leftarrow> check_resource env cl teamName pipelineName resourceName resource;
               resource \<leftarrow> fetchLatestVersion env cl teamName pipelineName resourceName resource;
               finish_resource env resource resourceName }) }) }"

definition resource_not_ready :: "'w env \<Rightarrow> Resource \<Rightarrow> string \<Rightarrow> string \<Rightarrow> 'w reconcile" where
  "resource_not_ready env resource reason msg = do {
     k_status_resource env (resource_cond env resource ConditionReady ConditionFalse reason msg);
     ret (seconds 30, None) }"

definition reconcile_for_pipeline :: "'w env \<Rightarrow> Resource \<Rightarrow> Pipeline \<Rightarrow> 'w reconcile" where
  "reconcile_for_pipeline env resource pipeline = do {
     u \<leftarrow> set_resource_owner env resource pipeline;
     (case u of
        Inl err \<Rightarrow> ret (0, Some (''set owner reference: '' @ kerr_text err))
      | Inr resource \<Rightarrow>
          (if \<not> isReady env (pt_conditions (pipeline_status pipeline))
           then resource_not_ready env resource ''PipelineNotReady'' ''pipeline is not ready''
           else do {
             c \<leftarrow> resolveClientForPipeline env pipeline;
             (case c of
                Inl err \<Rightarrow> resource_not_ready env resource ''ChainNotReady'' err
              | Inr (cl, teamName) \<Rightarrow> apply_resource env resource pipeline cl teamName) })) }"

definition Resource_Reconcile :: "'w env \<Rightarrow> ObjectKey \<Rightarrow> 'w reconcile" where
  "Resource_Reconcile env req = do {
     r \<leftarrow> k_get_resource env req;
     (case r of
        Inl err \<Rightarrow> ret (0, ignore_not_found err)
      | Inr resource \<Rightarrow>
          (if rs_suspend (resource_spec resource) then do {
             u \<leftarrow> k_status_resource env (resource_cond env resource ConditionReady ConditionFalse ''Suspended''
               ''Reconciliation is suspended'');
             (case u of
                Inl err \<Rightarrow> ret (0, Some (''update status: '' @ kerr_text err))
              | Inr _ \<Rightarrow> ret (0, None)) }
           else if om_deletionTimestamp (resource_meta resource) \<noteq> None then ret (0, None)
           else do {
             p \<leftarrow> k_get_pipeline env (refKey (om_namespace (resource_meta resource))
               (rs_pipelineRef (resource_spec resource)));
             (case p of
                Inl err \<Rightarrow> ret (0, ignore_not_found err)
              | Inr pipeline \<Rightarrow> reconcile_for_pipeline env resource pipeline) })) }"

end
