(* ===== verification/Resource_Proofs.thy ===== *)
theory Resource_Proofs
  imports Resource_Controller
begin

text \<open>
  What the Resource reconciler guarantees about the pinned version, the disabled versions (as
  a refinement of the set of versions that are disabled), checks, and about when it changes
  Concourse at all.
\<close>

section \<open>Looking up a version\<close>

text \<open>The journal shows that the version \<open>v\<close> was looked up and \<open>i\<close> is the ID of the first match.\<close>

definition listed_as :: "goclient \<Rightarrow> string \<Rightarrow> string \<Rightarrow> string \<Rightarrow> string_map \<Rightarrow> int \<Rightarrow> io list \<Rightarrow> bool" where
  "listed_as cl tn pn rn v i es \<longleftrightarrow> (\<exists>xs x.
     ARead (ResourceVersions cl tn pn rn 50 (Some v) (Inr (Some xs))) \<in> set es \<and>
     find (\<lambda>x. arv_version x = v) xs = Some x \<and> i = arv_id x)"

lemma listed_as_append [simp]:
  "listed_as cl tn pn rn v i es \<Longrightarrow> listed_as cl tn pn rn v i (es @ ds)"
  "listed_as cl tn pn rn v i es \<Longrightarrow> listed_as cl tn pn rn v i (ds @ es)"
  "listed_as cl tn pn rn v i es \<Longrightarrow> listed_as cl tn pn rn v i (d # es)"
  unfolding listed_as_def by auto

text \<open>The versions were asked for, and the answer has no version equal to \<open>v\<close>.\<close>

definition not_listed :: "goclient \<Rightarrow> string \<Rightarrow> string \<Rightarrow> string \<Rightarrow> string_map \<Rightarrow> io list \<Rightarrow> bool" where
  "not_listed cl tn pn rn v es \<longleftrightarrow> (\<exists>r. ARead (ResourceVersions cl tn pn rn 50 (Some v) r) \<in> set es \<and>
     (\<forall>vs. r = Inr (Some vs) \<longrightarrow> (\<forall>x\<in>set vs. arv_version x \<noteq> v)))"

lemma not_listed_append [simp]:
  "not_listed cl tn pn rn v es \<Longrightarrow> not_listed cl tn pn rn v (es @ ds)"
  "not_listed cl tn pn rn v es \<Longrightarrow> not_listed cl tn pn rn v (ds @ es)"
  "not_listed cl tn pn rn v es \<Longrightarrow> not_listed cl tn pn rn v (d # es)"
  unfolding not_listed_def by auto

lemma find_version_outcome:
  "outcome (find_version env cl tn pn rn what v) (\<lambda>r es. filter is_awrite es = [] \<and>
     (\<forall>i. r = Inr i \<longrightarrow> listed_as cl tn pn rn v i es) \<and> (isl r \<longrightarrow> not_listed cl tn pn rn v es))"
  unfolding find_version_def by (intro outcome_intros) (auto simp: listed_as_def not_listed_def find_None_iff)

section \<open>The pin\<close>

definition is_pinning :: "io \<Rightarrow> bool" where
  "is_pinning e = (case e of
     AWrite (PinResourceVersion cl tn pn rn i r) \<Rightarrow> True
   | AWrite (UnpinResource cl tn pn rn r) \<Rightarrow> True
   | _ \<Rightarrow> False)"

lemma is_pinning_simps [simp]:
  "is_pinning (AWrite (PinResourceVersion cl tn pn rn i r))"
  "is_pinning (AWrite (UnpinResource cl tn pn rn r))"
  "\<not> is_pinning (AWrite (SetPinComment cl tn pn rn c r))"
  "\<not> is_pinning (ARead x)" "\<not> is_pinning (Event k key t reason m)"
  by (simp_all add: is_pinning_def)

lemma is_pinning_awrite: "is_pinning e \<Longrightarrow> is_awrite e"
  by (simp add: is_pinning_def is_awrite_def split: io.splits)

lemma no_pinning: "filter is_awrite es = [] \<Longrightarrow> filter is_pinning es = []"
  by (auto simp: filter_empty_conv is_pinning_awrite)

abbreviation is_pinned :: "atc_resource \<Rightarrow> bool" where
  "is_pinned a \<equiv> (case ar_pinnedVersion a of None \<Rightarrow> False | Some v \<Rightarrow> v \<noteq> [])"

text \<open>A pin status, and nothing else of the object changed.\<close>

definition pin_status :: "Resource \<Rightarrow> Resource \<Rightarrow> bool option \<Rightarrow> i32 option \<Rightarrow> bool" where
  "pin_status r r' pinned ident \<longleftrightarrow>
     r' = map_resource_status (\<lambda>s. s\<lparr>rt_pinned := pinned, rt_pinnedVersionID := ident\<rparr>) r"

definition pin_settled ::
  "goclient \<Rightarrow> string \<Rightarrow> string \<Rightarrow> string \<Rightarrow> Resource \<Rightarrow> atc_resource \<Rightarrow> goerr + Resource \<Rightarrow> io list \<Rightarrow> bool" where
  "pin_settled cl tn pn rn r a res es \<longleftrightarrow> (let desired = rs_pinnedVersion (resource_spec r) in
     case res of
       Inr r' \<Rightarrow>
         (if desired = [] then
            filter is_pinning es = (if is_pinned a then [AWrite (UnpinResource cl tn pn rn None)] else []) \<and>
            pin_status r r' (Some False) None
          else if ar_pinnedVersion a = Some desired then
            filter is_pinning es = [] \<and> pin_status r r' (Some True) (rt_pinnedVersionID (resource_status r))
          else (\<exists>i. listed_as cl tn pn rn desired i es \<and>
            filter is_pinning es = [AWrite (PinResourceVersion cl tn pn rn i None)] \<and>
            pin_status r r' (Some True) (int32Ptr i)))
     | Inl err \<Rightarrow>
         (if desired = [] then is_pinned a \<and> (\<exists>e. filter is_pinning es = [AWrite (UnpinResource cl tn pn rn (Some e))])
          else ar_pinnedVersion a \<noteq> Some desired \<and>
            (filter is_pinning es = [] \<and> not_listed cl tn pn rn desired es \<or>
             (\<exists>i e. listed_as cl tn pn rn desired i es \<and>
               filter is_pinning es = [AWrite (PinResourceVersion cl tn pn rn i (Some e))]))))"

lemma unpin_outcome:
  "rs_pinnedVersion (resource_spec r) = [] \<Longrightarrow>
   outcome (unpin env cl tn pn rn (is_pinned a) r) (\<lambda>res es. pin_settled cl tn pn rn r a res es)"
  unfolding unpin_def Let_def pin_settled_def
  by (intro outcome_intros) (simp_all add: pin_status_def)

lemma sync_pin_comment_outcome:
  "outcome (sync_pin_comment env cl tn pn rn c r) (\<lambda>_ es. filter is_pinning es = [])"
  unfolding sync_pin_comment_def Let_def by (intro outcome_intros) simp_all

lemma pin_version_outcome:
  assumes "rs_pinnedVersion (resource_spec r) \<noteq> []"
    and "ar_pinnedVersion a \<noteq> Some (rs_pinnedVersion (resource_spec r))"
    and "filter is_pinning ds = []"
  shows "outcome (pin_version env cl tn pn rn (rs_pinnedVersion (resource_spec r)) r)
    (\<lambda>res es. pin_settled cl tn pn rn r a res (ds @ es))"
  unfolding pin_version_def
  apply (rule outcome_bind, rule outcome_mono [OF find_version_outcome])
  apply (rule outcome_case(1))
   apply (rule outcome_return)
   apply (use assms in \<open>simp add: pin_settled_def no_pinning\<close>)
  apply (intro outcome_intros)
    apply (use assms in \<open>simp_all add: pin_settled_def no_pinning pin_status_def\<close>)
  done

text \<open>C18: The pin follows the spec. When Concourse knows the resource: with no version in the spec
  it is unpinned, by one request, exactly when it was pinned; with a version, it is left alone
  exactly when it is pinned to that version, and else pinned, by one request, to the ID of the
  first version Concourse lists that equals it. On success the status says so and nothing else
  of the object changed; an error is returned only when the versions Concourse was asked for hold no
  such version (or it did not list them), or when the request itself failed.\<close>

theorem pin_follows_spec:
  assumes "x_resource (e_team env) cl tn pn rn (world s) = (Inr (Some a), w)"
  shows "\<exists>es. emitted (syncPin env cl tn pn rn r) s = ARead (ReadResource cl tn pn rn (Inr (Some a))) # es \<and>
    pin_settled cl tn pn rn r a (result_of (syncPin env cl tn pn rn r) s) es"
  unfolding syncPin_def
  apply (rule first_call [where f = "x_resource (e_team env) cl tn pn rn" and c = "\<lambda>a. ARead (ReadResource cl tn pn rn a)"])
   apply (rule assms)
  apply (simp only: sum.case option.case Let_def)
  apply (rule outcome_case(3))
   apply (rule unpin_outcome, assumption)
  apply (rule outcome_bind, rule outcome_mono [OF sync_pin_comment_outcome])
  apply (rule outcome_case(3))
   apply (rule outcome_return, simp add: pin_settled_def pin_status_def)
  apply (rule pin_version_outcome)
    apply assumption+
  done

definition pinned_resource :: Resource where
  "pinned_resource = demo_resource\<lparr>resource_spec := demo_resource_spec\<lparr>rs_pinnedVersion := [(''ref'', ''abc'')]\<rparr>\<rparr>"

lemma pinned_resource_sel [simp]:
  "resource_meta pinned_resource = demo_meta ''resource''"
  "resource_status pinned_resource = demo_resource_status"
  "rs_pinnedVersion (resource_spec pinned_resource) = [(''ref'', ''abc'')]"
  "rs_pinComment (resource_spec pinned_resource) = ''''"
  "rs_disabledVersions (resource_spec pinned_resource) = []"
  "rs_checkInterval (resource_spec pinned_resource) = None"
  "rs_suspend (resource_spec pinned_resource) = False"
  "rs_resourceName (resource_spec pinned_resource) = ''''"
  "rs_pipelineRef (resource_spec pinned_resource) = demo_ref ''pipeline''"
  by (simp_all add: pinned_resource_def)

theorem pin_follows_spec_witness:
  "\<exists>es res. emitted (syncPin demo_env demo_client ''team'' ''pipeline'' ''resource'' pinned_resource) (demo_start ()) =
       ARead (ReadResource demo_client ''team'' ''pipeline'' ''resource'' (Inr (Some demo_atc_resource))) # es \<and>
     pin_settled demo_client ''team'' ''pipeline'' ''resource'' pinned_resource demo_atc_resource res es"
proof -
  have "x_resource (e_team demo_env) demo_client ''team'' ''pipeline'' ''resource'' (world (demo_start ()))
      = (Inr (Some demo_atc_resource), ())" by simp
  from pin_follows_spec [OF this] show ?thesis by blast
qed

section \<open>The disabled versions\<close>

definition is_switch :: "io \<Rightarrow> bool" where
  "is_switch e = (case e of
     AWrite (DisableResourceVersion cl tn pn rn i r) \<Rightarrow> True
   | AWrite (EnableResourceVersion cl tn pn rn i r) \<Rightarrow> True
   | _ \<Rightarrow> False)"

lemma is_switch_simps [simp]:
  "is_switch (AWrite (DisableResourceVersion cl tn pn rn i r))"
  "is_switch (AWrite (EnableResourceVersion cl tn pn rn i r))"
  "\<not> is_switch (ARead x)" "\<not> is_switch (Event k key t reason m)"
  by (simp_all add: is_switch_def)

lemma no_switch: "filter is_awrite es = [] \<Longrightarrow> filter is_switch es = []"
  by (auto simp: filter_empty_conv is_switch_def is_awrite_def split: io.splits)

text \<open>The abstract state is the set of disabled version IDs; this is what the requests do to it.\<close>

fun switch :: "io \<Rightarrow> int set \<Rightarrow> int set" where
  "switch (AWrite (DisableResourceVersion cl tn pn rn i None)) S = insert i S"
| "switch (AWrite (EnableResourceVersion cl tn pn rn i None)) S = S - {i}"
| "switch e S = S"

definition switched :: "io list \<Rightarrow> int set \<Rightarrow> int set" where
  "switched es S = fold switch es S"

lemma switch_other: "\<not> is_switch e \<Longrightarrow> switch e S = S"
  by (cases "(e, S)" rule: switch.cases) auto

lemma switched_filter: "switched es S = switched (filter is_switch es) S"
  unfolding switched_def by (induction es arbitrary: S) (auto simp: switch_other)

text \<open>The IDs of the versions the spec wants disabled, as Concourse listed them.\<close>

definition wanted_ids ::
  "goclient \<Rightarrow> string \<Rightarrow> string \<Rightarrow> string \<Rightarrow> string_map list \<Rightarrow> int list \<Rightarrow> io list \<Rightarrow> bool" where
  "wanted_ids cl tn pn rn vs is es \<longleftrightarrow>
     list_all2 (\<lambda>v i. listed_as cl tn pn rn v i es) (filter (\<lambda>v. v \<noteq> []) vs) is"

lemma wanted_ids_append:
  "wanted_ids cl tn pn rn vs is es \<Longrightarrow> wanted_ids cl tn pn rn vs is (es @ ds)"
  "wanted_ids cl tn pn rn vs is es \<Longrightarrow> wanted_ids cl tn pn rn vs is (ds @ es)"
  unfolding wanted_ids_def by (erule list_all2_mono, simp)+

lemma wanted_ids_Cons:
  "v \<noteq> [] \<Longrightarrow> listed_as cl tn pn rn v i ds \<Longrightarrow> wanted_ids cl tn pn rn vs is es \<Longrightarrow>
   wanted_ids cl tn pn rn (v # vs) (i # is) (ds @ es)"
  using wanted_ids_append(2) [of cl tn pn rn vs "is" es ds] by (simp add: wanted_ids_def)

lemma resolve_disabled_outcome:
  "outcome (resolve_disabled env cl tn pn rn vs ids) (\<lambda>r es. filter is_awrite es = [] \<and>
     (\<forall>ids'. r = Inr ids' \<longrightarrow> (\<exists>is. wanted_ids cl tn pn rn vs is es \<and>
        set (map fst ids') = set (map fst ids) \<union> to_i32 ` set is \<and>
        (distinct (map fst ids) \<longrightarrow> distinct (map fst ids')))))"
proof (induction vs arbitrary: ids)
  case Nil
  then show ?case by (auto simp: wanted_ids_def intro!: outcome_return exI [of _ "[]"])
next
  case (Cons v vs)
  show ?case
  proof (cases "v = []")
    case True
    then show ?thesis using Cons.IH [of ids] by (simp add: wanted_ids_def)
  next
    case False
    show ?thesis
      unfolding resolve_disabled.simps if_not_P [OF False]
      apply (rule outcome_bind, rule outcome_mono [OF find_version_outcome])
      apply (rule outcome_case(1))
       apply (rule outcome_return, simp)
      apply (rule outcome_mono [OF Cons.IH])
      apply (intro conjI allI impI)
       apply simp
      subgoal for r es i r' es' ids'
      proof -
        assume "filter is_awrite es = [] \<and> (\<forall>i. r = Inr i \<longrightarrow> listed_as cl tn pn rn v i es) \<and>
            (isl r \<longrightarrow> not_listed cl tn pn rn v es)" and r: "r = Inr i" "r' = Inr ids'"
          and rest: "filter is_awrite es' = [] \<and> (\<forall>ids'. r' = Inr ids' \<longrightarrow> (\<exists>is. wanted_ids cl tn pn rn vs is es' \<and>
            set (map fst ids') = set (map fst (AList.update (to_i32 i) v ids)) \<union> to_i32 ` set is \<and>
            (distinct (map fst (AList.update (to_i32 i) v ids)) \<longrightarrow> distinct (map fst ids'))))"
        then have "listed_as cl tn pn rn v i es" by simp
        moreover from rest r obtain "is" where "wanted_ids cl tn pn rn vs is es'"
          "set (map fst ids') = set (map fst (AList.update (to_i32 i) v ids)) \<union> to_i32 ` set is"
          "distinct (map fst (AList.update (to_i32 i) v ids)) \<longrightarrow> distinct (map fst ids')" by blast
        ultimately show ?thesis
          by (intro exI [of _ "i # is"]) (auto simp: wanted_ids_Cons [OF False] dom_update distinct_update)
      qed
      done
  qed
qed

text \<open>Requests for the IDs \<open>is\<close> in order, all granted, or up to the first that fails.\<close>

definition switches :: "(i32 \<Rightarrow> goerr option \<Rightarrow> io) \<Rightarrow> i32 list \<Rightarrow> goerr option \<Rightarrow> io list \<Rightarrow> bool" where
  "switches f is res es \<longleftrightarrow> (case res of
     None \<Rightarrow> filter is_switch es = map (\<lambda>i. f i None) is
   | Some err \<Rightarrow> (\<exists>before i after e. is = before @ i # after \<and>
       filter is_switch es = map (\<lambda>i. f i None) before @ [f i (Some e)]))"

lemma switches_Nil: "filter is_switch es = [] \<Longrightarrow> switches f [] None es"
  by (simp add: switches_def)

lemma switches_first: "filter is_switch es = [f i (Some e)] \<Longrightarrow> switches f (i # is) (Some err) es"
  unfolding switches_def by (auto intro: exI [of _ "[]"])

lemma switches_Cons:
  "switches f is res es \<Longrightarrow> filter is_switch ds = [f i None] \<Longrightarrow> switches f (i # is) res (ds @ es)"
  unfolding switches_def by (auto split: option.splits) (metis append_Cons list.map)

lemma disable_versions_outcome:
  "outcome (disable_versions env cl tn pn rn r T ds) (\<lambda>res es.
     switches (\<lambda>i e. AWrite (DisableResourceVersion cl tn pn rn (of_i32 i) e))
       (filter (\<lambda>i. i \<notin> T) (map fst ds)) res es)"
proof (induction ds)
  case (Cons d ds)
  show ?case
  proof (cases "fst d \<in> T")
    case False
    show ?thesis
      unfolding disable_versions.simps if_not_P [OF False]
      apply (intro outcome_bind [of "extern _ _"] outcome_extern)
      apply (rule outcome_case(2))
       apply (rule outcome_bind, rule outcome_recordEvent)
        apply (rule outcome_mono [OF Cons.IH], simp add: False,
          rule switches_Cons [where ds = "[_, _]", simplified], assumption, simp)
       apply (rule outcome_mono [OF Cons.IH], simp add: False,
          rule switches_Cons [where ds = "[_]", simplified], assumption, simp)
      apply (rule outcome_return, simp add: False, rule switches_first, simp)
      done
  qed (use Cons.IH in simp)
qed (simp add: outcome_return switches_Nil)

lemma enable_versions_outcome:
  "outcome (enable_versions env cl tn pn rn r D is) (\<lambda>res es.
     switches (\<lambda>i e. AWrite (EnableResourceVersion cl tn pn rn (of_i32 i) e))
       (filter (\<lambda>i. map_of D i = None) is) res es)"
proof (induction "is")
  case (Cons i "is")
  show ?case
  proof (cases "map_of D i \<noteq> None")
    case False
    show ?thesis
      unfolding enable_versions.simps if_not_P [OF False]
      apply (intro outcome_bind [of "extern _ _"] outcome_extern)
      apply (rule outcome_case(2))
       apply (rule outcome_bind, rule outcome_recordEvent)
        apply (rule outcome_mono [OF Cons.IH], use False in simp,
          rule switches_Cons [where ds = "[_, _]", simplified], assumption, simp)
       apply (rule outcome_mono [OF Cons.IH], use False in simp,
          rule switches_Cons [where ds = "[_]", simplified], assumption, simp)
      apply (rule outcome_return, use False in simp, rule switches_first, simp)
      done
  qed (use Cons.IH in auto)
qed (simp add: outcome_return switches_Nil)

lemma switched_append: "switched (es @ ds) S = switched ds (switched es S)"
  by (simp add: switched_def)

lemma switched_disable:
  "switched (map (\<lambda>i. AWrite (DisableResourceVersion cl tn pn rn (of_i32 i) None)) is) S = S \<union> of_i32 ` set is"
  by (induction "is" arbitrary: S) (auto simp: switched_def)

lemma switched_enable:
  "switched (map (\<lambda>i. AWrite (EnableResourceVersion cl tn pn rn (of_i32 i) None)) is) S = S - of_i32 ` set is"
  by (induction "is" arbitrary: S) (auto simp: switched_def)

lemma of_i32_image_diff: "of_i32 ` A - of_i32 ` B = of_i32 ` (A - B)"
  using image_set_diff [of of_i32 A B] by (simp add: inj_def of_i32_inj)

lemma switched_to:
  assumes "set ds = D - T" and "set us = T - D"
  shows "switched (map (\<lambda>i. AWrite (DisableResourceVersion cl tn pn rn (of_i32 i) None)) ds @
      map (\<lambda>i. AWrite (EnableResourceVersion cl tn pn rn (of_i32 i) None)) us) (of_i32 ` T) = of_i32 ` D"
proof -
  have "T \<union> (D - T) - (T - D) = D" by blast
  then show ?thesis
    by (simp add: switched_append switched_disable switched_enable assms of_i32_image_diff flip: image_Un)
qed

lemma sorted_ids: "sorted (map of_i32 (sorted_ids is))" "distinct is \<Longrightarrow> distinct (sorted_ids is)"
  "set (sorted_ids is) = set is"
  by (simp_all add: sorted_ids_def)

lemma range_keys:
  assumes "range_law env"
  shows "set (map fst (l_range (e_libs env) m)) = set (map fst m)"
    and "distinct (map fst (l_range (e_libs env) m)) = distinct (map fst m)"
proof -
  have "mset (map fst (l_range (e_libs env) m)) = mset (map fst m)"
    using assms by (simp add: range_law_def)
  then show "set (map fst (l_range (e_libs env) m)) = set (map fst m)"
    and "distinct (map fst (l_range (e_libs env) m)) = distinct (map fst m)"
    by (metis mset_eq_setD, metis mset_eq_imp_distinct_iff)
qed

text \<open>The status after a success, and the requests that led there.\<close>

definition disabled_as_wanted ::
  "goclient \<Rightarrow> string \<Rightarrow> string \<Rightarrow> string \<Rightarrow> Resource \<Rightarrow> Resource \<Rightarrow> io list \<Rightarrow> bool" where
  "disabled_as_wanted cl tn pn rn r r' es \<longleftrightarrow> (\<exists>is ids ds.
     wanted_ids cl tn pn rn (rs_disabledVersions (resource_spec r)) is es \<and>
     r' = map_resource_status (\<lambda>s. s\<lparr>rt_disabledVersionIDs := ids\<rparr>) r \<and>
     set ids = to_i32 ` set is \<and> sorted (map of_i32 ids) \<and> distinct ids \<and>
     distinct ds \<and> set ds = set ids - set (rt_disabledVersionIDs (resource_status r)) \<and>
     filter is_switch es = map (\<lambda>i. AWrite (DisableResourceVersion cl tn pn rn (of_i32 i) None)) ds @
       map (\<lambda>i. AWrite (EnableResourceVersion cl tn pn rn (of_i32 i) None))
         (filter (\<lambda>i. i \<notin> set ids) (rt_disabledVersionIDs (resource_status r))))"

lemma after_switching:
  assumes law: "range_law env" and d: "distinct (map fst D)" "set (map fst D) = to_i32 ` set is"
    and w: "wanted_ids cl tn pn rn (rs_disabledVersions (resource_spec r)) is as"
    and q: "filter is_switch as = []"
    and ds: "filter is_switch bs = map (\<lambda>i. AWrite (DisableResourceVersion cl tn pn rn (of_i32 i) None))
      (filter (\<lambda>i. i \<notin> set (rt_disabledVersionIDs (resource_status r))) (map fst (l_range (e_libs env) D)))"
    and us: "filter is_switch cs = map (\<lambda>i. AWrite (EnableResourceVersion cl tn pn rn (of_i32 i) None))
      (filter (\<lambda>i. map_of D i = None) (rt_disabledVersionIDs (resource_status r)))"
  shows "disabled_as_wanted cl tn pn rn r (map_resource_status (\<lambda>s. s\<lparr>rt_disabledVersionIDs :=
      sorted_ids (map fst (l_range (e_libs env) D))\<rparr>) r) (as @ bs @ cs)"
proof -
  let ?ids = "sorted_ids (map fst (l_range (e_libs env) D))"
  let ?ds = "filter (\<lambda>i. i \<notin> set (rt_disabledVersionIDs (resource_status r))) (map fst (l_range (e_libs env) D))"
  have ids: "set ?ids = to_i32 ` set is" "distinct ?ids"
    using range_keys [OF law, of D] d by (simp_all only: sorted_ids(2,3))
  have none: "map_of D i = None \<longleftrightarrow> i \<notin> set ?ids" for i
    using range_keys(1) [OF law, of D] by (auto simp: sorted_ids(3) map_of_eq_None_iff)
  show ?thesis
    unfolding disabled_as_wanted_def
  proof (intro exI conjI)
    show "set ?ids = to_i32 ` set is" "distinct ?ids" by (rule ids)+
    show "sorted (map of_i32 ?ids)" by (rule sorted_ids(1))
    show "wanted_ids cl tn pn rn (rs_disabledVersions (resource_spec r)) is (as @ bs @ cs)"
      using w by (rule wanted_ids_append(1))
    show "distinct ?ds" using range_keys(2) [OF law, of D] d(1) by simp
    show "set ?ds = set ?ids - set (rt_disabledVersionIDs (resource_status r))"
      by (auto simp: sorted_ids(3))
    show "filter is_switch (as @ bs @ cs) =
        map (\<lambda>i. AWrite (DisableResourceVersion cl tn pn rn (of_i32 i) None)) ?ds @
        map (\<lambda>i. AWrite (EnableResourceVersion cl tn pn rn (of_i32 i) None))
         (filter (\<lambda>i. i \<notin> set ?ids) (rt_disabledVersionIDs (resource_status r)))"
      using q ds us by (simp add: none)
  qed (rule refl)
qed

lemma syncDisabledVersions_outcome:
  assumes "range_law env"
  shows "outcome (syncDisabledVersions env cl tn pn rn r) (\<lambda>res es.
    \<forall>r'. res = Inr r' \<longrightarrow> disabled_as_wanted cl tn pn rn r r' es)"
  unfolding syncDisabledVersions_def Let_def
  apply (rule outcome_bind, rule outcome_mono [OF resolve_disabled_outcome])
  apply (rule outcome_case(1))
   apply (rule outcome_return, simp)
  apply (rule outcome_bind, rule outcome_mono [OF disable_versions_outcome])
  apply (rule outcome_case(2))
   apply (rule outcome_bind, rule outcome_mono [OF enable_versions_outcome])
   apply (rule outcome_case(2))
    apply (rule outcome_return)
  subgoal for d as D e bs e' cs
    by (auto simp: switches_def intro!: after_switching [OF assms] no_switch)
  apply (rule outcome_return, simp)+
  done

text \<open>C8: Disabling versions refines a set: when it succeeds, the tracked IDs of the status are
  exactly the 32-bit IDs of the versions the spec wants disabled, sorted and without repetition,
  nothing else of the object changed, and the requests made, each for a version that is not yet
  tracked or no longer wanted, take the set of disabled versions from what was tracked before
  to what is tracked now.\<close>

theorem disabled_versions_refine:
  assumes "range_law env" and "result_of (syncDisabledVersions env cl tn pn rn r) s = Inr r'"
  shows "disabled_as_wanted cl tn pn rn r r' (emitted (syncDisabledVersions env cl tn pn rn r) s) \<and>
    switched (emitted (syncDisabledVersions env cl tn pn rn r) s)
      (of_i32 ` set (rt_disabledVersionIDs (resource_status r))) =
    of_i32 ` set (rt_disabledVersionIDs (resource_status r'))"
proof
  show dw: "disabled_as_wanted cl tn pn rn r r' (emitted (syncDisabledVersions env cl tn pn rn r) s)"
    using outcomeD [OF syncDisabledVersions_outcome [OF assms(1), of cl tn pn rn r], of s] assms(2) by blast
  then obtain ids ds where r': "r' = map_resource_status (\<lambda>s. s\<lparr>rt_disabledVersionIDs := ids\<rparr>) r"
    and ds: "set ds = set ids - set (rt_disabledVersionIDs (resource_status r))"
    and es: "filter is_switch (emitted (syncDisabledVersions env cl tn pn rn r) s) =
       map (\<lambda>i. AWrite (DisableResourceVersion cl tn pn rn (of_i32 i) None)) ds @
       map (\<lambda>i. AWrite (EnableResourceVersion cl tn pn rn (of_i32 i) None))
         (filter (\<lambda>i. i \<notin> set ids) (rt_disabledVersionIDs (resource_status r)))"
    unfolding disabled_as_wanted_def by blast
  have "set (filter (\<lambda>i. i \<notin> set ids) (rt_disabledVersionIDs (resource_status r))) =
      set (rt_disabledVersionIDs (resource_status r)) - set ids" by auto
  from switched_to [OF ds this, of cl tn pn rn] show
    "switched (emitted (syncDisabledVersions env cl tn pn rn r) s)
      (of_i32 ` set (rt_disabledVersionIDs (resource_status r))) =
     of_i32 ` set (rt_disabledVersionIDs (resource_status r'))"
    by (simp add: switched_filter [of "emitted _ _"] es r')
qed

definition disabling_resource :: "i32 list \<Rightarrow> Resource" where
  "disabling_resource ids = demo_resource\<lparr>resource_spec := demo_resource_spec\<lparr>rs_disabledVersions := [[(''ref'', ''abc'')]]\<rparr>,
     resource_status := demo_resource_status\<lparr>rt_disabledVersionIDs := ids\<rparr>\<rparr>"

lemma disabling_resource_sel [simp]:
  "resource_meta (disabling_resource ids) = demo_meta ''resource''"
  "rs_disabledVersions (resource_spec (disabling_resource ids)) = [[(''ref'', ''abc'')]]"
  "rt_disabledVersionIDs (resource_status (disabling_resource ids)) = ids"
  by (simp_all add: disabling_resource_def)

lemma demo_range_law': "range_law demo_env"
  by (simp add: range_law_def)

lemmas disabled_eval = syncDisabledVersions_def find_version_def recordEvent_def sorted_ids_def
  to_i32_def of_i32_def

lemma demo_disable_run:
  "result_of (syncDisabledVersions demo_env demo_client ''team'' ''pipeline'' ''resource'' (disabling_resource [4])) (demo_start ())
     = Inr (map_resource_status (\<lambda>s. s\<lparr>rt_disabledVersionIDs := [11]\<rparr>) (disabling_resource [4]))"
  by (simp add: eval_simps disabled_eval cong: eval_cong)

theorem disabled_versions_refine_witness:
  "switched (emitted (syncDisabledVersions demo_env demo_client ''team'' ''pipeline'' ''resource'' (disabling_resource [4]))
     (demo_start ())) {4} = {11}"
  using disabled_versions_refine [OF demo_range_law' demo_disable_run] by (simp add: of_i32_def)

section \<open>Version IDs and their 32 bits\<close>

lemma switches_in:
  assumes s: "switches f is res es" and e: "e \<in> set es" "is_switch e"
  shows "\<exists>i\<in>set is. \<exists>x. e = f i x"
proof -
  have e: "e \<in> set (filter is_switch es)" using e by simp
  show ?thesis
  proof (cases res)
    case None
    then have "filter is_switch es = map (\<lambda>i. f i None) is" using s by (simp add: switches_def)
    with e have "e \<in> set (map (\<lambda>i. f i None) is)" by metis
    then show ?thesis by auto
  next
    case (Some err)
    then obtain before i after x where "is = before @ i # after"
      "filter is_switch es = map (\<lambda>i. f i None) before @ [f i (Some x)]"
      using s by (auto simp: switches_def)
    with e have "e \<in> set (map (\<lambda>i. f i None) before @ [f i (Some x)])" by metis
    with \<open>is = _\<close> show ?thesis by auto
  qed
qed

text \<open>Whose ID a request to disable a version carries, however the run ends.\<close>

definition disables_listed :: "goclient \<Rightarrow> string \<Rightarrow> string \<Rightarrow> string \<Rightarrow> Resource \<Rightarrow> io list \<Rightarrow> bool" where
  "disables_listed cl tn pn rn r es \<longleftrightarrow> (\<forall>cl' tn' pn' rn' n x.
     AWrite (DisableResourceVersion cl' tn' pn' rn' n x) \<in> set es \<longrightarrow>
     (\<exists>v i. v \<in> set (rs_disabledVersions (resource_spec r)) \<and> v \<noteq> [] \<and>
        listed_as cl tn pn rn v i es \<and> n = of_i32 (to_i32 i)))"

lemma wanted_in:
  assumes "wanted_ids cl tn pn rn vs is es" and "i \<in> set is"
  shows "\<exists>v\<in>set vs. v \<noteq> [] \<and> listed_as cl tn pn rn v i es"
proof -
  from assms obtain v where "(v, i) \<in> set (zip (filter (\<lambda>v. v \<noteq> []) vs) is)"
    unfolding wanted_ids_def list_all2_iff by (metis in_set_impl_in_set_zip2)
  moreover from this have "v \<in> set (filter (\<lambda>v. v \<noteq> []) vs)" by (rule set_zip_leftD)
  ultimately show ?thesis using assms(1) unfolding wanted_ids_def list_all2_iff by auto
qed

lemma disables_listed_none: "filter is_switch es = [] \<Longrightarrow> disables_listed cl tn pn rn r es"
  unfolding disables_listed_def by (auto simp: filter_empty_conv)

lemma disables_listedI:
  assumes law: "range_law env"
    and res: "\<forall>ids'. d = Inr ids' \<longrightarrow> (\<exists>is. wanted_ids cl tn pn rn (rs_disabledVersions (resource_spec r)) is as \<and>
      set (map fst ids') = set (map fst []) \<union> to_i32 ` set is \<and> (distinct (map fst []) \<longrightarrow> distinct (map fst ids')))"
    and D: "d = Inr D" and q: "filter is_awrite as = []"
    and b: "switches (\<lambda>i e. AWrite (DisableResourceVersion cl tn pn rn (of_i32 i) e))
        (filter P (map fst (l_range (e_libs env) D))) res bs"
    and c: "cs = [] \<or> switches (\<lambda>i e. AWrite (EnableResourceVersion cl tn pn rn (of_i32 i) e)) us res' cs"
  shows "disables_listed cl tn pn rn r (as @ bs @ cs)"
  unfolding disables_listed_def
proof (intro allI impI)
  from res D obtain "is" where ids: "set (map fst D) = to_i32 ` set is"
    and w: "wanted_ids cl tn pn rn (rs_disabledVersions (resource_spec r)) is as" by auto
  fix cl' tn' pn' rn' n x
  let ?e = "AWrite (DisableResourceVersion cl' tn' pn' rn' n x)"
  assume "?e \<in> set (as @ bs @ cs)"
  moreover have "?e \<notin> set as" using q by (auto simp: filter_empty_conv)
  moreover have "?e \<notin> set cs" using c switches_in [of _ us res' cs ?e] by auto
  ultimately have "?e \<in> set bs" by simp
  from switches_in [OF b this] obtain j where j: "j \<in> set (map fst (l_range (e_libs env) D))" "n = of_i32 j" by auto
  with range_keys(1) [OF law, of D] ids obtain i where i: "i \<in> set is" "j = to_i32 i" by auto
  from wanted_in [OF w i(1)] obtain v where "v \<in> set (rs_disabledVersions (resource_spec r))" "v \<noteq> []"
    "listed_as cl tn pn rn v i as" by blast
  with i(2) j(2) show "\<exists>v i. v \<in> set (rs_disabledVersions (resource_spec r)) \<and> v \<noteq> [] \<and>
      listed_as cl tn pn rn v i (as @ bs @ cs) \<and> n = of_i32 (to_i32 i)"
    by (intro exI [of _ v] exI [of _ i]) simp
qed

lemma syncDisabledVersions_listed:
  assumes "range_law env"
  shows "outcome (syncDisabledVersions env cl tn pn rn r) (\<lambda>_ es. disables_listed cl tn pn rn r es)"
  unfolding syncDisabledVersions_def Let_def
  apply (rule outcome_bind, rule outcome_mono [OF resolve_disabled_outcome])
  apply (rule outcome_case(1))
   apply (rule outcome_return, simp add: disables_listed_none no_switch)
  apply (elim conjE)
  apply (rule outcome_bind, rule outcome_mono [OF disable_versions_outcome])
  apply (rule outcome_case(2))
   apply (rule outcome_bind, rule outcome_mono [OF enable_versions_outcome])
   apply (intro outcome_case(2) outcome_return)
    apply (subst append_Nil2, rule disables_listedI [OF assms], assumption, assumption, assumption, assumption,
      rule disjI2, assumption)+
  apply (rule outcome_return, rule disables_listedI [OF assms], assumption+, rule disjI1, rule refl)
  done

text \<open>C35: The 32 bits of a version ID do not matter below 2147483648: whenever a version is
  disabled, whatever happens after, and Concourse listed only IDs below that, the request
  carries the very ID under which Concourse listed a version that the spec wants disabled.\<close>

theorem disabled_version_ids_exact:
  assumes "range_law env"
    and "AWrite (DisableResourceVersion cl' tn' pn' rn' n x)
      \<in> set (emitted (syncDisabledVersions env cl tn pn rn r) s)"
    and "\<And>v xs y. ARead (ResourceVersions cl tn pn rn 50 (Some v) (Inr (Some xs)))
      \<in> set (emitted (syncDisabledVersions env cl tn pn rn r) s) \<Longrightarrow> y \<in> set xs \<Longrightarrow> 0 \<le> arv_id y \<and> arv_id y < 2 ^ 31"
  shows "\<exists>v. v \<in> set (rs_disabledVersions (resource_spec r)) \<and> v \<noteq> [] \<and>
    listed_as cl tn pn rn v n (emitted (syncDisabledVersions env cl tn pn rn r) s)"
proof -
  let ?es = "emitted (syncDisabledVersions env cl tn pn rn r) s"
  from outcomeD [OF syncDisabledVersions_listed [OF assms(1), of cl tn pn rn r], of s, unfolded disables_listed_def,
      rule_format, OF assms(2)]
  obtain v i where v: "v \<in> set (rs_disabledVersions (resource_spec r))" "v \<noteq> []" and n: "n = of_i32 (to_i32 i)"
    and l: "listed_as cl tn pn rn v i ?es"
    by blast
  from l obtain xs y where xs: "ARead (ResourceVersions cl tn pn rn 50 (Some v) (Inr (Some xs))) \<in> set ?es"
    and y: "find (\<lambda>y. arv_version y = v) xs = Some y" "i = arv_id y"
    unfolding listed_as_def by blast
  from y(1) have "y \<in> set xs" by (auto simp: find_Some_iff)
  from assms(3) [OF xs this] have "n = i" using of_i32_to_i32 [of i] n y(2) by simp
  with v l show ?thesis by blast
qed

lemma demo_disables:
  "AWrite (DisableResourceVersion demo_client ''team'' ''pipeline'' ''resource'' 11 None)
     \<in> set (emitted (syncDisabledVersions demo_env demo_client ''team'' ''pipeline'' ''resource'' (disabling_resource [4]))
       (demo_start ()))"
  by (simp add: eval_simps disabled_eval cong: eval_cong)

lemma demo_listing:
  "ARead (ResourceVersions cl tn pn rn l v (Inr (Some xs)))
     \<in> set (emitted (syncDisabledVersions demo_env demo_client ''team'' ''pipeline'' ''resource'' (disabling_resource [4]))
       (demo_start ())) \<Longrightarrow> y \<in> set xs \<Longrightarrow> 0 \<le> arv_id y \<and> arv_id y < 2 ^ 31"
  by (simp add: eval_simps disabled_eval cong: eval_cong)

theorem disabled_version_ids_exact_witness:
  "\<exists>v. v \<noteq> [] \<and> listed_as demo_client ''team'' ''pipeline'' ''resource'' v 11
     (emitted (syncDisabledVersions demo_env demo_client ''team'' ''pipeline'' ''resource'' (disabling_resource [4])) (demo_start ()))"
proof -
  note exact = disabled_version_ids_exact [OF demo_range_law' demo_disables]
  have "\<exists>v. v \<in> set (rs_disabledVersions (resource_spec (disabling_resource [4]))) \<and> v \<noteq> [] \<and>
    listed_as demo_client ''team'' ''pipeline'' ''resource'' v 11
     (emitted (syncDisabledVersions demo_env demo_client ''team'' ''pipeline'' ''resource'' (disabling_resource [4])) (demo_start ()))"
    by (rule exact) (erule demo_listing, assumption)
  then show ?thesis by (elim exE conjE, intro exI conjI)
qed

text \<open>Beyond, they do: here the version with the ID \<open>2 ^ 32 + 5\<close> is wanted, and the one with 5 is disabled.\<close>

abbreviation big_id_env :: "unit env" where
  "big_id_env \<equiv> demo_env\<lparr>e_team := demo_team_api\<lparr>x_resource_versions :=
     (\<lambda>_ _ _ _ _ _ w. (Inr (Some [demo_version\<lparr>arv_id := 4294967301\<rparr>]), w))\<rparr>\<rparr>"

lemma truncated_id_disables_other:
  "AWrite (DisableResourceVersion demo_client ''team'' ''pipeline'' ''resource'' 5 None)
     \<in> set (emitted (syncDisabledVersions big_id_env demo_client ''team'' ''pipeline'' ''resource'' (disabling_resource []))
       (demo_start ()))"
  by (simp add: eval_simps disabled_eval cong: eval_cong)

section \<open>Behind the gate\<close>

definition resource_evidence :: "'w env \<Rightarrow> ObjectKey \<Rightarrow> io list \<Rightarrow> bool" where
  "resource_evidence env req es \<longleftrightarrow> (\<exists>r p.
     KRead (GetResource req (Inr r)) \<in> set es \<and> \<not> rs_suspend (resource_spec r) \<and>
     om_deletionTimestamp (resource_meta r) = None \<and>
     KRead (GetPipeline (refKey (om_namespace (resource_meta r)) (rs_pipelineRef (resource_spec r))) (Inr p)) \<in> set es \<and>
     isReady env (pt_conditions (pipeline_status p)) \<and> saw_team env p es)"

lemma persistent_resource_evidence: "persistent (resource_evidence env req)"
  unfolding persistent_def resource_evidence_def
  using persistent_saw(2) [unfolded persistent_def] by blast

lemma find_version_emits: "(\<And>x. A (ARead x)) \<Longrightarrow> emits A (find_version env cl tn pn rn what v)"
  unfolding find_version_def by (intro emits_intros)

text \<open>All a run after the gate may write into the journal, for totality.\<close>

lemma disable_total: "emits (\<lambda>_. True) (disable_versions env cl tn pn rn r T ds)"
  by (induction ds) (auto intro!: emits_intros)

lemma enable_total: "emits (\<lambda>_. True) (enable_versions env cl tn pn rn r D is)"
  by (induction "is") (auto intro!: emits_intros)

lemma resolve_total: "emits (\<lambda>_. True) (resolve_disabled env cl tn pn rn vs ids)"
  by (induction vs arbitrary: ids) (auto intro!: emits_intros find_version_emits)

lemma fetchLatest_total: "emits (\<lambda>_. True) (fetchLatestVersion env cl tn pn rn r)"
  unfolding fetchLatestVersion_def
  by (intro emits_intros) (auto intro!: emits_intros split: list.splits)

lemma apply_resource_total: "emits (\<lambda>_. True) (apply_resource env r p cl tn)"
  unfolding apply_resource_def resource_web_url_def syncPin_def unpin_def sync_pin_comment_def pin_version_def
    syncDisabledVersions_def check_resource_def shouldCheck_def sync_failed_def finish_resource_def Let_def
  by (intro emits_intros disable_total enable_total resolve_total fetchLatest_total find_version_emits TrueI)

lemma resource_not_ready_quiet: "emits (\<lambda>e. \<not> is_awrite e) (resource_not_ready env r reason msg)"
  unfolding resource_not_ready_def by (intro emits_intros) simp

lemma set_resource_owner_quiet: "emits (\<lambda>e. \<not> is_awrite e) (set_resource_owner env r p)"
  unfolding set_resource_owner_def by (intro emits_intros) simp

lemma resolved_resource_guarded:
  "guarded [] is_awrite (saw_team env p) (do {
     c \<leftarrow> resolveClientForPipeline env p;
     (case c of
        Inl err \<Rightarrow> resource_not_ready env r ''ChainNotReady'' err
      | Inr (cl, teamName) \<Rightarrow> apply_resource env r p cl teamName) })"
  by (rule pipeline_chain.gate [OF resource_not_ready_quiet])
    (auto intro: total_outcome [OF apply_resource_total] split: prod.splits)

lemma Resource_Reconcile_guarded:
  "guarded [] is_awrite (resource_evidence env req) (Resource_Reconcile env req)"
  unfolding Resource_Reconcile_def reconcile_for_pipeline_def
  apply (rule guarded_extern [OF persistent_resource_evidence], simp)
  apply (rule guarded_case(1), rule guarded_return)
  apply (rule guarded_case(3))
   apply (rule guarded_silent, intro emits_intros, simp)
  apply (rule guarded_case(3), rule guarded_return)
  apply (rule guarded_extern [OF persistent_resource_evidence], simp)
  apply (rule guarded_case(1), rule guarded_return)
  apply (rule guarded_bind [OF persistent_resource_evidence set_resource_owner_quiet])
  apply (rule guarded_case(1), rule guarded_return)
  apply (rule guarded_case(3))
   apply (rule guarded_silent [OF resource_not_ready_quiet])
  apply (rule guarded_weaken [OF resolved_resource_guarded])
  apply (auto simp: resource_evidence_def intro: persistent_append(2) [OF persistent_saw(2)])
  done

text \<open>The Resource reconciler changes Concourse only behind a ready chain: any request that
  pins, unpins, comments, disables, enables or checks comes after reading a Resource that is
  not suspended and not being deleted, the Pipeline it names, which was Ready, and for that
  Pipeline a Team and an Instance that are Ready, in a namespace the Instance allows.\<close>

lemma resource_writes_behind_ready_chain:
  assumes "e \<in> set (emitted (Resource_Reconcile env req) s)" and "is_awrite e"
  shows "resource_evidence env req (emitted (Resource_Reconcile env req) s)"
  by (rule guardedD [OF Resource_Reconcile_guarded assms])

lemmas resource_eval = Resource_Reconcile_def reconcile_for_pipeline_def set_resource_owner_def apply_resource_def
  resource_web_url_def syncPin_def unpin_def sync_pin_comment_def pin_version_def find_version_def
  syncDisabledVersions_def check_resource_def shouldCheck_def fetchLatestVersion_def finish_resource_def
  sync_failed_def base_url_def refKey_def ResolveNamespace_def recordEvent_def resolver_eval
  ResolvedResourceName_def ResolvedTeamName_def ResolvedPipelineName_def

abbreviation with_resource :: "Resource \<Rightarrow> 'w env \<Rightarrow> 'w env" where
  "with_resource r env \<equiv> env\<lparr>e_k8s := (e_k8s env)\<lparr>x_get_resource := (\<lambda>_ w. (Inr r, w))\<rparr>\<rparr>"

lemma demo_pin_run:
  "AWrite (PinResourceVersion demo_client ''team'' ''pipeline'' ''resource'' 11 None)
     \<in> set (emitted (Resource_Reconcile (with_resource pinned_resource demo_env) (''ci'', ''resource'')) (demo_start ()))"
  by (simp add: demo_client_def eval_simps resource_eval cong: eval_cong)

lemma resource_writes_behind_ready_chain_example:
  "resource_evidence (with_resource pinned_resource (demo_env :: unit env)) (''ci'', ''resource'')
     (emitted (Resource_Reconcile (with_resource pinned_resource demo_env) (''ci'', ''resource'')) (demo_start ()))"
  by (rule resource_writes_behind_ready_chain [OF demo_pin_run]) (rule io_kinds)

section \<open>Checks\<close>

definition check_made :: "'w env \<Rightarrow> goclient \<Rightarrow> string \<Rightarrow> string \<Rightarrow> string \<Rightarrow> Resource \<Rightarrow> Resource \<Rightarrow> io list \<Rightarrow> bool" where
  "check_made env cl tn pn rn r r' es \<longleftrightarrow> (let v = rs_pinnedVersion (resource_spec r);
       request = CheckResource cl tn pn rn (if v = [] then None else Some v) in
     (\<exists>n. es = [AWrite (request None), Clock n] \<and>
        rt_lastChecked (resource_status r') = Some n \<and>
        cond_is (rt_conditions (resource_status r')) ConditionCheckHealthy ConditionTrue ''CheckSucceeded'') \<or>
     (\<exists>err ds. es = AWrite (request (Some err)) # ds \<and> list_all is_event ds \<and>
        rt_lastChecked (resource_status r') = rt_lastChecked (resource_status r) \<and>
        cond_is (rt_conditions (resource_status r')) ConditionCheckHealthy ConditionFalse ''CheckFailed''))"

definition check_left :: "Resource \<Rightarrow> Resource \<Rightarrow> io list \<Rightarrow> bool" where
  "check_left r r' es \<longleftrightarrow> es = [] \<and>
     (if rt_lastChecked (resource_status r) = None
      then rt_lastChecked (resource_status r') = None \<and>
        cond_is (rt_conditions (resource_status r')) ConditionCheckHealthy ConditionUnknown ''CheckPending''
      else r' = r)"

definition check_settled :: "'w env \<Rightarrow> goclient \<Rightarrow> string \<Rightarrow> string \<Rightarrow> string \<Rightarrow> Resource \<Rightarrow> Resource \<Rightarrow> io list \<Rightarrow> bool" where
  "check_settled env cl tn pn rn r r' es \<longleftrightarrow>
     (case (rs_checkInterval (resource_spec r), rt_lastChecked (resource_status r)) of
        (Some interval, Some before) \<Rightarrow> (\<exists>n ds. es = Clock n # ds \<and>
          (if n - before \<ge> interval then check_made env cl tn pn rn r r' ds else check_left r r' ds))
      | (Some interval, None) \<Rightarrow> check_made env cl tn pn rn r r' es
      | (None, _) \<Rightarrow> check_left r r' es)"

text \<open>Saturation does not matter to a comparison with a duration.\<close>

lemma time_sub_ge: "- (2 ^ 63) < d \<Longrightarrow> d < 2 ^ 63 \<Longrightarrow> time_sub n t \<ge> d \<longleftrightarrow> n - t \<ge> d"
  by (auto simp: time_sub_def)

lemma resource_cond_sel [simp]:
  "rt_conditions (resource_status (resource_cond env r t st reason msg)) =
     setCondition env (rt_conditions (resource_status r)) (om_generation (resource_meta r)) t st reason msg"
  "rt_lastChecked (resource_status (resource_cond env r t st reason msg)) = rt_lastChecked (resource_status r)"
  by (simp_all add: resource_cond_def)

lemma check_resource_outcome:
  assumes "conditions_law env"
    and "\<And>interval. rs_checkInterval (resource_spec r) = Some interval \<Longrightarrow> - (2 ^ 63) < interval \<and> interval < 2 ^ 63"
  shows "outcome (check_resource env cl tn pn rn r) (\<lambda>r' es. check_settled env cl tn pn rn r r' es)"
  unfolding check_resource_def shouldCheck_def
  apply (intro outcome_intros)
  apply (use assms in \<open>auto simp: check_settled_def check_made_def check_left_def time_sub_ge Let_def\<close>)
  done

text \<open>C23: Checks follow the interval. Without an interval none is requested; with one, a check is
  requested exactly when none was made yet or at least the interval has passed since the last
  (all durations a Go \<open>time.Duration\<close> can hold but the least, so the saturation of \<open>Sub\<close> does
  not matter). It asks for the pinned version, if one is set. Success records the time and
  \<open>CheckSucceeded\<close>, failure keeps the time of the last success and says \<open>CheckFailed\<close>;
  as long as nothing was checked the condition is unknown.\<close>

theorem check_when_due:
  assumes "conditions_law env"
    and "\<And>interval. rs_checkInterval (resource_spec r) = Some interval \<Longrightarrow> - (2 ^ 63) < interval \<and> interval < 2 ^ 63"
  shows "check_settled env cl tn pn rn r (result_of (check_resource env cl tn pn rn r) s)
    (emitted (check_resource env cl tn pn rn r) s)"
  by (rule outcomeD [OF check_resource_outcome [OF assms]])

abbreviation hourly_resource :: "timestamp \<Rightarrow> Resource" where
  "hourly_resource t \<equiv> demo_resource\<lparr>resource_spec := demo_resource_spec\<lparr>rs_checkInterval := Some (minutes 60)\<rparr>,
     resource_status := demo_resource_status\<lparr>rt_lastChecked := Some t\<rparr>\<rparr>"

text \<open>The example's clock stands at 0: a check one hour ago is due again, one 59 minutes ago is not.\<close>

theorem check_when_due_witness:
  "check_settled (demo_env :: unit env) demo_client ''team'' ''pipeline'' ''resource'' (hourly_resource (minutes (- 60)))
     (result_of (check_resource demo_env demo_client ''team'' ''pipeline'' ''resource'' (hourly_resource (minutes (- 60))))
       (demo_start ()))
     [Clock 0, AWrite (CheckResource demo_client ''team'' ''pipeline'' ''resource'' None None), Clock 0] \<and>
   check_settled (demo_env :: unit env) demo_client ''team'' ''pipeline'' ''resource'' (hourly_resource (minutes (- 59)))
     (hourly_resource (minutes (- 59))) [Clock 0]"
proof -
  have "- (2 ^ 63) < minutes 60 \<and> minutes 60 < 2 ^ 63" by (simp add: minutes_def)
  then have "rs_checkInterval (resource_spec (hourly_resource t)) = Some interval \<Longrightarrow>
    - (2 ^ 63) < interval \<and> interval < 2 ^ 63" for t interval by simp
  note due = this
  have law: "conditions_law (demo_env :: unit env)" using demo_conditions_law by (simp add: conditions_law_def)
  have settled: "check_settled (demo_env :: unit env) demo_client ''team'' ''pipeline'' ''resource'' (hourly_resource t)
     (result_of (check_resource demo_env demo_client ''team'' ''pipeline'' ''resource'' (hourly_resource t)) (demo_start ()))
     (emitted (check_resource demo_env demo_client ''team'' ''pipeline'' ''resource'' (hourly_resource t)) (demo_start ()))"
    for t by (rule check_when_due [OF law due])
  have runs: "emitted (check_resource demo_env demo_client ''team'' ''pipeline'' ''resource'' (hourly_resource (minutes (- 60))))
      (demo_start ()) = [Clock 0, AWrite (CheckResource demo_client ''team'' ''pipeline'' ''resource'' None None), Clock 0]"
    "emitted (check_resource demo_env demo_client ''team'' ''pipeline'' ''resource'' (hourly_resource (minutes (- 59))))
      (demo_start ()) = [Clock 0]"
    "result_of (check_resource demo_env demo_client ''team'' ''pipeline'' ''resource'' (hourly_resource (minutes (- 59))))
      (demo_start ()) = hourly_resource (minutes (- 59))"
    by (simp_all add: eval_simps check_resource_def shouldCheck_def minutes_def time_sub_def cong: eval_cong)
  from settled [of "minutes (- 60)"] settled [of "minutes (- 59)"] show ?thesis
    by (simp only: runs simp_thms)
qed

section \<open>A failure half way\<close>

text \<open>
  Two versions are to be disabled, the second request fails: the first version is disabled in
  Concourse, but the status that is written does not track it, so it is not enabled again when
  the spec drops it, although \<open>resource_types.go\<close> promises that for any version disabled before.
\<close>

definition other_version :: string_map where
  "other_version = [(''ref'', ''def'')]"

abbreviation two_versions :: Resource where
  "two_versions \<equiv> demo_resource\<lparr>resource_spec := demo_resource_spec\<lparr>rs_disabledVersions :=
     [[(''ref'', ''abc'')], other_version]\<rparr>\<rparr>"

abbreviation half_env :: "unit env" where
  "half_env \<equiv> demo_env\<lparr>e_team := demo_team_api
     \<lparr>x_resource_versions := (\<lambda>_ _ _ _ _ _ w. (Inr (Some [demo_version, \<lparr>arv_id = 12, arv_version = other_version\<rparr>]), w)),
      x_disable_resource_version := (\<lambda>_ _ _ _ i w. (if i = 11 then None else Some ''down'', w))\<rparr>\<rparr>"

definition status_ids :: "io list \<Rightarrow> i32 list list" where
  "status_ids es = concat (map (\<lambda>e. case e of
     KWrite (StatusResource r x) \<Rightarrow> [rt_disabledVersionIDs (resource_status r)] | _ \<Rightarrow> []) es)"

lemma partial_failure_untracked:
  "AWrite (DisableResourceVersion demo_client ''team'' ''pipeline'' ''resource'' 11 None)
     \<in> set (emitted (Resource_Reconcile (with_resource two_versions half_env) (''ci'', ''resource'')) (demo_start ())) \<and>
   status_ids (emitted (Resource_Reconcile (with_resource two_versions half_env) (''ci'', ''resource'')) (demo_start ())) = [[]]"
  by (simp add: demo_client_def eval_simps resource_eval sorted_ids_def to_i32_def of_i32_def resource_cond_def other_version_def status_ids_def
      cong: eval_cong)

end
