(* ===== verification/Worker_Controller.thy ===== *)
theory Worker_Controller
  imports Resolver
begin

text \<open>
  \<open>internal/controller/worker_controller.go\<close>: the reconciler of a Worker, which asks
  Concourse to land or prune the worker as its lifecycle says, and reports what Concourse
  knows of it.
\<close>

abbreviation map_worker_status :: "(WorkerStatus \<Rightarrow> WorkerStatus) \<Rightarrow> Worker \<Rightarrow> Worker" where
  "map_worker_status f w \<equiv> w\<lparr>worker_status := f (worker_status w)\<rparr>"

definition worker_cond ::
  "'w env \<Rightarrow> Worker \<Rightarrow> string \<Rightarrow> ConditionStatus \<Rightarrow> string \<Rightarrow> string \<Rightarrow> Worker" where
  "worker_cond env w t st reason msg = map_worker_status (\<lambda>s. s\<lparr>wt_conditions :=
     setCondition env (wt_conditions s) (om_generation (worker_meta w)) t st reason msg\<rparr>) w"

abbreviation worker_event ::
  "'w env \<Rightarrow> Worker \<Rightarrow> event_type \<Rightarrow> string \<Rightarrow> string \<Rightarrow> ('w, unit) prog" where
  "worker_event env w t reason msg \<equiv> recordEvent env KWorker (worker_meta w) t reason msg"

section \<open>The lifecycle\<close>

definition workerConverged :: "WorkerLifecycle \<Rightarrow> WorkerPhase \<Rightarrow> bool" where
  "workerConverged lifecycle phase =
     (if lifecycle = WorkerLifecycleRunning then phase = WorkerPhaseRunning
      else if lifecycle = WorkerLifecycleDraining then phase = WorkerPhaseLanding \<or> phase = WorkerPhaseLanded
      else if lifecycle = WorkerLifecycleRemoved then phase = WorkerPhaseMissing
      else False)"

definition worker_lifecycle :: "Worker \<Rightarrow> WorkerLifecycle" where
  "worker_lifecycle worker =
     (if ws_lifecycle (worker_spec worker) = '''' then WorkerLifecycleRunning
      else ws_lifecycle (worker_spec worker))"

text \<open>Landing and pruning; the error of the request, if it failed.\<close>

definition request_transition ::
  "'w env \<Rightarrow> goclient \<Rightarrow> Worker \<Rightarrow> WorkerLifecycle \<Rightarrow> string \<Rightarrow> ('w, goerr option) prog" where
  "request_transition env cl worker lifecycle workerName =
     (if lifecycle = WorkerLifecycleDraining then do {
        e \<leftarrow> a_land_worker env cl workerName;
        (case e of
           Some err \<Rightarrow> do {
             worker_event env worker EventTypeWarning ''DrainFailed'' (''Failed to land worker: '' @ err);
             ret (Some err) }
         | None \<Rightarrow> do {
             worker_event env worker EventTypeNormal ''Draining''
               (''Requested land (graceful drain) for worker '' @ workerName);
             ret None }) }
      else if lifecycle = WorkerLifecycleRemoved then do {
        e \<leftarrow> a_prune_worker env cl workerName;
        (case e of
           Some err \<Rightarrow> do {
             worker_event env worker EventTypeWarning ''PruneFailed'' (''Failed to prune worker: '' @ err);
             ret (Some err) }
         | None \<Rightarrow> do {
             worker_event env worker EventTypeNormal ''Removing'' (''Requested prune for worker '' @ workerName);
             ret None }) }
      else ret None)"

section \<open>Observing\<close>

definition observe_worker_fields :: "WorkerStatus \<Rightarrow> atc_worker \<Rightarrow> WorkerStatus" where
  "observe_worker_fields s w = s
     \<lparr>wt_phase := aw_state w,
      wt_platform := aw_platform w,
      wt_tags := aw_tags w,
      wt_activeContainers := int32Ptr (aw_activeContainers w),
      wt_activeVolumes := int32Ptr (aw_activeVolumes w),
      wt_activeTasks := int32Ptr (aw_activeTasks w),
      wt_version := aw_version w,
      wt_ephemeral := aw_ephemeral w,
      wt_team := aw_team w,
      wt_startTime := (if aw_startTime w > 0 then Some (unix_time (aw_startTime w)) else wt_startTime s),
      wt_resourceTypes := map (\<lambda>rt. \<lparr>wrt_type = awr_type rt, wrt_version = awr_version rt,
        wrt_privileged = awr_privileged rt\<rparr>) (aw_resourceTypes w)\<rparr>"

definition stalled_cond :: "'w env \<Rightarrow> Worker \<Rightarrow> atc_worker \<Rightarrow> Worker" where
  "stalled_cond env worker w =
     (if aw_state w = WorkerPhaseStalled
      then worker_cond env worker ConditionStalled ConditionTrue ''Stalled'' ''worker is stalled''
      else worker_cond env worker ConditionStalled ConditionFalse ''NotStalled'' '''')"

definition transition_cond :: "'w env \<Rightarrow> Worker \<Rightarrow> WorkerLifecycle \<Rightarrow> atc_worker \<Rightarrow> Worker" where
  "transition_cond env worker lifecycle w =
     (if workerConverged lifecycle (aw_state w)
      then worker_cond env worker ConditionStateTransitioning ConditionFalse ''Converged'' ''''
      else worker_cond env worker ConditionStateTransitioning ConditionTrue ''TransitionPending''
        (''phase '' @ l_quote (e_libs env) (aw_state w) @ '', lifecycle '' @ l_quote (e_libs env) lifecycle))"

definition save_worker :: "'w env \<Rightarrow> Worker \<Rightarrow> 'w reconcile" where
  "save_worker env worker = do {
     u \<leftarrow> k_status_worker env worker;
     (case u of
        Inl err \<Rightarrow> ret (0, Some (''update status: '' @ kerr_text err))
      | Inr _ \<Rightarrow> ret (minutes 5, None)) }"

definition set_worker_observed :: "Worker \<Rightarrow> Worker" where
  "set_worker_observed worker =
     map_worker_status (\<lambda>s. s\<lparr>wt_observedGeneration := om_generation (worker_meta worker)\<rparr>) worker"

definition worker_missing :: "'w env \<Rightarrow> Worker \<Rightarrow> WorkerLifecycle \<Rightarrow> string \<Rightarrow> 'w reconcile" where
  "worker_missing env worker lifecycle workerName = do {
     let worker = map_worker_status (\<lambda>s. s\<lparr>wt_phase := WorkerPhaseMissing\<rparr>) worker;
     let worker = worker_cond env worker ConditionReady ConditionFalse ''WorkerNotFound''
       (''worker '' @ l_quote (e_libs env) workerName @ '' not registered'');
     let worker = (if lifecycle = WorkerLifecycleRemoved
       then worker_cond env (worker_cond env worker ConditionStateTransitioning ConditionFalse ''Converged'' '''')
         ConditionReady ConditionTrue ''Removed'' ''''
       else worker);
     save_worker env (set_worker_observed worker) }"

definition worker_found :: "'w env \<Rightarrow> Worker \<Rightarrow> WorkerLifecycle \<Rightarrow> string \<Rightarrow> atc_worker \<Rightarrow> 'w reconcile" where
  "worker_found env worker lifecycle workerName w = do {
     let worker = map_worker_status (\<lambda>s. observe_worker_fields s w) worker;
     (if aw_state w = WorkerPhaseStalled
      then worker_event env worker EventTypeWarning ''Stalled'' (''Worker '' @ workerName @ '' has stalled'')
      else ret ());
     let worker = stalled_cond env worker w;
     let worker = transition_cond env worker lifecycle w;
     save_worker env (worker_cond env (set_worker_observed worker) ConditionReady ConditionTrue ''Ready'' '''') }"

definition observe_worker :: "'w env \<Rightarrow> goclient \<Rightarrow> Worker \<Rightarrow> WorkerLifecycle \<Rightarrow> string \<Rightarrow> 'w reconcile" where
  "observe_worker env cl worker lifecycle workerName = do {
     r \<leftarrow> a_list_workers env cl;
     (case r of
        Inl err \<Rightarrow> do {
          u \<leftarrow> k_status_worker env (worker_cond env worker ConditionReady ConditionFalse ''ListFailed'' err);
          (case u of
             Inl err2 \<Rightarrow> ret (0, Some (''update status: '' @ kerr_text err2))
           | Inr _ \<Rightarrow> ret (seconds 30, None)) }
      | Inr workers \<Rightarrow>
          (case find (\<lambda>w. aw_name w = workerName) workers of
             None \<Rightarrow> worker_missing env worker lifecycle workerName
           | Some w \<Rightarrow> worker_found env worker lifecycle workerName w)) }"

section \<open>Reconcile\<close>

definition set_worker_owner :: "'w env \<Rightarrow> Worker \<Rightarrow> Instance \<Rightarrow> ('w, kerr + Worker) prog" where
  "set_worker_owner env worker inst =
     (if om_namespace (instance_meta inst) = om_namespace (worker_meta worker) then
        (case l_set_controller_reference (e_libs env) KInstance (instance_meta inst) KWorker (worker_meta worker) of
           Inl err \<Rightarrow> ret (Inr worker)
         | Inr refs \<Rightarrow>
             (if refs \<noteq> om_ownerReferences (worker_meta worker)
              then k_update_worker env (worker\<lparr>worker_meta := (worker_meta worker)\<lparr>om_ownerReferences := refs\<rparr>\<rparr>)
              else ret (Inr worker)))
      else ret (Inr worker))"

definition worker_not_ready :: "'w env \<Rightarrow> Worker \<Rightarrow> string \<Rightarrow> string \<Rightarrow> Result \<Rightarrow> 'w reconcile" where
  "worker_not_ready env worker reason msg after = do {
     k_status_worker env (worker_cond env worker ConditionReady ConditionFalse reason msg);
     ret (after, None) }"

definition apply_worker :: "'w env \<Rightarrow> goclient \<Rightarrow> Worker \<Rightarrow> 'w reconcile" where
  "apply_worker env cl worker = do {
     let workerName = ResolvedWorkerName worker;
     let worker = map_worker_status (\<lambda>s. s\<lparr>wt_resolvedName := workerName\<rparr>) worker;
     let lifecycle = worker_lifecycle worker;
     e \<leftarrow> request_transition env cl worker lifecycle workerName;
     (case e of
        Some err \<Rightarrow> worker_not_ready env worker ''TransitionFailed'' err (seconds 30)
      | None \<Rightarrow> observe_worker env cl worker lifecycle workerName) }"

definition reconcile_on_instance :: "'w env \<Rightarrow> Worker \<Rightarrow> Instance \<Rightarrow> 'w reconcile" where
  "reconcile_on_instance env worker inst =
     (case namespaceAllowed env inst (om_namespace (worker_meta worker)) of
        Some err \<Rightarrow> worker_not_ready env worker ''NamespaceNotAllowed'' err 0
      | None \<Rightarrow>
          (if \<not> isReady env (it_conditions (instance_status inst))
           then worker_not_ready env worker ''InstanceNotReady'' ''instance is not ready'' (seconds 30)
           else do {
             c \<leftarrow> GetOrBuild env inst;
             (case c of
                Inl err \<Rightarrow> worker_not_ready env worker ''ClientFailed'' err (seconds 30)
              | Inr cl \<Rightarrow> apply_worker env cl worker) }))"

definition reconcile_worker :: "'w env \<Rightarrow> Worker \<Rightarrow> 'w reconcile" where
  "reconcile_worker env worker = do {
     i \<leftarrow> k_get_instance env (refKey (om_namespace (worker_meta worker)) (ws_instanceRef (worker_spec worker)));
     (case i of
        Inl err \<Rightarrow> ret (0, ignore_not_found err)
      | Inr inst \<Rightarrow> do {
          u \<leftarrow> set_worker_owner env worker inst;
          (case u of
             Inl err \<Rightarrow> ret (0, Some (''set owner reference: '' @ kerr_text err))
           | Inr worker \<Rightarrow> reconcile_on_instance env worker inst) }) }"

definition Worker_Reconcile :: "'w env \<Rightarrow> ObjectKey \<Rightarrow> 'w reconcile" where
  "Worker_Reconcile env req = do {
     r \<leftarrow> k_get_worker env req;
     (case r of
        Inl err \<Rightarrow> ret (0, ignore_not_found err)
      | Inr worker \<Rightarrow>
          (if ws_suspend (worker_spec worker) then do {
             u \<leftarrow> k_status_worker env (worker_cond env worker ConditionReady ConditionFalse ''Suspended''
               ''Reconciliation is suspended'');
             (case u of
                Inl err \<Rightarrow> ret (0, Some (''update status: '' @ kerr_text err))
              | Inr _ \<Rightarrow> ret (0, None)) }
           else if om_deletionTimestamp (worker_meta worker) \<noteq> None then ret (0, None)
           else reconcile_worker env worker)) }"

end
