(* ===== verification/Worker_Proofs.thy ===== *)
theory Worker_Proofs
  imports Worker_Controller
begin

text \<open>
  What the Worker reconciler guarantees: which requests it makes and on what evidence, what it
  reports of the worker it finds, and how a refused request is reported.
\<close>

section \<open>Requests\<close>

definition lifecycle_request :: "goclient \<Rightarrow> Worker \<Rightarrow> io \<Rightarrow> bool" where
  "lifecycle_request cl w e \<longleftrightarrow>
     worker_lifecycle w = WorkerLifecycleDraining \<and> (\<exists>r. e = AWrite (LandWorker cl (ResolvedWorkerName w) r)) \<or>
     worker_lifecycle w = WorkerLifecycleRemoved \<and> (\<exists>r. e = AWrite (PruneWorker cl (ResolvedWorkerName w) r))"

definition worker_requests :: "goclient \<Rightarrow> Worker \<Rightarrow> io list \<Rightarrow> bool" where
  "worker_requests cl w es \<longleftrightarrow>
     (if worker_lifecycle w = WorkerLifecycleDraining \<or> worker_lifecycle w = WorkerLifecycleRemoved
      then \<exists>e. filter is_awrite es = [e] \<and> lifecycle_request cl w e
      else filter is_awrite es = [])"

lemma worker_requests_append:
  "worker_requests cl w es \<Longrightarrow> filter is_awrite ds = [] \<Longrightarrow> worker_requests cl w (es @ ds)"
  "worker_requests cl w es \<Longrightarrow> filter is_awrite ds = [] \<Longrightarrow> worker_requests cl w (ds @ es)"
  by (simp_all add: worker_requests_def)

lemma request_transition_outcome:
  "outcome (request_transition env cl w (worker_lifecycle w') (ResolvedWorkerName w'))
    (\<lambda>_ es. worker_requests cl w' es)"
  unfolding request_transition_def
  by (intro outcome_intros) (auto simp: worker_requests_def lifecycle_request_def)

lemma worker_not_ready_quiet: "emits (\<lambda>e. \<not> is_awrite e) (worker_not_ready env w reason msg after)"
  unfolding worker_not_ready_def by (intro emits_intros) simp

lemma save_worker_emits: "A (KWrite (StatusWorker w (Inr w))) \<Longrightarrow> (\<And>r. A (KWrite (StatusWorker w r))) \<Longrightarrow> emits A (save_worker env w)"
  unfolding save_worker_def by (intro emits_intros)

lemma observe_worker_quiet: "emits (\<lambda>e. \<not> is_awrite e) (observe_worker env cl w lifecycle wn)"
  unfolding observe_worker_def worker_missing_def worker_found_def Let_def
  by (intro emits_intros save_worker_emits) simp_all

lemma worker_status_irrelevant [simp]:
  "worker_lifecycle (map_worker_status f w) = worker_lifecycle w"
  "ResolvedWorkerName (map_worker_status f w) = ResolvedWorkerName w"
  by (simp_all add: worker_lifecycle_def ResolvedWorkerName_def)

lemma quiet_filter: "emits (\<lambda>e. \<not> is_awrite e) p \<Longrightarrow> outcome p (\<lambda>_ es. filter is_awrite es = [])"
  unfolding emits_def by (erule outcome_mono) (rule reads_write_nothing(3))

lemma apply_worker_outcome: "outcome (apply_worker env cl w) (\<lambda>_ es. worker_requests cl w es)"
  unfolding apply_worker_def Let_def worker_status_irrelevant
  apply (rule outcome_bind, rule outcome_mono [OF request_transition_outcome])
  apply (rule outcome_case(2))
   apply (rule outcome_mono [OF quiet_filter [OF observe_worker_quiet]], rule worker_requests_append(1), assumption+)
  apply (rule outcome_mono [OF quiet_filter [OF worker_not_ready_quiet]], rule worker_requests_append(1), assumption+)
  done

section \<open>On what evidence\<close>

text \<open>The worker as the reconcile knows it: as read, or as the update of its owner answered it.\<close>

definition worker_known :: "ObjectKey \<Rightarrow> io list \<Rightarrow> Worker \<Rightarrow> bool" where
  "worker_known req es w \<longleftrightarrow> KRead (GetWorker req (Inr w)) \<in> set es \<or> (\<exists>x. KWrite (UpdateWorker x (Inr w)) \<in> set es)"

definition worker_evidence :: "'w env \<Rightarrow> ObjectKey \<Rightarrow> Worker \<Rightarrow> io list \<Rightarrow> bool" where
  "worker_evidence env req w es \<longleftrightarrow> worker_known req es w \<and> (\<exists>w0 i.
     KRead (GetWorker req (Inr w0)) \<in> set es \<and> \<not> ws_suspend (worker_spec w0) \<and>
     om_deletionTimestamp (worker_meta w0) = None \<and>
     KRead (GetInstance (refKey (om_namespace (worker_meta w0)) (ws_instanceRef (worker_spec w0))) (Inr i)) \<in> set es \<and>
     namespaceAllowed env i (om_namespace (worker_meta w)) = None \<and>
     isReady env (it_conditions (instance_status i)))"

definition worker_acts :: "'w env \<Rightarrow> ObjectKey \<Rightarrow> io list \<Rightarrow> bool" where
  "worker_acts env req es \<longleftrightarrow> filter is_awrite es = [] \<or>
     (\<exists>cl w e. filter is_awrite es = [e] \<and> lifecycle_request cl w e \<and> worker_evidence env req w es)"

lemma worker_acts_silent: "filter is_awrite es = [] \<Longrightarrow> worker_acts env req es"
  by (simp add: worker_acts_def)

definition allowed_and_ready :: "'w env \<Rightarrow> Worker \<Rightarrow> Instance \<Rightarrow> io list \<Rightarrow> bool" where
  "allowed_and_ready env w i es \<longleftrightarrow> filter is_awrite es = [] \<or>
     (\<exists>cl e. filter is_awrite es = [e] \<and> lifecycle_request cl w e) \<and>
     namespaceAllowed env i (om_namespace (worker_meta w)) = None \<and> isReady env (it_conditions (instance_status i))"

lemma reconcile_on_instance_outcome:
  "outcome (reconcile_on_instance env w i) (\<lambda>_ es. allowed_and_ready env w i es)"
  unfolding reconcile_on_instance_def
  apply (rule outcome_case(2))
   apply (rule outcome_case(3))
    apply (rule outcome_mono [OF quiet_filter [OF worker_not_ready_quiet]], simp add: allowed_and_ready_def)
   apply (rule outcome_bind, rule outcome_mono [OF emits_outcome [OF GetOrBuild_reads]])
   apply (rule outcome_case(1))
    apply (rule outcome_mono [OF quiet_filter [OF worker_not_ready_quiet]], simp add: allowed_and_ready_def reads_write_nothing)
   apply (rule outcome_mono [OF apply_worker_outcome])
   apply (auto simp: allowed_and_ready_def reads_write_nothing worker_requests_def split: if_splits)[1]
  apply (rule outcome_mono [OF quiet_filter [OF worker_not_ready_quiet]], simp add: allowed_and_ready_def)
  done

lemma set_worker_owner_outcome:
  "outcome (set_worker_owner env w i) (\<lambda>r es. filter is_awrite es = [] \<and>
     (\<forall>w'. r = Inr w' \<longrightarrow> w' = w \<or> (\<exists>x. KWrite (UpdateWorker x (Inr w')) \<in> set es)))"
  unfolding set_worker_owner_def by (intro outcome_intros) auto

lemma worker_actsI:
  assumes "allowed_and_ready env w i es" and "filter is_awrite ds = []"
    and "\<not> ws_suspend (worker_spec w0)" and "om_deletionTimestamp (worker_meta w0) = None"
    and "w = w0 \<or> (\<exists>x. KWrite (UpdateWorker x (Inr w)) \<in> set ds)"
  shows "worker_acts env req (KRead (GetWorker req (Inr w0)) #
    KRead (GetInstance (refKey (om_namespace (worker_meta w0)) (ws_instanceRef (worker_spec w0))) (Inr i)) # ds @ es)"
  using assms(1) unfolding allowed_and_ready_def
proof (elim disjE exE conjE)
  fix cl e
  assume e: "filter is_awrite es = [e]" "lifecycle_request cl w e"
    and "namespaceAllowed env i (om_namespace (worker_meta w)) = None" "isReady env (it_conditions (instance_status i))"
  then have "worker_evidence env req w (KRead (GetWorker req (Inr w0)) #
      KRead (GetInstance (refKey (om_namespace (worker_meta w0)) (ws_instanceRef (worker_spec w0))) (Inr i)) # ds @ es)"
    unfolding worker_evidence_def worker_known_def using assms(3-5)
    by (intro conjI exI [of _ w0] exI [of _ i]) auto
  with e show ?thesis using assms(2) unfolding worker_acts_def by (intro disjI2 exI conjI) simp_all
qed (use assms(2) in \<open>simp add: worker_acts_silent\<close>)

lemma Worker_Reconcile_acts: "outcome (Worker_Reconcile env req) (\<lambda>_ es. worker_acts env req es)"
  unfolding Worker_Reconcile_def reconcile_worker_def
  apply (rule outcome_bind, rule outcome_extern)
  apply (rule outcome_case(1), rule outcome_return, simp add: worker_acts_silent)
  apply (rule outcome_case(3))
   apply (intro outcome_intros worker_acts_silent)
    apply simp_all[2]
  apply (rule outcome_case(3), rule outcome_return, simp add: worker_acts_silent)
  apply (rule outcome_bind, rule outcome_extern)
  apply (rule outcome_case(1), rule outcome_return, simp add: worker_acts_silent)
  apply (rule outcome_bind, rule outcome_mono [OF set_worker_owner_outcome])
  apply (rule outcome_case(1), rule outcome_return, simp add: worker_acts_silent)
  apply (rule outcome_mono [OF reconcile_on_instance_outcome])
  apply simp
  apply (rule worker_actsI)
      apply assumption+
    apply (erule conjunct1)
   apply assumption+
  apply (erule conjunct2)
  done

text \<open>C17: A reconcile of a Worker makes at most one request that changes Concourse: it lands the
  worker if the lifecycle is Draining and prunes it if the lifecycle is Removed, under the
  Worker's name; never for Running. It does so only for a Worker that was read alive and not
  suspended, and behind the Instance it names, which was read, allows the namespace, and is Ready.\<close>

theorem worker_writes_justified:
  assumes "e \<in> set (emitted (Worker_Reconcile env req) s)" and "is_awrite e"
  shows "filter is_awrite (emitted (Worker_Reconcile env req) s) = [e] \<and>
    (\<exists>cl w. lifecycle_request cl w e \<and> worker_evidence env req w (emitted (Worker_Reconcile env req) s))"
proof -
  have e: "e \<in> set (filter is_awrite (emitted (Worker_Reconcile env req) s))" using assms by simp
  from outcomeD [OF Worker_Reconcile_acts, of env req s] e
  show ?thesis unfolding worker_acts_def by (elim disjE exE conjE) auto
qed

lemmas worker_eval = Worker_Reconcile_def reconcile_worker_def reconcile_on_instance_def apply_worker_def
  set_worker_owner_def worker_not_ready_def observe_worker_def worker_found_def worker_missing_def save_worker_def
  set_worker_observed_def request_transition_def worker_lifecycle_def refKey_def ResolveNamespace_def
  recordEvent_def resolver_eval ResolvedWorkerName_def worker_cond_def

abbreviation with_worker :: "Worker \<Rightarrow> 'w env \<Rightarrow> 'w env" where
  "with_worker wk env \<equiv> env\<lparr>e_k8s := (e_k8s env)\<lparr>x_get_worker := (\<lambda>_ w. (Inr wk, w))\<rparr>\<rparr>"

abbreviation draining_worker :: Worker where
  "draining_worker \<equiv> demo_worker\<lparr>worker_spec := demo_worker_spec\<lparr>ws_lifecycle := WorkerLifecycleDraining\<rparr>\<rparr>"

lemma demo_land_run:
  "AWrite (LandWorker demo_client ''worker'' None)
     \<in> set (emitted (Worker_Reconcile (with_worker draining_worker (demo_env :: unit env)) (''ci'', ''worker'')) (demo_start ()))"
  by (simp add: demo_client_def eval_simps worker_eval cong: eval_cong)

theorem worker_writes_justified_witness:
  "filter is_awrite (emitted (Worker_Reconcile (with_worker draining_worker (demo_env :: unit env)) (''ci'', ''worker''))
      (demo_start ())) = [AWrite (LandWorker demo_client ''worker'' None)]"
  using worker_writes_justified [OF demo_land_run] by simp

section \<open>What is reported\<close>

lemma worker_cond_sel [simp]:
  "worker_meta (worker_cond env w t st r m) = worker_meta w"
  "worker_spec (worker_cond env w t st r m) = worker_spec w"
  "wt_conditions (worker_status (worker_cond env w t st r m)) =
     setCondition env (wt_conditions (worker_status w)) (om_generation (worker_meta w)) t st r m"
  "wt_phase (worker_status (worker_cond env w t st r m)) = wt_phase (worker_status w)"
  "wt_observedGeneration (worker_status (worker_cond env w t st r m)) = wt_observedGeneration (worker_status w)"
  "wt_activeContainers (worker_status (worker_cond env w t st r m)) = wt_activeContainers (worker_status w)"
  by (simp_all add: worker_cond_def)

lemma set_worker_observed_sel [simp]:
  "worker_meta (set_worker_observed w) = worker_meta w"
  "worker_spec (set_worker_observed w) = worker_spec w"
  "worker_status (set_worker_observed w) = (worker_status w)\<lparr>wt_observedGeneration := om_generation (worker_meta w)\<rparr>"
  by (simp_all add: set_worker_observed_def)

text \<open>The phases in which a lifecycle is reached.\<close>

definition settled_phases :: "WorkerLifecycle \<Rightarrow> WorkerPhase set" where
  "settled_phases l =
     (if l = WorkerLifecycleRunning then {WorkerPhaseRunning} else {}) \<union>
     (if l = WorkerLifecycleDraining then {WorkerPhaseLanding, WorkerPhaseLanded} else {}) \<union>
     (if l = WorkerLifecycleRemoved then {WorkerPhaseMissing} else {})"

lemma workerConverged_iff: "workerConverged l ph \<longleftrightarrow> ph \<in> settled_phases l"
  by (simp add: workerConverged_def settled_phases_def)

text \<open>What Concourse lists of a worker, field by field; a start time of zero or less is none.\<close>

definition worker_observed :: "WorkerStatus \<Rightarrow> atc_worker \<Rightarrow> WorkerStatus \<Rightarrow> bool" where
  "worker_observed s0 a s \<longleftrightarrow>
     wt_phase s = aw_state a \<and> wt_platform s = aw_platform a \<and> wt_tags s = aw_tags a \<and>
     wt_activeContainers s = int32Ptr (aw_activeContainers a) \<and>
     wt_activeVolumes s = int32Ptr (aw_activeVolumes a) \<and>
     wt_activeTasks s = int32Ptr (aw_activeTasks a) \<and>
     wt_version s = aw_version a \<and> wt_ephemeral s = aw_ephemeral a \<and> wt_team s = aw_team a \<and>
     wt_startTime s = (if 0 < aw_startTime a then Some (unix_time (aw_startTime a)) else wt_startTime s0) \<and>
     map (\<lambda>t. (wrt_type t, wrt_version t, wrt_privileged t)) (wt_resourceTypes s) =
       map (\<lambda>t. (awr_type t, awr_version t, awr_privileged t)) (aw_resourceTypes a)"

definition worker_reported :: "Worker \<Rightarrow> WorkerLifecycle \<Rightarrow> atc_worker option \<Rightarrow> Worker \<Rightarrow> bool" where
  "worker_reported w lifecycle found w' \<longleftrightarrow> (let s = worker_status w'; cs = wt_conditions s in
     worker_meta w' = worker_meta w \<and> worker_spec w' = worker_spec w \<and>
     wt_observedGeneration s = om_generation (worker_meta w) \<and>
     wt_resolvedName s = wt_resolvedName (worker_status w) \<and>
     (case found of
        None \<Rightarrow> s = (worker_status w)\<lparr>wt_phase := WorkerPhaseMissing, wt_conditions := cs,
            wt_observedGeneration := om_generation (worker_meta w)\<rparr> \<and>
          (if lifecycle = WorkerLifecycleRemoved
           then cond_is cs ConditionReady ConditionTrue ''Removed'' \<and>
             cond_is cs ConditionStateTransitioning ConditionFalse ''Converged''
           else cond_is cs ConditionReady ConditionFalse ''WorkerNotFound'')
      | Some a \<Rightarrow> worker_observed (worker_status w) a s \<and>
          cond_is cs ConditionReady ConditionTrue ''Ready'' \<and>
          (if aw_state a = WorkerPhaseStalled then cond_is cs ConditionStalled ConditionTrue ''Stalled''
           else cond_is cs ConditionStalled ConditionFalse ''NotStalled'') \<and>
          (if aw_state a \<in> settled_phases lifecycle
           then cond_is cs ConditionStateTransitioning ConditionFalse ''Converged''
           else cond_is cs ConditionStateTransitioning ConditionTrue ''TransitionPending'')))"

definition worker_status_saved :: "io list \<Rightarrow> Worker \<Rightarrow> Result \<times> goerr option \<Rightarrow> bool" where
  "worker_status_saved es w res \<longleftrightarrow> (\<exists>x. filter is_kwrite es = [KWrite (StatusWorker w x)] \<and>
     (isl x \<longleftrightarrow> snd res \<noteq> None) \<and> (\<not> isl x \<longrightarrow> fst res = minutes 5))"

lemma save_worker_outcome:
  "outcome (save_worker env w) (\<lambda>res es. filter is_awrite es = [] \<and> worker_status_saved es w res)"
  unfolding save_worker_def by (intro outcome_intros) (auto simp: worker_status_saved_def)

lemma worker_status_saved_append [simp]:
  "filter is_kwrite ds = [] \<Longrightarrow> worker_status_saved (ds @ es) w res = worker_status_saved es w res"
  "\<not> is_kwrite d \<Longrightarrow> worker_status_saved (d # es) w res = worker_status_saved es w res"
  by (simp_all add: worker_status_saved_def)

lemma found_reported:
  assumes "conditions_law env"
  shows "worker_reported w lifecycle (Some a)
    (worker_cond env (set_worker_observed (transition_cond env (stalled_cond env
       (map_worker_status (\<lambda>s. observe_worker_fields s a) w) a) lifecycle a)) ConditionReady ConditionTrue ''Ready'' '''')"
  using assms by (simp add: worker_reported_def worker_observed_def transition_cond_def stalled_cond_def
      workerConverged_iff observe_worker_fields_def worker_cond_def Let_def)

lemma missing_reported:
  assumes "conditions_law env"
  shows "worker_reported w lifecycle None (set_worker_observed
    (let u = worker_cond env (map_worker_status (\<lambda>s. s\<lparr>wt_phase := WorkerPhaseMissing\<rparr>) w) ConditionReady ConditionFalse
         ''WorkerNotFound'' msg
     in if lifecycle = WorkerLifecycleRemoved
        then worker_cond env (worker_cond env u ConditionStateTransitioning ConditionFalse ''Converged'' '''')
          ConditionReady ConditionTrue ''Removed'' ''''
        else u))"
  using assms by (simp add: worker_reported_def worker_cond_def Let_def)

text \<open>C36: The status says what Concourse said. When the workers can be listed, one status is
  written and nothing else changed: a worker that is not registered has the phase missing and is
  not Ready, unless it was to be removed, then it is Ready and converged; a registered one has
  all the fields Concourse lists of it (counts as 32-bit numbers), is Ready, Stalled exactly if Concourse says so, and still in transition
  exactly if the phase is not one in which the lifecycle is reached. The generation is marked
  observed; the reconcile comes back in five minutes, or with the error of that write.\<close>

theorem worker_report:
  assumes "conditions_law env"
    and "x_list_workers (e_atc env) cl (world s) = (Inr workers, u)"
  shows "\<exists>es. emitted (observe_worker env cl w lifecycle name) s = ARead (ListWorkers cl (Inr workers)) # es \<and>
    filter is_awrite es = [] \<and> (\<exists>w'. worker_reported w lifecycle (find (\<lambda>a. aw_name a = name) workers) w' \<and>
      worker_status_saved es w' (result_of (observe_worker env cl w lifecycle name) s))"
  unfolding observe_worker_def
  apply (rule first_call [where f = "x_list_workers (e_atc env) cl" and c = "\<lambda>r. ARead (ListWorkers cl r)"])
   apply (rule assms(2))
  apply (simp only: sum.case)
  apply (rule outcome_case(2))
   apply (simp only: option.case worker_missing_def Let_def)
   apply (rule outcome_mono [OF save_worker_outcome], erule conjE, intro conjI exI, assumption,
      rule missing_reported [OF assms(1), unfolded Let_def], assumption)
  apply (simp only: option.case worker_found_def Let_def)
  apply (rule outcome_bind, rule outcome_case(3))
   apply (rule outcome_recordEvent)
    apply (rule outcome_mono [OF save_worker_outcome], erule conjE, intro conjI exI, simp,
      rule found_reported [OF assms(1)], simp)
   apply (rule outcome_mono [OF save_worker_outcome], erule conjE, intro conjI exI, simp,
      rule found_reported [OF assms(1)], simp)
  apply (rule outcome_return, rule outcome_mono [OF save_worker_outcome], erule conjE, intro conjI exI, simp,
      rule found_reported [OF assms(1)], simp)
  done

definition landing_worker :: atc_worker where
  "landing_worker = \<lparr>aw_name = ''worker'', aw_state = ''landing'', aw_platform = ''linux'', aw_tags = [''gpu''],
     aw_activeContainers = 3, aw_activeVolumes = 5, aw_activeTasks = 2, aw_version = ''2.5'', aw_ephemeral = False,
     aw_team = ''team'', aw_startTime = 0, aw_resourceTypes = [\<lparr>awr_type = ''git'', awr_version = ''1'', awr_privileged = False\<rparr>]\<rparr>"

abbreviation landing_env :: "unit env" where
  "landing_env \<equiv> demo_env\<lparr>e_atc := (e_atc demo_env)\<lparr>x_list_workers := (\<lambda>_ w. (Inr [landing_worker], w))\<rparr>\<rparr>"

theorem worker_report_witness:
  "\<exists>es w' x. filter is_kwrite es = [KWrite (StatusWorker w' x)] \<and>
     worker_observed (worker_status draining_worker) landing_worker (worker_status w') \<and>
     cond_is (wt_conditions (worker_status w')) ConditionStateTransitioning ConditionFalse ''Converged''"
proof -
  let ?p = "observe_worker landing_env demo_client draining_worker WorkerLifecycleDraining ''worker''"
  have law: "conditions_law landing_env" using demo_conditions_law by (simp add: conditions_law_def)
  have read: "x_list_workers (e_atc landing_env) demo_client (world (demo_start ())) = (Inr [landing_worker], ())" by simp
  have found: "find (\<lambda>a. aw_name a = ''worker'') [landing_worker] = Some landing_worker" by (simp add: landing_worker_def)
  from worker_report [OF law read, of draining_worker WorkerLifecycleDraining "''worker''", unfolded found]
  obtain es w' where w': "worker_reported draining_worker WorkerLifecycleDraining (Some landing_worker) w'"
    and saved: "worker_status_saved es w' (result_of ?p (demo_start ()))" by blast
  from saved obtain x where "filter is_kwrite es = [KWrite (StatusWorker w' x)]"
    by (auto simp: worker_status_saved_def)
  moreover from w' have "worker_observed (worker_status draining_worker) landing_worker (worker_status w')"
    "cond_is (wt_conditions (worker_status w')) ConditionStateTransitioning ConditionFalse ''Converged''"
    by (simp_all add: worker_reported_def Let_def settled_phases_def landing_worker_def)
  ultimately show ?thesis by blast
qed

section \<open>A request that fails\<close>

text \<open>What Concourse answers to the request that the lifecycle asks for.\<close>

definition lifecycle_answer :: "'w env \<Rightarrow> goclient \<Rightarrow> Worker \<Rightarrow> 'w \<Rightarrow> goerr option" where
  "lifecycle_answer env cl w u =
     (if worker_lifecycle w = WorkerLifecycleDraining then fst (x_land_worker (e_atc env) cl (ResolvedWorkerName w) u)
      else if worker_lifecycle w = WorkerLifecycleRemoved then fst (x_prune_worker (e_atc env) cl (ResolvedWorkerName w) u)
      else None)"

lemma refused_outcome:
  assumes "lifecycle_answer env cl w (world s) = Some err"
  shows "\<exists>e ds t. run_state (request_transition env cl w' (worker_lifecycle w) (ResolvedWorkerName w)) s = (Some err, t) \<and>
    journal t = journal s @ e # ds \<and> lifecycle_request cl w e \<and> list_all is_event ds"
  using assms by (auto simp: lifecycle_answer_def request_transition_def extern_def recordEvent_def note_event_def
      lifecycle_request_def split: prod.splits if_splits)

text \<open>C37: A refused request is not swallowed: when Concourse answers the request the lifecycle asks
  for with an error, the workers are not even listed; the status that is written says that
  Ready is False with TransitionFailed and leaves the observed generation as it was, and the
  reconcile comes back in 30 seconds.\<close>

theorem worker_refusal_reported:
  assumes "conditions_law env" and "lifecycle_answer env cl w (world s) = Some err"
  shows "\<exists>e ds w' x. emitted (apply_worker env cl w) s = e # ds @ [KWrite (StatusWorker w' x)] \<and>
    lifecycle_request cl w e \<and> list_all is_event ds \<and>
    cond_is (wt_conditions (worker_status w')) ConditionReady ConditionFalse ''TransitionFailed'' \<and>
    wt_observedGeneration (worker_status w') = wt_observedGeneration (worker_status w) \<and>
    result_of (apply_worker env cl w) s = (seconds 30, None)"
proof -
  let ?w = "map_worker_status (\<lambda>s. s\<lparr>wt_resolvedName := ResolvedWorkerName w\<rparr>) w"
  let ?f = "worker_cond env ?w ConditionReady ConditionFalse ''TransitionFailed'' err"
  obtain e ds t where run: "run_state (request_transition env cl ?w (worker_lifecycle w) (ResolvedWorkerName w)) s = (Some err, t)"
    "journal t = journal s @ e # ds" and e: "lifecycle_request cl w e" "list_all is_event ds"
    using refused_outcome [OF assms(2)] by blast
  obtain x u where st: "x_status_worker (e_k8s env) ?f (world t) = (x, u)"
    by (cases "x_status_worker (e_k8s env) ?f (world t)")
  have all: "run_state (apply_worker env cl w) s =
      ((seconds 30, None), t\<lparr>world := u, journal := journal s @ (e # ds) @ [KWrite (StatusWorker ?f x)]\<rparr>)"
    using run st by (simp add: apply_worker_def Let_def worker_not_ready_def extern_def)
  have "emitted (apply_worker env cl w) s = e # ds @ [KWrite (StatusWorker ?f x)]"
    "result_of (apply_worker env cl w) s = (seconds 30, None)"
    by (simp_all add: emitted_def final_of_def result_of_def all)
  moreover have "cond_is (wt_conditions (worker_status ?f)) ConditionReady ConditionFalse ''TransitionFailed''"
    "wt_observedGeneration (worker_status ?f) = wt_observedGeneration (worker_status w)"
    using assms(1) by simp_all
  ultimately show ?thesis using e by blast
qed

abbreviation refusing_land_env :: "unit env" where
  "refusing_land_env \<equiv> demo_env\<lparr>e_atc := demo_atc\<lparr>x_land_worker := (\<lambda>_ _ w. (Some ''refused'', w))\<rparr>\<rparr>"

theorem worker_refusal_reported_witness:
  "result_of (apply_worker refusing_land_env demo_client draining_worker) (demo_start ()) = (seconds 30, None) \<and>
   (\<exists>e ds w' x. emitted (apply_worker refusing_land_env demo_client draining_worker) (demo_start ()) =
      e # ds @ [KWrite (StatusWorker w' x)] \<and>
      cond_is (wt_conditions (worker_status w')) ConditionReady ConditionFalse ''TransitionFailed'')"
proof -
  have law: "conditions_law refusing_land_env" using demo_conditions_law by (simp add: conditions_law_def)
  have "lifecycle_answer refusing_land_env demo_client draining_worker (world (demo_start ())) = Some ''refused''"
    by (simp add: lifecycle_answer_def worker_lifecycle_def)
  from worker_refusal_reported [OF law this] show ?thesis by blast
qed

end
