(* ===== verification/Instance_Controller.thy ===== *)
theory Instance_Controller
  imports Resolver
begin

text \<open>
  \<open>internal/controller/instance_controller.go\<close>: the reconciler of an Instance, which probes
  the Concourse server, keeps its wall banner, and evicts the client of a deleted Instance; and
  the map from a changed Secret to the Instances that have to be reconciled.
\<close>

abbreviation instanceFinalizer :: string where
  "instanceFinalizer \<equiv> ''concourse-ci.org/instance-finalizer''"

abbreviation map_instance_status :: "(InstanceStatus \<Rightarrow> InstanceStatus) \<Rightarrow> Instance \<Rightarrow> Instance" where
  "map_instance_status f i \<equiv> i\<lparr>instance_status := f (instance_status i)\<rparr>"

definition instance_cond ::
  "'w env \<Rightarrow> Instance \<Rightarrow> string \<Rightarrow> ConditionStatus \<Rightarrow> string \<Rightarrow> string \<Rightarrow> Instance" where
  "instance_cond env i t st reason msg = map_instance_status (\<lambda>s. s\<lparr>it_conditions :=
     setCondition env (it_conditions s) (om_generation (instance_meta i)) t st reason msg\<rparr>) i"

abbreviation instance_event ::
  "'w env \<Rightarrow> Instance \<Rightarrow> event_type \<Rightarrow> string \<Rightarrow> string \<Rightarrow> ('w, unit) prog" where
  "instance_event env i t reason msg \<equiv> recordEvent env KInstance (instance_meta i) t reason msg"

definition set_instance_finalizers :: "string list \<Rightarrow> Instance \<Rightarrow> Instance" where
  "set_instance_finalizers fs i = i\<lparr>instance_meta := (instance_meta i)\<lparr>om_finalizers := fs\<rparr>\<rparr>"

section \<open>Suspend, deletion, finalizer\<close>

definition handleInstanceLifecycle ::
  "'w env \<Rightarrow> Instance \<Rightarrow> ('w, Instance \<times> bool \<times> goerr option) prog" where
  "handleInstanceLifecycle env inst =
     (if is_suspend (instance_spec inst) then do {
        r \<leftarrow> k_status_instance env (instance_cond env inst ConditionReady ConditionFalse ''Suspended''
          ''Reconciliation is suspended'');
        (case r of
           Inl err \<Rightarrow> ret (inst, True, Some (''update status: '' @ kerr_text err))
         | Inr inst \<Rightarrow> ret (inst, True, None)) }
      else if om_deletionTimestamp (instance_meta inst) \<noteq> None then
        (if l_contains_finalizer (e_libs env) (om_finalizers (instance_meta inst)) instanceFinalizer
         then do {
           Evict inst;
           r \<leftarrow> k_update_instance env (set_instance_finalizers (l_remove_finalizer (e_libs env)
             (om_finalizers (instance_meta inst)) instanceFinalizer) inst);
           (case r of
              Inl err \<Rightarrow> ret (inst, True, Some (''remove finalizer: '' @ kerr_text err))
            | Inr inst \<Rightarrow> ret (inst, True, None)) }
         else ret (inst, True, None))
      else if \<not> l_contains_finalizer (e_libs env) (om_finalizers (instance_meta inst)) instanceFinalizer
      then do {
        r \<leftarrow> k_update_instance env (set_instance_finalizers (l_add_finalizer (e_libs env)
          (om_finalizers (instance_meta inst)) instanceFinalizer) inst);
        (case r of
           Inl err \<Rightarrow> ret (inst, True, Some (''add finalizer: '' @ kerr_text err))
         | Inr inst \<Rightarrow> ret (inst, False, None)) }
      else ret (inst, False, None))"

section \<open>The wall\<close>

definition wall_failed ::
  "'w env \<Rightarrow> Instance \<Rightarrow> string \<Rightarrow> goerr \<Rightarrow> ('w, Instance \<times> (Result \<times> goerr) option) prog" where
  "wall_failed env inst msg err = do {
     instance_event env inst EventTypeWarning ''WallFailed'' (msg @ err);
     ret (instance_cond env inst ConditionReady ConditionFalse ''WallFailed'' err, Some (seconds 30, err)) }"

definition syncWall ::
  "'w env \<Rightarrow> goclient \<Rightarrow> Instance \<Rightarrow> ('w, Instance \<times> (Result \<times> goerr) option) prog" where
  "syncWall env cl inst =
     (case is_wall (instance_spec inst) of
        Some wall \<Rightarrow>
          (if wall_message wall = it_wallMessage (instance_status inst) then ret (inst, None)
           else do {
             e \<leftarrow> a_set_wall env cl (wall_message wall) (case wall_ttl wall of None \<Rightarrow> 0 | Some d \<Rightarrow> d);
             (case e of
                Some err \<Rightarrow> wall_failed env inst ''Failed to set wall banner: '' err
              | None \<Rightarrow> do {
                  instance_event env inst EventTypeNormal ''WallSet'' (''Set wall banner message: '' @ wall_message wall);
                  ret (map_instance_status (\<lambda>s. s\<lparr>it_wallMessage := wall_message wall\<rparr>) inst, None) }) })
      | None \<Rightarrow>
          (if it_wallMessage (instance_status inst) \<noteq> '''' then do {
             e \<leftarrow> a_clear_wall env cl;
             (case e of
                Some err \<Rightarrow> wall_failed env inst ''Failed to clear wall banner: '' err
              | None \<Rightarrow> do {
                  instance_event env inst EventTypeNormal ''WallCleared'' ''Cleared wall banner'';
                  ret (map_instance_status (\<lambda>s. s\<lparr>it_wallMessage := ''''\<rparr>) inst, None) }) }
           else ret (inst, None)))"

section \<open>What the server reports\<close>

definition instanceInterval :: "Instance \<Rightarrow> duration" where
  "instanceInterval inst =
     (case is_healthProbeInterval (instance_spec inst) of
        Some d \<Rightarrow> (if d > 0 then d else minutes 5)
      | None \<Rightarrow> minutes 5)"

definition set_info :: "atc_info \<Rightarrow> Instance \<Rightarrow> Instance" where
  "set_info info inst = map_instance_status (\<lambda>s. s
     \<lparr>it_version := ai_version info, it_workerVersion := ai_workerVersion info,
      it_clusterName := ai_clusterName info, it_externalURL := ai_externalURL info,
      it_webURL := (if ai_externalURL info = '''' then is_url (instance_spec inst) else ai_externalURL info)\<rparr>) inst"

definition instance_observed :: "Instance \<Rightarrow> Instance" where
  "instance_observed inst =
     map_instance_status (\<lambda>s. s\<lparr>it_observedGeneration := om_generation (instance_meta inst)\<rparr>) inst"

definition set_secret_generation :: "'w env \<Rightarrow> Instance \<Rightarrow> ('w, Instance) prog" where
  "set_secret_generation env inst = do {
     g \<leftarrow> AuthSecretGeneration env (om_namespace (instance_meta inst)) (instance_spec inst);
     ret (map_instance_status (\<lambda>s. s\<lparr>it_authSecretGeneration := g\<rparr>) inst) }"

definition save_instance :: "'w env \<Rightarrow> Instance \<Rightarrow> 'w reconcile" where
  "save_instance env inst = do {
     u \<leftarrow> k_status_instance env inst;
     (case u of
        Inl err \<Rightarrow> ret (0, Some (''update status: '' @ kerr_text err))
      | Inr inst \<Rightarrow> ret (instanceInterval inst, None)) }"

definition workers_unknown :: "'w env \<Rightarrow> Instance \<Rightarrow> atc_info \<Rightarrow> goerr \<Rightarrow> 'w reconcile" where
  "workers_unknown env inst info err = do {
     instance_event env inst EventTypeWarning ''ListFailed'' (''Failed to list Concourse workers: '' @ err);
     let inst = instance_cond env inst ConditionWorkersHealthy ConditionUnknown ''ListFailed'' err;
     let inst = instance_cond env inst ConditionAuthenticated ConditionTrue ''Authenticated'' '''';
     let inst = instance_cond env inst ConditionReady ConditionTrue ''Ready'' '''';
     inst \<leftarrow> set_secret_generation env (set_info info inst);
     save_instance env (instance_observed inst) }"

definition observe_user_and_wall :: "'w env \<Rightarrow> goclient \<Rightarrow> Instance \<Rightarrow> ('w, Instance) prog" where
  "observe_user_and_wall env cl inst = do {
     u \<leftarrow> a_user_info env cl;
     let inst = (case u of
         Inr uinfo \<Rightarrow> map_instance_status (\<lambda>s. s\<lparr>it_authenticatedUser := aui_userName uinfo,
           it_authenticatedAdmin := Some (aui_isAdmin uinfo)\<rparr>) inst
       | Inl _ \<Rightarrow> inst);
     w \<leftarrow> a_get_wall env cl;
     ret (if (case w of Inr msg \<Rightarrow> msg \<noteq> '''' | Inl _ \<Rightarrow> False)
          then instance_cond env inst ''WallActive'' ConditionTrue ''WallSet'' (case w of Inr msg \<Rightarrow> msg | Inl _ \<Rightarrow> '''')
          else instance_cond env inst ''WallActive'' ConditionFalse ''NoWall'' '''') }"

definition observe_counts :: "'w env \<Rightarrow> goclient \<Rightarrow> Instance \<Rightarrow> ('w, Instance) prog" where
  "observe_counts env cl inst = do {
     t \<leftarrow> a_list_teams env cl;
     let inst = (case t of
         Inr teams \<Rightarrow> map_instance_status (\<lambda>s. s\<lparr>it_teamCount := int32Ptr (int (length teams))\<rparr>) inst
       | Inl _ \<Rightarrow> inst);
     p \<leftarrow> a_list_pipelines env cl;
     ret (case p of
         Inr pipelines \<Rightarrow> map_instance_status (\<lambda>s. s\<lparr>it_pipelineCount := int32Ptr (int (length pipelines))\<rparr>) inst
       | Inl _ \<Rightarrow> inst) }"

definition count_state :: "string \<Rightarrow> atc_worker list \<Rightarrow> int" where
  "count_state st workers = int (length (filter (\<lambda>w. aw_state w = st) workers))"

definition set_worker_counts :: "atc_worker list \<Rightarrow> Instance \<Rightarrow> Instance" where
  "set_worker_counts workers inst = map_instance_status (\<lambda>s. s
     \<lparr>it_stalledWorkers := int32Ptr (count_state ''stalled'' workers),
      it_runningWorkers := int32Ptr (count_state ''running'' workers),
      it_landingWorkers := int32Ptr (count_state ''landing'' workers)\<rparr>) inst"

definition workers_cond :: "'w env \<Rightarrow> Instance \<Rightarrow> int \<Rightarrow> Instance" where
  "workers_cond env inst stalled =
     (if stalled > 0
      then instance_cond env inst ConditionWorkersHealthy ConditionFalse ''WorkersStalled''
        (itoa stalled @ '' worker(s) stalled'')
      else instance_cond env inst ConditionWorkersHealthy ConditionTrue ''AllRunning'' '''')"

definition report_instance :: "'w env \<Rightarrow> Instance \<Rightarrow> atc_info \<Rightarrow> atc_worker list \<Rightarrow> 'w reconcile" where
  "report_instance env inst info workers = do {
     let inst = map_instance_status (\<lambda>s. s\<lparr>it_featureFlags := ai_featureFlags info,
       it_workerCount := int32Ptr (int (length workers))\<rparr>) (set_info info inst);
     inst \<leftarrow> set_secret_generation env (instance_observed inst);
     let inst = set_worker_counts workers inst;
     let stalled = count_state ''stalled'' workers;
     (if stalled > 0
      then instance_event env inst EventTypeWarning ''WorkersStalled'' (itoa stalled @ '' worker(s) are stalled'')
      else ret ());
     let inst = workers_cond env inst stalled;
     let inst = instance_cond env inst ConditionAuthenticated ConditionTrue ''Authenticated'' '''';
     let inst = instance_cond env inst ConditionReady ConditionTrue ''Ready'' '''';
     (if it_observedGeneration (instance_status inst) \<noteq> om_generation (instance_meta inst)
      then instance_event env inst EventTypeNormal ''ReconciliationSucceeded'' ''Instance reconciled successfully''
      else ret ());
     save_instance env inst }"

section \<open>Reconcile\<close>

text \<open>The server cannot be used: both conditions say why, and it is tried again.\<close>

definition probe_failed :: "'w env \<Rightarrow> Instance \<Rightarrow> string \<Rightarrow> string \<Rightarrow> goerr \<Rightarrow> 'w reconcile" where
  "probe_failed env inst reason msg err = do {
     instance_event env inst EventTypeWarning reason (msg @ err);
     let inst = instance_cond env inst ConditionAuthenticated ConditionFalse reason err;
     k_status_instance env (instance_cond env inst ConditionReady ConditionFalse reason err);
     ret (seconds 30, None) }"

definition observe_instance :: "'w env \<Rightarrow> goclient \<Rightarrow> Instance \<Rightarrow> atc_info \<Rightarrow> atc_worker list \<Rightarrow> 'w reconcile" where
  "observe_instance env cl inst info workers = do {
     inst \<leftarrow> observe_user_and_wall env cl inst;
     (inst, failed) \<leftarrow> syncWall env cl inst;
     (case failed of
        Some (result, err) \<Rightarrow> do {
          k_status_instance env inst;
          ret (result, None) }
      | None \<Rightarrow> do {
          inst \<leftarrow> observe_counts env cl inst;
          report_instance env inst info workers }) }"

definition probe_instance :: "'w env \<Rightarrow> Instance \<Rightarrow> 'w reconcile" where
  "probe_instance env inst = do {
     c \<leftarrow> GetOrBuild env inst;
     (case c of
        Inl err \<Rightarrow> probe_failed env inst ''AuthFailed'' ''Authentication failed: '' err
      | Inr cl \<Rightarrow> do {
          i \<leftarrow> a_get_info env cl;
          (case i of
             Inl err \<Rightarrow> probe_failed env inst ''InfoFailed'' ''Failed to retrieve Concourse server info: '' err
           | Inr info \<Rightarrow> do {
               w \<leftarrow> a_list_workers env cl;
               (case w of
                  Inl err \<Rightarrow> workers_unknown env inst info err
                | Inr workers \<Rightarrow> observe_instance env cl inst info workers) }) }) }"

definition invalid_spec :: "'w env \<Rightarrow> Instance \<Rightarrow> 'w reconcile" where
  "invalid_spec env inst = do {
     let msg = ''exactly one of spec.auth.password or spec.auth.token is required'';
     let inst = instance_cond env inst ConditionAuthenticated ConditionFalse ''InvalidSpec'' msg;
     u \<leftarrow> k_status_instance env (instance_cond env inst ConditionReady ConditionFalse ''InvalidSpec'' msg);
     (case u of
        Inl err \<Rightarrow> ret (0, Some (''update status: '' @ kerr_text err))
      | Inr _ \<Rightarrow> ret (0, None)) }"

definition reconcile_instance :: "'w env \<Rightarrow> Instance \<Rightarrow> 'w reconcile" where
  "reconcile_instance env inst = do {
     (inst, handled, err) \<leftarrow> handleInstanceLifecycle env inst;
     (if handled then ret (0, err)
      else if auth_password (is_auth (instance_spec inst)) = None \<and> auth_token (is_auth (instance_spec inst)) = None
      then invalid_spec env inst
      else probe_instance env inst) }"

definition Instance_Reconcile :: "'w env \<Rightarrow> ObjectKey \<Rightarrow> 'w reconcile" where
  "Instance_Reconcile env req = do {
     r \<leftarrow> k_get_instance env req;
     (case r of
        Inl err \<Rightarrow> ret (0, ignore_not_found err)
      | Inr inst \<Rightarrow> reconcile_instance env inst) }"

section \<open>Which Instances a Secret concerns\<close>

definition instanceUsesSecret :: "Instance \<Rightarrow> string \<Rightarrow> bool" where
  "instanceUsesSecret inst name =
     (let auth = is_auth (instance_spec inst) in
      (case auth_password auth of
         None \<Rightarrow> False
       | Some grant \<Rightarrow> sks_name (pg_passwordRef grant) = name \<or>
           (case pg_clientSecretRef grant of None \<Rightarrow> False | Some r \<Rightarrow> sks_name r = name)) \<or>
      (case auth_token auth of None \<Rightarrow> False | Some ta \<Rightarrow> sks_name (ta_tokenRef ta) = name) \<or>
      (case is_tls (instance_spec inst) of
         None \<Rightarrow> False
       | Some tls \<Rightarrow> (case tls_caRef tls of None \<Rightarrow> False | Some r \<Rightarrow> sks_name r = name)))"

text \<open>The watch delivers a Secret by its namespace and name.\<close>

definition mapSecretToInstance :: "'w env \<Rightarrow> ObjectKey \<Rightarrow> ('w, ObjectKey list) prog" where
  "mapSecretToInstance env secret = do {
     r \<leftarrow> k_list_instances env (fst secret);
     (case r of
        Inl err \<Rightarrow> ret []
      | Inr items \<Rightarrow> ret (map (\<lambda>i. key_of (instance_meta i)) (filter (\<lambda>i. instanceUsesSecret i (snd secret)) items))) }"

end
