(* ===== verification/Confinement.thy ===== *)
theory Confinement
  imports Resolver
begin

text \<open>
  Whose credentials a request carries. Every request to Concourse goes through a client, and
  every client was built for one Instance that the API server had answered with: it talks to the
  URL of that Instance and signs in with what the Secrets that Instance names held when they were
  read. The predicate \<open>confined\<close> says this of a program, request by request and with everything
  read before; its rules follow the program, and a source of clients implements the interface
  \<open>client_source\<close>.
\<close>

section \<open>Requests and the clients they are sent with\<close>

primrec read_client :: "a_read \<Rightarrow> goclient option" where
  "read_client (GetInfo cl r) = Some cl"
| "read_client (ListWorkers cl r) = Some cl"
| "read_client (UserInfo cl r) = Some cl"
| "read_client (GetWall cl r) = Some cl"
| "read_client (ListTeams cl r) = Some cl"
| "read_client (ListPipelines cl r) = Some cl"
| "read_client (ReadBuild cl bid r) = Some cl"
| "read_client (BuildResources cl bid r) = Some cl"
| "read_client (BuildEvents cl bid r) = Some cl"
| "read_client (NextEvent stream r) = None"
| "read_client (ReadPipeline cl tn pn r) = Some cl"
| "read_client (ResourceTypes cl tn pn r) = Some cl"
| "read_client (ListJobs cl tn pn r) = Some cl"
| "read_client (ListResources cl tn pn r) = Some cl"
| "read_client (PipelineConfigVersion cl tn pn r) = Some cl"
| "read_client (ReadJob cl tn pn jn r) = Some cl"
| "read_client (ReadResource cl tn pn rn r) = Some cl"
| "read_client (ResourceVersions cl tn pn rn lim v r) = Some cl"

primrec write_client :: "a_write \<Rightarrow> goclient option" where
  "write_client (CreateJobBuild cl tn pn jn r) = Some cl"
| "write_client (RerunJobBuild cl tn pn jn bn r) = Some cl"
| "write_client (AbortBuild cl bid r) = Some cl"
| "write_client (PutBuildComment hc url body r) = None"
| "write_client (CustomBuildComment cl bid cm r) = Some cl"
| "write_client (CreateOrUpdateTeam cl tn auth r) = Some cl"
| "write_client (DestroyTeam cl tn r) = Some cl"
| "write_client (SetPipelineConfig cl tn pn ver yaml r) = Some cl"
| "write_client (DeletePipeline cl tn pn r) = Some cl"
| "write_client (ArchivePipeline cl tn pn r) = Some cl"
| "write_client (PausePipeline cl tn pn r) = Some cl"
| "write_client (UnpausePipeline cl tn pn r) = Some cl"
| "write_client (ExposePipeline cl tn pn r) = Some cl"
| "write_client (HidePipeline cl tn pn r) = Some cl"
| "write_client (PauseJob cl tn pn jn r) = Some cl"
| "write_client (UnpauseJob cl tn pn jn r) = Some cl"
| "write_client (UnpinResource cl tn pn rn r) = Some cl"
| "write_client (SetPinComment cl tn pn rn cm r) = Some cl"
| "write_client (PinResourceVersion cl tn pn rn vid r) = Some cl"
| "write_client (DisableResourceVersion cl tn pn rn vid r) = Some cl"
| "write_client (EnableResourceVersion cl tn pn rn vid r) = Some cl"
| "write_client (CheckResource cl tn pn rn v r) = Some cl"
| "write_client (SetWall cl msg ttl r) = Some cl"
| "write_client (ClearWall cl r) = Some cl"
| "write_client (LandWorker cl wn r) = Some cl"
| "write_client (PruneWorker cl wn r) = Some cl"
| "write_client (PasswordToken cfg user pw r) = None"

text \<open>
  A request to Concourse, the start of a watcher included, since it hands a client on. The
  next event of a stream that is open already is not one.
\<close>

fun is_request :: "io \<Rightarrow> bool" where
  "is_request (ARead a) = (read_client a \<noteq> None)"
| "is_request (AWrite a) = True"
| "is_request (SpawnWatch cl bid key) = True"
| "is_request e = False"

text \<open>
  With which client a request is sent. The comment of a build is put with the HTTP client that
  the Concourse client gives out, to a URL that starts with its own; a password grant is sent
  with no client.
\<close>

fun sent_with :: "io \<Rightarrow> goclient \<Rightarrow> bool" where
  "sent_with (ARead a) cl = (read_client a = Some cl)"
| "sent_with (AWrite (PutBuildComment hc url body r)) cl =
     (hc = gc_http cl \<and> has_prefix url (trim_suffix (gc_url cl) ''/''))"
| "sent_with (AWrite a) cl = (write_client a = Some cl)"
| "sent_with (SpawnWatch c bid key) cl = (c = cl)"
| "sent_with e cl = False"

section \<open>The client of an Instance\<close>

text \<open>The entries \<open>K\<close> hold a read of the Secret with this value under the key.\<close>

definition secret_read :: "io list \<Rightarrow> string \<Rightarrow> SecretKeySelector \<Rightarrow> string \<Rightarrow> bool" where
  "secret_read K ns ref v \<longleftrightarrow> (\<exists>secret. KRead (GetSecret (ns, sks_name ref) (Inr secret)) \<in> set K \<and>
     map_of (secret_data secret) (sks_key ref) = Some v)"

definition tls_from :: "io list \<Rightarrow> string \<Rightarrow> TLSConfig option \<Rightarrow> tls_config \<Rightarrow> bool" where
  "tls_from K ns cfg t \<longleftrightarrow>
     (case cfg of
        None \<Rightarrow> t = \<lparr>tc_insecureSkipVerify = False, tc_rootCAs = None\<rparr>
      | Some c \<Rightarrow> tc_insecureSkipVerify t = tls_insecureSkipVerify c \<and>
          (case tls_caRef c of
             None \<Rightarrow> tc_rootCAs t = None
           | Some ref \<Rightarrow> (\<exists>pem. tc_rootCAs t = Some pem \<and> secret_read K ns ref pem)))"

text \<open>What a client signs in with: the token, or a password grant at the issuer of the URL.\<close>

definition credentials_from :: "io list \<Rightarrow> string \<Rightarrow> InstanceSpec \<Rightarrow> http_client \<Rightarrow> bool" where
  "credentials_from K ns spec hc \<longleftrightarrow> tls_from K ns (is_tls spec) (hc_base hc) \<and>
     (case hc_source hc of
        StaticTokenSource token ty \<Rightarrow> auth_password (is_auth spec) = None \<and> ty = ''bearer'' \<and>
          (\<exists>ta. auth_token (is_auth spec) = Some ta \<and> secret_read K ns (ta_tokenRef ta) token)
      | ReuseTokenSource p \<Rightarrow> (\<exists>grant. auth_password (is_auth spec) = Some grant \<and>
          pts_username p = pg_username grant \<and> secret_read K ns (pg_passwordRef grant) (pts_password p) \<and>
          pts_transport p = hc_base hc \<and>
          oc_tokenURL (pts_oauthCfg p) = is_url spec @ ''/sky/issuer/token'' \<and>
          (case pg_clientSecretRef grant of
             None \<Rightarrow> oc_clientSecret (pts_oauthCfg p) = flyOAuthClientSecret
           | Some ref \<Rightarrow> secret_read K ns ref (oc_clientSecret (pts_oauthCfg p)))))"

definition built_for :: "io list \<Rightarrow> Instance \<Rightarrow> goclient \<Rightarrow> bool" where
  "built_for K i cl \<longleftrightarrow> gc_url cl = is_url (instance_spec i) \<and>
     credentials_from K (om_namespace (instance_meta i)) (instance_spec i) (gc_http cl)"

text \<open>The API server answered with this object, to a read or to an update.\<close>

definition from_api :: "Instance \<Rightarrow> io list \<Rightarrow> bool" where
  "from_api i K \<longleftrightarrow> (\<exists>key. KRead (GetInstance key (Inr i)) \<in> set K) \<or>
     (\<exists>j. KWrite (UpdateInstance j (Inr i)) \<in> set K)"

text \<open>The cache holds, under the key of an Instance that was read, a client built for it.\<close>

definition client_known :: "io list \<Rightarrow> string \<Rightarrow> goclient \<Rightarrow> bool" where
  "client_known K k cl \<longleftrightarrow> (\<exists>i. from_api i K \<and> cacheKey i = k \<and> built_for K i cl)"

definition cache_sound :: "store \<Rightarrow> io list \<Rightarrow> bool" where
  "cache_sound st K \<longleftrightarrow> (\<forall>k cl. st k = Some cl \<longrightarrow> client_known K k cl)"

lemma secret_read_mono: "secret_read K ns ref v \<Longrightarrow> set K \<subseteq> set L \<Longrightarrow> secret_read L ns ref v"
  unfolding secret_read_def by blast

lemma tls_from_mono: "tls_from K ns cfg t \<Longrightarrow> set K \<subseteq> set L \<Longrightarrow> tls_from L ns cfg t"
  unfolding tls_from_def by (auto split: option.splits intro: secret_read_mono)

lemma credentials_from_mono:
  assumes "credentials_from K ns spec hc" and sub: "set K \<subseteq> set L"
  shows "credentials_from L ns spec hc"
proof -
  have s: "secret_read K ns ref v \<longrightarrow> secret_read L ns ref v" for ref v
    using secret_read_mono [OF _ sub] by blast
  have "tls_from L ns (is_tls spec) (hc_base hc)"
    using assms(1) tls_from_mono [OF _ sub] by (simp add: credentials_from_def)
  then show ?thesis using assms(1) s unfolding credentials_from_def
    by (cases "hc_source hc") (auto split: option.splits)
qed

lemma built_for_mono: "built_for K i cl \<Longrightarrow> set K \<subseteq> set L \<Longrightarrow> built_for L i cl"
  unfolding built_for_def by (blast intro: credentials_from_mono)

lemma from_apiI:
  "KRead (GetInstance key (Inr i)) \<in> set K \<Longrightarrow> from_api i K"
  "KWrite (UpdateInstance j (Inr i)) \<in> set K \<Longrightarrow> from_api i K"
  unfolding from_api_def by blast+

lemma from_api_mono: "from_api i K \<Longrightarrow> set K \<subseteq> set L \<Longrightarrow> from_api i L"
  unfolding from_api_def by blast

lemma persistent_from_api: "persistent (from_api i)"
  unfolding persistent_def by (blast intro: from_api_mono)

lemma client_known_mono: "client_known K k cl \<Longrightarrow> set K \<subseteq> set L \<Longrightarrow> client_known L k cl"
  unfolding client_known_def by (blast intro: from_api_mono built_for_mono)

lemma cache_sound_mono: "cache_sound st K \<Longrightarrow> set K \<subseteq> set L \<Longrightarrow> cache_sound st L"
  unfolding cache_sound_def by (blast intro: client_known_mono)

section \<open>Confined programs\<close>

text \<open>
  \<open>K\<close> is what the journal held when the run began, \<open>es\<close> what the run added. A request is
  entitled when it is sent with the client of an Instance that the run itself has read before.
\<close>

definition entitled :: "io list \<Rightarrow> io list \<Rightarrow> goclient \<Rightarrow> bool" where
  "entitled K es cl \<longleftrightarrow> (\<exists>j. from_api j es \<and> client_known (K @ es) (cacheKey j) cl)"

definition run_entitled :: "io list \<Rightarrow> io list \<Rightarrow> bool" where
  "run_entitled K es \<longleftrightarrow> (\<forall>ds e fs. es = ds @ e # fs \<and> is_request e \<longrightarrow>
     (\<exists>cl. sent_with e cl \<and> entitled K ds cl))"

definition secure :: "io list \<Rightarrow> io list \<Rightarrow> ('w, memory, io) machine \<Rightarrow> bool" where
  "secure K es s \<longleftrightarrow> journal s = K @ es \<and> cache_sound (mem_store (mem s)) (K @ es) \<and> run_entitled K es"

type_synonym evidence = "io list \<Rightarrow> io list \<Rightarrow> bool"

definition confined :: "evidence \<Rightarrow> ('w, 'a) prog \<Rightarrow> ('a \<Rightarrow> evidence) \<Rightarrow> bool" where
  "confined E p Q \<longleftrightarrow> (\<forall>K es s. secure K es s \<and> E K es \<longrightarrow>
     (\<exists>fs. secure K (es @ fs) (final_of p s) \<and> Q (result_of p s) K (es @ fs)))"

lemma entitled_mono: "entitled K es cl \<Longrightarrow> entitled K (es @ fs) cl"
  unfolding entitled_def by (fastforce intro: from_api_mono client_known_mono)

lemma run_entitled_append:
  assumes "run_entitled K es"
    and new: "\<And>ds e gs. fs = ds @ e # gs \<Longrightarrow> is_request e \<Longrightarrow> \<exists>cl. sent_with e cl \<and> entitled K (es @ ds) cl"
  shows "run_entitled K (es @ fs)"
  unfolding run_entitled_def
proof (intro allI impI)
  fix ds e gs
  assume h: "es @ fs = ds @ e # gs \<and> is_request e"
  then obtain us where "es = ds @ us \<and> us @ fs = e # gs \<or> es @ us = ds \<and> fs = us @ e # gs"
    by (auto simp: append_eq_append_conv2)
  then consider (new) hs where "ds = es @ hs" "fs = hs @ e # gs" | (old) hs where "es = ds @ e # hs"
    by (cases us) auto
  then show "\<exists>cl. sent_with e cl \<and> entitled K ds cl"
  proof cases
    case new
    then show ?thesis using h assms(2) by blast
  next
    case old
    then show ?thesis using h assms(1) unfolding run_entitled_def by blast
  qed
qed

lemma run_entitled_nil [simp]: "run_entitled K []"
  by (simp add: run_entitled_def)

text \<open>The rules.\<close>

lemma confined_return: "(\<And>K es. E K es \<Longrightarrow> Q a K es) \<Longrightarrow> confined E (ret a) Q"
  unfolding confined_def by (intro allI impI exI [of _ "[]"]) (simp add: result_of_def final_of_def)

lemma confined_post: "confined E p Q \<Longrightarrow> (\<And>a K es. Q a K es \<Longrightarrow> R a K es) \<Longrightarrow> confined E p R"
  unfolding confined_def by blast

lemma confined_pre: "confined E p Q \<Longrightarrow> (\<And>K es. D K es \<Longrightarrow> E K es) \<Longrightarrow> confined D p Q"
  unfolding confined_def by blast

lemma confined_bind:
  assumes "confined E p F" and "\<And>a. confined (F a) (k a) Q"
  shows "confined E (State_Monad.bind p k) Q"
  unfolding confined_def
proof (intro allI impI)
  fix K es and s :: "('a, memory, io) machine"
  assume "secure K es s \<and> E K es"
  then obtain fs where "secure K (es @ fs) (final_of p s)" "F (result_of p s) K (es @ fs)"
    using assms(1) unfolding confined_def by blast
  then obtain gs where "secure K ((es @ fs) @ gs) (final_of (k (result_of p s)) (final_of p s))"
    "Q (result_of (k (result_of p s)) (final_of p s)) K ((es @ fs) @ gs)"
    using assms(2) unfolding confined_def by blast
  then show "\<exists>fs. secure K (es @ fs) (final_of (State_Monad.bind p k) s) \<and>
      Q (result_of (State_Monad.bind p k) s) K (es @ fs)"
    by (intro exI [of _ "fs @ gs"]) (simp only: result_of_bind final_of_bind append_assoc simp_thms)
qed

lemma confined_case:
  "(\<And>e. r = Inl e \<Longrightarrow> confined E (f e) Q) \<Longrightarrow> (\<And>x. r = Inr x \<Longrightarrow> confined E (g x) Q)
     \<Longrightarrow> confined E (case r of Inl e \<Rightarrow> f e | Inr x \<Rightarrow> g x) Q"
  "(q = None \<Longrightarrow> confined E h Q) \<Longrightarrow> (\<And>x. q = Some x \<Longrightarrow> confined E (k x) Q)
     \<Longrightarrow> confined E (case q of None \<Rightarrow> h | Some x \<Rightarrow> k x) Q"
  "(b \<Longrightarrow> confined E p Q) \<Longrightarrow> (\<not> b \<Longrightarrow> confined E p' Q) \<Longrightarrow> confined E (if b then p else p') Q"
  "(\<And>x y. z = (x, y) \<Longrightarrow> confined E (c x y) Q) \<Longrightarrow> confined E (case z of (x, y) \<Rightarrow> c x y) Q"
  "confined E (d v) Q \<Longrightarrow> confined E (let x = v in d x) Q"
  by (auto split: sum.splits option.splits prod.splits)

text \<open>
  A program that leaves the store alone is confined when it sends its requests with a client it
  is entitled to, or sends none; what it adds to the journal is what its \<open>outcome\<close> says.
\<close>

definition only_with :: "goclient option \<Rightarrow> io \<Rightarrow> bool" where
  "only_with c e \<longleftrightarrow> (is_request e \<longrightarrow> (\<exists>cl. c = Some cl \<and> sent_with e cl))"

definition keeps_store :: "('w, 'a) prog \<Rightarrow> bool" where
  "keeps_store p \<longleftrightarrow> (\<forall>st. keeps (\<lambda>m. mem_store m = st) p)"

lemma keeps_storeD: "keeps_store p \<Longrightarrow> mem_store (mem (final_of p s)) = mem_store (mem s)"
  unfolding keeps_store_def by (metis (mono_tags, lifting) keepsD)

lemma confined_frame:
  assumes out: "outcome p R" and only: "emits (only_with c) p" and store: "keeps_store p"
    and ent: "\<And>cl K es. c = Some cl \<Longrightarrow> E K es \<Longrightarrow> entitled K es cl"
    and s: "secure K es s" "E K es"
  shows "\<exists>fs. secure K (es @ fs) (final_of p s) \<and> R (result_of p s) fs"
proof -
  obtain fs where j: "journal (final_of p s) = journal s @ fs" and R: "R (result_of p s) fs"
    and fs: "list_all (only_with c) fs"
    using outcome_conj [OF out only [unfolded emits_def]] unfolding outcome_def by blast
  have "run_entitled K (es @ fs)"
  proof (rule run_entitled_append)
    show "run_entitled K es" using s by (simp add: secure_def)
    fix ds e gs assume "fs = ds @ e # gs" and "is_request e"
    with fs obtain cl where cl: "c = Some cl" "sent_with e cl" by (auto simp: only_with_def)
    with ent s have "entitled K (es @ ds) cl" by (blast intro: entitled_mono)
    with cl show "\<exists>cl. sent_with e cl \<and> entitled K (es @ ds) cl" by blast
  qed
  moreover have "cache_sound (mem_store (mem (final_of p s))) (K @ es @ fs)"
    using s by (auto simp: keeps_storeD [OF store] secure_def intro: cache_sound_mono)
  ultimately have "secure K (es @ fs) (final_of p s)"
    using s j by (simp add: secure_def)
  with R show ?thesis by blast
qed

lemma confined_quiet:
  assumes "outcome p R" and "emits (only_with None) p" and "keeps_store p"
    and "\<And>a K es fs. E K es \<Longrightarrow> R a fs \<Longrightarrow> Q a K (es @ fs)"
  shows "confined E p Q"
  unfolding confined_def
proof (intro allI impI)
  fix K es and s :: "('a, memory, io) machine"
  assume s: "secure K es s \<and> E K es"
  then obtain fs where "secure K (es @ fs) (final_of p s)" "R (result_of p s) fs"
    using confined_frame [OF assms(1-3), of E K es s] by auto
  with s assms(4) show "\<exists>fs. secure K (es @ fs) (final_of p s) \<and> Q (result_of p s) K (es @ fs)"
    by blast
qed

lemma confined_using:
  assumes "emits (only_with (Some cl)) p" and "keeps_store p"
    and "\<And>K es. E K es \<Longrightarrow> entitled K es cl"
  shows "confined E p (\<lambda>_ _ _. True)"
  unfolding confined_def
proof (intro allI impI)
  fix K es and s :: "('a, memory, io) machine"
  assume "secure K es s \<and> E K es"
  then show "\<exists>fs. secure K (es @ fs) (final_of p s) \<and> True"
    using confined_frame [OF total_outcome [OF assms(1)] assms(1,2), of E K es s] assms(3) by auto
qed

section \<open>Building a client\<close>

lemma readSecretKey_reads:
  "outcome (readSecretKey env ns ref) (\<lambda>r es. \<forall>v. r = Inr v \<longrightarrow> secret_read es ns ref v)"
  unfolding readSecretKey_def by (intro outcome_intros) (auto simp: secret_read_def)

lemma outcome_readSecretKey:
  "(\<And>r es. \<forall>v. r = Inr v \<longrightarrow> secret_read es ns ref v \<Longrightarrow> P r es) \<Longrightarrow> outcome (readSecretKey env ns ref) P"
  by (rule outcome_mono [OF readSecretKey_reads])

lemma secret_read_append [simp]:
  "secret_read K ns ref v \<Longrightarrow> secret_read (K @ L) ns ref v"
  "secret_read K ns ref v \<Longrightarrow> secret_read (L @ K) ns ref v"
  by (auto simp: secret_read_def)

lemma buildTLSConfig_from:
  "outcome (buildTLSConfig env ns cfg) (\<lambda>r es. \<forall>t. r = Inr t \<longrightarrow> tls_from es ns cfg t)"
  unfolding buildTLSConfig_def by (intro outcome_intros outcome_readSecretKey) (auto simp: tls_from_def)

lemma BuildHTTPClient_credentials:
  "outcome (BuildHTTPClient env ns spec) (\<lambda>r es. \<forall>hc. r = Inr hc \<longrightarrow> credentials_from es ns spec hc)"
  unfolding BuildHTTPClient_def passwordHTTPClient_def tokenHTTPClient_def
  by (intro outcome_intros outcome_mono [OF buildTLSConfig_from] outcome_readSecretKey)
    (auto simp: credentials_from_def intro: tls_from_mono)

text \<open>When the cache holds no client for an Instance, the one that comes out was built there and then.\<close>

lemma GetOrBuild_miss_built:
  assumes "Cache_Get (mem_store (mem s)) i = None" and "result_of (GetOrBuild env i) s = Inr cl"
  shows "built_for (emitted (GetOrBuild env i) s) i cl"
proof -
  let ?p = "do {
    r \<leftarrow> BuildHTTPClient env (om_namespace (instance_meta i)) (instance_spec i);
    (case r of
       Inl err \<Rightarrow> ret (Inl err)
     | Inr hc \<Rightarrow> do {
         let cl = NewConcourseClient (is_url (instance_spec i)) hc;
         m \<leftarrow> get_mem;
         put_mem (m\<lparr>mem_store := Cache_Set (mem_store m) i cl\<rparr>);
         ret (Inr cl) }) }"
  have "outcome ?p (\<lambda>r es. \<forall>cl. r = Inr cl \<longrightarrow> built_for es i cl)"
    unfolding Let_def by (intro outcome_intros outcome_mono [OF BuildHTTPClient_credentials])
      (auto simp: built_for_def NewConcourseClient_def)
  from outcomeD [OF this] assms(2) GetOrBuild_miss_run [OF assms(1), of env] show ?thesis
    unfolding result_of_def emitted_def final_of_def by simp
qed

section \<open>Sources of clients\<close>

locale client_source =
  fixes source :: "'x \<Rightarrow> ('w, goerr + 'r) prog"
    and client_of :: "'r \<Rightarrow> goclient"
    and known :: "'x \<Rightarrow> io list \<Rightarrow> bool"
  assumes yields: "(\<And>K es. E K es \<Longrightarrow> known x es) \<Longrightarrow>
    confined E (source x) (\<lambda>r K es. \<forall>y. r = Inr y \<longrightarrow> entitled K es (client_of y))"
begin

text \<open>What follows is confined if it sends its requests with the client that came out.\<close>

lemma gate:
  assumes "\<And>K es. E K es \<Longrightarrow> known x es"
    and "\<And>err. emits (only_with None) (h err)" and "\<And>err. keeps_store (h err)"
    and "\<And>y. emits (only_with (Some (client_of y))) (k y)" and "\<And>y. keeps_store (k y)"
  shows "confined E (State_Monad.bind (source x) (\<lambda>r. case r of Inl err \<Rightarrow> h err | Inr y \<Rightarrow> k y)) (\<lambda>_ _ _. True)"
proof (rule confined_bind [OF yields [OF assms(1)]])
  fix r :: "goerr + 'r"
  show "confined (\<lambda>K es. \<forall>y. r = Inr y \<longrightarrow> entitled K es (client_of y))
      (case r of Inl err \<Rightarrow> h err | Inr y \<Rightarrow> k y) (\<lambda>_ _ _. True)"
    using confined_quiet [OF total_outcome [OF assms(2)] assms(2,3)] confined_using [OF assms(4,5)]
    by (cases r) auto
qed

end

lemma cache_sound_Set:
  "cache_sound st K \<Longrightarrow> client_known K (cacheKey i) cl \<Longrightarrow> cache_sound (Cache_Set st i cl) K"
  by (simp add: cache_sound_def Cache_Set_def)

lemma cache_sound_Evict: "cache_sound st K \<Longrightarrow> cache_sound (Cache_Evict st i) K"
  by (simp add: cache_sound_def Cache_Evict_def)

lemma confined_Evict: "confined E (Evict i) (\<lambda>_. E)"
  unfolding confined_def
  by (intro allI impI exI [of _ "[]"]) (simp add: Evict_def secure_def run_simps cache_sound_Evict)

lemma keeps_store_intro: "(\<And>st. keeps (\<lambda>m. mem_store m = st) p) \<Longrightarrow> keeps_store p"
  by (simp add: keeps_store_def)

lemma BuildHTTPClient_quiet:
  "emits (only_with None) (BuildHTTPClient env ns spec)" "keeps_store (BuildHTTPClient env ns spec)"
  by (rule emits_mono [OF BuildHTTPClient_secrets]) (auto simp: is_secret_read_def only_with_def
      intro!: keeps_store_intro keeps_intros)

lemma GetOrBuild_yields:
  assumes known: "\<And>K es. E K es \<Longrightarrow> from_api i es"
  shows "confined E (GetOrBuild env i) (\<lambda>r K es. \<forall>cl. r = Inr cl \<longrightarrow> entitled K es cl)"
  unfolding confined_def
proof (intro allI impI)
  fix K es and s :: "('a, memory, io) machine"
  assume s: "secure K es s \<and> E K es"
  let ?b = "BuildHTTPClient env (om_namespace (instance_meta i)) (instance_spec i)"
  let ?p = "GetOrBuild env i"
  show "\<exists>fs. secure K (es @ fs) (final_of ?p s) \<and> (\<forall>cl. result_of ?p s = Inr cl \<longrightarrow> entitled K (es @ fs) cl)"
  proof (cases "Cache_Get (mem_store (mem s)) i")
    case (Some cl)
    then have "client_known (K @ es) (cacheKey i) cl"
      using s by (simp add: secure_def cache_sound_def Cache_Get_def)
    then have "entitled K es cl" using known s by (auto simp: entitled_def)
    then show ?thesis using s GetOrBuild_hit_run [OF Some, of env]
      by (intro exI [of _ "[]"]) (simp add: result_of_def final_of_def)
  next
    case None
    obtain fs where b: "secure K (es @ fs) (final_of ?b s)"
      and cred: "\<forall>hc. result_of ?b s = Inr hc \<longrightarrow>
        credentials_from fs (om_namespace (instance_meta i)) (instance_spec i) hc"
      using confined_frame [OF BuildHTTPClient_credentials BuildHTTPClient_quiet, of E K es s] s by blast
    note run = GetOrBuild_miss_run [OF None, of env]
    show ?thesis
    proof (cases "result_of ?b s")
      case (Inl err)
      then have "run_state ?p s = (Inl err, final_of ?b s)"
        using run by (simp add: result_of_def final_of_def split: prod.splits)
      with b show ?thesis by (auto simp: result_of_def final_of_def)
    next
      case (Inr hc)
      let ?cl = "NewConcourseClient (is_url (instance_spec i)) hc"
      let ?t = "final_of ?b s"
      have fin: "run_state ?p s = (Inr ?cl, ?t\<lparr>mem := (mem ?t)\<lparr>mem_store := Cache_Set (mem_store (mem ?t)) i ?cl\<rparr>\<rparr>)"
        using run Inr by (simp add: result_of_def final_of_def Let_def get_mem_def put_mem_def split: prod.splits)
      have api: "from_api i (K @ es @ fs)" "from_api i (es @ fs)"
        using known [of K es] s by (auto elim: from_api_mono)
      have "built_for (K @ es @ fs) i ?cl"
        using cred Inr by (auto simp: built_for_def NewConcourseClient_def intro: credentials_from_mono)
      with api have k: "client_known (K @ es @ fs) (cacheKey i) ?cl" by (auto simp: client_known_def)
      then have "entitled K (es @ fs) ?cl" using api by (auto simp: entitled_def)
      moreover have "secure K (es @ fs) (final_of ?p s)"
        using b k by (simp add: final_of_def [of ?p] fin secure_def cache_sound_Set)
      ultimately show ?thesis by (auto simp: result_of_def [of ?p] fin)
    qed
  qed
qed


section \<open>The resolvers are sources\<close>

text \<open>A call that is no request, and what follows it, which knows the answer.\<close>

lemma confined_call:
  assumes "\<And>a. \<not> is_request (c a)" and "\<And>a. confined (\<lambda>K es. E K es \<and> c a \<in> set es) (k a) Q"
    and "\<And>K es fs. E K es \<Longrightarrow> E K (es @ fs)"
  shows "confined E (State_Monad.bind (extern c f) k) Q"
proof (rule confined_bind)
  show "confined E (extern c f) (\<lambda>a K es. E K es \<and> c a \<in> set es)"
    by (rule confined_quiet [where R = "\<lambda>a es. es = [c a]"], rule outcome_extern)
      (use assms(1,3) in \<open>auto intro!: emits_intros keeps_store_intro keeps_intros simp: only_with_def\<close>)
qed (rule assms(2))

lemma resolveInstance_yields:
  "confined E (resolveInstanceForTeam env team) (\<lambda>r K es. \<forall>cl. r = Inr cl \<longrightarrow> entitled K es cl)"
  unfolding resolveInstanceForTeam_def
  by (rule confined_pre [where E = "\<lambda>_ _. True"],
      intro confined_call confined_case confined_return confined_bind [OF GetOrBuild_yields])
    (auto intro: from_apiI)

lemma resolvePipeline_yields:
  "confined E (resolveClientForPipeline env pipeline) (\<lambda>r K es. \<forall>y. r = Inr y \<longrightarrow> entitled K es (fst y))"
  unfolding resolveClientForPipeline_def
  by (rule confined_pre [where E = "\<lambda>_ _. True"],
      intro confined_call confined_case confined_return confined_bind [OF resolveInstance_yields]) auto

lemma resolveJob_yields:
  "confined E (resolveClientForJob env job) (\<lambda>r K es. \<forall>y. r = Inr y \<longrightarrow> entitled K es (fst y))"
  unfolding resolveClientForJob_def
  by (rule confined_pre [where E = "\<lambda>_ _. True"],
      intro confined_call confined_case confined_return confined_bind [OF resolvePipeline_yields]) auto

interpretation cache_source: client_source "GetOrBuild env" "\<lambda>cl. cl" from_api for env
  by unfold_locales (rule GetOrBuild_yields)

interpretation team_source: client_source "resolveInstanceForTeam env" "\<lambda>cl. cl" "\<lambda>_ _. True" for env
  by unfold_locales (rule resolveInstance_yields)

interpretation pipeline_source: client_source "resolveClientForPipeline env" fst "\<lambda>_ _. True" for env
  by unfold_locales (rule resolvePipeline_yields)

interpretation job_source: client_source "resolveClientForJob env" fst "\<lambda>_ _. True" for env
  by unfold_locales (rule resolveJob_yields)

end
