(* ===== verification/Instance_Proofs.thy ===== *)
theory Instance_Proofs
  imports Instance_Controller Confinement
begin

text \<open>
  What the Instance reconciler guarantees: the Secret watch covers every Secret a client is
  built from, the client of a deleted Instance is gone before its finalizer is, the wall
  follows the spec, and the status says what the server answered.
\<close>

section \<open>Secrets\<close>

lemma instanceUsesSecret_covers: "n \<in> set (spec_secrets (instance_spec i)) \<Longrightarrow> instanceUsesSecret i n"
  by (cases "is_tls (instance_spec i)"; cases "auth_password (is_auth (instance_spec i))";
      cases "auth_token (is_auth (instance_spec i))")
    (auto simp: instanceUsesSecret_def spec_secrets_def Let_def split: option.splits dest: sym [of "Some _"])

lemma instanceUsesSecret_exact:
  "auth_password (is_auth (instance_spec i)) = None \<or> auth_token (is_auth (instance_spec i)) = None \<Longrightarrow>
   instanceUsesSecret i n \<longleftrightarrow> n \<in> set (spec_secrets (instance_spec i))"
  by (cases "is_tls (instance_spec i)"; cases "auth_password (is_auth (instance_spec i))";
      cases "auth_token (is_auth (instance_spec i))")
    (auto simp: instanceUsesSecret_def spec_secrets_def Let_def split: option.splits)

lemma mapSecret_run:
  assumes "x_list_instances (e_k8s env) ns (world s) = (Inr items, w)"
  shows "result_of (mapSecretToInstance env (ns, n)) s =
    map (\<lambda>i. key_of (instance_meta i)) (filter (\<lambda>i. instanceUsesSecret i n) items)"
  using assms by (simp add: mapSecretToInstance_def result_of_def extern_def)

text \<open>C20: No Secret goes unwatched: whatever Secret is read when the client of an Instance is
  built or its Secret generation is taken, a change of that Secret is mapped to that Instance,
  provided the API server lists it in its namespace.\<close>

theorem secret_watch_covers_reads:
  assumes "KRead (GetSecret (ns, n) r) \<in> set (emitted (GetOrBuild env i) s) \<or>
      KRead (GetSecret (ns, n) r) \<in> set (emitted (AuthSecretGeneration env (om_namespace (instance_meta i)) (instance_spec i)) s)"
    and "x_list_instances (e_k8s env) ns (world t) = (Inr items, w)" and "i \<in> set items"
  shows "ns = om_namespace (instance_meta i) \<and>
    key_of (instance_meta i) \<in> set (result_of (mapSecretToInstance env (ns, n)) t)"
proof -
  have "is_secret_read (om_namespace (instance_meta i)) (spec_secrets (instance_spec i)) (KRead (GetSecret (ns, n) r))"
    using assms(1) emitsD [OF GetOrBuild_secrets] emitsD [OF AuthSecretGeneration_secrets] by blast
  then have "ns = om_namespace (instance_meta i)" "n \<in> set (spec_secrets (instance_spec i))"
    by (auto simp: is_secret_read_def)
  with assms(3) instanceUsesSecret_covers [of n i] show ?thesis
    unfolding mapSecret_run [OF assms(2), of n] by auto
qed

theorem secret_watch_covers_reads_witness:
  "(''ci'', ''main'') \<in> set (result_of (mapSecretToInstance (demo_env :: unit env) (''ci'', ''creds'')) (demo_start ()))"
proof -
  have read: "KRead (GetSecret (''ci'', ''creds'') (Inr demo_secret))
      \<in> set (emitted (GetOrBuild (demo_env :: unit env) demo_instance) (demo_start ()))"
    by (simp add: eval_simps GetOrBuild_def auth_defs Cache_Get_def cong: eval_cong)
  have lists: "x_list_instances (e_k8s (demo_env :: unit env)) ''ci'' (world (demo_start ())) = (Inr [demo_instance], ())"
    by simp
  from secret_watch_covers_reads [OF disjI1 [OF read] lists] show ?thesis by (simp add: key_of_def)
qed

text \<open>The Secrets whose contents decide what client an Instance gets. The world in which every Secret
  of the API server holds what \<open>f\<close> says, and all else is as it was:\<close>

definition with_secrets :: "(ObjectKey \<Rightarrow> Secret) \<Rightarrow> 'w env \<Rightarrow> 'w env" where
  "with_secrets f env = env\<lparr>e_k8s := (e_k8s env)\<lparr>x_get_secret := (\<lambda>key w. (Inr (f key), w))\<rparr>\<rparr>"

text \<open>A Secret is one the client is built from if building it reads that Secret in some such world.\<close>

definition would_read :: "'w env \<Rightarrow> Instance \<Rightarrow> ObjectKey \<Rightarrow> bool" where
  "would_read env i key \<longleftrightarrow>
     (\<exists>f s r. KRead (GetSecret key r) \<in> set (emitted (build_client (with_secrets f env) i) s))"

text \<open>The keys a spec asks its Secrets for.\<close>

definition spec_keys :: "InstanceSpec \<Rightarrow> string list" where
  "spec_keys spec =
     (case is_tls spec of None \<Rightarrow> [] | Some cfg \<Rightarrow>
        (case tls_caRef cfg of None \<Rightarrow> [] | Some ca \<Rightarrow> [sks_key ca])) @
     (case auth_password (is_auth spec) of
        Some grant \<Rightarrow> sks_key (pg_passwordRef grant) #
          (case pg_clientSecretRef grant of None \<Rightarrow> [] | Some r \<Rightarrow> [sks_key r])
      | None \<Rightarrow> (case auth_token (is_auth spec) of None \<Rightarrow> [] | Some ta \<Rightarrow> [sks_key (ta_tokenRef ta)]))"

text \<open>A Secret that holds the same text under all of them.\<close>

definition filled :: "string \<Rightarrow> string list \<Rightarrow> Secret" where
  "filled v ks = \<lparr>secret_generation = 0, secret_data = map (\<lambda>k. (k, v)) ks\<rparr>"

lemma filled_lookup: "k \<in> set ks \<Longrightarrow> map_of (secret_data (filled v ks)) k = Some v"
  by (induction ks) (auto simp: filled_def)

abbreviation filled_env :: "string \<Rightarrow> string list \<Rightarrow> 'w env \<Rightarrow> 'w env" where
  "filled_env v ks env \<equiv> with_secrets (\<lambda>_. filled v ks) env"

lemma outcome_filled:
  assumes "sks_key ref \<in> set ks" and "P (Inr v) [KRead (GetSecret (ns, sks_name ref) (Inr (filled v ks)))]"
  shows "outcome (readSecretKey (filled_env v ks env) ns ref) P"
  unfolding outcome_def
  using filled_lookup [OF assms(1), of v] assms(2)
  by (simp add: readSecretKey_def with_secrets_def extern_def result_of_def final_of_def)

lemma with_secrets_libs [simp]: "e_libs (with_secrets f env) = e_libs env"
  by (simp add: with_secrets_def)

text \<open>With all keys in place and a certificate that parses, no read is left out.\<close>

lemma tls_filled:
  assumes "l_append_certs_ok (e_libs env) v"
    and "\<And>c ca. cfg = Some c \<Longrightarrow> tls_caRef c = Some ca \<Longrightarrow> sks_key ca \<in> set ks"
  shows "outcome (buildTLSConfig (filled_env v ks env) ns cfg) (\<lambda>r es. \<not> isl r \<and>
    (\<forall>c ca. cfg = Some c \<longrightarrow> tls_caRef c = Some ca \<longrightarrow> KRead (GetSecret (ns, sks_name ca) (Inr (filled v ks))) \<in> set es))"
  unfolding buildTLSConfig_def
  by (intro outcome_intros outcome_filled) (use assms in auto)

lemma grant_filled:
  assumes "sks_key (pg_passwordRef g) \<in> set ks" and "\<And>r. pg_clientSecretRef g = Some r \<Longrightarrow> sks_key r \<in> set ks"
  shows "outcome (passwordHTTPClient (filled_env v ks env) ns url g t) (\<lambda>_ es.
    KRead (GetSecret (ns, sks_name (pg_passwordRef g)) (Inr (filled v ks))) \<in> set es \<and>
    (\<forall>r. pg_clientSecretRef g = Some r \<longrightarrow> KRead (GetSecret (ns, sks_name r) (Inr (filled v ks))) \<in> set es))"
  unfolding passwordHTTPClient_def
  by (intro outcome_intros outcome_filled) (use assms in auto)

lemma token_filled:
  assumes "sks_key (ta_tokenRef ta) \<in> set ks"
  shows "outcome (tokenHTTPClient (filled_env v ks env) ns ta t) (\<lambda>_ es.
    KRead (GetSecret (ns, sks_name (ta_tokenRef ta)) (Inr (filled v ks))) \<in> set es)"
  unfolding tokenHTTPClient_def by (intro outcome_intros outcome_filled) (use assms in auto)

lemma build_filled:
  assumes "l_append_certs_ok (e_libs env) v" and "ks = spec_keys spec"
  shows "outcome (BuildHTTPClient (filled_env v ks env) ns spec) (\<lambda>_ es.
    \<forall>n\<in>set (spec_secrets spec). KRead (GetSecret (ns, n) (Inr (filled v ks))) \<in> set es)"
  unfolding BuildHTTPClient_def
proof (rule outcome_bind, rule outcome_mono [OF tls_filled [OF assms(1)]])
  fix c ca
  assume "is_tls spec = Some c" "tls_caRef c = Some ca"
  then show "sks_key ca \<in> set ks" by (simp add: assms(2) spec_keys_def)
next
  fix r :: "goerr + tls_config" and es
  assume tls: "\<not> isl r \<and> (\<forall>c ca. is_tls spec = Some c \<longrightarrow> tls_caRef c = Some ca \<longrightarrow>
    KRead (GetSecret (ns, sks_name ca) (Inr (filled v ks))) \<in> set es)"
  let ?done = "\<lambda>_ fs. \<forall>n\<in>set (spec_secrets spec). KRead (GetSecret (ns, n) (Inr (filled v ks))) \<in> set (es @ fs)"
  obtain t where r: "r = Inr t" using tls by (cases r) auto
  show "outcome (case r of Inl err \<Rightarrow> ret (Inl (''build TLS config: '' @ err))
    | Inr transport \<Rightarrow> (case auth_password (is_auth spec) of
        Some grant \<Rightarrow> passwordHTTPClient (filled_env v ks env) ns (is_url spec) grant transport
      | None \<Rightarrow> (case auth_token (is_auth spec) of
          Some ta \<Rightarrow> tokenHTTPClient (filled_env v ks env) ns ta transport
        | None \<Rightarrow> ret (Inl ''instance auth is required: set spec.auth.password or spec.auth.token'')))) ?done"
  proof (cases "auth_password (is_auth spec)")
    case (Some g)
    have "outcome (passwordHTTPClient (filled_env v ks env) ns (is_url spec) g t) ?done"
      by (rule outcome_mono [OF grant_filled])
        (use tls Some in \<open>auto simp: assms(2) spec_keys_def spec_secrets_def split: option.splits\<close>)
    with r Some show ?thesis by simp
  next
    case None
    have token: "outcome (tokenHTTPClient (filled_env v ks env) ns ta t) ?done" if "auth_token (is_auth spec) = Some ta" for ta
      by (rule outcome_mono [OF token_filled])
        (use tls None that in \<open>auto simp: assms(2) spec_keys_def spec_secrets_def split: option.splits\<close>)
    have "outcome (ret x) ?done" if "auth_token (is_auth spec) = None" for x
      by (rule outcome_return) (use tls None that in \<open>auto simp: spec_secrets_def split: option.splits dest: sym [of "Some _"]\<close>)
    with r None token show ?thesis by (cases "auth_token (is_auth spec)") auto
  qed
qed

lemma filled_reads:
  assumes "l_append_certs_ok (e_libs env) v" and "n \<in> set (spec_secrets (instance_spec i))"
  shows "KRead (GetSecret (om_namespace (instance_meta i), n) (Inr (filled v (spec_keys (instance_spec i)))))
    \<in> set (emitted (build_client (filled_env v (spec_keys (instance_spec i)) env) i) s)"
  using outcomeD [OF build_filled [OF assms(1) refl]] assms(2) by blast

lemma would_read_iff:
  assumes "l_append_certs_ok (e_libs env) v"
  shows "would_read env i (ns, n) \<longleftrightarrow>
    ns = om_namespace (instance_meta i) \<and> n \<in> set (spec_secrets (instance_spec i))"
proof
  assume "would_read env i (ns, n)"
  then obtain f s r where "KRead (GetSecret (ns, n) r) \<in> set (emitted (build_client (with_secrets f env) i) s)"
    unfolding would_read_def by blast
  from emitsD [OF BuildHTTPClient_secrets this]
  show "ns = om_namespace (instance_meta i) \<and> n \<in> set (spec_secrets (instance_spec i))"
    by (auto simp: is_secret_read_def)
next
  assume "ns = om_namespace (instance_meta i) \<and> n \<in> set (spec_secrets (instance_spec i))"
  with filled_reads [OF assms] show "would_read env i (ns, n)" unfolding would_read_def by blast
qed

text \<open>C38: And nothing is reconciled in vain: when the listed Instances each set one way to
  authenticate, a changed Secret is mapped to exactly those whose client is built from it, each
  once, in the order of the list: those for which building the client reads this very Secret, in
  some world that differs in what the Secrets hold. What is relied on: the API server lists the
  Instances of the namespace asked for, and some certificate parses.\<close>

theorem secret_watch_exact:
  assumes "x_list_instances (e_k8s env) ns (world s) = (Inr items, w)"
    and "\<forall>i\<in>set items. om_namespace (instance_meta i) = ns"
    and "\<forall>i\<in>set items. auth_password (is_auth (instance_spec i)) = None \<or> auth_token (is_auth (instance_spec i)) = None"
    and "l_append_certs_ok (e_libs env) pem"
  shows "result_of (mapSecretToInstance env (ns, n)) s =
    map (\<lambda>i. key_of (instance_meta i)) (filter (\<lambda>i. would_read env i (ns, n)) items)"
proof -
  have "filter (\<lambda>i. instanceUsesSecret i n) items = filter (\<lambda>i. would_read env i (ns, n)) items"
    by (rule filter_cong [OF refl])
      (use assms(2,3) instanceUsesSecret_exact would_read_iff [OF assms(4)] in auto)
  then show ?thesis by (simp add: mapSecret_run [OF assms(1)])
qed

theorem secret_watch_exact_witness:
  "result_of (mapSecretToInstance (demo_env :: unit env) (''ci'', ''creds'')) (demo_start ()) = [(''ci'', ''main'')] \<and>
   result_of (mapSecretToInstance (demo_env :: unit env) (''ci'', ''other'')) (demo_start ()) = []"
proof -
  have lists: "x_list_instances (e_k8s (demo_env :: unit env)) ''ci'' (world (demo_start ())) = (Inr [demo_instance], ())"
    by simp
  have hyps: "\<forall>i\<in>set [demo_instance]. om_namespace (instance_meta i) = ''ci''"
    "\<forall>i\<in>set [demo_instance]. auth_password (is_auth (instance_spec i)) = None \<or> auth_token (is_auth (instance_spec i)) = None"
    "l_append_certs_ok (e_libs (demo_env :: unit env)) ''pem''" by simp_all
  show ?thesis
    using secret_watch_exact [OF lists hyps, of "''creds''"] secret_watch_exact [OF lists hyps, of "''other''"]
    by (simp add: would_read_iff [OF hyps(3)] spec_secrets_def key_of_def)
qed

section \<open>Deletion\<close>

lemma dying_instance_evicted:
  assumes "finalizers_law env"
    and "x_get_instance (e_k8s env) req (world s) = (Inr i, w)"
    and "\<not> is_suspend (instance_spec i)" and "om_deletionTimestamp (instance_meta i) \<noteq> None"
    and "instanceFinalizer \<in> set (om_finalizers (instance_meta i))" and "inst_ok i"
  shows "(\<forall>j. inst_ok j \<longrightarrow> Cache_Get (mem_store (mem (final_of (Instance_Reconcile env req) s))) j =
      (if same_instance i j then None else Cache_Get (mem_store (mem s)) j)) \<and>
    (\<exists>fs x. emitted (Instance_Reconcile env req) s =
        [KRead (GetInstance req (Inr i)), KWrite (UpdateInstance (set_instance_finalizers fs i) x)] \<and>
      set fs = set (om_finalizers (instance_meta i)) - {instanceFinalizer} \<and>
      fst (result_of (Instance_Reconcile env req) s) = 0 \<and>
      (snd (result_of (Instance_Reconcile env req) s) = None \<longleftrightarrow> \<not> isl x))"
proof -
  define fs where "fs = l_remove_finalizer (e_libs env) (om_finalizers (instance_meta i)) instanceFinalizer"
  have fs: "set fs = set (om_finalizers (instance_meta i)) - {instanceFinalizer}"
    using assms(1) by (simp add: fs_def finalizers_law_def)
  have has: "l_contains_finalizer (e_libs env) (om_finalizers (instance_meta i)) instanceFinalizer"
    using assms(1,5) by (simp add: finalizers_law_def)
  obtain x u where up: "x_update_instance (e_k8s env) (set_instance_finalizers fs i) w = (x, u)"
    by (cases "x_update_instance (e_k8s env) (set_instance_finalizers fs i) w")
  have run: "\<exists>res. run_state (Instance_Reconcile env req) s = (res,
      s\<lparr>world := u, mem := (mem s)\<lparr>mem_store := Cache_Evict (mem_store (mem s)) i\<rparr>,
        journal := journal s @ [KRead (GetInstance req (Inr i)), KWrite (UpdateInstance (set_instance_finalizers fs i) x)]\<rparr>) \<and>
      fst res = 0 \<and> (snd res = None \<longleftrightarrow> \<not> isl x)"
    using assms(2-4) has up
    by (cases x) (auto simp: Instance_Reconcile_def reconcile_instance_def handleInstanceLifecycle_def Evict_def
        extern_def get_mem_def put_mem_def fs_def [symmetric])
  then show ?thesis
    using fs cc.lookup_evict [OF assms(6)]
    by (auto simp: final_of_def emitted_def result_of_def)
qed

text \<open>The client of a deleted Instance is not used again: a reconcile of a dying Instance that
  holds the finalizer takes every client of it out of the cache, whatever version it was built
  for, and leaves the clients of all others; then, in one update, it takes off the finalizer and
  nothing else. It ends without a requeue, with an error exactly if that update failed.\<close>

lemma instance_deletion_evicts:
  assumes "finalizers_law env"
    and "x_get_instance (e_k8s env) req (world s) = (Inr i, w)"
    and "\<not> is_suspend (instance_spec i)" and "om_deletionTimestamp (instance_meta i) \<noteq> None"
    and "instanceFinalizer \<in> set (om_finalizers (instance_meta i))" and "inst_ok i"
  shows "(\<forall>j. inst_ok j \<longrightarrow> Cache_Get (mem_store (mem (final_of (Instance_Reconcile env req) s))) j =
      (if same_instance i j then None else Cache_Get (mem_store (mem s)) j)) \<and>
    (\<exists>fs x. emitted (Instance_Reconcile env req) s =
        [KRead (GetInstance req (Inr i)), KWrite (UpdateInstance (set_instance_finalizers fs i) x)] \<and>
      set fs = set (om_finalizers (instance_meta i)) - {instanceFinalizer} \<and>
      fst (result_of (Instance_Reconcile env req) s) = 0 \<and>
      (snd (result_of (Instance_Reconcile env req) s) = None \<longleftrightarrow> \<not> isl x))"
  using assms by (rule dying_instance_evicted)

definition dying_instance :: Instance where
  "dying_instance = demo_instance\<lparr>instance_meta := (demo_meta ''main'')
     \<lparr>om_deletionTimestamp := Some 0, om_finalizers := [instanceFinalizer]\<rparr>\<rparr>"

abbreviation with_instance :: "Instance \<Rightarrow> 'w env \<Rightarrow> 'w env" where
  "with_instance i env \<equiv> env\<lparr>e_k8s := (e_k8s env)\<lparr>x_get_instance := (\<lambda>_ w. (Inr i, w))\<rparr>\<rparr>"

lemma instance_deletion_evicts_example:
  "\<forall>cl. Cache_Get (mem_store (mem (final_of (Instance_Reconcile (with_instance dying_instance (demo_env :: unit env)) (''ci'', ''main''))
     (demo_start ()\<lparr>mem := \<lparr>mem_store = Cache_Set NewCache demo_instance cl, mem_watchers = {}\<rparr>\<rparr>)))) demo_instance = None"
proof
  fix cl
  let ?env = "with_instance dying_instance (demo_env :: unit env)"
  let ?s = "demo_start ()\<lparr>mem := \<lparr>mem_store = Cache_Set NewCache demo_instance cl, mem_watchers = {}\<rparr>\<rparr>"
  have law: "finalizers_law ?env" by (auto simp: finalizers_law_def)
  have read: "x_get_instance (e_k8s ?env) (''ci'', ''main'') (world ?s) = (Inr dying_instance, world ?s)" by simp
  have i: "\<not> is_suspend (instance_spec dying_instance)" "om_deletionTimestamp (instance_meta dying_instance) \<noteq> None"
    "instanceFinalizer \<in> set (om_finalizers (instance_meta dying_instance))" "inst_ok dying_instance"
    "same_instance dying_instance demo_instance"
    by (simp_all add: dying_instance_def inst_ok_def name_ok_def same_instance_def key_of_def)
  from instance_deletion_evicts [OF law read i(1-4)] i(5)
  show "Cache_Get (mem_store (mem (final_of (Instance_Reconcile ?env (''ci'', ''main'')) ?s))) demo_instance = None"
    by (simp only: demo_inst_ok if_True simp_thms)
qed

section \<open>The wall\<close>

lemma instance_cond_sel [simp]:
  "instance_meta (instance_cond env i t st r m) = instance_meta i"
  "instance_spec (instance_cond env i t st r m) = instance_spec i"
  "it_conditions (instance_status (instance_cond env i t st r m)) =
     setCondition env (it_conditions (instance_status i)) (om_generation (instance_meta i)) t st r m"
  "it_wallMessage (instance_status (instance_cond env i t st r m)) = it_wallMessage (instance_status i)"
  "it_observedGeneration (instance_status (instance_cond env i t st r m)) = it_observedGeneration (instance_status i)"
  "it_workerCount (instance_status (instance_cond env i t st r m)) = it_workerCount (instance_status i)"
  "it_stalledWorkers (instance_status (instance_cond env i t st r m)) = it_stalledWorkers (instance_status i)"
  "it_runningWorkers (instance_status (instance_cond env i t st r m)) = it_runningWorkers (instance_status i)"
  "it_landingWorkers (instance_status (instance_cond env i t st r m)) = it_landingWorkers (instance_status i)"
  "it_version (instance_status (instance_cond env i t st r m)) = it_version (instance_status i)"
  "it_webURL (instance_status (instance_cond env i t st r m)) = it_webURL (instance_status i)"
  by (simp_all add: instance_cond_def)

definition wanted_wall :: "Instance \<Rightarrow> string" where
  "wanted_wall i = (case is_wall (instance_spec i) of None \<Rightarrow> '''' | Some wall \<Rightarrow> wall_message wall)"

definition wall_request :: "goclient \<Rightarrow> Instance \<Rightarrow> goerr option \<Rightarrow> io" where
  "wall_request cl i r = AWrite (case is_wall (instance_spec i) of
     None \<Rightarrow> ClearWall cl r
   | Some wall \<Rightarrow> SetWall cl (wall_message wall) (case wall_ttl wall of None \<Rightarrow> 0 | Some d \<Rightarrow> d) r)"

definition wall_settled ::
  "goclient \<Rightarrow> Instance \<Rightarrow> Instance \<times> (Result \<times> goerr) option \<Rightarrow> io list \<Rightarrow> bool" where
  "wall_settled cl i res es \<longleftrightarrow>
     (if wanted_wall i = it_wallMessage (instance_status i) then es = [] \<and> res = (i, None)
      else case snd res of
        None \<Rightarrow> (\<exists>ds. es = wall_request cl i None # ds \<and> list_all is_event ds) \<and>
          fst res = map_instance_status (\<lambda>s. s\<lparr>it_wallMessage := wanted_wall i\<rparr>) i
      | Some (after, err) \<Rightarrow> (\<exists>ds. es = wall_request cl i (Some err) # ds \<and> list_all is_event ds) \<and>
          after = seconds 30 \<and> it_wallMessage (instance_status (fst res)) = it_wallMessage (instance_status i) \<and>
          cond_is (it_conditions (instance_status (fst res))) ConditionReady ConditionFalse ''WallFailed'')"

lemma syncWall_outcome:
  assumes "conditions_law env"
  shows "outcome (syncWall env cl i) (\<lambda>res es. wall_settled cl i res es)"
  unfolding syncWall_def wall_failed_def
  apply (rule outcome_case(2))
   apply (intro outcome_intros)
       apply (use assms in \<open>simp_all add: wall_settled_def wanted_wall_def wall_request_def\<close>)[5]
  apply (intro outcome_intros)
      apply (use assms in \<open>auto simp: wall_settled_def wanted_wall_def wall_request_def\<close>)
  done

lemma wall_at_rest:
  assumes "wanted_wall i = it_wallMessage (instance_status i)"
  shows "emitted (syncWall env cl i) s = []"
  using assms by (auto simp: syncWall_def wanted_wall_def emitted_def final_of_def split: option.splits)

text \<open>C22: The wall follows the spec, and syncing is idempotent. Nothing is asked when the message
  the spec wants, or none, is the one recorded. Else one request sets or clears the wall; when it
  succeeds the status records the message, nothing else of the object changed, and the next
  sync, at whatever time and against whatever world, asks nothing; when it fails the record
  stays, Ready is False with WallFailed, and the caller is told to come back in 30 seconds.\<close>

theorem wall_follows_spec:
  assumes "conditions_law env"
  shows "wall_settled cl i (result_of (syncWall env cl i) s) (emitted (syncWall env cl i) s) \<and>
    (snd (result_of (syncWall env cl i) s) = None \<longrightarrow>
       emitted (syncWall env' cl' (fst (result_of (syncWall env cl i) s))) t = [])"
proof
  show settled: "wall_settled cl i (result_of (syncWall env cl i) s) (emitted (syncWall env cl i) s)"
    by (rule outcomeD [OF syncWall_outcome [OF assms]])
  show "snd (result_of (syncWall env cl i) s) = None \<longrightarrow>
       emitted (syncWall env' cl' (fst (result_of (syncWall env cl i) s))) t = []"
  proof
    assume "snd (result_of (syncWall env cl i) s) = None"
    with settled have "wanted_wall (fst (result_of (syncWall env cl i) s)) =
        it_wallMessage (instance_status (fst (result_of (syncWall env cl i) s)))"
      by (auto simp: wall_settled_def wanted_wall_def split: if_splits)
    then show "emitted (syncWall env' cl' (fst (result_of (syncWall env cl i) s))) t = []"
      by (rule wall_at_rest)
  qed
qed

definition walled_instance :: "string \<Rightarrow> duration option \<Rightarrow> Instance" where
  "walled_instance msg ttl = demo_instance\<lparr>instance_spec := demo_instance_spec
     \<lparr>is_wall := Some \<lparr>wall_message = msg, wall_ttl = ttl\<rparr>\<rparr>\<rparr>"

lemma walled_instance_sel [simp]:
  "instance_status (walled_instance msg ttl) = demo_instance_status"
  "instance_meta (walled_instance msg ttl) = demo_meta ''main''"
  "is_wall (instance_spec (walled_instance msg ttl)) = Some \<lparr>wall_message = msg, wall_ttl = ttl\<rparr>"
  by (simp_all add: walled_instance_def)

theorem wall_follows_spec_witness:
  "\<exists>ds. emitted (syncWall (demo_env :: unit env) demo_client (walled_instance ''hi'' None)) (demo_start ()) =
     AWrite (SetWall demo_client ''hi'' 0 None) # ds \<and> list_all is_event ds"
proof -
  let ?p = "syncWall (demo_env :: unit env) demo_client (walled_instance ''hi'' None)"
  have law: "conditions_law (demo_env :: unit env)" using demo_conditions_law by (simp add: conditions_law_def)
  have "snd (result_of ?p (demo_start ())) = None"
    by (simp add: eval_simps syncWall_def recordEvent_def cong: eval_cong)
  with conjunct1 [OF wall_follows_spec [OF law, of demo_client "walled_instance ''hi'' None" "demo_start ()"]]
  show ?thesis by (simp add: wall_settled_def wanted_wall_def wall_request_def)
qed

text \<open>A changed time to live alone is not applied: the sync looks at the message only.\<close>

lemma wall_ttl_not_applied:
  "emitted (syncWall env cl (map_instance_status (\<lambda>s. s\<lparr>it_wallMessage := msg\<rparr>) (walled_instance msg ttl))) s = []"
  by (rule wall_at_rest) (simp add: wanted_wall_def)

section \<open>What is reported\<close>

lemma set_secret_generation_outcome:
  "outcome (set_secret_generation env i) (\<lambda>i' es. list_all is_kread es \<and>
     (\<exists>g. i' = map_instance_status (\<lambda>s. s\<lparr>it_authSecretGeneration := g\<rparr>) i))"
  unfolding set_secret_generation_def
  apply (rule outcome_bind, rule outcome_mono [OF emits_outcome [OF AuthSecretGeneration_secrets]])
  apply (rule outcome_return)
  apply (auto simp: list_all_iff is_secret_read_def)
  done

lemma reads_neither: "list_all is_kread es \<Longrightarrow> filter is_kwrite es = [] \<and> filter is_awrite es = []"
  by (auto simp: list_all_iff filter_empty_conv is_kread_def is_awrite_def is_kwrite_def split: io.splits)

lemma instanceInterval_positive: "instanceInterval i > 0"
  by (simp add: instanceInterval_def minutes_def split: option.split)

definition instance_saved :: "io list \<Rightarrow> Instance \<Rightarrow> Result \<times> goerr option \<Rightarrow> bool" where
  "instance_saved es i res \<longleftrightarrow> (\<exists>x. filter is_kwrite es = [KWrite (StatusInstance i x)] \<and>
     (if isl x then fst res = 0 \<and> snd res \<noteq> None else fst res > 0 \<and> snd res = None))"

lemma save_instance_outcome:
  "outcome (save_instance env i) (\<lambda>res es. filter is_awrite es = [] \<and> instance_saved es i res)"
  unfolding save_instance_def
  by (intro outcome_intros) (auto simp: instance_saved_def instanceInterval_positive)

lemma instance_saved_append:
  "filter is_kwrite ds = [] \<Longrightarrow> instance_saved (ds @ es) i res = instance_saved es i res"
  "\<not> is_kwrite d \<Longrightarrow> instance_saved (d # es) i res = instance_saved es i res"
  by (simp_all add: instance_saved_def)

abbreviation workers_in :: "string \<Rightarrow> atc_worker list \<Rightarrow> atc_worker list" where
  "workers_in st ws \<equiv> filter (\<lambda>w. aw_state w = st) ws"

definition instance_reported :: "Instance \<Rightarrow> atc_info \<Rightarrow> atc_worker list \<Rightarrow> Instance \<Rightarrow> bool" where
  "instance_reported i info ws i' \<longleftrightarrow> (let s = instance_status i'; cs = it_conditions s in
     instance_meta i' = instance_meta i \<and> instance_spec i' = instance_spec i \<and>
     it_observedGeneration s = om_generation (instance_meta i) \<and> it_version s = ai_version info \<and>
     it_webURL s = (if ai_externalURL info = '''' then is_url (instance_spec i) else ai_externalURL info) \<and>
     it_workerCount s = int32Ptr (int (length ws)) \<and>
     it_stalledWorkers s = int32Ptr (int (length (workers_in ''stalled'' ws))) \<and>
     it_runningWorkers s = int32Ptr (int (length (workers_in ''running'' ws))) \<and>
     it_landingWorkers s = int32Ptr (int (length (workers_in ''landing'' ws))) \<and>
     cond_is cs ConditionReady ConditionTrue ''Ready'' \<and>
     cond_is cs ConditionAuthenticated ConditionTrue ''Authenticated'' \<and>
     ((\<exists>w\<in>set ws. aw_state w = ''stalled'') \<longrightarrow> cond_is cs ConditionWorkersHealthy ConditionFalse ''WorkersStalled'') \<and>
     ((\<forall>w\<in>set ws. aw_state w = ''running'') \<longrightarrow> cond_is cs ConditionWorkersHealthy ConditionTrue ''AllRunning''))"

text \<open>The condition on the workers as the code computes it: it looks at the stalled ones only.\<close>

definition healthy_unless_stalled :: "atc_worker list \<Rightarrow> Instance \<Rightarrow> bool" where
  "healthy_unless_stalled ws i' \<longleftrightarrow> (\<forall>w\<in>set ws. aw_state w \<noteq> ''stalled'') \<longrightarrow>
     cond_is (it_conditions (instance_status i')) ConditionWorkersHealthy ConditionTrue ''AllRunning''"

lemma count_positive: "0 < count_state st ws \<longleftrightarrow> (\<exists>w\<in>set ws. aw_state w = st)"
  by (induction ws) (auto simp: count_state_def)

abbreviation status_to_write :: "'w env \<Rightarrow> Instance \<Rightarrow> atc_info \<Rightarrow> atc_worker list \<Rightarrow> int \<Rightarrow> Instance" where
  "status_to_write env i info ws g \<equiv> instance_cond env (instance_cond env (workers_cond env
     (set_worker_counts ws (map_instance_status (\<lambda>s. s\<lparr>it_authSecretGeneration := g\<rparr>) (instance_observed
       (map_instance_status (\<lambda>s. s\<lparr>it_featureFlags := ai_featureFlags info,
          it_workerCount := int32Ptr (int (length ws))\<rparr>) (set_info info i)))))
     (count_state ''stalled'' ws)) ConditionAuthenticated ConditionTrue ''Authenticated'' '''')
     ConditionReady ConditionTrue ''Ready'' ''''"

lemma report_status:
  assumes "conditions_law env"
  shows "instance_reported i info ws (status_to_write env i info ws g)"
proof -
  have "\<not> (\<forall>w\<in>set ws. aw_state w = ''running'')" if "\<exists>w\<in>set ws. aw_state w = ''stalled''" using that by force
  then show ?thesis
    using assms
    by (cases "0 < count_state ''stalled'' ws")
      (simp_all add: instance_reported_def Let_def workers_cond_def count_positive set_worker_counts_def instance_observed_def
        set_info_def count_state_def filter_empty_conv)
qed

lemma report_status_healthy:
  assumes "conditions_law env"
  shows "healthy_unless_stalled ws (status_to_write env i info ws g)"
  using assms
  by (cases "0 < count_state ''stalled'' ws")
    (simp_all add: healthy_unless_stalled_def workers_cond_def count_positive set_worker_counts_def instance_observed_def set_info_def)

lemma report_instance_outcome:
  assumes "conditions_law env"
  shows "outcome (report_instance env i info ws) (\<lambda>res es. filter is_awrite es = [] \<and>
    (\<exists>i'. instance_reported i info ws i' \<and> healthy_unless_stalled ws i' \<and> instance_saved es i' res))"
  unfolding report_instance_def Let_def
  apply (rule outcome_bind, rule outcome_mono [OF set_secret_generation_outcome])
  apply (elim conjE exE, hypsubst)
  apply (rule outcome_bind, rule outcome_case(3))
  subgoal for a es g
    apply (intro outcome_recordEvent outcome_bind [of "if _ then _ else _"] outcome_case(3) outcome_return)
         apply (rule outcome_mono [OF save_instance_outcome], drule reads_neither, erule conjE, intro conjI exI,
          simp, rule report_status [OF assms], rule report_status_healthy [OF assms], simp add: instance_saved_append)+
    done
  subgoal for a es g
    apply (intro outcome_recordEvent outcome_bind [of "if _ then _ else _"] outcome_case(3) outcome_return)
       apply (rule outcome_mono [OF save_instance_outcome], drule reads_neither, erule conjE, intro conjI exI,
          simp, rule report_status [OF assms], rule report_status_healthy [OF assms], simp add: instance_saved_append)+
    done
  done

text \<open>C39: The status of a reachable Instance says what the server said: one status is written and
  nothing in Concourse is changed; the counts are those of the workers listed, in all and per
  state, the workers are called unhealthy if one is stalled and healthy if all are running, the
  Instance is Ready and Authenticated, and the generation is marked observed. Unless that write
  fails, the next probe is scheduled after an interval that is never zero or negative, whatever the
  spec says.\<close>

theorem instance_report:
  assumes "conditions_law env"
  shows "filter is_awrite (emitted (report_instance env i info ws) s) = [] \<and>
    (\<exists>i'. instance_reported i info ws i' \<and>
      instance_saved (emitted (report_instance env i info ws) s) i' (result_of (report_instance env i info ws) s))"
  using outcomeD [OF report_instance_outcome [OF assms], of i info ws s] by blast

theorem instance_report_witness:
  "\<exists>i'. instance_reported demo_instance demo_info [] i' \<and> it_workerCount (instance_status i') = Some 0 \<and>
     instance_saved (emitted (report_instance (demo_env :: unit env) demo_instance demo_info []) (demo_start ())) i'
       (result_of (report_instance (demo_env :: unit env) demo_instance demo_info []) (demo_start ()))"
proof -
  have law: "conditions_law (demo_env :: unit env)" using demo_conditions_law by (simp add: conditions_law_def)
  from instance_report [OF law, of demo_instance demo_info "[]" "demo_start ()"] obtain i' where
    "instance_reported demo_instance demo_info [] i'"
    "instance_saved (emitted (report_instance (demo_env :: unit env) demo_instance demo_info []) (demo_start ())) i'
       (result_of (report_instance (demo_env :: unit env) demo_instance demo_info []) (demo_start ()))" by blast
  moreover from this(1) have "it_workerCount (instance_status i') = Some 0"
    by (simp add: instance_reported_def Let_def int32Ptr_def to_i32_def)
  ultimately show ?thesis by blast
qed

text \<open>Workers that land or retire are not running, but without a stalled one the status says AllRunning.\<close>

lemma landing_workers_reported_healthy:
  assumes "conditions_law env"
  shows "\<exists>i'. instance_saved (emitted (report_instance env i info [landing]) s) i' (result_of (report_instance env i info [landing]) s) \<and>
    (aw_state landing = ''landing'' \<longrightarrow>
       cond_is (it_conditions (instance_status i')) ConditionWorkersHealthy ConditionTrue ''AllRunning'')"
  using outcomeD [OF report_instance_outcome [OF assms], of i info "[landing]" s] by (auto simp: healthy_unless_stalled_def)

section \<open>Ready\<close>

definition says_ready :: "io \<Rightarrow> bool" where
  "says_ready e = (case e of
     KWrite (StatusInstance i r) \<Rightarrow>
       (case cond_of (it_conditions (instance_status i)) ConditionReady of
          None \<Rightarrow> False | Some c \<Rightarrow> c_status c = ConditionTrue)
   | _ \<Rightarrow> False)"

lemma says_ready_simps [simp]:
  "says_ready (KWrite (StatusInstance i r)) = (case cond_of (it_conditions (instance_status i)) ConditionReady of
     None \<Rightarrow> False | Some c \<Rightarrow> c_status c = ConditionTrue)"
  "\<not> says_ready (KWrite (UpdateInstance i r))" "\<not> says_ready (KRead x)" "\<not> says_ready (ARead y)"
  "\<not> says_ready (AWrite z)" "\<not> says_ready (Event k key t reason m)"
  by (simp_all add: says_ready_def)

text \<open>
  The server was asked through the client of the Instance, and answered: the Instance was read
  alive and not suspended, \<open>j\<close> is that object or what the API server made of it when its finalizer
  was added, and the client is the one that the cache held for \<open>j\<close> when the reconcile began, or was
  built in it for the URL of \<open>j\<close> with the Secrets \<open>j\<close> names.
\<close>

definition probed :: "store \<Rightarrow> ObjectKey \<Rightarrow> io list \<Rightarrow> bool" where
  "probed st req es \<longleftrightarrow> (\<exists>i j cl info. KRead (GetInstance req (Inr i)) \<in> set es \<and> \<not> is_suspend (instance_spec i) \<and>
     om_deletionTimestamp (instance_meta i) = None \<and>
     (j = i \<or> (\<exists>fs. KWrite (UpdateInstance (set_instance_finalizers fs i) (Inr j)) \<in> set es)) \<and>
     (Cache_Get st j = Some cl \<or> built_for es j cl) \<and> ARead (GetInfo cl (Inr info)) \<in> set es)"

lemma guarded_known: "persistent G \<Longrightarrow> G K \<Longrightarrow> emits (\<lambda>_. True) p \<Longrightarrow> guarded K A G p"
  unfolding guarded_def by (rule outcome_mono [OF total_outcome], assumption) (auto intro: persistent_append(1))

lemma probe_failed_quiet:
  "conditions_law env \<Longrightarrow> emits (\<lambda>e. \<not> says_ready e) (probe_failed env i reason msg err)"
  unfolding probe_failed_def Let_def by (intro emits_intros) simp_all

lemma invalid_spec_quiet: "conditions_law env \<Longrightarrow> emits (\<lambda>e. \<not> says_ready e) (invalid_spec env i)"
  unfolding invalid_spec_def Let_def by (intro emits_intros) simp_all

lemma set_secret_generation_total: "emits (\<lambda>_. True) (set_secret_generation env i)"
  unfolding set_secret_generation_def AuthSecretGeneration_def by (intro emits_intros TrueI)

lemma observing_total:
  "emits (\<lambda>_. True) (workers_unknown env i info err)" "emits (\<lambda>_. True) (observe_instance env cl i info ws)"
  unfolding workers_unknown_def observe_instance_def observe_user_and_wall_def syncWall_def wall_failed_def
    observe_counts_def report_instance_def save_instance_def Let_def
  by (intro emits_intros set_secret_generation_total TrueI)+

lemma probing_total: "emits (\<lambda>_. True) (GetOrBuild env i)" "emits (\<lambda>_. True) (probe_failed env i reason msg err)"
  "emits (\<lambda>_. True) (invalid_spec env i)" "emits (\<lambda>_. True) (handleInstanceLifecycle env i)"
  unfolding probe_failed_def invalid_spec_def handleInstanceLifecycle_def Let_def by (intro emits_intros TrueI)+

lemma GetOrBuild_not_ready: "emits (\<lambda>e. \<not> says_ready e) (GetOrBuild env i)"
  by (intro emits_intros) simp

text \<open>Where the client comes from.\<close>

lemma GetOrBuild_from:
  "result_of (GetOrBuild env i) s = Inr cl \<Longrightarrow>
   Cache_Get (mem_store (mem s)) i = Some cl \<or> built_for (emitted (GetOrBuild env i) s) i cl"
  using GetOrBuild_hit_run [of s i _ env] GetOrBuild_miss_built [of s i env cl]
  by (cases "Cache_Get (mem_store (mem s)) i") (auto simp: result_of_def)

text \<open>What a reconcile does with a client says Ready only after the server answered through it.\<close>

definition answered :: "goclient \<Rightarrow> io list \<Rightarrow> bool" where
  "answered cl es \<longleftrightarrow> (\<exists>info. ARead (GetInfo cl (Inr info)) \<in> set es)"

definition probe_with :: "'w env \<Rightarrow> Instance \<Rightarrow> goerr + goclient \<Rightarrow> 'w reconcile" where
  "probe_with env i c = (case c of
     Inl err \<Rightarrow> probe_failed env i ''AuthFailed'' ''Authentication failed: '' err
   | Inr cl \<Rightarrow> do {
       r \<leftarrow> a_get_info env cl;
       (case r of
          Inl err \<Rightarrow> probe_failed env i ''InfoFailed'' ''Failed to retrieve Concourse server info: '' err
        | Inr info \<Rightarrow> do {
            w \<leftarrow> a_list_workers env cl;
            (case w of
               Inl err \<Rightarrow> workers_unknown env i info err
             | Inr workers \<Rightarrow> observe_instance env cl i info workers) }) })"

lemma probe_instance_with: "probe_instance env i = State_Monad.bind (GetOrBuild env i) (probe_with env i)"
  unfolding probe_instance_def probe_with_def ..

lemma persistent_answered: "persistent (answered cl)"
  unfolding persistent_def answered_def by blast

lemma probe_with_guarded:
  assumes "conditions_law env"
  shows "guarded [] says_ready (answered cl) (probe_with env i (Inr cl))"
  unfolding probe_with_def sum.case
  apply (rule guarded_extern [OF persistent_answered], simp)
  apply (rule guarded_case(1), rule guarded_silent, rule probe_failed_quiet [OF assms])
  apply (rule guarded_known [OF persistent_answered])
   apply (auto simp: answered_def)[1]
  apply (intro emits_intros observing_total TrueI)
  done

lemma probe_with_total: "emits (\<lambda>_. True) (probe_with env i c)"
  unfolding probe_with_def by (intro emits_intros observing_total probing_total TrueI)

lemma probe_says_ready:
  assumes "conditions_law env" and "e \<in> set (emitted (probe_instance env i) s)" and "says_ready e"
  shows "\<exists>cl. (Cache_Get (mem_store (mem s)) i = Some cl \<or> built_for (emitted (probe_instance env i) s) i cl) \<and>
    answered cl (emitted (probe_instance env i) s)"
proof -
  let ?r = "result_of (GetOrBuild env i) s" and ?t = "final_of (GetOrBuild env i) s"
  have split: "emitted (probe_instance env i) s = emitted (GetOrBuild env i) s @ emitted (probe_with env i ?r) ?t"
    unfolding probe_instance_with
    by (rule emitted_bind) (rule total_outcome, rule probing_total probe_with_total)+
  with assms(2,3) emitsD [OF GetOrBuild_not_ready] have e: "e \<in> set (emitted (probe_with env i ?r) ?t)" by auto
  show ?thesis
  proof (cases ?r)
    case (Inl err)
    with e emitsD [OF probe_failed_quiet [OF assms(1)]] assms(3) show ?thesis by (auto simp: probe_with_def)
  next
    case (Inr cl)
    have "answered cl (emitted (probe_with env i (Inr cl)) ?t)"
      using guardedD [OF probe_with_guarded [OF assms(1)]] e assms(3) Inr by simp
    then have "answered cl (emitted (probe_instance env i) s)" unfolding split Inr by (auto simp: answered_def)
    moreover have "set (emitted (GetOrBuild env i) s) \<subseteq> set (emitted (probe_instance env i) s)" unfolding split by simp
    then have "Cache_Get (mem_store (mem s)) i = Some cl \<or> built_for (emitted (probe_instance env i) s) i cl"
      using GetOrBuild_from [OF Inr] built_for_mono by blast
    ultimately show ?thesis by blast
  qed
qed

text \<open>A reconcile that goes on after the lifecycle was handled has left the cache alone.\<close>

lemma instance_lifecycle_outcome:
  assumes "conditions_law env"
  shows "outcome (handleInstanceLifecycle env i) (\<lambda>r es. list_all (\<lambda>e. \<not> says_ready e) es \<and>
    (\<not> fst (snd r) \<longrightarrow> \<not> is_suspend (instance_spec i) \<and> om_deletionTimestamp (instance_meta i) = None \<and>
       (fst r = i \<or> (\<exists>fs. KWrite (UpdateInstance (set_instance_finalizers fs i) (Inr (fst r))) \<in> set es))))"
  unfolding handleInstanceLifecycle_def by (intro outcome_intros) (use assms in auto)

lemma instance_lifecycle_mem:
  assumes "\<not> fst (snd (result_of (handleInstanceLifecycle env i) s))"
  shows "mem (final_of (handleInstanceLifecycle env i) s) = mem s"
  using assms by (auto simp: handleInstanceLifecycle_def run_simps split: prod.splits sum.splits if_splits)

lemma reconcile_instance_says_ready:
  assumes law: "conditions_law env" and e: "e \<in> set (emitted (reconcile_instance env i) s)" "says_ready e"
    and K: "KRead (GetInstance req (Inr i)) \<in> set K"
  shows "probed (mem_store (mem s)) req (K @ emitted (reconcile_instance env i) s)"
proof -
  let ?p = "handleInstanceLifecycle env i"
  let ?r = "result_of ?p s" and ?t = "final_of ?p s"
  define k where "k = (\<lambda>(inst, handled, err). if handled then ret (0, err)
      else if auth_password (is_auth (instance_spec inst)) = None \<and> auth_token (is_auth (instance_spec inst)) = None
      then invalid_spec env inst
      else probe_instance env inst)"
  have split: "emitted (reconcile_instance env i) s = emitted ?p s @ emitted (k ?r) ?t"
    unfolding reconcile_instance_def k_def [symmetric]
    by (rule emitted_bind; rule total_outcome)
      (auto simp: k_def probe_instance_with split: prod.split intro!: emits_intros probing_total probe_with_total)
  from outcomeD [OF instance_lifecycle_outcome [OF law]] have out: "list_all (\<lambda>e. \<not> says_ready e) (emitted ?p s)"
    and on: "\<not> fst (snd ?r) \<Longrightarrow> \<not> is_suspend (instance_spec i) \<and> om_deletionTimestamp (instance_meta i) = None \<and>
       (fst ?r = i \<or> (\<exists>fs. KWrite (UpdateInstance (set_instance_finalizers fs i) (Inr (fst ?r))) \<in> set (emitted ?p s)))"
    by blast+
  have k_e: "e \<in> set (emitted (k ?r) ?t)" using e out unfolding split by (auto simp: list_all_iff)
  obtain j h err where r: "?r = (j, h, err)" by (cases ?r) auto
  from k_e e(2) emitsD [OF invalid_spec_quiet [OF law]] have h: "\<not> h" and probe: "e \<in> set (emitted (probe_instance env j) ?t)"
    and k: "k ?r = probe_instance env j"
    by (auto simp: k_def r emitted_def final_of_def split: if_splits)
  have mem: "mem ?t = mem s" by (rule instance_lifecycle_mem) (simp add: r h)
  from probe_says_ready [OF law probe e(2)] obtain cl info where
    "Cache_Get (mem_store (mem s)) j = Some cl \<or> built_for (emitted (probe_instance env j) ?t) j cl"
    "ARead (GetInfo cl (Inr info)) \<in> set (emitted (probe_instance env j) ?t)"
    unfolding mem answered_def by blast
  moreover have "built_for (emitted (probe_instance env j) ?t) j cl \<Longrightarrow>
      built_for (K @ emitted (reconcile_instance env i) s) j cl"
    unfolding split k by (auto elim: built_for_mono)
  ultimately show ?thesis
    using on K unfolding probed_def split k by (auto simp: r h)
qed

lemma reconcile_instance_total: "emits (\<lambda>_. True) (reconcile_instance env i)"
  unfolding reconcile_instance_def probe_instance_with
  by (intro emits_intros probing_total probe_with_total TrueI)

text \<open>C40: An Instance is called Ready only after it was probed: a reconcile that writes a status in
  which Ready is true has read the Instance alive and not suspended, and the Concourse server
  has answered the request for its version in the same reconcile, through the Instance's
  client: the one the cache held for this version of it at the start, or one that this reconcile built
  for its URL with its Secrets.\<close>

theorem instance_ready_only_after_probe:
  assumes "conditions_law env" and "e \<in> set (emitted (Instance_Reconcile env req) s)" and "says_ready e"
  shows "probed (mem_store (mem s)) req (emitted (Instance_Reconcile env req) s)"
proof -
  obtain r w where get: "x_get_instance (e_k8s env) req (world s) = (r, w)" by fastforce
  let ?t = "s\<lparr>world := w, journal := journal s @ [KRead (GetInstance req r)]\<rparr>"
  show ?thesis
  proof (cases r)
    case (Inl err)
    with get assms(2,3) show ?thesis
      by (simp add: Instance_Reconcile_def emitted_def final_of_def extern_def)
  next
    case (Inr i)
    have "run_state (Instance_Reconcile env req) s = run_state (reconcile_instance env i) ?t"
      using get Inr by (simp add: Instance_Reconcile_def extern_def)
    then have all: "emitted (Instance_Reconcile env req) s = KRead (GetInstance req (Inr i)) # emitted (reconcile_instance env i) ?t"
      using outcome_journal [OF total_outcome [OF reconcile_instance_total], of env i ?t] Inr
      by (simp add: emitted_def [of "Instance_Reconcile env req"] final_of_def)
    with assms(2,3) have "e \<in> set (emitted (reconcile_instance env i) ?t)" by auto
    from reconcile_instance_says_ready [OF assms(1) this assms(3), of req "[KRead (GetInstance req (Inr i))]"]
    show ?thesis unfolding all by simp
  qed
qed

lemmas instance_eval = Instance_Reconcile_def reconcile_instance_def handleInstanceLifecycle_def
  probe_instance_def observe_instance_def observe_user_and_wall_def syncWall_def observe_counts_def
  report_instance_def save_instance_def set_secret_generation_def set_info_def instance_observed_def
  set_instance_finalizers_def instanceInterval_def recordEvent_def resolver_eval

lemma demo_probe_run:
  "list_ex says_ready (emitted (Instance_Reconcile (demo_env :: unit env) (''ci'', ''main'')) (demo_start ()))"
proof -
  have law: "conditions_law (demo_env :: unit env)" using demo_conditions_law by (simp add: conditions_law_def)
  show ?thesis
    by (simp add: eval_simps instance_eval set_worker_counts_def count_state_def workers_cond_def instance_cond_def
        law cong: eval_cong)
qed

theorem instance_ready_only_after_probe_witness:
  "probed NewCache (''ci'', ''main'') (emitted (Instance_Reconcile (demo_env :: unit env) (''ci'', ''main'')) (demo_start ()))"
proof -
  have law: "conditions_law (demo_env :: unit env)" using demo_conditions_law by (simp add: conditions_law_def)
  from demo_probe_run obtain e where
    "e \<in> set (emitted (Instance_Reconcile (demo_env :: unit env) (''ci'', ''main'')) (demo_start ()))" "says_ready e"
    by (auto simp: list_ex_iff)
  from instance_ready_only_after_probe [OF law this] show ?thesis by (simp add: demo_start_def NewCache_def)
qed

end
