(* ===== verification/Startup.thy ===== *)
theory Startup
  imports Prelude Api_Types External
begin

text \<open>
  \<open>cmd/main.go\<close> and the functions \<open>SetupWithManager\<close> of the reconcilers: what the flags make of the
  options of the manager, which controllers are registered and what they watch, and the order of
  the start, which ends with exit code 1 at the first step that fails. Parsing the command line is
  the standard library's; the model starts from the values of the flags.
\<close>

section \<open>Flags and options\<close>

record Flags =
  fl_metricsAddr :: string
  fl_metricsCertPath :: string
  fl_metricsCertName :: string
  fl_metricsCertKey :: string
  fl_webhookCertPath :: string
  fl_webhookCertName :: string
  fl_webhookCertKey :: string
  fl_enableLeaderElection :: bool
  fl_probeAddr :: string
  fl_secureMetrics :: bool
  fl_enableHTTP2 :: bool

definition default_flags :: Flags where
  "default_flags = \<lparr>fl_metricsAddr = ''0'', fl_metricsCertPath = '''', fl_metricsCertName = ''tls.crt'',
     fl_metricsCertKey = ''tls.key'', fl_webhookCertPath = '''', fl_webhookCertName = ''tls.crt'',
     fl_webhookCertKey = ''tls.key'', fl_enableLeaderElection = False, fl_probeAddr = '':8081'',
     fl_secureMetrics = True, fl_enableHTTP2 = False\<rparr>"

text \<open>Of Go's \<open>tls.Config\<close>, what the options set.\<close>

record server_tls =
  nextProtos :: "string list"

definition disableHTTP2 :: "server_tls \<Rightarrow> server_tls" where
  "disableHTTP2 c = c\<lparr>nextProtos := [''http/1.1'']\<rparr>"

definition tlsOpts :: "Flags \<Rightarrow> (server_tls \<Rightarrow> server_tls) list" where
  "tlsOpts fl = (if \<not> fl_enableHTTP2 fl then [disableHTTP2] else [])"

record WebhookOptions =
  wo_tlsOpts :: "(server_tls \<Rightarrow> server_tls) list"
  wo_certDir :: string
  wo_certName :: string
  wo_keyName :: string

definition webhookServerOptions :: "Flags \<Rightarrow> WebhookOptions" where
  "webhookServerOptions fl =
     (let opts = \<lparr>wo_tlsOpts = tlsOpts fl, wo_certDir = '''', wo_certName = '''', wo_keyName = ''''\<rparr>
      in if fl_webhookCertPath fl \<noteq> ''''
         then opts\<lparr>wo_certDir := fl_webhookCertPath fl, wo_certName := fl_webhookCertName fl,
           wo_keyName := fl_webhookCertKey fl\<rparr>
         else opts)"

record MetricsOptions =
  mo_bindAddress :: string
  mo_secureServing :: bool
  mo_tlsOpts :: "(server_tls \<Rightarrow> server_tls) list"
  mo_authFilter :: bool
  mo_certDir :: string
  mo_certName :: string
  mo_keyName :: string

definition metricsServerOptions :: "Flags \<Rightarrow> MetricsOptions" where
  "metricsServerOptions fl =
     (let opts = \<lparr>mo_bindAddress = fl_metricsAddr fl, mo_secureServing = fl_secureMetrics fl,
            mo_tlsOpts = tlsOpts fl, mo_authFilter = False, mo_certDir = '''', mo_certName = '''', mo_keyName = ''''\<rparr>;
          opts = (if fl_secureMetrics fl then opts\<lparr>mo_authFilter := True\<rparr> else opts)
      in if fl_metricsCertPath fl \<noteq> ''''
         then opts\<lparr>mo_certDir := fl_metricsCertPath fl, mo_certName := fl_metricsCertName fl,
           mo_keyName := fl_metricsCertKey fl\<rparr>
         else opts)"

record ManagerOptions =
  go_metrics :: MetricsOptions
  go_webhook :: WebhookOptions
  go_probeAddr :: string
  go_leaderElection :: bool
  go_leaderElectionID :: string

definition managerOptions :: "Flags \<Rightarrow> ManagerOptions" where
  "managerOptions fl = \<lparr>go_metrics = metricsServerOptions fl, go_webhook = webhookServerOptions fl,
     go_probeAddr = fl_probeAddr fl, go_leaderElection = fl_enableLeaderElection fl,
     go_leaderElectionID = ''b622fb03.concourse-ci.org''\<rparr>"

section \<open>Controllers\<close>

text \<open>
  What a controller is built from: the kind it reconciles, the kinds it owns, whether it watches
  Secrets through \<open>mapSecretToInstance\<close>, the capacity of its event channel, its name.
\<close>

record registration =
  reg_for :: okind
  reg_owns :: "okind list"
  reg_mapsSecrets :: bool
  reg_channel :: "nat option"
  reg_name :: string

definition plain_controller :: "okind \<Rightarrow> string \<Rightarrow> registration" where
  "plain_controller k n = \<lparr>reg_for = k, reg_owns = [], reg_mapsSecrets = False, reg_channel = None, reg_name = n\<rparr>"

definition Instance_SetupWithManager :: registration where
  "Instance_SetupWithManager = (plain_controller KInstance ''instance'')\<lparr>reg_mapsSecrets := True\<rparr>"

definition Team_SetupWithManager :: registration where
  "Team_SetupWithManager = plain_controller KTeam ''team''"

definition Pipeline_SetupWithManager :: registration where
  "Pipeline_SetupWithManager = plain_controller KPipeline ''pipeline''"

definition Job_SetupWithManager :: registration where
  "Job_SetupWithManager = (plain_controller KJob ''job'')\<lparr>reg_owns := [KBuild]\<rparr>"

definition Build_SetupWithManager :: registration where
  "Build_SetupWithManager = (plain_controller KBuild ''build'')\<lparr>reg_channel := Some 64\<rparr>"

definition Resource_SetupWithManager :: registration where
  "Resource_SetupWithManager = plain_controller KResource ''resource''"

definition Worker_SetupWithManager :: registration where
  "Worker_SetupWithManager = plain_controller KWorker ''worker''"

lemmas setups = plain_controller_def Instance_SetupWithManager_def Team_SetupWithManager_def
  Pipeline_SetupWithManager_def Job_SetupWithManager_def Build_SetupWithManager_def
  Resource_SetupWithManager_def Worker_SetupWithManager_def

section \<open>The start\<close>

datatype setup_io =
    GetConfig "goerr option"
  | NewManager ManagerOptions "goerr option"
  | CompleteController registration "goerr option"
  | AddHealthzCheck string "goerr option"
  | AddReadyzCheck string "goerr option"
  | StartManager "goerr option"

text \<open>The controller runtime: every operation may fail with an error.\<close>

type_synonym 'w setup_op = "'w \<Rightarrow> goerr option \<times> 'w"

record 'w manager_api =
  m_get_config :: "'w setup_op"
  m_new_manager :: "ManagerOptions \<Rightarrow> 'w setup_op"
  m_complete :: "registration \<Rightarrow> 'w setup_op"
  m_healthz :: "string \<Rightarrow> 'w setup_op"
  m_readyz :: "string \<Rightarrow> 'w setup_op"
  m_start :: "'w setup_op"

type_synonym 'w setup_prog = "(('w, unit, setup_io) machine, int) state"

text \<open>\<open>if err := step; err != nil { os.Exit(1) }\<close>, with the rest of the function.\<close>

definition must :: "(goerr option \<Rightarrow> setup_io) \<Rightarrow> 'w setup_op \<Rightarrow> 'w setup_prog \<Rightarrow> 'w setup_prog" where
  "must c f k = do {
     e \<leftarrow> extern c f;
     (case e of Some err \<Rightarrow> ret 1 | None \<Rightarrow> k) }"

definition must_complete :: "'w manager_api \<Rightarrow> registration \<Rightarrow> 'w setup_prog \<Rightarrow> 'w setup_prog" where
  "must_complete m reg k = must (CompleteController reg) (m_complete m reg) k"

text \<open>The exit code of the process; the manager runs until it is told to stop.\<close>

definition main :: "'w manager_api \<Rightarrow> Flags \<Rightarrow> 'w setup_prog" where
  "main m fl =
     must GetConfig (m_get_config m) (
     must (NewManager (managerOptions fl)) (m_new_manager m (managerOptions fl)) (
     must_complete m Instance_SetupWithManager (
     must_complete m Team_SetupWithManager (
     must_complete m Pipeline_SetupWithManager (
     must_complete m Job_SetupWithManager (
     must_complete m Build_SetupWithManager (
     must_complete m Resource_SetupWithManager (
     must_complete m Worker_SetupWithManager (
     must (AddHealthzCheck ''healthz'') (m_healthz m ''healthz'') (
     must (AddReadyzCheck ''readyz'') (m_readyz m ''readyz'') (
     must StartManager (m_start m) (ret 0))))))))))))"

section \<open>What a start does\<close>

text \<open>The steps in order, each done, or all before one and then that one failing.\<close>

definition completes :: "(goerr option \<Rightarrow> setup_io) list \<Rightarrow> int \<Rightarrow> setup_io list \<Rightarrow> bool" where
  "completes steps code es \<longleftrightarrow>
     code = 0 \<and> es = map (\<lambda>f. f None) steps \<or>
     (\<exists>before f after err. steps = before @ f # after \<and> code = 1 \<and> es = map (\<lambda>f. f None) before @ [f (Some err)])"

lemma completes_Cons:
  assumes "completes steps code es"
  shows "completes (f # steps) code (f None # es)"
  using assms unfolding completes_def
proof (elim disjE exE conjE)
  fix before g after err
  assume "steps = before @ g # after" "code = 1" "es = map (\<lambda>f. f None) before @ [g (Some err)]"
  then show "code = 0 \<and> f None # es = map (\<lambda>f. f None) (f # steps) \<or>
    (\<exists>before g after err. f # steps = before @ g # after \<and> code = 1 \<and>
      f None # es = map (\<lambda>f. f None) before @ [g (Some err)])"
    by (intro disjI2 exI [of _ "f # before"] exI [of _ g] exI [of _ after] exI [of _ err]) simp
qed simp

lemma completes_fail: "completes (f # steps) 1 [f (Some err)]"
  unfolding completes_def
  by (intro disjI2 exI [of _ "[]"] exI [of _ f] exI [of _ steps] exI [of _ err]) simp

lemma must_outcome: "outcome k (completes steps) \<Longrightarrow> outcome (must c f k) (completes (c # steps))"
  unfolding must_def
  by (intro outcome_bind outcome_extern outcome_case(2) outcome_return)
    (auto elim!: outcome_mono intro: completes_Cons completes_fail)

definition controllers :: "registration list" where
  "controllers = [Instance_SetupWithManager, Team_SetupWithManager, Pipeline_SetupWithManager,
     Job_SetupWithManager, Build_SetupWithManager, Resource_SetupWithManager, Worker_SetupWithManager]"

definition start_steps :: "Flags \<Rightarrow> (goerr option \<Rightarrow> setup_io) list" where
  "start_steps fl = [GetConfig, NewManager (managerOptions fl)] @ map CompleteController controllers @
     [AddHealthzCheck ''healthz'', AddReadyzCheck ''readyz'', StartManager]"

lemma main_outcome: "outcome (main m fl) (completes (start_steps fl))"
  unfolding main_def must_complete_def start_steps_def controllers_def list.map append.simps
  by (intro must_outcome outcome_return) (simp add: completes_def)

text \<open>
  The manager is started only when every controller was set up, once each, and the exit code is 0
  exactly if no step failed; every kind of object has its own controller, under its own name.
\<close>

lemma started_after_setup:
  assumes "StartManager r \<in> set (emitted (main m fl) s)"
  shows "\<forall>reg\<in>set controllers. CompleteController reg None \<in> set (emitted (main m fl) s)"
    and "NewManager (managerOptions fl) None \<in> set (emitted (main m fl) s)"
proof -
  from outcomeD [OF main_outcome, of fl m s] assms
  have "\<forall>f\<in>set (butlast (start_steps fl)). f None \<in> set (emitted (main m fl) s)"
    unfolding completes_def
  proof (elim disjE exE conjE)
    fix before f after err
    assume steps: "start_steps fl = before @ f # after"
      and es: "emitted (main m fl) s = map (\<lambda>f. f None) before @ [f (Some err)]"
    have "after = []"
    proof (rule ccontr)
      assume "after \<noteq> []"
      then have "butlast (start_steps fl) = before @ f # butlast after" by (simp add: steps butlast_append)
      then have "set (before @ [f]) \<subseteq> set (butlast (start_steps fl))" by auto
      then have "\<forall>g\<in>set (before @ [f]). \<forall>x. g x \<noteq> StartManager r"
        by (auto simp: start_steps_def butlast_append)
      moreover have "\<exists>g\<in>set (before @ [f]). \<exists>x. g x = StartManager r"
      proof -
        have "StartManager r = f (Some err) \<or> StartManager r \<in> (\<lambda>g. g None) ` set before"
          using assms unfolding es by simp
        then show ?thesis
        proof
          assume "StartManager r = f (Some err)"
          then show ?thesis by (intro bexI [of _ f] exI [of _ "Some err"]) simp_all
        next
          assume "StartManager r \<in> (\<lambda>g. g None) ` set before"
          then obtain g where "g \<in> set before" "StartManager r = g None" by blast
          then show ?thesis by (intro bexI [of _ g] exI [of _ None]) simp_all
        qed
      qed
      ultimately show False by blast
    qed
    then show ?thesis using steps es by (simp add: butlast_append)
  qed (auto dest: in_set_butlastD)
  then show "\<forall>reg\<in>set controllers. CompleteController reg None \<in> set (emitted (main m fl) s)"
    "NewManager (managerOptions fl) None \<in> set (emitted (main m fl) s)"
    by (auto simp: start_steps_def butlast_append)
qed

lemma controllers_cover_kinds:
  "distinct (map reg_for controllers)" "distinct (map reg_name controllers)"
  "set (map reg_for controllers) = UNIV"
  by (auto simp: UNIV_enum enum_okind_def controllers_def setups)

text \<open>HTTP/2 is off on both servers unless the flag asks for it, and secure metrics are behind
  the authorization filter.\<close>

lemma http1_only:
  assumes "\<not> fl_enableHTTP2 fl"
  shows "nextProtos (foldl (\<lambda>c f. f c) c (mo_tlsOpts (go_metrics (managerOptions fl)))) = [''http/1.1'']"
    and "nextProtos (foldl (\<lambda>c f. f c) c (wo_tlsOpts (go_webhook (managerOptions fl)))) = [''http/1.1'']"
  using assms by (simp_all add: managerOptions_def metricsServerOptions_def webhookServerOptions_def tlsOpts_def
      disableHTTP2_def Let_def)

lemma secure_metrics_filtered:
  "mo_secureServing (go_metrics (managerOptions fl)) \<longrightarrow> mo_authFilter (go_metrics (managerOptions fl))"
  by (simp add: managerOptions_def metricsServerOptions_def Let_def)

end
