(* ===== verification/Cache_Threads.thy ===== *)
theory Cache_Threads
  imports Client_Cache
begin

text \<open>
  The client cache under concurrency. The seven controllers run their reconciles side by side and
  share one cache and its mutex. Here each method of \<open>client_cache.go\<close> is the sequence of its
  instructions, the calls of \<open>Lock\<close> and of the deferred \<open>Unlock\<close> included, and any number of
  calls interleave instruction by instruction. Nothing about the locking is built in: a call waits
  at \<open>Lock\<close> while another holds the mutex, a method that forgot to unlock would leave the
  others waiting for ever, and one that locked twice would wait for itself. The locking discipline is
  a check on the code of a method; that it makes the store sound and excludes deadlock is proved.
\<close>

section \<open>The methods, instruction by instruction\<close>

datatype call_end =
    Returned Instance goclient
  | Failed
  | Evicted

text \<open>What a call has still to execute. What it reads and builds goes to the rest of its code.\<close>

datatype code =
    Finish call_end
  | Lock code
  | Unlock code
  | Lookup Instance "goclient option \<Rightarrow> code"
  | DropPrefix Instance code
  | Put Instance goclient code
  | BuildClient Instance "goerr + http_client \<Rightarrow> code"

definition Get_code :: "Instance \<Rightarrow> (goclient option \<Rightarrow> code) \<Rightarrow> code" where
  "Get_code i k = Lock (Lookup i (\<lambda>r. Unlock (k r)))"

definition Set_code :: "Instance \<Rightarrow> goclient \<Rightarrow> code \<Rightarrow> code" where
  "Set_code i cl k = Lock (DropPrefix i (Put i cl (Unlock k)))"

definition Evict_code :: "Instance \<Rightarrow> code \<Rightarrow> code" where
  "Evict_code i k = Lock (DropPrefix i (Unlock k))"

definition GetOrBuild_code :: "Instance \<Rightarrow> code" where
  "GetOrBuild_code i = Get_code i (\<lambda>r. case r of
       Some cl \<Rightarrow> Finish (Returned i cl)
     | None \<Rightarrow> BuildClient i (\<lambda>httpClient. case httpClient of
         Inl err \<Rightarrow> Finish Failed
       | Inr hc \<Rightarrow>
           let cl = NewConcourseClient (is_url (instance_spec i)) hc
           in Set_code i cl (Finish (Returned i cl))))"

section \<open>Steps\<close>

text \<open>
  The store, the mutex with the call that holds it, and the calls, each under a number of its own.
  Two fields only observe: the Instances ever asked for, and how many steps a call has made.
\<close>

record shared =
  cache :: store
  holder :: "nat option"
  running :: "nat \<rightharpoonup> code"
  asked :: "Instance set"
  made :: "nat \<Rightarrow> nat"

definition idle :: shared where
  "idle = \<lparr>cache = NewCache, holder = None, running = Map.empty, asked = {}, made = (\<lambda>_. 0)\<rparr>"

definition goes_on :: "nat \<Rightarrow> code \<Rightarrow> shared \<Rightarrow> shared" where
  "goes_on t k c = c\<lparr>running := (running c)(t \<mapsto> k), made := (made c)(t := Suc (made c t))\<rparr>"

text \<open>
  Call \<open>t\<close> executes its next instruction. \<open>Lock\<close> has no step while the mutex is held, whoever holds it;
  \<open>Unlock\<close> needs a locked mutex, whoever locked it. Building a client reads Secrets of a world of which
  nothing is known.
\<close>

inductive task_step :: "'w env \<Rightarrow> nat \<Rightarrow> shared \<Rightarrow> shared \<Rightarrow> bool" for env t where
  locks: "running c t = Some (Lock k) \<Longrightarrow> holder c = None \<Longrightarrow>
    task_step env t c (goes_on t k (c\<lparr>holder := Some t\<rparr>))"
| unlocks: "running c t = Some (Unlock k) \<Longrightarrow> holder c = Some u \<Longrightarrow>
    task_step env t c (goes_on t k (c\<lparr>holder := None\<rparr>))"
| looks_up: "running c t = Some (Lookup i k) \<Longrightarrow>
    task_step env t c (goes_on t (k (Cache_Get (cache c) i)) c)"
| drops: "running c t = Some (DropPrefix i k) \<Longrightarrow>
    task_step env t c (goes_on t k (c\<lparr>cache := Cache_Evict (cache c) i\<rparr>))"
| puts: "running c t = Some (Put i cl k) \<Longrightarrow>
    task_step env t c (goes_on t k (c\<lparr>cache := (cache c)(cacheKey i \<mapsto> cl)\<rparr>))"
| builds: "running c t = Some (BuildClient i k) \<Longrightarrow>
    task_step env t c (goes_on t (k (result_of (build_client env i) s)) c)"

text \<open>Calls come at any time.\<close>

inductive shared_step :: "'w env \<Rightarrow> shared \<Rightarrow> shared \<Rightarrow> bool" for env where
  asks: "running c t = None \<Longrightarrow> inst_ok i \<Longrightarrow>
    shared_step env c (c\<lparr>running := (running c)(t \<mapsto> GetOrBuild_code i), asked := insert i (asked c)\<rparr>)"
| removes: "running c t = None \<Longrightarrow> inst_ok i \<Longrightarrow>
    shared_step env c (c\<lparr>running := (running c)(t \<mapsto> Evict_code i (Finish Evicted))\<rparr>)"
| works: "task_step env t c c' \<Longrightarrow> shared_step env c c'"

inductive shared_reachable :: "'w env \<Rightarrow> shared \<Rightarrow> bool" for env where
  starts: "shared_reachable env idle"
| steps: "shared_reachable env c \<Longrightarrow> shared_step env c c' \<Longrightarrow> shared_reachable env c'"

lemma goes_on_sel [simp]:
  "cache (goes_on t k c) = cache c" "asked (goes_on t k c) = asked c" "holder (goes_on t k c) = holder c"
  "running (goes_on t k c) = (running c)(t \<mapsto> k)" "made (goes_on t k c) = (made c)(t := Suc (made c t))"
  by (simp_all add: goes_on_def)

section \<open>The locking discipline\<close>

text \<open>The client is one that was built for this Instance, from Secrets read at some time.\<close>

definition client_of :: "'w env \<Rightarrow> Instance \<Rightarrow> goclient \<Rightarrow> bool" where
  "client_of env i cl \<longleftrightarrow> (\<exists>s hc.
     result_of (build_client env i) s = Inr hc \<and> cl = NewConcourseClient (is_url (instance_spec i)) hc)"

text \<open>The Instance in a version in which it was asked for.\<close>

definition asked_client :: "'w env \<Rightarrow> Instance set \<Rightarrow> string \<Rightarrow> goclient \<Rightarrow> bool" where
  "asked_client env A k cl \<longleftrightarrow> (\<exists>j\<in>A. cacheKey j = k \<and> client_of env j cl)"

text \<open>Where a call stands: outside of the mutex, inside, or inside with the keys of an Instance removed.\<close>

datatype place = Outside | Inside | Cleared Instance

text \<open>
  The rest of a call is disciplined: it locks only from outside and unlocks before it builds or
  ends, it touches the store only inside, and it stores a client only after it removed the others
  of the Instance, for a version that was asked for and built from it.
\<close>

primrec disciplined :: "'w env \<Rightarrow> code \<Rightarrow> place \<Rightarrow> Instance set \<Rightarrow> bool" where
  "disciplined env (Finish r) p A = (p = Outside \<and>
     (\<forall>i cl. r = Returned i cl \<longrightarrow> i \<in> A \<and> asked_client env A (cacheKey i) cl))"
| "disciplined env (Lock k) p A = (p = Outside \<and> disciplined env k Inside A)"
| "disciplined env (Unlock k) p A = (p \<noteq> Outside \<and> disciplined env k Outside A)"
| "disciplined env (Lookup i k) p A = (p \<noteq> Outside \<and>
     (\<forall>r B. A \<subseteq> B \<and> (\<forall>cl. r = Some cl \<longrightarrow> asked_client env B (cacheKey i) cl) \<longrightarrow> disciplined env (k r) p B))"
| "disciplined env (DropPrefix i k) p A = (p \<noteq> Outside \<and> disciplined env k (Cleared i) A)"
| "disciplined env (Put i cl k) p A = (p = Cleared i \<and> inst_ok i \<and> asked_client env A (cacheKey i) cl \<and>
     disciplined env k Inside A)"
| "disciplined env (BuildClient i k) p A = (p = Outside \<and>
     (\<forall>s. disciplined env (k (result_of (build_client env i) s)) Outside A))"

text \<open>The rest of a call ends within so many steps.\<close>

primrec within :: "code \<Rightarrow> nat \<Rightarrow> bool" where
  "within (Finish r) n = True"
| "within (Lock k) n = (0 < n \<and> within k (n - 1))"
| "within (Unlock k) n = (0 < n \<and> within k (n - 1))"
| "within (Lookup i k) n = (0 < n \<and> (\<forall>r. within (k r) (n - 1)))"
| "within (DropPrefix i k) n = (0 < n \<and> within k (n - 1))"
| "within (Put i cl k) n = (0 < n \<and> within k (n - 1))"
| "within (BuildClient i k) n = (0 < n \<and> (\<forall>r. within (k r) (n - 1)))"

lemma asked_client_mono: "asked_client env A k cl \<Longrightarrow> A \<subseteq> B \<Longrightarrow> asked_client env B k cl"
  unfolding asked_client_def by blast

lemma disciplined_mono: "disciplined env k p A \<Longrightarrow> A \<subseteq> B \<Longrightarrow> disciplined env k p B"
proof (induction k arbitrary: p A B)
  case (Lookup i k)
  then show ?case by (auto dest: subset_trans)
next
  case (BuildClient i k)
  then show ?case by simp (meson rangeI)
qed (auto intro: asked_client_mono)

text \<open>The methods obey.\<close>

lemma GetOrBuild_disciplined: "i \<in> A \<Longrightarrow> inst_ok i \<Longrightarrow> disciplined env (GetOrBuild_code i) Outside A"
  by (auto simp: GetOrBuild_code_def Get_code_def Set_code_def asked_client_def client_of_def Let_def
      split: option.splits sum.splits)

lemma Evict_disciplined: "disciplined env (Evict_code i (Finish Evicted)) Outside A"
  by (simp add: Evict_code_def)

lemma GetOrBuild_within: "within (GetOrBuild_code i) 8"
  by (auto simp: GetOrBuild_code_def Get_code_def Set_code_def Let_def split: option.splits sum.splits)

lemma Evict_within: "within (Evict_code i (Finish Evicted)) 8"
  by (simp add: Evict_code_def)

section \<open>The invariant\<close>

definition cleared :: "store \<Rightarrow> Instance \<Rightarrow> bool" where
  "cleared st i \<longleftrightarrow> (\<forall>k. has_prefix k (cachePrefix i) \<longrightarrow> st k = None)"

text \<open>A call stands inside exactly if it holds the mutex.\<close>

definition stands :: "shared \<Rightarrow> nat \<Rightarrow> place \<Rightarrow> bool" where
  "stands c t p \<longleftrightarrow> (p = Outside \<longleftrightarrow> holder c \<noteq> Some t) \<and> (\<forall>i. p = Cleared i \<longrightarrow> cleared (cache c) i)"

definition call_ok :: "'w env \<Rightarrow> shared \<Rightarrow> nat \<Rightarrow> code \<Rightarrow> bool" where
  "call_ok env c t k \<longleftrightarrow> (\<exists>p. stands c t p \<and> disciplined env k p (asked c)) \<and> made c t \<le> 8 \<and> within k (8 - made c t)"

definition shared_inv :: "'w env \<Rightarrow> shared \<Rightarrow> bool" where
  "shared_inv env c \<longleftrightarrow> one_per_instance (cache c) \<and> (\<forall>i\<in>asked c. inst_ok i) \<and>
     (\<forall>k cl. cache c k = Some cl \<longrightarrow> asked_client env (asked c) k cl) \<and>
     (\<forall>t k. running c t = Some k \<longrightarrow> call_ok env c t k) \<and>
     (\<forall>t. running c t = None \<longrightarrow> made c t = 0 \<and> holder c \<noteq> Some t)"

lemma shared_invD:
  assumes "shared_inv env c"
  shows "one_per_instance (cache c)" "i \<in> asked c \<Longrightarrow> inst_ok i"
    "cache c q = Some cl \<Longrightarrow> asked_client env (asked c) q cl"
    "running c t = Some k \<Longrightarrow> call_ok env c t k"
    "running c t = None \<Longrightarrow> made c t = 0 \<and> holder c \<noteq> Some t"
  using assms by (auto simp: shared_inv_def)

lemma one_per_instance_put:
  assumes "one_per_instance st" "cleared st i" "inst_ok i"
  shows "one_per_instance (st(cacheKey i \<mapsto> cl))"
proof -
  have "(\<lambda>k. if has_prefix k (cachePrefix i) then None else st k) = st"
    using assms(2) by (auto simp: cleared_def)
  with one_per_instance_Set [OF assms(1,3), of cl] show ?thesis by (simp add: Cache_Set_def)
qed

text \<open>
  A step is made of three parts: what it does to the store keeps the store sound, what it does to
  the mutex leaves every other call where it stands, and the own call goes on in a place that fits.
\<close>

lemma inv_step:
  assumes inv: "shared_inv env c" and t: "running c t = Some k"
    and same: "running d = running c" "made d = made c" "asked d = asked c"
    and store: "one_per_instance (cache d)" "\<And>q cl. cache d q = Some cl \<Longrightarrow> asked_client env (asked c) q cl"
    and others: "\<And>u p. u \<noteq> t \<Longrightarrow> stands c u p \<Longrightarrow> stands d u p"
    and place: "stands d t p" "disciplined env k' p (asked c)"
    and bound: "made c t < 8" "within k' (8 - Suc (made c t))"
  shows "shared_inv env (goes_on t k' d)"
proof -
  have stands: "stands (goes_on t k' d) u q = stands d u q" for u q by (simp add: stands_def)
  have "call_ok env (goes_on t k' d) t k'"
    using place bound by (auto simp: call_ok_def stands same)
  moreover have "call_ok env (goes_on t k' d) u g" if "u \<noteq> t" "running c u = Some g" for u g
    using shared_invD(4) [OF inv that(2)] others [OF that(1)] that(1)
    by (auto simp: call_ok_def stands same)
  moreover have "holder d \<noteq> Some u" if "running c u = None" for u
  proof -
    have "u \<noteq> t" using that t by auto
    moreover have "stands c u Outside" using shared_invD(5) [OF inv that] by (simp add: stands_def)
    ultimately have "stands d u Outside" by (rule others)
    then show ?thesis by (simp add: stands_def)
  qed
  ultimately show ?thesis
    using inv store t by (auto simp: shared_inv_def same)
qed

text \<open>While one call holds the mutex, the others stand outside, whatever it does to the store.\<close>

lemma others_outside:
  "holder c = Some t \<Longrightarrow> u \<noteq> t \<Longrightarrow> stands c u p \<Longrightarrow> holder d = holder c \<Longrightarrow> stands d u p"
  by (auto simp: stands_def)

lemma call_okD:
  assumes "call_ok env c t k"
  obtains p where "stands c t p" "disciplined env k p (asked c)" "made c t \<le> 8" "within k (8 - made c t)"
  using assms by (auto simp: call_ok_def)

lemma task_step_inv: "task_step env t c c' \<Longrightarrow> shared_inv env c \<Longrightarrow> shared_inv env c'"
proof (induction rule: task_step.induct)
  case (locks c k)
  from shared_invD(4) [OF locks(3,1)] obtain p where p: "disciplined env (Lock k) p (asked c)"
    and b: "within (Lock k) (8 - made c t)" by (rule call_okD)
  from locks p b show ?case
    by (intro inv_step [where c = c and k = "Lock k" and p = Inside])
      (auto simp: stands_def dest: shared_invD)
next
  case (unlocks c k u)
  from shared_invD(4) [OF unlocks(3,1)] obtain p where p: "stands c t p" "disciplined env (Unlock k) p (asked c)"
    and b: "within (Unlock k) (8 - made c t)" by (rule call_okD)
  then have "holder c = Some t" by (simp add: stands_def)
  with unlocks p b show ?case
    by (intro inv_step [where c = c and k = "Unlock k" and p = Outside])
      (auto simp: stands_def dest: shared_invD)
next
  case (looks_up c i k)
  from shared_invD(4) [OF looks_up(2,1)] obtain p where p: "stands c t p" "disciplined env (Lookup i k) p (asked c)"
    and b: "within (Lookup i k) (8 - made c t)" by (rule call_okD)
  have found: "Cache_Get (cache c) i = Some cl \<Longrightarrow> asked_client env (asked c) (cacheKey i) cl" for cl
    using shared_invD(3) [OF looks_up(2)] by (simp add: Cache_Get_def)
  from looks_up p b found show ?case
    by (intro inv_step [where c = c and k = "Lookup i k" and p = p]) (auto dest: shared_invD)
next
  case (drops c i k)
  from shared_invD(4) [OF drops(2,1)] obtain p where p: "stands c t p" "disciplined env (DropPrefix i k) p (asked c)"
    and b: "within (DropPrefix i k) (8 - made c t)" by (rule call_okD)
  then have h: "holder c = Some t" by (simp add: stands_def)
  have old: "asked_client env (asked c) q cl" if "Cache_Evict (cache c) i q = Some cl" for q cl
    using that shared_invD(3) [OF drops(2)] by (auto simp: Cache_Evict_def split: if_splits)
  have place: "stands (c\<lparr>cache := Cache_Evict (cache c) i\<rparr>) t (Cleared i)"
    using h by (simp add: stands_def cleared_def Cache_Evict_def)
  from drops p b show ?case
    by (intro inv_step [where c = c and k = "DropPrefix i k", OF drops(2,1) _ _ _ _ _ _ place])
      (auto intro: one_per_instance_Evict others_outside [OF h] old dest: shared_invD)
next
  case (puts c i cl k)
  from shared_invD(4) [OF puts(2,1)] obtain p where p: "stands c t p" "disciplined env (Put i cl k) p (asked c)"
    and b: "within (Put i cl k) (8 - made c t)" by (rule call_okD)
  then have h: "holder c = Some t" and cleared: "cleared (cache c) i" by (auto simp: stands_def)
  have new: "asked_client env (asked c) q x" if "((cache c)(cacheKey i \<mapsto> cl)) q = Some x" for q x
    using that p shared_invD(3) [OF puts(2)] by (auto split: if_splits)
  have place: "stands (c\<lparr>cache := (cache c)(cacheKey i \<mapsto> cl)\<rparr>) t Inside"
    using h by (simp add: stands_def)
  have one: "one_per_instance ((cache c)(cacheKey i \<mapsto> cl))"
    using p one_per_instance_put [OF shared_invD(1) [OF puts(2)] cleared] by simp
  from puts p b show ?case
    by (intro inv_step [where c = c and k = "Put i cl k", OF puts(2,1) _ _ _ _ _ _ place])
      (auto simp: one new simp del: fun_upd_apply intro: others_outside [OF h])
next
  case (builds c i k s)
  from shared_invD(4) [OF builds(2,1)] obtain p where p: "stands c t p" "disciplined env (BuildClient i k) p (asked c)"
    and b: "within (BuildClient i k) (8 - made c t)" by (rule call_okD)
  from builds p b show ?case
    by (intro inv_step [where c = c and k = "BuildClient i k" and p = p]) (auto dest: shared_invD)
qed

lemma call_ok_asked:
  assumes "call_ok env c t k" and "asked c \<subseteq> asked d" "holder d = holder c" "cache d = cache c" "made d = made c"
  shows "call_ok env d t k"
  using assms by (auto simp: call_ok_def stands_def intro: disciplined_mono)

lemma shared_step_inv: "shared_step env c c' \<Longrightarrow> shared_inv env c \<Longrightarrow> shared_inv env c'"
proof (induction rule: shared_step.induct)
  case (asks c t i)
  let ?d = "c\<lparr>running := (running c)(t \<mapsto> GetOrBuild_code i), asked := insert i (asked c)\<rparr>"
  have "call_ok env ?d t (GetOrBuild_code i)"
    using asks shared_invD(5) [OF asks(3,1)]
    by (auto simp: call_ok_def stands_def GetOrBuild_within intro!: exI [of _ Outside] GetOrBuild_disciplined)
  moreover have "call_ok env ?d u k" if "running c u = Some k" for u k
    by (rule call_ok_asked [OF shared_invD(4) [OF asks(3) that]]) auto
  ultimately show ?case
    using asks by (auto simp: shared_inv_def intro: asked_client_mono [where A = "asked c"])
next
  case (removes c t i)
  let ?d = "c\<lparr>running := (running c)(t \<mapsto> Evict_code i (Finish Evicted))\<rparr>"
  have "call_ok env ?d t (Evict_code i (Finish Evicted))"
    using removes shared_invD(5) [OF removes(3,1)]
    by (auto simp: call_ok_def stands_def Evict_within intro!: exI [of _ Outside] Evict_disciplined)
  moreover have "call_ok env ?d u k" if "running c u = Some k" for u k
    by (rule call_ok_asked [OF shared_invD(4) [OF removes(3) that]]) auto
  ultimately show ?case using removes by (auto simp: shared_inv_def)
next
  case (works t c c')
  then show ?case by (blast intro: task_step_inv)
qed

lemma shared_reachable_inv: "shared_reachable env c \<Longrightarrow> shared_inv env c"
proof (induction rule: shared_reachable.induct)
  case starts
  show ?case by (simp add: shared_inv_def idle_def NewCache_def one_per_instance_def)
next
  case (steps c c')
  then show ?case by (blast intro: shared_step_inv)
qed

section \<open>Progress\<close>

text \<open>The instructions that need the mutex, and the one that waits for it.\<close>

fun touches_store :: "code \<Rightarrow> bool" where
  "touches_store (Lookup i k) = True"
| "touches_store (DropPrefix i k) = True"
| "touches_store (Put i cl k) = True"
| "touches_store k = False"

fun at_lock :: "code \<Rightarrow> bool" where
  "at_lock (Lock k) = True"
| "at_lock k = False"

fun finished :: "code \<Rightarrow> bool" where
  "finished (Finish r) = True"
| "finished k = False"

text \<open>A disciplined call can always go on, but for waiting at the mutex.\<close>

lemma call_steps:
  assumes "running c t = Some k" "\<not> finished k" "stands c t p" "disciplined env k p A"
    and "at_lock k \<Longrightarrow> holder c = None"
  shows "\<exists>c'. task_step env t c c'"
  using assms
  by (cases k) (auto simp: stands_def intro: locks unlocks looks_up drops puts builds)

text \<open>Whoever holds the mutex is at work inside, so it is neither finished nor waiting.\<close>

lemma holder_steps:
  assumes inv: "shared_inv env c" and h: "holder c = Some u"
  shows "\<exists>c'. task_step env u c c'"
proof -
  from shared_invD(5) [OF inv, of u] h obtain k where k: "running c u = Some k" by (cases "running c u") auto
  from shared_invD(4) [OF inv k] obtain p where p: "stands c u p" "disciplined env k p (asked c)"
    by (rule call_okD)
  from p h have "\<not> finished k" "\<not> at_lock k" by (cases k; auto simp: stands_def)+
  with k p show ?thesis by (blast intro: call_steps)
qed

section \<open>A method that nobody interrupts\<close>

text \<open>Under the mutex each method has the effect of its sequential definition.\<close>

definition goes_to :: "'w env \<Rightarrow> nat \<Rightarrow> shared \<Rightarrow> code \<Rightarrow> store \<Rightarrow> bool" where
  "goes_to env t c k st \<longleftrightarrow> (\<exists>c'. (task_step env t)\<^sup>*\<^sup>* c c' \<and> running c' = (running c)(t \<mapsto> k) \<and>
     holder c' = None \<and> cache c' = st \<and> asked c' = asked c)"

lemma Get_alone:
  assumes "running c t = Some (Get_code i k)" "holder c = None"
  shows "goes_to env t c (k (Cache_Get (cache c) i)) (cache c)"
proof -
  let ?c1 = "goes_on t (Lookup i (\<lambda>r. Unlock (k r))) (c\<lparr>holder := Some t\<rparr>)"
  let ?c2 = "goes_on t (Unlock (k (Cache_Get (cache c) i))) ?c1"
  have "task_step env t c ?c1" using assms by (intro locks) (simp_all add: Get_code_def)
  moreover have "task_step env t ?c1 ?c2"
    using looks_up [of ?c1 t i "\<lambda>r. Unlock (k r)" env] by simp
  moreover have "task_step env t ?c2 (goes_on t (k (Cache_Get (cache c) i)) (?c2\<lparr>holder := None\<rparr>))"
    by (rule unlocks [where u = t]) simp_all
  ultimately show ?thesis unfolding goes_to_def
    by (intro exI [of _ "goes_on t (k (Cache_Get (cache c) i)) (?c2\<lparr>holder := None\<rparr>)"])
      (auto intro: rtranclp_trans)
qed

lemma Evict_alone:
  assumes "running c t = Some (Evict_code i k)" "holder c = None"
  shows "goes_to env t c k (Cache_Evict (cache c) i)"
proof -
  let ?c1 = "goes_on t (DropPrefix i (Unlock k)) (c\<lparr>holder := Some t\<rparr>)"
  let ?c2 = "goes_on t (Unlock k) (?c1\<lparr>cache := Cache_Evict (cache ?c1) i\<rparr>)"
  have "task_step env t c ?c1" using assms by (intro locks) (simp_all add: Evict_code_def)
  moreover have "task_step env t ?c1 ?c2" by (rule drops) simp
  moreover have "task_step env t ?c2 (goes_on t k (?c2\<lparr>holder := None\<rparr>))"
    by (rule unlocks [where u = t]) simp_all
  ultimately show ?thesis unfolding goes_to_def
    by (intro exI [of _ "goes_on t k (?c2\<lparr>holder := None\<rparr>)"]) (auto intro: rtranclp_trans)
qed

lemma Set_alone:
  assumes "running c t = Some (Set_code i cl k)" "holder c = None"
  shows "goes_to env t c k (Cache_Set (cache c) i cl)"
proof -
  let ?c1 = "goes_on t (DropPrefix i (Put i cl (Unlock k))) (c\<lparr>holder := Some t\<rparr>)"
  let ?c2 = "goes_on t (Put i cl (Unlock k)) (?c1\<lparr>cache := Cache_Evict (cache ?c1) i\<rparr>)"
  let ?c3 = "goes_on t (Unlock k) (?c2\<lparr>cache := (cache ?c2)(cacheKey i \<mapsto> cl)\<rparr>)"
  have "task_step env t c ?c1" using assms by (intro locks) (simp_all add: Set_code_def)
  moreover have "task_step env t ?c1 ?c2" by (rule drops) simp
  moreover have "task_step env t ?c2 ?c3" by (rule puts) simp
  moreover have "task_step env t ?c3 (goes_on t k (?c3\<lparr>holder := None\<rparr>))"
    by (rule unlocks [where u = t]) simp_all
  ultimately show ?thesis unfolding goes_to_def
    by (intro exI [of _ "goes_on t k (?c3\<lparr>holder := None\<rparr>)"])
      (auto simp: Cache_Set_def Cache_Evict_def intro: rtranclp_trans)
qed

lemma goes_to_step:
  assumes "running c t = Some (BuildClient i k)" "holder c = None"
  shows "goes_to env t c (k (result_of (build_client env i) s)) (cache c)"
  using builds [OF assms(1), of env s] assms(2) unfolding goes_to_def
  by (intro exI [of _ "goes_on t (k (result_of (build_client env i) s)) c"]) auto

lemma goes_to_trans:
  assumes "goes_to env t c k st"
    and "\<And>d. running d t = Some k \<Longrightarrow> holder d = None \<Longrightarrow> cache d = st \<Longrightarrow> goes_to env t d k' st'"
  shows "goes_to env t c k' st'"
proof -
  from assms(1) obtain d where d: "(task_step env t)\<^sup>*\<^sup>* c d" "running d = (running c)(t \<mapsto> k)"
    "holder d = None" "cache d = st" "asked d = asked c" unfolding goes_to_def by blast
  from assms(2) [of d] d have "goes_to env t d k' st'" by simp
  with d show ?thesis unfolding goes_to_def by (metis fun_upd_upd rtranclp_trans)
qed

text \<open>The steps of a lookup are those of \<open>GetOrBuild\<close>, with the same result and the same store at the end.\<close>

lemma GetOrBuild_alone:
  assumes task: "running c t = Some (GetOrBuild_code i)" "holder c = None" and store: "cache c = mem_store (mem s)"
  shows "goes_to env t c (Finish (case result_of (GetOrBuild env i) s of Inr cl \<Rightarrow> Returned i cl | Inl err \<Rightarrow> Failed))
    (mem_store (mem (final_of (GetOrBuild env i) s)))"
proof (cases "Cache_Get (cache c) i")
  case (Some cl)
  then have "run_state (GetOrBuild env i) s = (Inr cl, s)" using store by (simp add: GetOrBuild_hit_run)
  with Get_alone [OF task [unfolded GetOrBuild_code_def], of env] Some store show ?thesis
    by (simp add: result_of_def final_of_def)
next
  case None
  note miss = GetOrBuild_miss [OF None [unfolded store], of env]
  let ?k = "\<lambda>hc. case hc of Inl err \<Rightarrow> Finish Failed | Inr hc \<Rightarrow>
    Set_code i (NewConcourseClient (is_url (instance_spec i)) hc)
      (Finish (Returned i (NewConcourseClient (is_url (instance_spec i)) hc)))"
  have first: "goes_to env t c (BuildClient i ?k) (cache c)"
    using Get_alone [OF task [unfolded GetOrBuild_code_def], of env] None by (simp add: Let_def)
  have second: "goes_to env t c (?k (result_of (build_client env i) s)) (cache c)"
    by (rule goes_to_trans [OF first]) (metis goes_to_step)
  show ?thesis
  proof (cases "result_of (build_client env i) s")
    case (Inl err)
    have "mem (final_of (GetOrBuild env i) s) = mem (final_of (build_client env i) s)"
      using GetOrBuild_miss_run [OF None [unfolded store], of env] Inl
      by (auto simp: run_simps result_of_def final_of_def split: prod.splits)
    with second Inl miss(1) store build_client_mem [of env i s] show ?thesis by simp
  next
    case (Inr hc)
    let ?cl = "NewConcourseClient (is_url (instance_spec i)) hc"
    have "goes_to env t c (Set_code i ?cl (Finish (Returned i ?cl))) (cache c)" using second Inr by simp
    then have "goes_to env t c (Finish (Returned i ?cl)) (Cache_Set (cache c) i ?cl)"
      by (rule goes_to_trans) (metis Set_alone)
    with miss(1) miss(2) [of ?cl] Inr store show ?thesis by simp
  qed
qed

section \<open>What concurrent callers can rely on\<close>

text \<open>C14: The cache is safe for concurrent use: however the instructions of any number of lookups and
  evictions interleave, the store never holds clients of two versions of one Instance, and a client
  that a lookup returns was built for the Instance asked for, in the very version asked for, by
  this or another caller. Only the call that holds the mutex reads or writes the store. No call
  makes more than eight steps, and there is no deadlock: each call that has not returned can make its next
  step at once, or it waits at \<open>Lock\<close> for another call that holds the mutex and can make its own.\<close>

theorem concurrent_lookups_sound:
  assumes "shared_reachable env c"
  shows "one_per_instance (cache c) \<and>
    (\<forall>t i cl. running c t = Some (Finish (Returned i cl)) \<longrightarrow>
       (\<exists>j\<in>asked c. same_instance i j \<and> client_of env j cl \<and>
          om_resourceVersion (instance_meta i) = om_resourceVersion (instance_meta j))) \<and>
    (\<forall>t k. running c t = Some k \<and> touches_store k \<longrightarrow> holder c = Some t) \<and>
    (\<forall>t. made c t \<le> 8) \<and>
    (\<forall>t k. running c t = Some k \<and> \<not> finished k \<longrightarrow>
       (\<exists>c'. task_step env t c c') \<or>
       at_lock k \<and> (\<exists>u c'. u \<noteq> t \<and> holder c = Some u \<and> task_step env u c c'))"
proof (intro conjI allI impI)
  note inv = shared_reachable_inv [OF assms]
  show "one_per_instance (cache c)" by (rule shared_invD(1) [OF inv])
  show "made c t \<le> 8" for t
    using shared_invD(4,5) [OF inv] by (cases "running c t") (auto simp: call_ok_def)
  show "holder c = Some t" if "running c t = Some k \<and> touches_store k" for t k
    using shared_invD(4) [OF inv, of t k] that by (cases k) (auto simp: call_ok_def stands_def)
  fix t k
  assume k: "running c t = Some k \<and> \<not> finished k"
  then obtain p where p: "stands c t p" "disciplined env k p (asked c)"
    using shared_invD(4) [OF inv, of t k] by (blast elim: call_okD)
  show "(\<exists>c'. task_step env t c c') \<or>
      at_lock k \<and> (\<exists>u c'. u \<noteq> t \<and> holder c = Some u \<and> task_step env u c c')"
  proof (cases "at_lock k \<and> holder c \<noteq> None")
    case True
    then obtain u where u: "holder c = Some u" by blast
    from True p u have "u \<noteq> t" by (cases k) (auto simp: stands_def)
    with True u holder_steps [OF inv u] show ?thesis by blast
  next
    case False
    then have "at_lock k \<Longrightarrow> holder c = None" by blast
    from call_steps [OF _ _ p this] k show ?thesis by blast
  qed
next
  fix t i cl
  assume run: "running c t = Some (Finish (Returned i cl))"
  note inv = shared_reachable_inv [OF assms]
  from shared_invD(4) [OF inv run] have "i \<in> asked c" "asked_client env (asked c) (cacheKey i) cl"
    by (auto simp: call_ok_def)
  then show "\<exists>j\<in>asked c. same_instance i j \<and> client_of env j cl \<and>
      om_resourceVersion (instance_meta i) = om_resourceVersion (instance_meta j)"
    using cacheKey_eq shared_invD(2) [OF inv] unfolding asked_client_def by metis
qed

section \<open>An eviction that comes too early\<close>

definition demo_http :: http_client where
  "demo_http = \<lparr>hc_source = StaticTokenSource ''t0'' ''bearer'', hc_base = \<lparr>tc_insecureSkipVerify = False, tc_rootCAs = None\<rparr>\<rparr>"

definition late_client :: goclient where
  "late_client = NewConcourseClient (is_url (instance_spec demo_instance)) demo_http"

lemma demo_builds: "result_of (build_client (demo_env :: unit env) demo_instance) (demo_start ()) = Inr demo_http"
  by (simp add: eval_simps auth_defs demo_http_def cong: eval_cong)

lemma reachable_on: "(task_step env t)\<^sup>*\<^sup>* c c' \<Longrightarrow> shared_reachable env c \<Longrightarrow> shared_reachable env c'"
  by (induction rule: rtranclp_induct) (auto intro: shared_reachable.steps works)

text \<open>
  One call looks up a client and finds none; then another one evicts the Instance, and is done; then the
  first one builds its client and stores it.
\<close>

lemma eviction_overtaken:
  "\<exists>c c'. shared_reachable (demo_env :: unit env) c \<and> running c 1 = Some (Finish Evicted) \<and>
     cache c = Cache_Evict NewCache demo_instance \<and> (task_step (demo_env :: unit env) 0)\<^sup>*\<^sup>* c c' \<and>
     running c' 0 = Some (Finish (Returned demo_instance late_client)) \<and>
     cache c' = Cache_Set (Cache_Evict NewCache demo_instance) demo_instance late_client"
proof -
  let ?i = demo_instance and ?e = "demo_env :: unit env"
  define k where "k = (\<lambda>httpClient :: goerr + http_client. case httpClient of Inl err \<Rightarrow> Finish Failed
    | Inr hc \<Rightarrow> let cl = NewConcourseClient (is_url (instance_spec ?i)) hc in Set_code ?i cl (Finish (Returned ?i cl)))"
  let ?c0 = "idle\<lparr>running := (running idle)(0 \<mapsto> GetOrBuild_code ?i), asked := insert ?i (asked idle)\<rparr>"
  have c0: "shared_reachable ?e ?c0"
    by (rule shared_reachable.steps [OF starts asks]) (simp_all add: idle_def)
  have code: "GetOrBuild_code ?i = Get_code ?i (\<lambda>r. case r of Some cl \<Rightarrow> Finish (Returned ?i cl) | None \<Rightarrow> BuildClient ?i k)"
    by (simp only: GetOrBuild_code_def k_def)
  have run: "running ?c0 0 = Some (Get_code ?i (\<lambda>r. case r of Some cl \<Rightarrow> Finish (Returned ?i cl) | None \<Rightarrow> BuildClient ?i k))"
    by (simp add: code)
  have "holder ?c0 = None" "Cache_Get (cache ?c0) ?i = None" "cache ?c0 = NewCache"
    by (simp_all add: idle_def NewCache_def Cache_Get_def)
  with Get_alone [OF run, of "?e"] have "goes_to ?e 0 ?c0 (BuildClient ?i k) NewCache" by simp
  then obtain c1 where c1: "shared_reachable ?e c1" "running c1 = [0 \<mapsto> BuildClient ?i k]"
      "holder c1 = None" "cache c1 = NewCache"
    unfolding goes_to_def using reachable_on [OF _ c0] by (auto simp: idle_def)
  let ?c2 = "c1\<lparr>running := (running c1)(1 \<mapsto> Evict_code ?i (Finish Evicted))\<rparr>"
  have c2: "shared_reachable ?e ?c2"
    by (rule shared_reachable.steps [OF c1(1) removes]) (simp_all add: c1)
  have "goes_to ?e 1 ?c2 (Finish Evicted) (Cache_Evict NewCache ?i)"
    using Evict_alone [of ?c2 1 ?i "Finish Evicted" ?e] by (simp add: c1)
  then obtain c3 where c3: "shared_reachable ?e c3" "running c3 = [0 \<mapsto> BuildClient ?i k, 1 \<mapsto> Finish Evicted]"
      "holder c3 = None" "cache c3 = Cache_Evict NewCache ?i"
    unfolding goes_to_def using reachable_on [OF _ c2] by (auto simp: c1)
  have "goes_to ?e 0 c3 (Set_code ?i late_client (Finish (Returned ?i late_client))) (cache c3)"
    using goes_to_step [of c3 0 ?i k ?e "demo_start ()"] c3 demo_builds by (simp add: k_def late_client_def Let_def)
  then have "goes_to ?e 0 c3 (Finish (Returned ?i late_client)) (Cache_Set (cache c3) ?i late_client)"
    by (rule goes_to_trans) (metis Set_alone)
  with c3 show ?thesis unfolding goes_to_def by fastforce
qed

theorem concurrent_lookups_sound_witness:
  "\<exists>c j. shared_reachable (demo_env :: unit env) c \<and>
     running c 0 = Some (Finish (Returned demo_instance late_client)) \<and>
     same_instance demo_instance j \<and> client_of (demo_env :: unit env) j late_client \<and> made c 0 \<le> 8"
proof -
  from eviction_overtaken obtain b c where b: "shared_reachable (demo_env :: unit env) b"
    and c: "(task_step (demo_env :: unit env) 0)\<^sup>*\<^sup>* b c" "running c 0 = Some (Finish (Returned demo_instance late_client))"
    by blast
  have reach: "shared_reachable (demo_env :: unit env) c" by (rule reachable_on [OF c(1) b])
  from concurrent_lookups_sound [OF this] c(2) reach show ?thesis by blast
qed

text \<open>
  The eviction is over and the store is empty; then the lookup that was under way when it ran puts
  its client back, and no eviction of this Instance comes after it.
\<close>

lemma evicted_client_returns:
  "\<exists>c c'. shared_reachable (demo_env :: unit env) c \<and> running c 1 = Some (Finish Evicted) \<and> cache c = Map.empty \<and>
     (task_step (demo_env :: unit env) 0)\<^sup>*\<^sup>* c c' \<and> Cache_Get (cache c') demo_instance \<noteq> None"
proof -
  have "Cache_Evict NewCache demo_instance = Map.empty" by (simp add: Cache_Evict_def NewCache_def fun_eq_iff)
  moreover have "Cache_Get (Cache_Set st demo_instance late_client) demo_instance \<noteq> None" for st
    by (simp add: Cache_Get_def Cache_Set_def)
  ultimately show ?thesis using eviction_overtaken by metis
qed

end
