(* ===== verification/Confined_Reconcilers.thy ===== *)
theory Confined_Reconcilers
  imports Confinement Build_Watch Pipeline_Controller Team_Controller Job_Proofs Resource_Controller
    Worker_Controller Instance_Controller
begin

text \<open>
  Every reconciler is confined: the interface \<open>confined_reconciler\<close> and, for each of the seven
  controllers, its interpretation. A reconciler gets its client from a source and uses no other.
\<close>

lemma only_with_quiet [simp]:
  "only_with c (KRead kr)" "only_with c (KWrite kw)" "only_with c (Event ok key et r m)"
  "only_with c (Clock ts)" "only_with c (Enqueue key)" "only_with c (ARead (NextEvent n ev))"
  by (simp_all add: only_with_def)

lemma only_with_client:
  "only_with (Some cl) (ARead a) \<longleftrightarrow> read_client a = Some cl \<or> read_client a = None"
  "write_client w = Some cl \<Longrightarrow> only_with (Some cl) (AWrite w)"
  "only_with (Some cl) (SpawnWatch cl bid key)"
  by (cases w; auto simp: only_with_def)+

text \<open>The accessors of a Concourse client give back what it was made of.\<close>

definition client_law :: "'w env \<Rightarrow> bool" where
  "client_law env \<longleftrightarrow> (\<forall>cl. l_client_http (e_libs env) cl = Some (gc_http cl) \<and>
     l_client_url (e_libs env) cl = gc_url cl)"

lemma keeps_store_watch: "keeps (\<lambda>m. mem_store m = st) (start_watch cl i key)"
  unfolding start_watch_def keeps_def by (simp add: run_simps Let_def)

section \<open>What follows a resolution\<close>

lemma setBuildComment_with: "client_law env \<Longrightarrow> emits (only_with (Some cl)) (setBuildComment env cl bid comment)"
  unfolding setBuildComment_def
  by (intro emits_intros) (auto simp: client_law_def only_with_def)

lemma track_build_with:
  assumes "retry_law env" and "client_law env"
  shows "emits (only_with (Some cl)) (track_build env build job cl tn pn)"
  unfolding track_build_def ensureBuildTriggered_def trigger_build_def observeBuild_def build_web_url_def
    reconcileComment_def finish_build_def start_watch_def
  by (intro emits_intros persistBuildTracking_emits [OF assms(1)] setBuildComment_with [OF assms(2)])
    (simp_all add: only_with_client)

lemma track_build_store:
  assumes "retry_law env"
  shows "keeps (\<lambda>m. mem_store m = st) (track_build env build job cl tn pn)"
  unfolding track_build_def ensureBuildTriggered_def trigger_build_def observeBuild_def build_web_url_def
    reconcileComment_def setBuildComment_def finish_build_def
  by (intro keeps_intros persist_keeps [OF assms] keeps_store_watch)

section \<open>The interface of a reconciler\<close>

locale confined_reconciler =
  fixes reconcile :: "'k \<Rightarrow> ('w, 'a) prog"
    and laws :: bool
  assumes confined: "laws \<Longrightarrow> confined (\<lambda>_ _. True) (reconcile req) (\<lambda>_ _ _. True)"
begin

text \<open>From a sound cache, a run makes only requests it is entitled to and leaves the cache sound.\<close>

lemma run:
  assumes laws and "cache_sound (mem_store (mem s)) (journal s)"
  shows "secure (journal s) (emitted (reconcile req) s) (final_of (reconcile req) s)"
proof -
  have "secure (journal s) [] s" using assms(2) by (simp add: secure_def)
  then obtain es where es: "secure (journal s) es (final_of (reconcile req) s)"
    using confined [OF assms(1), of req] unfolding confined_def by fastforce
  then have "emitted (reconcile req) s = es" by (simp add: secure_def emitted_def)
  with es show ?thesis by simp
qed

end

lemma confined_skip_known:
  assumes "emits (only_with None) p" and "keeps_store p" and "\<And>a. confined E (k a) Q"
    and "\<And>K es fs. E K es \<Longrightarrow> E K (es @ fs)"
  shows "confined E (State_Monad.bind p k) Q"
  by (rule confined_bind [OF _ assms(3)], rule confined_quiet [OF total_outcome [OF assms(1)] assms(1,2)])
    (rule assms(4))

lemma confined_skip:
  assumes "emits (only_with None) p" and "keeps_store p"
    and "\<And>a. confined (\<lambda>_ _. True) (k a) (\<lambda>_ _ _. True)"
  shows "confined (\<lambda>_ _. True) (State_Monad.bind p k) (\<lambda>_ _ _. True)"
  by (rule confined_skip_known [OF assms]) simp

lemma confined_end: "emits (only_with None) p \<Longrightarrow> keeps_store p \<Longrightarrow> confined E p (\<lambda>_ _ _. True)"
  by (rule confined_quiet [OF total_outcome]) simp_all

lemma confined_then:
  "confined (\<lambda>_ _. True) p (\<lambda>_ _ _. True) \<Longrightarrow> (\<And>a. confined (\<lambda>_ _. True) (k a) (\<lambda>_ _ _. True)) \<Longrightarrow>
   confined (\<lambda>_ _. True) (State_Monad.bind p k) (\<lambda>_ _ _. True)"
  by (rule confined_bind)

section \<open>The seven reconcilers\<close>

lemma Build_confined:
  assumes "retry_law env" and "client_law env"
  shows "confined (\<lambda>_ _. True) (Build_Reconcile env req) (\<lambda>_ _ _. True)"
  unfolding Build_Reconcile_def reconcile_for_job_def resolve_and_track_def handleBuildLifecycle_def set_build_owner_def
  by (intro job_source.gate confined_case confined_skip confined_end TrueI;
      intro emits_intros keeps_store_intro keeps_intros track_build_store assms;
      simp add: track_build_with assms)

lemma apply_pipeline_with:
  "emits (only_with (Some cl)) (apply_pipeline env pipeline cl tn pn yaml)"
  unfolding apply_pipeline_def syncPipelineConfig_def set_config_def currentVersion_def applyPipelineState_def
    apply_archived_def apply_paused_def apply_exposed_def state_failed_def observePipeline_def finish_pipeline_def
  by (intro emits_intros; simp add: only_with_client)

lemma apply_pipeline_store: "keeps (\<lambda>m. mem_store m = st) (apply_pipeline env pipeline cl tn pn yaml)"
  unfolding apply_pipeline_def syncPipelineConfig_def set_config_def currentVersion_def applyPipelineState_def
    apply_archived_def apply_paused_def apply_exposed_def state_failed_def observePipeline_def finish_pipeline_def
  by (intro keeps_intros)

lemma deletePipeline_confined: "confined (\<lambda>_ _. True) (deletePipeline env pipeline) (\<lambda>_ _ _. True)"
  unfolding deletePipeline_def
  by (intro pipeline_source.gate confined_case confined_skip confined_end TrueI;
      intro emits_intros keeps_store_intro keeps_intros; simp add: only_with_client)

lemma handlePipelineLifecycle_confined:
  "confined (\<lambda>_ _. True) (handlePipelineLifecycle env pipeline) (\<lambda>_ _ _. True)"
  unfolding handlePipelineLifecycle_def
  by (intro confined_then [OF deletePipeline_confined] confined_case confined_skip confined_end TrueI;
      intro emits_intros keeps_store_intro keeps_intros; simp)

lemma Pipeline_confined: "confined (\<lambda>_ _. True) (Pipeline_Reconcile env req) (\<lambda>_ _ _. True)"
  unfolding Pipeline_Reconcile_def reconcile_pipeline_def set_pipeline_owner_def
    sync_pipeline_def pipeline_web_url_def loadPipelineConfig_def
  by (intro pipeline_source.gate confined_then [OF handlePipelineLifecycle_confined] confined_case confined_skip confined_end TrueI;
      intro emits_intros keeps_store_intro keeps_intros apply_pipeline_store; simp add: apply_pipeline_with)

lemma deleteTeam_confined: "confined (\<lambda>_ _. True) (deleteTeam env team) (\<lambda>_ _ _. True)"
  unfolding deleteTeam_def
  by (intro team_source.gate confined_case confined_skip confined_end TrueI;
      intro emits_intros keeps_store_intro keeps_intros; simp add: only_with_client)

lemma finalize_team_confined: "confined (\<lambda>_ _. True) (finalize_team env team) (\<lambda>_ _ _. True)"
  unfolding finalize_team_def
  by (intro confined_then [OF deleteTeam_confined] confined_case confined_skip confined_end TrueI;
      intro emits_intros keeps_store_intro keeps_intros; simp)

lemma sync_team_confined: "confined (\<lambda>_ _. True) (sync_team env team) (\<lambda>_ _ _. True)"
  unfolding sync_team_def finish_team_def team_web_url_def
  by (intro team_source.gate confined_case confined_skip confined_end TrueI;
      intro emits_intros keeps_store_intro keeps_intros; simp add: only_with_client)

lemma Team_confined: "confined (\<lambda>_ _. True) (Team_Reconcile env req) (\<lambda>_ _ _. True)"
  unfolding Team_Reconcile_def reconcile_team_def add_team_finalizer_def set_team_owner_def
  by (intro finalize_team_confined sync_team_confined confined_case confined_skip confined_end TrueI;
      intro emits_intros keeps_store_intro keeps_intros; simp)

text \<open>Pruning talks to the API server alone.\<close>

lemma keeps_prune_case:
  "keeps I p \<Longrightarrow> (\<And>e. keeps I (f e)) \<Longrightarrow> (\<And>i. keeps I (g i)) \<Longrightarrow>
   keeps I (case r of Pruned \<Rightarrow> p | PruneFailed e \<Rightarrow> f e | PrunePanicked i \<Rightarrow> g i)"
  by (cases r) simp_all

lemma delete_builds_with: "emits (only_with c) (delete_builds env bs)"
  by (induction bs) (auto intro!: emits_intros)

lemma delete_builds_keeps: "keeps I (delete_builds env bs)"
  by (induction bs) (auto intro!: keeps_intros)

lemma sort_out_with: "emits (only_with c) (sort_out env t bs succ failed)"
  by (induction bs arbitrary: succ failed) (auto intro!: emits_intros)

lemma sort_out_keeps: "keeps I (sort_out env t bs succ failed)"
  by (induction bs arbitrary: succ failed) (auto intro!: keeps_intros)

lemma pruneBuilds_with: "emits (only_with c) (pruneBuilds env job)"
  unfolding pruneBuilds_def delete_beyond_def by (intro emits_intros delete_builds_with sort_out_with; simp)

lemma pruneBuilds_keeps: "keeps I (pruneBuilds env job)"
  unfolding pruneBuilds_def delete_beyond_def
  by (intro keeps_intros keeps_prune_case delete_builds_keeps sort_out_keeps)

lemmas apply_job_defs = apply_job_def job_web_url_def applyJobPause_def pause_failed_def observe_job_def
  job_not_fetched_def finish_job_def

lemma apply_job_with: "emits (only_with (Some cl)) (apply_job env job cl tn pn)"
  unfolding apply_job_defs by (intro emits_intros pruneBuilds_with; simp add: only_with_client)

lemma apply_job_store: "keeps (\<lambda>m. mem_store m = st) (apply_job env job cl tn pn)"
  unfolding apply_job_defs by (intro keeps_intros keeps_prune_case pruneBuilds_keeps)

lemma Job_confined: "confined (\<lambda>_ _. True) (Job_Reconcile env req) (\<lambda>_ _ _. True)"
  unfolding Job_Reconcile_def handleJobLifecycle_def reconcile_job_def set_job_owner_def
  by (intro job_source.gate confined_case confined_skip confined_end TrueI;
      intro emits_intros keeps_store_intro keeps_intros apply_job_store; simp add: apply_job_with)

text \<open>A Resource: the versions are walked through by recursion.\<close>

lemma resolve_disabled_with: "emits (only_with (Some cl)) (resolve_disabled env cl tn pn rn vs ids)"
  by (induction vs arbitrary: ids)
    (auto intro!: emits_intros simp: find_version_def only_with_client split: option.splits)

lemma resolve_disabled_keeps: "keeps I (resolve_disabled env cl tn pn rn vs ids)"
  by (induction vs arbitrary: ids) (auto intro!: keeps_intros simp: find_version_def)

lemma disable_versions_with: "emits (only_with (Some cl)) (disable_versions env cl tn pn rn r tracked ds)"
  by (induction ds) (auto intro!: emits_intros simp: only_with_client)

lemma disable_versions_keeps: "keeps I (disable_versions env cl tn pn rn r tracked ds)"
  by (induction ds) (auto intro!: keeps_intros)

lemma enable_versions_with: "emits (only_with (Some cl)) (enable_versions env cl tn pn rn r desired ids)"
  by (induction ids) (auto intro!: emits_intros simp: only_with_client)

lemma enable_versions_keeps: "keeps I (enable_versions env cl tn pn rn r desired ids)"
  by (induction ids) (auto intro!: keeps_intros)

lemmas apply_resource_defs = apply_resource_def resource_web_url_def syncPin_def unpin_def sync_pin_comment_def
  pin_version_def find_version_def syncDisabledVersions_def check_resource_def shouldCheck_def
  finish_resource_def sync_failed_def

lemma fetchLatestVersion_with: "emits (only_with (Some cl)) (fetchLatestVersion env cl tn pn rn r)"
  unfolding fetchLatestVersion_def
  by (intro emits_bind emits_extern) (auto intro!: emits_intros simp: only_with_client split: sum.splits option.splits list.splits)

lemma fetchLatestVersion_keeps: "keeps I (fetchLatestVersion env cl tn pn rn r)"
  unfolding fetchLatestVersion_def
  by (intro keeps_bind keeps_extern) (auto intro!: keeps_intros split: sum.splits option.splits list.splits)

lemma apply_resource_with: "emits (only_with (Some cl)) (apply_resource env r pipeline cl tn)"
  unfolding apply_resource_defs
  by (intro emits_intros resolve_disabled_with disable_versions_with enable_versions_with fetchLatestVersion_with;
      simp add: only_with_client)

lemma apply_resource_store: "keeps (\<lambda>m. mem_store m = st) (apply_resource env r pipeline cl tn)"
  unfolding apply_resource_defs
  by (intro keeps_intros resolve_disabled_keeps disable_versions_keeps enable_versions_keeps fetchLatestVersion_keeps)

lemma Resource_confined: "confined (\<lambda>_ _. True) (Resource_Reconcile env req) (\<lambda>_ _ _. True)"
  unfolding Resource_Reconcile_def reconcile_for_pipeline_def set_resource_owner_def resource_not_ready_def
  by (intro pipeline_source.gate confined_case confined_skip confined_end TrueI;
      intro emits_intros keeps_store_intro keeps_intros apply_resource_store; simp add: apply_resource_with)

text \<open>A Worker and an Instance take the client from the cache, for an Instance they have read.\<close>

lemmas apply_worker_defs = apply_worker_def request_transition_def worker_not_ready_def observe_worker_def
  worker_missing_def worker_found_def save_worker_def

lemma apply_worker_with: "emits (only_with (Some cl)) (apply_worker env cl worker)"
  unfolding apply_worker_defs by (intro emits_intros; simp add: only_with_client)

lemma apply_worker_store: "keeps (\<lambda>m. mem_store m = st) (apply_worker env cl worker)"
  unfolding apply_worker_defs by (intro keeps_intros)

lemma reconcile_worker_confined: "confined (\<lambda>_ _. True) (reconcile_worker env worker) (\<lambda>_ _ _. True)"
  unfolding reconcile_worker_def reconcile_on_instance_def set_worker_owner_def worker_not_ready_def
  by (intro cache_source.gate confined_case confined_call confined_skip_known confined_end;
      (intro emits_intros keeps_store_intro keeps_intros apply_worker_store; simp add: apply_worker_with)?)
    (auto intro: from_apiI apply_worker_with)

lemma Worker_confined: "confined (\<lambda>_ _. True) (Worker_Reconcile env req) (\<lambda>_ _ _. True)"
  unfolding Worker_Reconcile_def
  by (intro reconcile_worker_confined confined_case confined_skip confined_end;
      intro emits_intros keeps_store_intro keeps_intros; simp)

lemmas probe_instance_defs = probe_failed_def workers_unknown_def observe_instance_def observe_user_and_wall_def
  syncWall_def wall_failed_def observe_counts_def report_instance_def save_instance_def set_secret_generation_def

lemma AuthSecretGeneration_with: "emits (only_with c) (AuthSecretGeneration env ns spec)"
  by (rule emits_mono [OF AuthSecretGeneration_secrets]) (auto simp: is_secret_read_def)

lemma handleInstanceLifecycle_confined:
  "confined (\<lambda>_ es. from_api inst es) (handleInstanceLifecycle env inst)
     (\<lambda>r K es. fst (snd r) \<or> from_api (fst r) es)"
  unfolding handleInstanceLifecycle_def
  by (intro confined_case confined_call confined_return confined_bind [OF confined_Evict])
    (auto intro: from_apiI elim: from_api_mono)

lemma probe_instance_confined:
  "confined (\<lambda>_ es. from_api inst es) (probe_instance env inst) (\<lambda>_ _ _. True)"
  unfolding probe_instance_def probe_instance_defs
  by (intro cache_source.gate; (assumption | (intro emits_intros keeps_store_intro keeps_intros AuthSecretGeneration_with
      AuthSecretGeneration_keeps; simp add: only_with_client)))

lemma reconcile_instance_confined:
  "confined (\<lambda>_ es. from_api inst es) (reconcile_instance env inst) (\<lambda>_ _ _. True)"
  unfolding reconcile_instance_def
proof (rule confined_bind [OF handleInstanceLifecycle_confined])
  fix r :: "Instance \<times> bool \<times> goerr option"
  obtain i h e where r: "r = (i, h, e)" by (cases r)
  let ?E = "\<lambda>(K :: io list) es. fst (snd r) \<or> from_api (fst r) es"
  have probe: "confined ?E (probe_instance env i) (\<lambda>_ _ _. True)" if "\<not> h"
    by (rule confined_pre [OF probe_instance_confined]) (use that r in simp)
  have "confined ?E (ret (0, e)) (\<lambda>_ _ _. True)" "confined ?E (invalid_spec env i) (\<lambda>_ _ _. True)"
    unfolding invalid_spec_def
    by (intro confined_end; intro emits_intros keeps_store_intro keeps_intros; simp)+
  with probe show "confined ?E (case r of (inst, handled, err) \<Rightarrow>
      if handled then ret (0, err)
      else if auth_password (is_auth (instance_spec inst)) = None \<and> auth_token (is_auth (instance_spec inst)) = None
      then invalid_spec env inst else probe_instance env inst) (\<lambda>_ _ _. True)"
    unfolding r by (cases h) simp_all
qed

lemma Instance_confined: "confined (\<lambda>_ _. True) (Instance_Reconcile env req) (\<lambda>_ _ _. True)"
  unfolding Instance_Reconcile_def
  by (intro confined_call confined_case confined_return confined_pre [OF reconcile_instance_confined])
    (auto intro: from_apiI)

lemma mapSecret_confined: "confined (\<lambda>_ _. True) (mapSecretToInstance env secret) (\<lambda>_ _ _. True)"
  unfolding mapSecretToInstance_def
  by (intro confined_end; intro emits_intros keeps_store_intro keeps_intros; simp)

interpretation build_conf: confined_reconciler "Build_Reconcile env" "retry_law env \<and> client_law env" for env
  by unfold_locales (simp add: Build_confined)

interpretation pipeline_conf: confined_reconciler "Pipeline_Reconcile env" True for env
  by unfold_locales (rule Pipeline_confined)

interpretation team_conf: confined_reconciler "Team_Reconcile env" True for env
  by unfold_locales (rule Team_confined)

interpretation job_conf: confined_reconciler "Job_Reconcile env" True for env
  by unfold_locales (rule Job_confined)

interpretation resource_conf: confined_reconciler "Resource_Reconcile env" True for env
  by unfold_locales (rule Resource_confined)

interpretation worker_conf: confined_reconciler "Worker_Reconcile env" True for env
  by unfold_locales (rule Worker_confined)

interpretation instance_conf: confined_reconciler "Instance_Reconcile env" True for env
  by unfold_locales (rule Instance_confined)

interpretation secret_conf: confined_reconciler "mapSecretToInstance env" True for env
  by unfold_locales (rule mapSecret_confined)

end
