(* ===== verification/Schema.thy ===== *)
theory Schema
  imports Resolver Build_Watch
begin

text \<open>
  The types of the status objects, as far as the operator is answerable for them: the markers in
  \<open>api/v1alpha1\<close> (and the CRDs generated from them) declare the conditions a map by their type, and
  \<open>metav1.Condition\<close> the patterns of their types and reasons; the phases are enumerations. The API
  server refuses a status that is not of its type, so an operator that wrote one would never get
  its observations stored. Left out are the lengths of messages, and the other lists with a key:
  they are copied as Concourse lists them, and nothing is known of repetitions there
  (\<open>repeated_outputs_mistyped\<close>).
\<close>

section \<open>The schema of a status\<close>

definition is_digit :: "char \<Rightarrow> bool" where
  "is_digit c \<longleftrightarrow> 48 \<le> (of_char c :: nat) \<and> (of_char c :: nat) \<le> 57"

definition is_letter :: "char \<Rightarrow> bool" where
  "is_letter c \<longleftrightarrow> 65 \<le> (of_char c :: nat) \<and> (of_char c :: nat) \<le> 90 \<or>
     97 \<le> (of_char c :: nat) \<and> (of_char c :: nat) \<le> 122"

text \<open>The pattern \<open>[A-Za-z]([A-Za-z0-9_,:]*[A-Za-z0-9_])?\<close> and the length of a reason.\<close>

definition reason_ok :: "string \<Rightarrow> bool" where
  "reason_ok r \<longleftrightarrow> r \<noteq> [] \<and> length r \<le> 1024 \<and> is_letter (hd r) \<and>
     list_all (\<lambda>c. is_letter c \<or> is_digit c \<or> c \<in> set ''_,:'') r \<and>
     (is_letter (last r) \<or> is_digit (last r) \<or> last r = CHR ''_'')"

text \<open>A type without a domain: \<open>([A-Za-z0-9][-A-Za-z0-9_.]*)?[A-Za-z0-9]\<close>.\<close>

definition cond_type_ok :: "string \<Rightarrow> bool" where
  "cond_type_ok t \<longleftrightarrow> t \<noteq> [] \<and> length t \<le> 316 \<and> (is_letter (hd t) \<or> is_digit (hd t)) \<and>
     list_all (\<lambda>c. is_letter c \<or> is_digit c \<or> c \<in> set ''-_.'') t \<and> (is_letter (last t) \<or> is_digit (last t))"

definition conditions_ok :: "Condition list \<Rightarrow> bool" where
  "conditions_ok cs \<longleftrightarrow> distinct (map c_type cs) \<and>
     list_all (\<lambda>c. cond_type_ok (c_type c) \<and> reason_ok (c_reason c)) cs"

text \<open>A field that is left out is empty; it is not checked then.\<close>

definition build_phase_ok :: "BuildPhase \<Rightarrow> bool" where
  "build_phase_ok p \<longleftrightarrow> p \<in> set ['''', BuildPhasePending, BuildPhaseStarted, BuildPhaseSucceeded,
     BuildPhaseFailed, BuildPhaseErrored, BuildPhaseAborted]"

definition worker_phase_ok :: "WorkerPhase \<Rightarrow> bool" where
  "worker_phase_ok p \<longleftrightarrow> p \<in> set ['''', WorkerPhaseRunning, WorkerPhaseLanding, WorkerPhaseLanded,
     WorkerPhaseRetiring, WorkerPhaseStalled, WorkerPhaseMissing]"

definition build_status_ok :: "BuildStatus \<Rightarrow> bool" where
  "build_status_ok s \<longleftrightarrow> conditions_ok (bt_conditions s) \<and>
     build_phase_ok (bt_concourseStatus s)"

definition build_ok :: "Build \<Rightarrow> bool" where
  "build_ok b \<longleftrightarrow> build_status_ok (build_status b)"

definition job_status_ok :: "JobStatus \<Rightarrow> bool" where
  "job_status_ok s \<longleftrightarrow> conditions_ok (jt_conditions s) \<and>
     build_phase_ok (jt_nextBuildStatus s) \<and> build_phase_ok (jt_lastBuildStatus s)"

definition job_ok :: "Job \<Rightarrow> bool" where
  "job_ok j \<longleftrightarrow> job_status_ok (job_status j)"

definition pipeline_status_ok :: "PipelineStatus \<Rightarrow> bool" where
  "pipeline_status_ok s \<longleftrightarrow> conditions_ok (pt_conditions s) \<and>
     list_all (\<lambda>j. build_phase_ok (pjs_lastBuildStatus j)) (pt_jobs s)"

definition pipeline_ok :: "Pipeline \<Rightarrow> bool" where
  "pipeline_ok p \<longleftrightarrow> pipeline_status_ok (pipeline_status p)"

definition resource_status_ok :: "ResourceStatus \<Rightarrow> bool" where
  "resource_status_ok s \<longleftrightarrow> conditions_ok (rt_conditions s)"

definition resource_ok :: "Resource \<Rightarrow> bool" where
  "resource_ok r \<longleftrightarrow> resource_status_ok (resource_status r)"

definition team_status_ok :: "TeamStatus \<Rightarrow> bool" where
  "team_status_ok s \<longleftrightarrow> conditions_ok (tt_conditions s)"

definition team_ok :: "Team \<Rightarrow> bool" where
  "team_ok t \<longleftrightarrow> team_status_ok (team_status t)"

definition worker_status_ok :: "WorkerStatus \<Rightarrow> bool" where
  "worker_status_ok s \<longleftrightarrow> conditions_ok (wt_conditions s) \<and>
     worker_phase_ok (wt_phase s)"

definition worker_ok :: "Worker \<Rightarrow> bool" where
  "worker_ok w \<longleftrightarrow> worker_status_ok (worker_status w)"

definition instance_status_ok :: "InstanceStatus \<Rightarrow> bool" where
  "instance_status_ok s \<longleftrightarrow> conditions_ok (it_conditions s)"

definition instance_ok :: "Instance \<Rightarrow> bool" where
  "instance_ok i \<longleftrightarrow> instance_status_ok (instance_status i)"

lemmas objects_ok = build_ok_def job_ok_def pipeline_ok_def resource_ok_def team_ok_def worker_ok_def instance_ok_def

text \<open>The fields that the schema leaves open.\<close>

lemma build_status_fields [simp]:
  "build_status_ok (s\<lparr>bt_buildID := x0\<rparr>) = build_status_ok s"
  "build_status_ok (s\<lparr>bt_buildName := x1\<rparr>) = build_status_ok s"
  "build_status_ok (s\<lparr>bt_startTime := x2\<rparr>) = build_status_ok s"
  "build_status_ok (s\<lparr>bt_endTime := x3\<rparr>) = build_status_ok s"
  "build_status_ok (s\<lparr>bt_duration := x4\<rparr>) = build_status_ok s"
  "build_status_ok (s\<lparr>bt_apiURL := x5\<rparr>) = build_status_ok s"
  "build_status_ok (s\<lparr>bt_createdBy := x6\<rparr>) = build_status_ok s"
  "build_status_ok (s\<lparr>bt_observedGeneration := x7\<rparr>) = build_status_ok s"
  "build_status_ok (s\<lparr>bt_webURL := x8\<rparr>) = build_status_ok s"
  "build_status_ok (s\<lparr>bt_comment := x9\<rparr>) = build_status_ok s"
  "build_status_ok (s\<lparr>bt_rerunOf := x10\<rparr>) = build_status_ok s"
  "build_status_ok (s\<lparr>bt_inputs := x11\<rparr>) = build_status_ok s"
  "build_status_ok (s\<lparr>bt_outputs := x12\<rparr>) = build_status_ok s"
  by (simp_all add: build_status_ok_def)

lemma job_status_fields [simp]:
  "job_status_ok (s\<lparr>jt_resolvedName := x0\<rparr>) = job_status_ok s"
  "job_status_ok (s\<lparr>jt_paused := x1\<rparr>) = job_status_ok s"
  "job_status_ok (s\<lparr>jt_webURL := x2\<rparr>) = job_status_ok s"
  "job_status_ok (s\<lparr>jt_jobID := x3\<rparr>) = job_status_ok s"
  "job_status_ok (s\<lparr>jt_hasNewInputs := x4\<rparr>) = job_status_ok s"
  "job_status_ok (s\<lparr>jt_nextBuildID := x5\<rparr>) = job_status_ok s"
  "job_status_ok (s\<lparr>jt_disableManualTrigger := x6\<rparr>) = job_status_ok s"
  "job_status_ok (s\<lparr>jt_pausedBy := x7\<rparr>) = job_status_ok s"
  "job_status_ok (s\<lparr>jt_pausedAt := x8\<rparr>) = job_status_ok s"
  "job_status_ok (s\<lparr>jt_nextBuildName := x9\<rparr>) = job_status_ok s"
  "job_status_ok (s\<lparr>jt_lastBuildID := x10\<rparr>) = job_status_ok s"
  "job_status_ok (s\<lparr>jt_lastBuildTime := x11\<rparr>) = job_status_ok s"
  "job_status_ok (s\<lparr>jt_observedGeneration := x12\<rparr>) = job_status_ok s"
  by (simp_all add: job_status_ok_def)

lemma pipeline_status_fields [simp]:
  "pipeline_status_ok (s\<lparr>pt_pipelineID := x0\<rparr>) = pipeline_status_ok s"
  "pipeline_status_ok (s\<lparr>pt_resolvedName := x1\<rparr>) = pipeline_status_ok s"
  "pipeline_status_ok (s\<lparr>pt_webURL := x2\<rparr>) = pipeline_status_ok s"
  "pipeline_status_ok (s\<lparr>pt_configHash := x3\<rparr>) = pipeline_status_ok s"
  "pipeline_status_ok (s\<lparr>pt_paused := x4\<rparr>) = pipeline_status_ok s"
  "pipeline_status_ok (s\<lparr>pt_exposed := x5\<rparr>) = pipeline_status_ok s"
  "pipeline_status_ok (s\<lparr>pt_archived := x6\<rparr>) = pipeline_status_ok s"
  "pipeline_status_ok (s\<lparr>pt_pausedBy := x7\<rparr>) = pipeline_status_ok s"
  "pipeline_status_ok (s\<lparr>pt_pausedAt := x8\<rparr>) = pipeline_status_ok s"
  "pipeline_status_ok (s\<lparr>pt_lastUpdated := x9\<rparr>) = pipeline_status_ok s"
  "pipeline_status_ok (s\<lparr>pt_groupCount := x10\<rparr>) = pipeline_status_ok s"
  "pipeline_status_ok (s\<lparr>pt_observedGeneration := x11\<rparr>) = pipeline_status_ok s"
  "pipeline_status_ok (s\<lparr>pt_resources := x12\<rparr>) = pipeline_status_ok s"
  "pipeline_status_ok (s\<lparr>pt_resourceTypes := x13\<rparr>) = pipeline_status_ok s"
  by (simp_all add: pipeline_status_ok_def)

lemma resource_status_fields [simp]:
  "resource_status_ok (s\<lparr>rt_resolvedName := x0\<rparr>) = resource_status_ok s"
  "resource_status_ok (s\<lparr>rt_webURL := x1\<rparr>) = resource_status_ok s"
  "resource_status_ok (s\<lparr>rt_lastChecked := x2\<rparr>) = resource_status_ok s"
  "resource_status_ok (s\<lparr>rt_latestVersion := x3\<rparr>) = resource_status_ok s"
  "resource_status_ok (s\<lparr>rt_pinnedVersionID := x4\<rparr>) = resource_status_ok s"
  "resource_status_ok (s\<lparr>rt_pinned := x5\<rparr>) = resource_status_ok s"
  "resource_status_ok (s\<lparr>rt_disabledVersionIDs := x6\<rparr>) = resource_status_ok s"
  "resource_status_ok (s\<lparr>rt_observedGeneration := x7\<rparr>) = resource_status_ok s"
  by (simp_all add: resource_status_ok_def)

lemma team_status_fields [simp]:
  "team_status_ok (s\<lparr>tt_teamID := x0\<rparr>) = team_status_ok s"
  "team_status_ok (s\<lparr>tt_resolvedName := x1\<rparr>) = team_status_ok s"
  "team_status_ok (s\<lparr>tt_webURL := x2\<rparr>) = team_status_ok s"
  "team_status_ok (s\<lparr>tt_lastApplied := x3\<rparr>) = team_status_ok s"
  "team_status_ok (s\<lparr>tt_observedGeneration := x4\<rparr>) = team_status_ok s"
  by (simp_all add: team_status_ok_def)

lemma worker_status_fields [simp]:
  "worker_status_ok (s\<lparr>wt_resolvedName := x0\<rparr>) = worker_status_ok s"
  "worker_status_ok (s\<lparr>wt_platform := x1\<rparr>) = worker_status_ok s"
  "worker_status_ok (s\<lparr>wt_tags := x2\<rparr>) = worker_status_ok s"
  "worker_status_ok (s\<lparr>wt_activeContainers := x3\<rparr>) = worker_status_ok s"
  "worker_status_ok (s\<lparr>wt_activeVolumes := x4\<rparr>) = worker_status_ok s"
  "worker_status_ok (s\<lparr>wt_version := x5\<rparr>) = worker_status_ok s"
  "worker_status_ok (s\<lparr>wt_startTime := x6\<rparr>) = worker_status_ok s"
  "worker_status_ok (s\<lparr>wt_ephemeral := x7\<rparr>) = worker_status_ok s"
  "worker_status_ok (s\<lparr>wt_team := x8\<rparr>) = worker_status_ok s"
  "worker_status_ok (s\<lparr>wt_activeTasks := x9\<rparr>) = worker_status_ok s"
  "worker_status_ok (s\<lparr>wt_observedGeneration := x10\<rparr>) = worker_status_ok s"
  by (simp_all add: worker_status_ok_def)

lemma instance_status_fields [simp]:
  "instance_status_ok (s\<lparr>it_version := x0\<rparr>) = instance_status_ok s"
  "instance_status_ok (s\<lparr>it_workerVersion := x1\<rparr>) = instance_status_ok s"
  "instance_status_ok (s\<lparr>it_clusterName := x2\<rparr>) = instance_status_ok s"
  "instance_status_ok (s\<lparr>it_externalURL := x3\<rparr>) = instance_status_ok s"
  "instance_status_ok (s\<lparr>it_workerCount := x4\<rparr>) = instance_status_ok s"
  "instance_status_ok (s\<lparr>it_stalledWorkers := x5\<rparr>) = instance_status_ok s"
  "instance_status_ok (s\<lparr>it_runningWorkers := x6\<rparr>) = instance_status_ok s"
  "instance_status_ok (s\<lparr>it_landingWorkers := x7\<rparr>) = instance_status_ok s"
  "instance_status_ok (s\<lparr>it_webURL := x8\<rparr>) = instance_status_ok s"
  "instance_status_ok (s\<lparr>it_featureFlags := x9\<rparr>) = instance_status_ok s"
  "instance_status_ok (s\<lparr>it_authenticatedUser := x10\<rparr>) = instance_status_ok s"
  "instance_status_ok (s\<lparr>it_authenticatedAdmin := x11\<rparr>) = instance_status_ok s"
  "instance_status_ok (s\<lparr>it_wallMessage := x12\<rparr>) = instance_status_ok s"
  "instance_status_ok (s\<lparr>it_teamCount := x13\<rparr>) = instance_status_ok s"
  "instance_status_ok (s\<lparr>it_pipelineCount := x14\<rparr>) = instance_status_ok s"
  "instance_status_ok (s\<lparr>it_authSecretGeneration := x15\<rparr>) = instance_status_ok s"
  "instance_status_ok (s\<lparr>it_observedGeneration := x16\<rparr>) = instance_status_ok s"
  by (simp_all add: instance_status_ok_def)

text \<open>What the operator sends to the API server is of its type.\<close>

fun conforms :: "io \<Rightarrow> bool" where
  "conforms (KWrite (UpdateInstance i r)) = instance_ok i"
| "conforms (KWrite (StatusInstance i r)) = instance_ok i"
| "conforms (KWrite (UpdateTeam t r)) = team_ok t"
| "conforms (KWrite (StatusTeam t r)) = team_ok t"
| "conforms (KWrite (UpdatePipeline p r)) = pipeline_ok p"
| "conforms (KWrite (StatusPipeline p r)) = pipeline_ok p"
| "conforms (KWrite (UpdateJob j r)) = job_ok j"
| "conforms (KWrite (StatusJob j r)) = job_ok j"
| "conforms (KWrite (UpdateBuild b r)) = build_ok b"
| "conforms (KWrite (StatusBuild b r)) = build_ok b"
| "conforms (KWrite (UpdateResource x r)) = resource_ok x"
| "conforms (KWrite (StatusResource x r)) = resource_ok x"
| "conforms (KWrite (UpdateWorker w r)) = worker_ok w"
| "conforms (KWrite (StatusWorker w r)) = worker_ok w"
| "conforms e = True"

section \<open>What the schema rests on\<close>

definition answers :: "('w, 'e + 'a) op \<Rightarrow> ('a \<Rightarrow> bool) \<Rightarrow> bool" where
  "answers f ok \<longleftrightarrow> (\<forall>w a. fst (f w) = Inr a \<longrightarrow> ok a)"

text \<open>
  The API server holds objects of their types only, and answers a write of one with one.
\<close>

definition api_types_law :: "'w env \<Rightarrow> bool" where
  "api_types_law env \<longleftrightarrow>
     (\<forall>k. answers (x_get_instance (e_k8s env) k) instance_ok) \<and>
     (\<forall>k. answers (x_get_team (e_k8s env) k) team_ok) \<and>
     (\<forall>k. answers (x_get_pipeline (e_k8s env) k) pipeline_ok) \<and>
     (\<forall>k. answers (x_get_job (e_k8s env) k) job_ok) \<and>
     (\<forall>k. answers (x_get_build (e_k8s env) k) build_ok) \<and>
     (\<forall>k. answers (x_get_resource (e_k8s env) k) resource_ok) \<and>
     (\<forall>k. answers (x_get_worker (e_k8s env) k) worker_ok) \<and>
     (\<forall>i. instance_ok i \<longrightarrow> answers (x_update_instance (e_k8s env) i) instance_ok \<and>
        answers (x_status_instance (e_k8s env) i) instance_ok) \<and>
     (\<forall>t. team_ok t \<longrightarrow> answers (x_update_team (e_k8s env) t) team_ok \<and>
        answers (x_status_team (e_k8s env) t) team_ok) \<and>
     (\<forall>p. pipeline_ok p \<longrightarrow> answers (x_update_pipeline (e_k8s env) p) pipeline_ok \<and>
        answers (x_status_pipeline (e_k8s env) p) pipeline_ok) \<and>
     (\<forall>j. job_ok j \<longrightarrow> answers (x_update_job (e_k8s env) j) job_ok \<and>
        answers (x_status_job (e_k8s env) j) job_ok) \<and>
     (\<forall>b. build_ok b \<longrightarrow> answers (x_update_build (e_k8s env) b) build_ok \<and>
        answers (x_status_build (e_k8s env) b) build_ok) \<and>
     (\<forall>r. resource_ok r \<longrightarrow> answers (x_update_resource (e_k8s env) r) resource_ok \<and>
        answers (x_status_resource (e_k8s env) r) resource_ok) \<and>
     (\<forall>w. worker_ok w \<longrightarrow> answers (x_update_worker (e_k8s env) w) worker_ok \<and>
        answers (x_status_worker (e_k8s env) w) worker_ok)"

text \<open>
  The states that Concourse reports of a build and of a worker are those its API declares
  (\<open>atc.BuildStatus\<close>, \<open>atc.WorkerState\<close>). Nothing is assumed of what else it answers.
\<close>

definition concourse_types_law :: "'w env \<Rightarrow> bool" where
  "concourse_types_law env \<longleftrightarrow>
     (\<forall>cl bid. answers (x_build (e_atc env) cl bid) (\<lambda>q. \<forall>b. q = Some b \<longrightarrow> build_phase_ok (ab_status b))) \<and>
     (\<forall>cl tn pn. answers (x_list_jobs (e_team env) cl tn pn)
        (list_all (\<lambda>j. \<forall>b. aj_finishedBuild j = Some b \<longrightarrow> build_phase_ok (ab_status b)))) \<and>
     (\<forall>cl tn pn jn. answers (x_job (e_team env) cl tn pn jn) (\<lambda>q. \<forall>j. q = Some j \<longrightarrow>
        (\<forall>b. aj_nextBuild j = Some b \<or> aj_finishedBuild j = Some b \<longrightarrow> build_phase_ok (ab_status b)))) \<and>
     (\<forall>cl. answers (x_list_workers (e_atc env) cl) (list_all (\<lambda>w. worker_phase_ok (aw_state w))))"

text \<open>\<open>meta.SetStatusCondition\<close> sets or adds the one condition and touches no other.\<close>

definition condition_types_law :: "'w env \<Rightarrow> bool" where
  "condition_types_law env \<longleftrightarrow> (\<forall>cs c. distinct (map c_type cs) \<longrightarrow>
     distinct (map c_type (l_set_status_condition (e_libs env) cs c)) \<and>
     set (l_set_status_condition (e_libs env) cs c) \<subseteq> insert c (set cs))"

definition types_laws :: "'w env \<Rightarrow> bool" where
  "types_laws env \<longleftrightarrow> api_types_law env \<and> concourse_types_law env \<and> condition_types_law env \<and> retry_law env"

section \<open>Typed programs\<close>

text \<open>
  \<open>typed p Q\<close>: every run of \<open>p\<close> writes objects of their types only, and its result satisfies \<open>Q\<close>.
  The rules are those of a type system; what a call answers is typed by the laws.
\<close>

definition typed :: "('w, 'a) prog \<Rightarrow> ('a \<Rightarrow> bool) \<Rightarrow> bool" where
  "typed p Q \<longleftrightarrow> outcome p (\<lambda>r es. list_all conforms es \<and> Q r)"

lemma typed_return: "Q a \<Longrightarrow> typed (ret a) Q"
  by (simp add: typed_def outcome_return)

lemma typed_bind:
  assumes "typed p M" and "\<And>a. M a \<Longrightarrow> typed (k a) Q"
  shows "typed (State_Monad.bind p k) Q"
  unfolding typed_def
proof (rule outcome_bind, rule outcome_mono)
  show "outcome p (\<lambda>a es. list_all conforms es \<and> M a)" using assms(1) by (simp add: typed_def)
  fix a es assume "list_all conforms es \<and> M a"
  then show "outcome (k a) (\<lambda>b es'. list_all conforms (es @ es') \<and> Q b)"
    using assms(2) [of a] unfolding typed_def by (auto elim: outcome_mono)
qed

lemma typed_post: "typed p M \<Longrightarrow> (\<And>a. M a \<Longrightarrow> Q a) \<Longrightarrow> typed p Q"
  unfolding typed_def by (erule outcome_mono) blast

lemma typed_case:
  "(\<And>e. r = Inl e \<Longrightarrow> typed (f e) Q) \<Longrightarrow> (\<And>x. r = Inr x \<Longrightarrow> typed (g x) Q)
     \<Longrightarrow> typed (case r of Inl e \<Rightarrow> f e | Inr x \<Rightarrow> g x) Q"
  "(q = None \<Longrightarrow> typed h Q) \<Longrightarrow> (\<And>x. q = Some x \<Longrightarrow> typed (k x) Q)
     \<Longrightarrow> typed (case q of None \<Rightarrow> h | Some x \<Rightarrow> k x) Q"
  "(b \<Longrightarrow> typed p Q) \<Longrightarrow> (\<not> b \<Longrightarrow> typed p' Q) \<Longrightarrow> typed (if b then p else p') Q"
  "(\<And>x y. z = (x, y) \<Longrightarrow> typed (c x y) Q) \<Longrightarrow> typed (case z of (x, y) \<Rightarrow> c x y) Q"
  "typed (d v) Q \<Longrightarrow> typed (let x = v in d x) Q"
  by (auto split: sum.splits option.splits prod.splits)

lemma typed_call: "(\<And>a. conforms (c a)) \<Longrightarrow> (\<And>w. Q (fst (f w))) \<Longrightarrow> typed (extern c f) Q"
  by (auto simp: typed_def outcome_def extern_def result_of_def final_of_def split: prod.splits)
    (metis fst_conv)

lemma typed_quiet: "emits conforms p \<Longrightarrow> typed p (\<lambda>_. True)"
  by (simp add: typed_def emits_def)

lemma typed_attempts:
  assumes "typed body (\<lambda>r. \<forall>b. r = Inr b \<longrightarrow> ok b)"
  shows "typed (attempts n body) (\<lambda>r. \<forall>b. r = Inr b \<longrightarrow> ok b)"
proof (induction n)
  case 0
  then show ?case using assms by simp
next
  case (Suc n)
  then show ?case
    by (auto intro!: typed_bind [OF assms] typed_return split: sum.split kerr.split)
qed

text \<open>A call whose answer is of its type.\<close>

lemma typed_answer:
  assumes "answers f ok" and "\<And>a. conforms (c a)"
  shows "typed (extern c f) (\<lambda>r. \<forall>a. r = Inr a \<longrightarrow> ok a)"
  by (rule typed_call) (use assms in \<open>auto simp: answers_def\<close>)

lemma typed_reads:
  assumes "types_laws env"
  shows "typed (k_get_instance env key) (\<lambda>r. \<forall>i. r = Inr i \<longrightarrow> instance_ok i)"
    and "typed (k_get_team env key) (\<lambda>r. \<forall>t. r = Inr t \<longrightarrow> team_ok t)"
    and "typed (k_get_pipeline env key) (\<lambda>r. \<forall>p. r = Inr p \<longrightarrow> pipeline_ok p)"
    and "typed (k_get_job env key) (\<lambda>r. \<forall>j. r = Inr j \<longrightarrow> job_ok j)"
    and "typed (k_get_build env key) (\<lambda>r. \<forall>b. r = Inr b \<longrightarrow> build_ok b)"
    and "typed (k_get_resource env key) (\<lambda>r. \<forall>x. r = Inr x \<longrightarrow> resource_ok x)"
    and "typed (k_get_worker env key) (\<lambda>r. \<forall>w. r = Inr w \<longrightarrow> worker_ok w)"
  using assms by (auto intro!: typed_answer simp: types_laws_def api_types_law_def simp del: split_paired_All)

lemma typed_writes:
  assumes "types_laws env"
  shows "instance_ok i \<Longrightarrow> typed (k_update_instance env i) (\<lambda>r. \<forall>i. r = Inr i \<longrightarrow> instance_ok i)"
    and "instance_ok i \<Longrightarrow> typed (k_status_instance env i) (\<lambda>r. \<forall>i. r = Inr i \<longrightarrow> instance_ok i)"
    and "team_ok t \<Longrightarrow> typed (k_update_team env t) (\<lambda>r. \<forall>t. r = Inr t \<longrightarrow> team_ok t)"
    and "team_ok t \<Longrightarrow> typed (k_status_team env t) (\<lambda>r. \<forall>t. r = Inr t \<longrightarrow> team_ok t)"
    and "pipeline_ok p \<Longrightarrow> typed (k_update_pipeline env p) (\<lambda>r. \<forall>p. r = Inr p \<longrightarrow> pipeline_ok p)"
    and "pipeline_ok p \<Longrightarrow> typed (k_status_pipeline env p) (\<lambda>r. \<forall>p. r = Inr p \<longrightarrow> pipeline_ok p)"
    and "job_ok j \<Longrightarrow> typed (k_update_job env j) (\<lambda>r. \<forall>j. r = Inr j \<longrightarrow> job_ok j)"
    and "job_ok j \<Longrightarrow> typed (k_status_job env j) (\<lambda>r. \<forall>j. r = Inr j \<longrightarrow> job_ok j)"
    and "build_ok b \<Longrightarrow> typed (k_update_build env b) (\<lambda>r. \<forall>b. r = Inr b \<longrightarrow> build_ok b)"
    and "build_ok b \<Longrightarrow> typed (k_status_build env b) (\<lambda>r. \<forall>b. r = Inr b \<longrightarrow> build_ok b)"
    and "resource_ok x \<Longrightarrow> typed (k_update_resource env x) (\<lambda>r. \<forall>x. r = Inr x \<longrightarrow> resource_ok x)"
    and "resource_ok x \<Longrightarrow> typed (k_status_resource env x) (\<lambda>r. \<forall>x. r = Inr x \<longrightarrow> resource_ok x)"
    and "worker_ok w \<Longrightarrow> typed (k_update_worker env w) (\<lambda>r. \<forall>w. r = Inr w \<longrightarrow> worker_ok w)"
    and "worker_ok w \<Longrightarrow> typed (k_status_worker env w) (\<lambda>r. \<forall>w. r = Inr w \<longrightarrow> worker_ok w)"
  using assms by (auto intro!: typed_answer simp: types_laws_def api_types_law_def simp del: split_paired_All)

text \<open>A condition that the operator sets keeps the conditions of their type.\<close>

lemma conditions_ok_set:
  assumes "types_laws env" and "conditions_ok cs" and "cond_type_ok t" and "reason_ok reason"
  shows "conditions_ok (setCondition env cs g t st reason msg)"
proof -
  have "condition_types_law env" using assms(1) by (simp add: types_laws_def)
  then have "distinct (map c_type (setCondition env cs g t st reason msg)) \<and>
      set (setCondition env cs g t st reason msg) \<subseteq>
        insert \<lparr>c_type = t, c_status = st, c_reason = reason, c_message = msg, c_observedGeneration = g\<rparr> (set cs)"
    using assms(2) by (simp add: condition_types_law_def setCondition_def conditions_ok_def)
  then show ?thesis using assms(2-4) by (fastforce simp: conditions_ok_def list_all_iff)
qed

lemmas text_ok = reason_ok_def cond_type_ok_def is_letter_def is_digit_def

lemma texts_example: "reason_ok ''CreateOrUpdateFailed''" "cond_type_ok ''WorkersHealthy''" "\<not> reason_ok ''''" "\<not> reason_ok ''a b''"
  by (simp_all add: text_ok)

end
