(* ===== verification/Typed_Reconcilers.thy ===== *)
theory Typed_Reconcilers
  imports Schema Pipeline_Controller Team_Controller Job_Proofs Resource_Controller
    Worker_Controller Instance_Controller
begin

text \<open>
  Every reconciler is well typed: from an API server that holds objects of their types and a
  Concourse that reports the states it declares, it writes objects of their types only. The
  interface \<open>typed_reconciler\<close> says so, and the seven reconcilers are its interpretations.
\<close>

section \<open>The texts that occur\<close>

lemma reasons_ok [simp]:
  "reason_ok ''AllRunning''" "reason_ok ''ArchiveFailed''" "reason_ok ''AuthFailed''"
  "reason_ok ''Authenticated''" "reason_ok ''ChainNotReady''" "reason_ok ''CheckFailed''"
  "reason_ok ''CheckPending''" "reason_ok ''CheckSucceeded''" "reason_ok ''ClientFailed''"
  "reason_ok ''CommentFailed''" "reason_ok ''ConfigLoadFailed''" "reason_ok ''Converged''"
  "reason_ok ''CreateOrUpdateFailed''" "reason_ok ''DeleteFailed''"
  "reason_ok ''DisableVersionFailed''" "reason_ok ''ExposeFailed''" "reason_ok ''FetchFailed''"
  "reason_ok ''HasWarnings''" "reason_ok ''HideFailed''" "reason_ok ''InProgress''"
  "reason_ok ''InfoFailed''" "reason_ok ''InstanceNotReady''" "reason_ok ''InvalidSpec''"
  "reason_ok ''JobNotFound''" "reason_ok ''ListFailed''" "reason_ok ''NamespaceNotAllowed''"
  "reason_ok ''NoBuild''" "reason_ok ''NoJobRef''" "reason_ok ''NoWall''" "reason_ok ''NoWarnings''"
  "reason_ok ''NotStalled''" "reason_ok ''PauseFailed''" "reason_ok ''Pending''"
  "reason_ok ''PinFailed''" "reason_ok ''PipelineNotReady''" "reason_ok ''Ready''"
  "reason_ok ''Removed''" "reason_ok ''SetPipelineFailed''" "reason_ok ''Stalled''"
  "reason_ok ''Succeeded''" "reason_ok ''Suspended''" "reason_ok ''Synced''"
  "reason_ok ''TeamNotReady''" "reason_ok ''Tracked''" "reason_ok ''TransitionFailed''"
  "reason_ok ''TransitionPending''" "reason_ok ''TriggerFailed''" "reason_ok ''UnpauseFailed''"
  "reason_ok ''WallFailed''" "reason_ok ''WallSet''" "reason_ok ''WorkerNotFound''"
  "reason_ok ''WorkersStalled''"
  by (simp_all add: text_ok)

lemma cond_types_ok [simp]:
  "cond_type_ok ConditionReady" "cond_type_ok ConditionAuthenticated"
  "cond_type_ok ConditionWorkersHealthy" "cond_type_ok ConditionConfigWarning"
  "cond_type_ok ConditionConfigSynced" "cond_type_ok ConditionLastBuildSucceeded"
  "cond_type_ok ConditionCheckHealthy" "cond_type_ok ConditionComplete" "cond_type_ok ConditionStalled"
  "cond_type_ok ConditionStateTransitioning" "cond_type_ok ''WallActive''"
  by (simp_all add: text_ok)

lemma phase_reason_ok [simp]: "reason_ok (mapPhaseToReason p)"
  by (simp add: mapPhaseToReason_def text_ok)

lemma phases_ok [simp]:
  "build_phase_ok ''''" "worker_phase_ok WorkerPhaseMissing" "build_phase_ok BuildPhaseSucceeded"
  by (simp_all add: build_phase_ok_def worker_phase_ok_def)

section \<open>Rules for the calls\<close>

lemma typed_concourse:
  assumes "types_laws env"
  shows "typed (a_build env cl bid) (\<lambda>r. \<forall>q. r = Inr q \<longrightarrow> (\<forall>b. q = Some b \<longrightarrow> build_phase_ok (ab_status b)))"
    and "typed (a_list_jobs env cl tn pn) (\<lambda>r. \<forall>js. r = Inr js \<longrightarrow>
      list_all (\<lambda>j. \<forall>b. aj_finishedBuild j = Some b \<longrightarrow> build_phase_ok (ab_status b)) js)"
    and "typed (a_job env cl tn pn jn) (\<lambda>r. \<forall>q. r = Inr q \<longrightarrow> (\<forall>j. q = Some j \<longrightarrow>
      (\<forall>b. aj_nextBuild j = Some b \<or> aj_finishedBuild j = Some b \<longrightarrow> build_phase_ok (ab_status b))))"
    and "typed (a_list_workers env cl) (\<lambda>r. \<forall>ws. r = Inr ws \<longrightarrow>
      list_all (\<lambda>w. worker_phase_ok (aw_state w)) ws)"
  using assms by (intro typed_answer; simp add: types_laws_def concourse_types_law_def)+

text \<open>Any other call: nothing is known of its answer.\<close>

lemma typed_other: "(\<And>a. conforms (c a)) \<Longrightarrow> typed (extern c f) (\<lambda>_. True)"
  by (rule typed_call) simp_all

lemma typed_event: "typed (recordEvent env k m t r msg) (\<lambda>_. True)"
  by (rule typed_quiet) (intro emits_intros; simp)

lemmas typed_io = typed_reads typed_writes typed_concourse
lemmas typed_steps = typed_io [THEN typed_bind] typed_event [THEN typed_bind] typed_other [THEN typed_bind]
lemmas typed_ends = typed_io [THEN typed_post] typed_event [THEN typed_post] typed_other [THEN typed_post]

lemmas typed_rules = typed_case typed_return typed_steps typed_ends

text \<open>A step that writes nothing to the API server and whose result is of no matter.\<close>

lemma typed_skip: "emits conforms p \<Longrightarrow> (\<And>a. typed (k a) Q) \<Longrightarrow> typed (State_Monad.bind p k) Q"
  by (rule typed_bind [OF typed_quiet])

section \<open>A Build\<close>

lemma build_cond_ok [simp]:
  "types_laws env \<Longrightarrow> build_status_ok (build_status b) \<Longrightarrow> cond_type_ok t \<Longrightarrow> reason_ok reason \<Longrightarrow>
   build_status_ok (build_status (build_cond env b t st reason msg))"
  by (simp add: build_status_ok_def build_cond_def conditions_ok_set)

lemma build_phase_reset [simp]:
  "build_status_ok s \<Longrightarrow> build_status_ok (s\<lparr>bt_concourseStatus := ''''\<rparr>)"
  by (simp add: build_status_ok_def)

lemma observe_fields_ok [simp]:
  "build_status_ok s \<Longrightarrow> build_phase_ok (ab_status ab) \<Longrightarrow> build_status_ok (observe_fields s ab)"
  by (simp add: build_status_ok_def observe_fields_def)

lemma map_build_io_ok [simp]:
  "build_status_ok (map_build_io s io) = build_status_ok s"
  by (simp add: map_build_io_def)

lemma persist_body_typed:
  "types_laws env \<Longrightarrow> build_ok b \<Longrightarrow> typed (persist_body env b) (\<lambda>r. \<forall>b. r = Inr b \<longrightarrow> build_ok b)"
  unfolding persist_body_def
  by (intro typed_rules) (auto simp: build_ok_def)

lemma persistBuildTracking_typed:
  assumes "types_laws env" and "build_ok b"
  shows "typed (persistBuildTracking env b) (\<lambda>r. \<forall>b. r = Inr b \<longrightarrow> build_ok b)"
proof -
  have "retry_law env" using assms(1) by (simp add: types_laws_def)
  then obtain n where "persistBuildTracking env b = attempts n (persist_body env b)"
    by (auto simp: retry_law_def persistBuildTracking_def)
  then show ?thesis by (simp add: typed_attempts persist_body_typed assms)
qed

lemma trigger_build_quiet: "emits conforms (trigger_build env b cl tn pn jn)"
  unfolding trigger_build_def by (intro emits_intros; simp)

lemma ensureBuildTriggered_typed:
  "types_laws env \<Longrightarrow> build_ok b \<Longrightarrow>
   typed (ensureBuildTriggered env b cl tn pn jn) (\<lambda>r. build_ok (fst r))"
  unfolding ensureBuildTriggered_def track_created_def
  by (intro typed_rules persistBuildTracking_typed [THEN typed_bind] typed_skip [OF trigger_build_quiet])
    (auto simp: build_ok_def)

lemma build_web_url_typed:
  "types_laws env \<Longrightarrow> build_ok b \<Longrightarrow> typed (build_web_url env b job tn pn jn) build_ok"
  unfolding build_web_url_def by (intro typed_rules) (auto simp: build_ok_def)

lemma observeBuild_typed:
  "types_laws env \<Longrightarrow> build_ok b \<Longrightarrow>
   typed (observeBuild env b cl i job tn pn jn) (\<lambda>r. build_ok (fst r))"
  unfolding observeBuild_def
  by (intro typed_rules build_web_url_typed [THEN typed_bind])
    (auto simp: build_ok_def split: sum.split option.split)

lemma setBuildComment_quiet: "emits conforms (setBuildComment env cl i comment)"
  unfolding setBuildComment_def by (intro emits_intros; simp)

lemma reconcileComment_typed:
  "types_laws env \<Longrightarrow> build_ok b \<Longrightarrow> typed (reconcileComment env b cl i) (\<lambda>r. build_ok (fst r))"
  unfolding reconcileComment_def
  by (intro typed_rules typed_skip; (intro emits_intros setBuildComment_quiet)?) (auto simp: build_ok_def)

lemma set_complete_ok: "types_laws env \<Longrightarrow> build_ok b \<Longrightarrow> build_ok (set_complete env (set_duration b))"
proof -
  assume laws: "types_laws env" "build_ok b"
  then have "build_ok (set_duration b)"
    by (auto simp: set_duration_def build_ok_def split: option.split)
  with laws show ?thesis by (simp add: set_complete_def build_ok_def)
qed

lemma start_watch_quiet: "emits conforms (start_watch cl i key)"
  unfolding start_watch_def by (intro emits_intros; simp)

lemma finish_build_typed:
  "types_laws env \<Longrightarrow> build_ok b \<Longrightarrow> typed (finish_build env b cl i failed) (\<lambda>_. True)"
  unfolding finish_build_def
  by (intro typed_rules typed_skip; (intro emits_intros start_watch_quiet)?) (auto simp: set_complete_ok [unfolded build_ok_def] build_ok_def)

lemma typed_if_ret: "typed p M \<Longrightarrow> M b \<Longrightarrow> typed (if c then p else ret b) M"
  by (simp add: typed_return)

lemma abort_quiet:
  "emits conforms (if c then do { e \<leftarrow> a_abort_build env cl bid;
     (case e of Some err \<Rightarrow> ret () | None \<Rightarrow> build_event env b EventTypeNormal r m) } else ret ())"
  by (intro emits_intros; simp)

lemma track_build_typed:
  "types_laws env \<Longrightarrow> build_ok b \<Longrightarrow> typed (track_build env b job cl tn pn) (\<lambda>_. True)"
  unfolding track_build_def
  by (intro typed_case(2-) typed_return ensureBuildTriggered_typed [THEN typed_bind] typed_skip [OF abort_quiet]
      typed_if_ret [OF observeBuild_typed, THEN typed_bind] typed_if_ret [OF reconcileComment_typed, THEN typed_bind]
      finish_build_typed) auto

lemma set_build_owner_typed:
  "types_laws env \<Longrightarrow> build_ok b \<Longrightarrow> typed (set_build_owner env b job) (\<lambda>r. \<forall>b. r = Inr b \<longrightarrow> build_ok b)"
  unfolding set_build_owner_def by (intro typed_rules) (auto simp: build_ok_def)

lemma handleBuildLifecycle_typed:
  "types_laws env \<Longrightarrow> build_ok b \<Longrightarrow> typed (handleBuildLifecycle env b) (\<lambda>_. True)"
  unfolding handleBuildLifecycle_def by (intro typed_rules) (auto simp: build_ok_def)

text \<open>Resolving a client reads only.\<close>

lemma resolve_quiet:
  "emits conforms (resolveInstanceForTeam env team)"
  "emits conforms (resolveClientForPipeline env pipeline)"
  "emits conforms (resolveClientForJob env job)"
  by (rule emits_of_reads [OF resolveInstance_reads], simp)
    (rule emits_of_reads [OF resolvePipeline_reads], simp, rule emits_of_reads [OF resolveJob_reads], simp)

lemmas typed_resolve = resolve_quiet [THEN typed_skip]

lemma reconcile_for_job_typed:
  "types_laws env \<Longrightarrow> build_ok b \<Longrightarrow> typed (reconcile_for_job env b job) (\<lambda>_. True)"
  unfolding reconcile_for_job_def resolve_and_track_def
  by (intro set_build_owner_typed [THEN typed_bind] typed_resolve track_build_typed typed_rules)
    (auto simp: build_ok_def)

lemma Build_typed:
  "types_laws env \<Longrightarrow> typed (Build_Reconcile env req) (\<lambda>_. True)"
  unfolding Build_Reconcile_def
  by (intro handleBuildLifecycle_typed [THEN typed_bind] reconcile_for_job_typed typed_rules)
    (auto simp: build_ok_def)

section \<open>A Pipeline\<close>

lemma pipeline_cond_ok [simp]:
  "types_laws env \<Longrightarrow> pipeline_status_ok (pipeline_status p) \<Longrightarrow> cond_type_ok t \<Longrightarrow> reason_ok reason \<Longrightarrow>
   pipeline_status_ok (pipeline_status (pipeline_cond env p t st reason msg))"
  by (simp add: pipeline_status_ok_def pipeline_cond_def conditions_ok_set)

lemma observe_pipeline_ok [simp]:
  "pipeline_status_ok (observe_pipeline_fields s p) = pipeline_status_ok s"
  by (simp add: pipeline_status_ok_def observe_pipeline_fields_def)

text \<open>The jobs of a pipeline, with the states of their last builds.\<close>

lemma finished_phase_ok [simp]:
  "build_phase_ok (case q of None \<Rightarrow> '''' | Some b \<Rightarrow> ab_status b) \<longleftrightarrow> (\<forall>b. q = Some b \<longrightarrow> build_phase_ok (ab_status b))"
  by (cases q) simp_all

lemma pipeline_jobs_ok [simp]:
  "pipeline_status_ok s \<Longrightarrow> list_all (\<lambda>j. build_phase_ok (pjs_lastBuildStatus (g j))) js \<Longrightarrow>
   pipeline_status_ok (s\<lparr>pt_jobs := map g js\<rparr>)"
  by (simp_all add: pipeline_status_ok_def o_def list_all_iff)

lemma warnings_cond_ok [simp]:
  "types_laws env \<Longrightarrow> pipeline_status_ok (pipeline_status p) \<Longrightarrow>
   pipeline_status_ok (pipeline_status (warnings_cond env p ws))"
  by (simp add: warnings_cond_def)

lemma observePipeline_typed:
  "types_laws env \<Longrightarrow> pipeline_ok p \<Longrightarrow> typed (observePipeline env p cl tn pn) pipeline_ok"
  unfolding observePipeline_def
  by (intro typed_rules) (auto simp: pipeline_ok_def split: sum.split option.split)

lemma set_config_quiet: "emits conforms (set_config env cl tn pn yaml)"
  unfolding set_config_def currentVersion_def by (intro emits_intros; simp)

lemma syncPipelineConfig_typed:
  "types_laws env \<Longrightarrow> pipeline_ok p \<Longrightarrow>
   typed (syncPipelineConfig env p cl tn pn yaml h) (\<lambda>r. pipeline_ok (fst r))"
  unfolding syncPipelineConfig_def
  by (intro typed_skip [OF set_config_quiet] typed_rules typed_skip; (intro emits_intros)?)
    (auto simp: pipeline_ok_def)

lemma state_failed_typed:
  "types_laws env \<Longrightarrow> pipeline_ok p \<Longrightarrow> reason_ok reason \<Longrightarrow>
   typed (state_failed env p reason err) (\<lambda>r. pipeline_ok (fst r))"
  unfolding state_failed_def by (intro typed_rules) (auto simp: pipeline_ok_def)

lemma applyPipelineState_typed:
  "types_laws env \<Longrightarrow> pipeline_ok p \<Longrightarrow>
   typed (applyPipelineState env p cl tn pn) (\<lambda>r. pipeline_ok (fst r))"
proof -
  assume laws: "types_laws env"
  have a: "pipeline_ok q \<Longrightarrow> typed (apply_archived env q cl tn pn) (\<lambda>r. pipeline_ok (fst r))" for q
    unfolding apply_archived_def using laws
    by (intro typed_rules state_failed_typed) (auto simp: pipeline_ok_def)
  have p: "pipeline_ok q \<Longrightarrow> typed (apply_paused env q cl tn pn) (\<lambda>r. pipeline_ok (fst r))" for q
    unfolding apply_paused_def using laws
    by (intro typed_rules state_failed_typed) (auto simp: pipeline_ok_def)
  have e: "pipeline_ok q \<Longrightarrow> typed (apply_exposed env q cl tn pn) (\<lambda>r. pipeline_ok (fst r))" for q
    unfolding apply_exposed_def using laws
    by (intro typed_rules state_failed_typed) (auto simp: pipeline_ok_def)
  assume "pipeline_ok p"
  then show ?thesis unfolding applyPipelineState_def
    by (intro a [THEN typed_bind] p [THEN typed_bind] e typed_case typed_return) auto
qed

lemma apply_pipeline_typed:
  "types_laws env \<Longrightarrow> pipeline_ok p \<Longrightarrow> typed (apply_pipeline env p cl tn pn yaml) (\<lambda>_. True)"
  unfolding apply_pipeline_def finish_pipeline_def
  by (intro syncPipelineConfig_typed [THEN typed_bind] applyPipelineState_typed [THEN typed_bind]
      observePipeline_typed [THEN typed_bind] typed_rules typed_skip; (intro emits_intros)?)
    (auto simp: pipeline_ok_def)

lemma pipeline_web_url_typed:
  "types_laws env \<Longrightarrow> pipeline_ok p \<Longrightarrow> typed (pipeline_web_url env p tn pn) pipeline_ok"
  unfolding pipeline_web_url_def by (intro typed_rules) (auto simp: pipeline_ok_def)

lemma loadPipelineConfig_quiet: "emits conforms (loadPipelineConfig env p)"
  unfolding loadPipelineConfig_def by (intro emits_intros; simp)

lemma deletePipeline_quiet: "emits conforms (deletePipeline env p)"
  unfolding deletePipeline_def by (intro emits_intros; simp)

lemma set_pipeline_finalizers_ok [simp]: "pipeline_status (set_pipeline_finalizers fs p) = pipeline_status p"
  by (simp add: set_pipeline_finalizers_def)

lemma handlePipelineLifecycle_typed:
  "types_laws env \<Longrightarrow> pipeline_ok p \<Longrightarrow> typed (handlePipelineLifecycle env p) (\<lambda>r. pipeline_ok (fst r))"
  unfolding handlePipelineLifecycle_def
  by (intro typed_skip [OF deletePipeline_quiet] typed_rules) (auto simp: pipeline_ok_def)

lemma set_pipeline_owner_typed:
  "types_laws env \<Longrightarrow> pipeline_ok p \<Longrightarrow> typed (set_pipeline_owner env p) (\<lambda>r. \<forall>p. r = Inr p \<longrightarrow> pipeline_ok p)"
  unfolding set_pipeline_owner_def by (intro typed_rules) (auto simp: pipeline_ok_def)

lemma sync_pipeline_typed:
  "types_laws env \<Longrightarrow> pipeline_ok p \<Longrightarrow> typed (sync_pipeline env p) (\<lambda>_. True)"
  unfolding sync_pipeline_def
  by (intro typed_resolve pipeline_web_url_typed [THEN typed_bind] typed_skip [OF loadPipelineConfig_quiet]
      apply_pipeline_typed typed_rules) (auto simp: pipeline_ok_def)

lemma Pipeline_typed: "types_laws env \<Longrightarrow> typed (Pipeline_Reconcile env req) (\<lambda>_. True)"
  unfolding Pipeline_Reconcile_def reconcile_pipeline_def
  by (intro handlePipelineLifecycle_typed [THEN typed_bind] set_pipeline_owner_typed [THEN typed_bind]
      sync_pipeline_typed typed_rules) (auto simp: pipeline_ok_def)

section \<open>A Team\<close>

lemma team_cond_ok [simp]:
  "types_laws env \<Longrightarrow> team_status_ok (team_status t) \<Longrightarrow> cond_type_ok ct \<Longrightarrow> reason_ok reason \<Longrightarrow>
   team_status_ok (team_status (team_cond env t ct st reason msg))"
  by (simp add: team_status_ok_def team_cond_def conditions_ok_set)

lemma set_team_finalizers_ok [simp]: "team_status (set_team_finalizers fs t) = team_status t"
  by (simp add: set_team_finalizers_def)

lemma deleteTeam_quiet: "emits conforms (deleteTeam env t)"
  unfolding deleteTeam_def by (intro emits_intros; simp)

lemma team_web_url_typed: "types_laws env \<Longrightarrow> team_ok t \<Longrightarrow> typed (team_web_url env t tn) team_ok"
  unfolding team_web_url_def by (intro typed_rules) (auto simp: team_ok_def)

lemma finish_team_typed:
  "types_laws env \<Longrightarrow> team_ok t \<Longrightarrow> typed (finish_team env t tn tid ws) (\<lambda>_. True)"
  unfolding finish_team_def
  by (intro team_web_url_typed [THEN typed_bind] typed_rules typed_skip; (intro emits_intros)?)
    (auto simp: team_ok_def)

lemma sync_team_typed: "types_laws env \<Longrightarrow> team_ok t \<Longrightarrow> typed (sync_team env t) (\<lambda>_. True)"
  unfolding sync_team_def
  by (intro typed_resolve finish_team_typed typed_rules) (auto simp: team_ok_def)

lemma team_objects_typed:
  "types_laws env \<Longrightarrow> team_ok t \<Longrightarrow> typed (add_team_finalizer env t) (\<lambda>r. \<forall>t. r = Inr t \<longrightarrow> team_ok t)"
  "types_laws env \<Longrightarrow> team_ok t \<Longrightarrow> typed (set_team_owner env t) (\<lambda>r. \<forall>t. r = Inr t \<longrightarrow> team_ok t)"
  "types_laws env \<Longrightarrow> team_ok t \<Longrightarrow> typed (finalize_team env t) (\<lambda>_. True)"
  unfolding add_team_finalizer_def set_team_owner_def finalize_team_def
  by (intro typed_skip [OF deleteTeam_quiet] typed_rules; auto simp: team_ok_def)+

lemma Team_typed: "types_laws env \<Longrightarrow> typed (Team_Reconcile env req) (\<lambda>_. True)"
  unfolding Team_Reconcile_def reconcile_team_def
  by (intro team_objects_typed(1,2) [THEN typed_bind] team_objects_typed(3) sync_team_typed typed_rules)
    (auto simp: team_ok_def)

section \<open>A Job\<close>

lemma job_cond_ok [simp]:
  "types_laws env \<Longrightarrow> job_status_ok (job_status j) \<Longrightarrow> cond_type_ok t \<Longrightarrow> reason_ok reason \<Longrightarrow>
   job_status_ok (job_status (job_cond env j t st reason msg))"
  by (simp add: job_status_ok_def job_cond_def conditions_ok_set)

lemma observe_job_fields_ok [simp]:
  "job_status_ok s \<Longrightarrow> \<forall>b. aj_nextBuild j = Some b \<longrightarrow> build_phase_ok (ab_status b) \<Longrightarrow> job_status_ok (observe_job_fields s j)"
  by (simp add: job_status_ok_def observe_job_fields_def o_def list_all_iff)

lemma last_status_ok [simp]:
  "job_status_ok s \<Longrightarrow> build_phase_ok p \<Longrightarrow> job_status_ok (s\<lparr>jt_lastBuildStatus := p\<rparr>)"
  by (simp add: job_status_ok_def)

lemma observe_last_build_ok [simp]:
  assumes "types_laws env" and "job_status_ok (job_status j)"
    and "\<forall>b. finished = Some b \<longrightarrow> build_phase_ok (ab_status b)"
  shows "job_status_ok (job_status (observe_last_build env j finished))"
  using assms by (cases finished) (simp_all add: observe_last_build_def Let_def)

lemma delete_builds_quiet': "emits conforms (delete_builds env bs)"
  by (induction bs) (auto intro!: emits_intros)

lemma sort_out_quiet': "emits conforms (sort_out env t bs succ failed)"
  by (induction bs arbitrary: succ failed) (auto intro!: emits_intros)

lemma pruneBuilds_quiet: "emits conforms (pruneBuilds env j)"
  unfolding pruneBuilds_def delete_beyond_def
  by (intro emits_intros delete_builds_quiet' sort_out_quiet' emits_prune_case; simp)

lemma typed_prune_case:
  "typed p Q \<Longrightarrow> (\<And>e. typed (f e) Q) \<Longrightarrow> (\<And>i. typed (g i) Q) \<Longrightarrow>
   typed (case r of Pruned \<Rightarrow> p | PruneFailed e \<Rightarrow> f e | PrunePanicked i \<Rightarrow> g i) Q"
  by (cases r) simp_all

lemma finish_job_typed: "types_laws env \<Longrightarrow> job_ok j \<Longrightarrow> typed (finish_job env j) (\<lambda>_. True)"
  unfolding finish_job_def
  by (intro typed_skip [OF pruneBuilds_quiet] typed_prune_case typed_rules) (auto simp: job_ok_def)

lemma job_not_fetched_typed: "types_laws env \<Longrightarrow> job_ok j \<Longrightarrow> typed (job_not_fetched env j) (\<lambda>_. True)"
  unfolding job_not_fetched_def by (intro typed_rules) (auto simp: job_ok_def)

lemma observe_job_typed:
  "types_laws env \<Longrightarrow> job_ok j \<Longrightarrow> typed (observe_job env j cl tn pn jn) (\<lambda>_. True)"
  unfolding observe_job_def
  by (intro finish_job_typed job_not_fetched_typed typed_rules) (auto simp: job_ok_def)

lemma job_objects_typed:
  "types_laws env \<Longrightarrow> job_ok j \<Longrightarrow> typed (job_web_url env j tn pn jn) job_ok"
  "types_laws env \<Longrightarrow> job_ok j \<Longrightarrow> typed (applyJobPause env j cl tn pn jn) (\<lambda>r. job_ok (fst r))"
  "types_laws env \<Longrightarrow> job_ok j \<Longrightarrow> typed (set_job_owner env j) (\<lambda>r. \<forall>j. r = Inr j \<longrightarrow> job_ok j)"
  "types_laws env \<Longrightarrow> job_ok j \<Longrightarrow> typed (handleJobLifecycle env j) (\<lambda>_. True)"
  unfolding job_web_url_def applyJobPause_def pause_failed_def set_job_owner_def handleJobLifecycle_def
  by (intro typed_rules; auto simp: job_ok_def)+

lemma Job_typed: "types_laws env \<Longrightarrow> typed (Job_Reconcile env req) (\<lambda>_. True)"
  unfolding Job_Reconcile_def reconcile_job_def apply_job_def
  by (intro job_objects_typed [THEN typed_bind] typed_resolve observe_job_typed typed_rules) (auto simp: job_ok_def)

section \<open>A Resource\<close>

lemma resource_cond_ok [simp]:
  "types_laws env \<Longrightarrow> resource_status_ok (resource_status r) \<Longrightarrow> cond_type_ok t \<Longrightarrow> reason_ok reason \<Longrightarrow>
   resource_status_ok (resource_status (resource_cond env r t st reason msg))"
  by (simp add: resource_status_ok_def resource_cond_def conditions_ok_set)

lemma find_version_quiet: "emits conforms (find_version env cl tn pn rn what v)"
  unfolding find_version_def by (intro emits_intros; simp)

lemma syncPin_typed:
  "types_laws env \<Longrightarrow> resource_ok r \<Longrightarrow>
   typed (syncPin env cl tn pn rn r) (\<lambda>x. \<forall>r. x = Inr r \<longrightarrow> resource_ok r)"
  unfolding syncPin_def unpin_def pin_version_def sync_pin_comment_def
  by (intro typed_skip [OF find_version_quiet] typed_rules typed_skip; (intro emits_intros)?)
    (auto simp: resource_ok_def)

lemma disabled_quiet:
  "emits conforms (resolve_disabled env cl tn pn rn vs ids)"
  "emits conforms (disable_versions env cl tn pn rn r tracked ds)"
  "emits conforms (enable_versions env cl tn pn rn r desired is)"
proof -
  show "emits conforms (resolve_disabled env cl tn pn rn vs ids)"
    by (induction vs arbitrary: ids) (auto intro!: emits_intros find_version_quiet)
  show "emits conforms (disable_versions env cl tn pn rn r tracked ds)"
    by (induction ds) (auto intro!: emits_intros)
  show "emits conforms (enable_versions env cl tn pn rn r desired is)"
    by (induction "is") (auto intro!: emits_intros)
qed

lemma syncDisabledVersions_typed:
  "types_laws env \<Longrightarrow> resource_ok r \<Longrightarrow>
   typed (syncDisabledVersions env cl tn pn rn r) (\<lambda>x. \<forall>r. x = Inr r \<longrightarrow> resource_ok r)"
  unfolding syncDisabledVersions_def
  by (intro disabled_quiet [THEN typed_skip] typed_rules) (auto simp: resource_ok_def)

lemma shouldCheck_quiet: "emits conforms (shouldCheck env r)"
  unfolding shouldCheck_def by (intro emits_intros; simp)

lemma check_resource_typed:
  "types_laws env \<Longrightarrow> resource_ok r \<Longrightarrow> typed (check_resource env cl tn pn rn r) resource_ok"
  unfolding check_resource_def
  by (intro typed_skip [OF shouldCheck_quiet] typed_rules) (auto simp: resource_ok_def)

lemma fetchLatestVersion_typed:
  "resource_ok r \<Longrightarrow> typed (fetchLatestVersion env cl tn pn rn r) resource_ok"
  unfolding fetchLatestVersion_def
  by (rule typed_bind [OF typed_other], simp)
    (auto simp: resource_ok_def intro!: typed_return split: sum.split option.split list.split)

lemma finish_resource_typed:
  "types_laws env \<Longrightarrow> resource_ok r \<Longrightarrow> typed (finish_resource env r rn) (\<lambda>_. True)"
  "types_laws env \<Longrightarrow> resource_ok r \<Longrightarrow> reason_ok reason \<Longrightarrow> typed (sync_failed env r reason msg err) (\<lambda>_. True)"
  "types_laws env \<Longrightarrow> resource_ok r \<Longrightarrow> reason_ok reason \<Longrightarrow> typed (resource_not_ready env r reason msg) (\<lambda>_. True)"
  unfolding finish_resource_def sync_failed_def resource_not_ready_def
  by (intro typed_rules typed_skip; (intro emits_intros)?; auto simp: resource_ok_def)+

lemma resource_objects_typed:
  "types_laws env \<Longrightarrow> resource_ok r \<Longrightarrow> typed (resource_web_url env r p tn pn rn) resource_ok"
  "types_laws env \<Longrightarrow> resource_ok r \<Longrightarrow> typed (set_resource_owner env r p) (\<lambda>x. \<forall>r. x = Inr r \<longrightarrow> resource_ok r)"
  unfolding resource_web_url_def set_resource_owner_def by (intro typed_rules; auto simp: resource_ok_def)+

lemma apply_resource_typed:
  "types_laws env \<Longrightarrow> resource_ok r \<Longrightarrow> typed (apply_resource env r p cl tn) (\<lambda>_. True)"
  unfolding apply_resource_def
  by (intro resource_objects_typed(1) [THEN typed_bind] syncPin_typed [THEN typed_bind]
      syncDisabledVersions_typed [THEN typed_bind] check_resource_typed [THEN typed_bind]
      fetchLatestVersion_typed [THEN typed_bind] finish_resource_typed typed_rules) (auto simp: resource_ok_def)

lemma Resource_typed: "types_laws env \<Longrightarrow> typed (Resource_Reconcile env req) (\<lambda>_. True)"
  unfolding Resource_Reconcile_def reconcile_for_pipeline_def
  by (intro resource_objects_typed(2) [THEN typed_bind] typed_resolve apply_resource_typed finish_resource_typed
      typed_rules) (auto simp: resource_ok_def)

section \<open>A Worker\<close>

lemma worker_cond_ok [simp]:
  "types_laws env \<Longrightarrow> worker_status_ok (worker_status w) \<Longrightarrow> cond_type_ok t \<Longrightarrow> reason_ok reason \<Longrightarrow>
   worker_status_ok (worker_status (worker_cond env w t st reason msg))"
  by (simp add: worker_status_ok_def worker_cond_def conditions_ok_set)

lemma observe_worker_fields_ok [simp]:
  "worker_status_ok s \<Longrightarrow> worker_phase_ok (aw_state w) \<Longrightarrow>
   worker_status_ok (observe_worker_fields s w)"
  by (simp add: worker_status_ok_def observe_worker_fields_def o_def)

lemma worker_missing_phase_ok [simp]:
  "worker_status_ok s \<Longrightarrow> worker_status_ok (s\<lparr>wt_phase := WorkerPhaseMissing\<rparr>)"
  by (simp add: worker_status_ok_def)

lemma worker_conds_ok [simp]:
  "types_laws env \<Longrightarrow> worker_status_ok (worker_status w) \<Longrightarrow> worker_status_ok (worker_status (stalled_cond env w a))"
  "types_laws env \<Longrightarrow> worker_status_ok (worker_status w) \<Longrightarrow>
   worker_status_ok (worker_status (transition_cond env w lifecycle a))"
  "worker_status_ok (worker_status (set_worker_observed w)) = worker_status_ok (worker_status w)"
  by (simp_all add: stalled_cond_def transition_cond_def set_worker_observed_def)

lemma request_transition_quiet: "emits conforms (request_transition env cl w lifecycle wn)"
  unfolding request_transition_def by (intro emits_intros; simp)

lemma worker_objects_typed:
  "types_laws env \<Longrightarrow> worker_ok w \<Longrightarrow> typed (save_worker env w) (\<lambda>_. True)"
  "types_laws env \<Longrightarrow> worker_ok w \<Longrightarrow> reason_ok reason \<Longrightarrow> typed (worker_not_ready env w reason msg after) (\<lambda>_. True)"
  "types_laws env \<Longrightarrow> worker_ok w \<Longrightarrow> typed (set_worker_owner env w i) (\<lambda>x. \<forall>w. x = Inr w \<longrightarrow> worker_ok w)"
  unfolding save_worker_def worker_not_ready_def set_worker_owner_def
  by (intro typed_rules; auto simp: worker_ok_def)+

lemma observe_worker_typed:
  "types_laws env \<Longrightarrow> worker_ok w \<Longrightarrow> typed (observe_worker env cl w lifecycle wn) (\<lambda>_. True)"
  unfolding observe_worker_def worker_missing_def worker_found_def
  by (intro worker_objects_typed typed_rules typed_skip; (intro emits_intros)?)
    (auto simp: worker_ok_def list_all_iff find_Some_iff)

lemma GetOrBuild_quiet: "emits conforms (GetOrBuild env i)"
  by (rule emits_of_reads [OF GetOrBuild_reads]) simp

lemma reconcile_worker_typed: "types_laws env \<Longrightarrow> worker_ok w \<Longrightarrow> typed (reconcile_worker env w) (\<lambda>_. True)"
  unfolding reconcile_worker_def reconcile_on_instance_def apply_worker_def
  by (intro worker_objects_typed(3) [THEN typed_bind] worker_objects_typed(2) typed_skip [OF GetOrBuild_quiet]
      typed_skip [OF request_transition_quiet] observe_worker_typed typed_rules) (auto simp: worker_ok_def)

lemma Worker_typed: "types_laws env \<Longrightarrow> typed (Worker_Reconcile env req) (\<lambda>_. True)"
  unfolding Worker_Reconcile_def
  by (intro reconcile_worker_typed typed_rules) (auto simp: worker_ok_def)

section \<open>An Instance\<close>

lemma instance_cond_ok [simp]:
  "types_laws env \<Longrightarrow> instance_status_ok (instance_status i) \<Longrightarrow> cond_type_ok t \<Longrightarrow> reason_ok reason \<Longrightarrow>
   instance_status_ok (instance_status (instance_cond env i t st reason msg))"
  by (simp add: instance_status_ok_def instance_cond_def conditions_ok_set)

lemma instance_updates_ok [simp]:
  "instance_status (set_instance_finalizers fs i) = instance_status i"
  "instance_status_ok (instance_status (set_info info i)) = instance_status_ok (instance_status i)"
  "instance_status_ok (instance_status (instance_observed i)) = instance_status_ok (instance_status i)"
  "instance_status_ok (instance_status (set_worker_counts ws i)) = instance_status_ok (instance_status i)"
  "types_laws env \<Longrightarrow> instance_status_ok (instance_status i) \<Longrightarrow>
   instance_status_ok (instance_status (workers_cond env i n))"
  by (simp_all add: set_instance_finalizers_def set_info_def instance_observed_def set_worker_counts_def workers_cond_def)

lemma Evict_quiet: "emits conforms (Evict i)"
  by (rule Evict_emits)

lemma handleInstanceLifecycle_typed:
  "types_laws env \<Longrightarrow> instance_ok i \<Longrightarrow> typed (handleInstanceLifecycle env i) (\<lambda>r. instance_ok (fst r))"
  unfolding handleInstanceLifecycle_def
  by (intro typed_skip [OF Evict_quiet] typed_rules) (auto simp: instance_ok_def)

lemma AuthSecretGeneration_quiet: "emits conforms (AuthSecretGeneration env ns spec)"
  by (rule emits_mono [OF AuthSecretGeneration_secrets]) (auto simp: is_secret_read_def)

lemma instance_steps_typed:
  "instance_ok i \<Longrightarrow> typed (set_secret_generation env i) instance_ok"
  "types_laws env \<Longrightarrow> instance_ok i \<Longrightarrow> typed (save_instance env i) (\<lambda>_. True)"
  "types_laws env \<Longrightarrow> instance_ok i \<Longrightarrow> typed (observe_user_and_wall env cl i) instance_ok"
  "instance_ok i \<Longrightarrow> typed (observe_counts env cl i) instance_ok"
  "types_laws env \<Longrightarrow> instance_ok i \<Longrightarrow> typed (syncWall env cl i) (\<lambda>r. instance_ok (fst r))"
  "types_laws env \<Longrightarrow> instance_ok i \<Longrightarrow> reason_ok reason \<Longrightarrow> typed (probe_failed env i reason msg err) (\<lambda>_. True)"
  "types_laws env \<Longrightarrow> instance_ok i \<Longrightarrow> typed (invalid_spec env i) (\<lambda>_. True)"
proof -
  show "instance_ok i \<Longrightarrow> typed (set_secret_generation env i) instance_ok"
    unfolding set_secret_generation_def
    by (intro typed_skip [OF AuthSecretGeneration_quiet] typed_return) (simp add: instance_ok_def)
  show "instance_ok i \<Longrightarrow> typed (observe_counts env cl i) instance_ok"
    unfolding observe_counts_def
    by (intro typed_bind [OF typed_other] typed_case(5) typed_return) (auto simp: instance_ok_def split: sum.split)
  assume laws: "types_laws env" "instance_ok i"
  show "typed (save_instance env i) (\<lambda>_. True)"
    unfolding save_instance_def using laws by (intro typed_rules) (auto simp: instance_ok_def)
  show "typed (observe_user_and_wall env cl i) instance_ok"
    unfolding observe_user_and_wall_def
    by (intro typed_bind [OF typed_other] typed_case(5) typed_return)
      (use laws in \<open>auto simp: instance_ok_def split: sum.split\<close>)
  show "typed (syncWall env cl i) (\<lambda>r. instance_ok (fst r))"
    unfolding syncWall_def wall_failed_def using laws by (intro typed_rules) (auto simp: instance_ok_def)
  show "reason_ok reason \<Longrightarrow> typed (probe_failed env i reason msg err) (\<lambda>_. True)"
    unfolding probe_failed_def using laws by (intro typed_rules) (auto simp: instance_ok_def)
  show "typed (invalid_spec env i) (\<lambda>_. True)"
    unfolding invalid_spec_def using laws by (intro typed_rules) (auto simp: instance_ok_def)
qed

lemma report_instance_typed:
  "types_laws env \<Longrightarrow> instance_ok i \<Longrightarrow> typed (report_instance env i info ws) (\<lambda>_. True)"
  "types_laws env \<Longrightarrow> instance_ok i \<Longrightarrow> typed (workers_unknown env i info err) (\<lambda>_. True)"
  unfolding report_instance_def workers_unknown_def
  by (intro instance_steps_typed(1) [THEN typed_bind] instance_steps_typed(2) typed_case(2-) typed_event [THEN typed_bind]
      typed_skip; (intro emits_intros)?; auto simp: instance_ok_def)+

lemma observe_instance_typed:
  "types_laws env \<Longrightarrow> instance_ok i \<Longrightarrow> typed (observe_instance env cl i info ws) (\<lambda>_. True)"
  unfolding observe_instance_def
  by (intro instance_steps_typed(3-5) [THEN typed_bind] report_instance_typed typed_rules) auto

lemma probe_instance_typed: "types_laws env \<Longrightarrow> instance_ok i \<Longrightarrow> typed (probe_instance env i) (\<lambda>_. True)"
  unfolding probe_instance_def
  by (intro typed_skip [OF GetOrBuild_quiet] instance_steps_typed(6) report_instance_typed(2) observe_instance_typed
      typed_case typed_bind [OF typed_other] typed_return) auto

lemma Instance_typed: "types_laws env \<Longrightarrow> typed (Instance_Reconcile env req) (\<lambda>_. True)"
  unfolding Instance_Reconcile_def reconcile_instance_def
  by (intro handleInstanceLifecycle_typed [THEN typed_bind] instance_steps_typed(7) probe_instance_typed typed_rules) auto

section \<open>The interface of a typed reconciler\<close>

locale typed_reconciler =
  fixes reconcile :: "'k \<Rightarrow> ('w, 'a) prog"
    and laws :: bool
  assumes typed: "laws \<Longrightarrow> typed (reconcile req) (\<lambda>_. True)"
begin

lemma adds:
  "laws \<Longrightarrow> journal (final_of (reconcile req) s) = journal s @ emitted (reconcile req) s \<and>
   list_all conforms (emitted (reconcile req) s)"
  using outcomeD [OF typed [unfolded typed_def], of req s] outcome_journal [OF typed [unfolded typed_def], of req s]
  by blast

end

interpretation build_typed: typed_reconciler "Build_Reconcile env" "types_laws env" for env
  by unfold_locales (rule Build_typed)

interpretation pipeline_typed: typed_reconciler "Pipeline_Reconcile env" "types_laws env" for env
  by unfold_locales (rule Pipeline_typed)

interpretation team_typed: typed_reconciler "Team_Reconcile env" "types_laws env" for env
  by unfold_locales (rule Team_typed)

interpretation job_typed: typed_reconciler "Job_Reconcile env" "types_laws env" for env
  by unfold_locales (rule Job_typed)

interpretation resource_typed: typed_reconciler "Resource_Reconcile env" "types_laws env" for env
  by unfold_locales (rule Resource_typed)

interpretation worker_typed: typed_reconciler "Worker_Reconcile env" "types_laws env" for env
  by unfold_locales (rule Worker_typed)

interpretation instance_typed: typed_reconciler "Instance_Reconcile env" "types_laws env" for env
  by unfold_locales (rule Instance_typed)

text \<open>
  The lists with a key are copied as Concourse reports them. Outputs that share their name stay so
  in the status, whose field is declared a map by the name.
\<close>

lemma repeated_outputs_mistyped:
  "\<not> distinct (map abo_name (abio_outputs io)) \<Longrightarrow> \<not> distinct (map bio_name (bt_outputs (map_build_io s io)))"
  by (simp add: map_build_io_def o_def)

end
