(* ===== verification/Operator.thy ===== *)
theory Operator
  imports Confined_Reconcilers Typed_Reconcilers Startup Team_Proofs
begin

text \<open>
  The whole operator: the seven reconcilers, the watch on Secrets and the event watchers over one
  process memory, in any order, against a world that anybody may change in between, and across
  restarts of the process. Each step is a whole run, so the operations of two runs are not
  interleaved.
\<close>

section \<open>The steps of the operator\<close>

text \<open>The reconciler that is registered for a kind.\<close>

definition reconciler_of :: "'w env \<Rightarrow> okind \<Rightarrow> ObjectKey \<Rightarrow> 'w reconcile" where
  "reconciler_of env k =
     (case k of
        KInstance \<Rightarrow> Instance_Reconcile env
      | KTeam \<Rightarrow> Team_Reconcile env
      | KPipeline \<Rightarrow> Pipeline_Reconcile env
      | KJob \<Rightarrow> Job_Reconcile env
      | KBuild \<Rightarrow> Build_Reconcile env
      | KResource \<Rightarrow> Resource_Reconcile env
      | KWorker \<Rightarrow> Worker_Reconcile env)"

definition fresh_memory :: memory where
  "fresh_memory = \<lparr>mem_store = NewCache, mem_watchers = {}\<rparr>"

type_synonym 'w operator = "('w, memory, io) machine"

inductive op_step :: "'w env \<Rightarrow> 'w operator \<Rightarrow> 'w operator \<Rightarrow> bool" for env where
  reconciles: "op_step env s (final_of (reconciler_of env k req) (s\<lparr>world := w\<rparr>))"
| secret_changes: "op_step env s (final_of (mapSecretToInstance env key) (s\<lparr>world := w\<rparr>))"
| watches: "SpawnWatch cl bid key \<in> set (journal s) \<Longrightarrow>
    op_step env s (final_of (watchBuildEvents n env cl bid key) (s\<lparr>world := w\<rparr>))"
| watch_ends: "op_step env s (final_of (end_watch key) (s\<lparr>world := w\<rparr>))"
| restarts: "op_step env s (s\<lparr>mem := fresh_memory, world := w\<rparr>)"

inductive op_reachable :: "'w env \<Rightarrow> 'w operator \<Rightarrow> bool" for env where
  starts: "op_reachable env \<lparr>world = w, mem = fresh_memory, journal = []\<rparr>"
| steps: "op_reachable env s \<Longrightarrow> op_step env s t \<Longrightarrow> op_reachable env t"

inductive_cases op_stepE: "op_step env s t"

section \<open>The invariant\<close>

definition history_ok :: "io list \<Rightarrow> bool" where
  "history_ok J \<longleftrightarrow> (\<forall>K e L. J = K @ e # L \<and> is_request e \<longrightarrow>
     (\<exists>cl i. sent_with e cl \<and> from_api i K \<and> built_for K i cl))"

definition op_inv :: "'w operator \<Rightarrow> bool" where
  "op_inv s \<longleftrightarrow> cache_sound (mem_store (mem s)) (journal s) \<and> history_ok (journal s)"

lemma history_okD:
  "history_ok J \<Longrightarrow> J = K @ e # L \<Longrightarrow> is_request e \<Longrightarrow> \<exists>cl i. sent_with e cl \<and> from_api i K \<and> built_for K i cl"
  unfolding history_ok_def by blast

lemma history_ok_append:
  assumes "history_ok J"
    and new: "\<And>ds e gs. fs = ds @ e # gs \<Longrightarrow> is_request e \<Longrightarrow>
      \<exists>cl i. sent_with e cl \<and> from_api i (J @ ds) \<and> built_for (J @ ds) i cl"
  shows "history_ok (J @ fs)"
  unfolding history_ok_def
proof (intro allI impI)
  fix K e L
  assume h: "J @ fs = K @ e # L \<and> is_request e"
  then obtain us where "J = K @ us \<and> us @ fs = e # L \<or> J @ us = K \<and> fs = us @ e # L"
    by (auto simp: append_eq_append_conv2)
  then consider (new) hs where "K = J @ hs" "fs = hs @ e # L" | (old) hs where "J = K @ e # hs"
    by (cases us) auto
  then show "\<exists>cl i. sent_with e cl \<and> from_api i K \<and> built_for K i cl"
  proof cases
    case new
    then show ?thesis using h assms(2) by blast
  next
    case old
    then show ?thesis using h assms(1) unfolding history_ok_def by blast
  qed
qed

lemma entitled_known: "entitled K es cl \<Longrightarrow> \<exists>i. from_api i (K @ es) \<and> built_for (K @ es) i cl"
  by (auto simp: entitled_def client_known_def)

lemma secure_inv:
  assumes "history_ok J" and "secure J es t"
  shows "op_inv t"
proof -
  have "history_ok (J @ es)"
    by (rule history_ok_append [OF assms(1)])
      (use assms(2) entitled_known in \<open>auto simp: secure_def run_entitled_def; blast\<close>)
  then show ?thesis using assms(2) by (simp add: secure_def op_inv_def)
qed

lemma reconciler_run:
  assumes "retry_law env" and "client_law env" and "cache_sound (mem_store (mem s)) (journal s)"
  shows "secure (journal s) (emitted (reconciler_of env k req) s) (final_of (reconciler_of env k req) s)"
  using build_conf.run [of env s req] pipeline_conf.run [of s env req] team_conf.run [of s env req]
    job_conf.run [of s env req] resource_conf.run [of s env req] worker_conf.run [of s env req]
    instance_conf.run [of s env req] assms
  by (cases k) (simp_all add: reconciler_of_def)

text \<open>A watcher asks for the events of its build with the client it was handed.\<close>

lemma watch_loop_with: "emits (only_with c) (watch_loop n env stream key)"
  by (induction n) (auto simp: enqueue_build_def intro!: emits_intros)

lemma watchBuildEvents_with: "emits (only_with (Some cl)) (watchBuildEvents n env cl bid key)"
  unfolding watchBuildEvents_def
  by (rule emits_bind, intro emits_intros, simp add: only_with_client)
    (auto simp: enqueue_build_def intro!: emits_intros watch_loop_with split: sum.split option.split)

lemma watch_loop_keeps: "keeps I (watch_loop n env stream key)"
  by (induction n) (auto simp: enqueue_build_def intro!: keeps_intros)

lemma watchBuildEvents_keeps: "keeps I (watchBuildEvents n env cl bid key)"
  unfolding watchBuildEvents_def
  by (rule keeps_bind, rule keeps_extern)
    (auto simp: enqueue_build_def intro!: keeps_intros watch_loop_keeps split: sum.split option.split)

lemma watch_inv:
  assumes "op_inv s" and spawned: "SpawnWatch cl bid key \<in> set (journal s)"
  shows "op_inv (final_of (watchBuildEvents n env cl bid key) (s\<lparr>world := w\<rparr>))"
proof -
  let ?p = "watchBuildEvents n env cl bid key"
  let ?s = "s\<lparr>world := w\<rparr>"
  let ?es = "emitted ?p ?s"
  from spawned obtain K L where J: "journal s = K @ SpawnWatch cl bid key # L"
    by (meson split_list)
  have "history_ok (journal s)" using assms(1) by (simp add: op_inv_def)
  from history_okD [OF this J] obtain i where i: "from_api i K" "built_for K i cl" by auto
  have es: "list_all (only_with (Some cl)) ?es"
    using outcomeD [OF watchBuildEvents_with [unfolded emits_def]] .
  have "history_ok (journal s @ ?es)"
  proof (rule history_ok_append)
    show "history_ok (journal s)" using assms(1) by (simp add: op_inv_def)
    fix ds e gs assume "?es = ds @ e # gs" and "is_request e"
    with es have "sent_with e cl" by (auto simp: only_with_def)
    moreover have "from_api i (journal s @ ds)" "built_for (journal s @ ds) i cl"
      using from_api_mono [OF i(1)] built_for_mono [OF i(2)] by (simp_all add: J subset_iff)
    ultimately show "\<exists>cl i. sent_with e cl \<and> from_api i (journal s @ ds) \<and> built_for (journal s @ ds) i cl"
      by blast
  qed
  moreover have "journal (final_of ?p ?s) = journal s @ ?es"
    using outcome_journal [OF watchBuildEvents_with [unfolded emits_def], of n env cl bid key ?s] by simp
  moreover have "mem (final_of ?p ?s) = mem s"
    using keepsD [OF watchBuildEvents_keeps [of "\<lambda>m. m = mem s"], of ?s] by simp
  moreover have "cache_sound (mem_store (mem s)) (journal s @ ?es)"
    using assms(1) by (auto simp: op_inv_def intro: cache_sound_mono)
  ultimately show ?thesis by (simp add: op_inv_def)
qed

lemma op_step_inv:
  assumes laws: "retry_law env" "client_law env" and "op_step env s t" and inv: "op_inv s"
  shows "op_inv t"
  using assms(3)
proof cases
  case (reconciles k req w)
  then show ?thesis
    using secure_inv [OF _ reconciler_run [OF laws, of "s\<lparr>world := w\<rparr>" k req]] inv by (simp add: op_inv_def)
next
  case (secret_changes key w)
  then show ?thesis
    using secure_inv [OF _ secret_conf.run [OF TrueI, of "s\<lparr>world := w\<rparr>" env key]] inv by (simp add: op_inv_def)
next
  case (watches cl bid key n w)
  then show ?thesis using watch_inv [OF inv] by simp
next
  case (watch_ends key w)
  then show ?thesis using inv by (simp add: op_inv_def end_watch_def run_simps)
next
  case (restarts w)
  then show ?thesis using inv by (simp add: op_inv_def fresh_memory_def NewCache_def cache_sound_def)
qed

lemma op_reachable_inv:
  assumes laws: "retry_law env" "client_law env" and "op_reachable env s"
  shows "op_inv s"
  using assms(3)
proof (induction rule: op_reachable.induct)
  case (starts w)
  then show ?case by (simp add: op_inv_def fresh_memory_def NewCache_def cache_sound_def history_ok_def)
next
  case (steps s t)
  then show ?case by (blast intro: op_step_inv [OF laws])
qed

section \<open>Well typed histories\<close>

lemma reconciler_adds:
  assumes "types_laws env"
  shows "journal (final_of (reconciler_of env k req) s) = journal s @ emitted (reconciler_of env k req) s \<and>
    list_all conforms (emitted (reconciler_of env k req) s)"
  using assms build_typed.adds pipeline_typed.adds team_typed.adds job_typed.adds resource_typed.adds
    worker_typed.adds instance_typed.adds
  by (cases k) (simp_all add: reconciler_of_def)

lemma op_step_conforms:
  assumes laws: "types_laws env" and "op_step env s t" and "list_all conforms (journal s)"
  shows "list_all conforms (journal t)"
proof -
  have add: "list_all conforms (journal (final_of p (s\<lparr>world := w\<rparr>)))" if "emits conforms p"
    for p :: "('a, 'c) prog" and w
    using outcomeD [OF that [unfolded emits_def]] outcome_journal [OF that [unfolded emits_def]] assms(3) by simp
  have secret: "emits conforms (mapSecretToInstance env key)" for key
    unfolding mapSecretToInstance_def by (intro emits_intros; simp)
  have loop: "emits conforms (watch_loop n env stream key)" for n stream key
    by (induction n) (auto simp: enqueue_build_def intro!: emits_intros)
  have watch: "emits conforms (watchBuildEvents n env cl bid key)" for n cl bid key
    unfolding watchBuildEvents_def
    by (rule emits_bind, intro emits_intros, simp)
      (auto simp: enqueue_build_def intro!: emits_intros loop split: sum.split option.split)
  have ends: "emits conforms (end_watch key)" for key
    unfolding end_watch_def by (intro emits_intros)
  from assms(2) show ?thesis
    by cases (use assms(3) reconciler_adds [OF laws] add [OF secret] add [OF watch] add [OF ends] in auto)
qed

section \<open>Properties\<close>

text \<open>C1: Whose credentials a request carries: whatever the operator did since it was deployed, with
  any reconciles of any objects, watchers, changed Secrets and restarts, every request it ever sent to
  Concourse went out with a client that was built for an Instance the API server had answered with:
  to the URL of its spec, and signed in with what the Secrets that its spec names, in its own
  namespace, held when they were read. All of this had been read before the request was sent.\<close>

theorem every_request_signed_in_for_instance:
  assumes "retry_law env" and "client_law env" and "op_reachable env s"
    and "journal s = K @ e # L" and "is_request e"
  shows "\<exists>cl i. sent_with e cl \<and> from_api i K \<and> built_for K i cl"
  using op_reachable_inv [OF assms(1-3)] history_okD [OF _ assms(4,5)] by (simp add: op_inv_def)

lemma demo_client_law: "client_law demo_env"
  by (simp add: client_law_def)

lemma demo_op_start: "demo_start () = \<lparr>world = (), mem = fresh_memory, journal = []\<rparr>"
  by (simp add: demo_start_def fresh_memory_def NewCache_def)

lemma demo_start_world [simp]: "(demo_start ())\<lparr>world := ()\<rparr> = demo_start ()"
  by (simp add: demo_start_def)

lemma demo_op_run: "op_reachable demo_env (final_of (Team_Reconcile demo_env (''ci'', ''team'')) (demo_start ()))"
proof -
  have "op_reachable demo_env (demo_start ())" unfolding demo_op_start by (rule starts)
  from steps [OF this reconciles [of demo_env "demo_start ()" KTeam "(''ci'', ''team'')" "()"]]
  show ?thesis by (simp add: reconciler_of_def)
qed

lemma demo_request:
  obtains K L where "journal (final_of (Team_Reconcile demo_env (''ci'', ''team'')) (demo_start ())) =
    K @ AWrite (CreateOrUpdateTeam demo_client ''team'' None (Inr (1, []))) # L"
proof -
  have "AWrite (CreateOrUpdateTeam demo_client ''team'' None (Inr (1, []))) \<in>
      set (journal (final_of (Team_Reconcile demo_env (''ci'', ''team'')) (demo_start ())))"
    using demo_team_run by (simp add: emitted_def demo_start_def)
  then show thesis using that by (meson split_list)
qed

theorem every_request_signed_in_for_instance_witness:
  "\<exists>K i. from_api i K \<and> built_for K i demo_client \<and> gc_url demo_client = is_url (instance_spec i)"
proof -
  obtain K L where J: "journal (final_of (Team_Reconcile demo_env (''ci'', ''team'')) (demo_start ())) =
      K @ AWrite (CreateOrUpdateTeam demo_client ''team'' None (Inr (1, []))) # L" by (rule demo_request)
  have "is_request (AWrite (CreateOrUpdateTeam demo_client ''team'' None (Inr (1, []))))" by simp
  from every_request_signed_in_for_instance [OF demo_env_retry_law demo_client_law demo_op_run J this]
  show ?thesis by (auto simp: built_for_def)
qed

text \<open>
  The API server gives every version of an object its own resource version, and namespaces and
  names are DNS labels.
\<close>

definition versions_law :: "io list \<Rightarrow> bool" where
  "versions_law J \<longleftrightarrow> (\<forall>i j. from_api i J \<and> from_api j J \<longrightarrow> inst_ok i \<and>
     (same_instance i j \<and> om_resourceVersion (instance_meta i) = om_resourceVersion (instance_meta j) \<longrightarrow>
      instance_spec i = instance_spec j))"

lemma client_known_here:
  assumes "versions_law J" and "set K \<subseteq> set J" and "from_api j K" and "client_known K (cacheKey j) cl"
  shows "built_for K j cl"
proof -
  from assms(4) obtain i where i: "from_api i K" "cacheKey i = cacheKey j" "built_for K i cl"
    by (auto simp: client_known_def)
  have api: "from_api i J" "from_api j J" using from_api_mono [OF _ assms(2)] i(1) assms(3) by blast+
  with assms(1) have ok: "inst_ok i" "inst_ok j" unfolding versions_law_def by blast+
  from cacheKey_eq [OF ok] i(2) have same: "same_instance i j"
    "om_resourceVersion (instance_meta i) = om_resourceVersion (instance_meta j)" by simp_all
  with assms(1) api have "instance_spec i = instance_spec j" unfolding versions_law_def by blast
  with i(3) same(1) show ?thesis by (simp add: built_for_def same_instance_def key_of_def)
qed

text \<open>C4: A reconcile stays with its own Instance: in every state the operator can reach, each request
  that a reconcile of any object sends goes to the URL, and is signed in with the Secrets, of an
  Instance that this very reconcile has read before in the version for which the client was built.
  No client of another Instance or of another version is ever used, whatever the cache holds.\<close>

theorem reconcile_stays_with_its_instance:
  assumes "retry_law env" and "client_law env" and "op_reachable env s"
    and "versions_law (journal (final_of (reconciler_of env k req) (s\<lparr>world := w\<rparr>)))"
    and "emitted (reconciler_of env k req) (s\<lparr>world := w\<rparr>) = ds @ e # fs" and "is_request e"
  shows "\<exists>cl j. sent_with e cl \<and> from_api j ds \<and> built_for (journal s @ ds) j cl"
proof -
  let ?s = "s\<lparr>world := w\<rparr>"
  have "cache_sound (mem_store (mem ?s)) (journal ?s)"
    using op_reachable_inv [OF assms(1-3)] by (simp add: op_inv_def)
  from reconciler_run [OF assms(1,2) this, of k req]
  have sec: "secure (journal s) (ds @ e # fs) (final_of (reconciler_of env k req) ?s)" by (simp add: assms(5))
  then have "\<exists>cl. sent_with e cl \<and> entitled (journal s) ds cl"
    using assms(6) by (auto simp: secure_def run_entitled_def)
  then obtain cl j where cl: "sent_with e cl" "from_api j ds" "client_known (journal s @ ds) (cacheKey j) cl"
    unfolding entitled_def by blast
  have "set (journal s @ ds) \<subseteq> set (journal (final_of (reconciler_of env k req) ?s))"
    using sec by (auto simp: secure_def)
  from client_known_here [OF assms(4) this _ cl(3)] from_api_mono [OF cl(2)] cl show ?thesis by fastforce
qed

theorem reconcile_stays_with_its_instance_witness:
  "\<exists>ds j. from_api j ds \<and> built_for ds j demo_client"
proof -
  let ?p = "reconciler_of demo_env KTeam (''ci'', ''team'')"
  have run: "?p = Team_Reconcile demo_env (''ci'', ''team'')" by (simp add: reconciler_of_def)
  have reach: "op_reachable demo_env (demo_start ())" unfolding demo_op_start by (rule starts)
  obtain ds fs where es: "emitted ?p ((demo_start ())\<lparr>world := ()\<rparr>) =
      ds @ AWrite (CreateOrUpdateTeam demo_client ''team'' None (Inr (1, []))) # fs"
    using split_list [OF demo_team_run] by (auto simp: run)
  have j: "journal (final_of ?p ((demo_start ())\<lparr>world := ()\<rparr>)) =
      journal (final_of (Team_Reconcile demo_env (''ci'', ''team'')) (demo_start ()))" by (simp add: run)
  have "versions_law (journal (final_of (Team_Reconcile demo_env (''ci'', ''team'')) (demo_start ())))"
    by (auto simp: versions_law_def from_api_def eval_simps team_eval cong: eval_cong)
  then have law: "versions_law (journal (final_of ?p ((demo_start ())\<lparr>world := ()\<rparr>)))" by (simp only: j)
  have req: "is_request (AWrite (CreateOrUpdateTeam demo_client ''team'' None (Inr (1, []))))" by simp
  from reconcile_stays_with_its_instance [OF demo_env_retry_law demo_client_law reach law es req]
  show ?thesis by (auto simp: demo_start_def)
qed

text \<open>C5: The conditions and phases the operator writes are of their types: in every history of the
  operator, each object that any reconciler sends to the API server, as an update or as a status, has
  conditions of distinct types whose types and reasons match the patterns of the API, and phases that
  the enumerations list. It relies on the API server to answer with such objects, and on Concourse to
  report the states of builds and workers that its API declares.\<close>

theorem written_objects_well_typed:
  assumes "types_laws env" and "op_reachable env s" and "e \<in> set (journal s)"
  shows "conforms e"
proof -
  have "list_all conforms (journal s)"
    using assms(2)
  proof (induction rule: op_reachable.induct)
    case (starts w)
    then show ?case by simp
  next
    case (steps s t)
    then show ?case by (blast intro: op_step_conforms [OF assms(1)])
  qed
  with assms(3) show ?thesis by (simp add: list_all_iff)
qed

lemma demo_condition_types: "condition_types_law (demo_env :: unit env)"
proof -
  have same: "map (c_type \<circ> (\<lambda>x. if c_type x = c_type c then c else x)) cs = map c_type cs" for cs c
    by (induction cs) auto
  show ?thesis
    by (auto simp: condition_types_law_def demo_set_condition_def same)
qed

lemma demo_concourse_types: "concourse_types_law (demo_env :: unit env)"
  by (auto simp: concourse_types_law_def answers_def build_phase_ok_def worker_phase_ok_def)

lemma demo_api_types: "api_types_law (demo_env :: unit env)"
proof -
  have "conditions_ok demo_ready" "conditions_ok []"
    by (simp_all add: conditions_ok_def demo_ready_def text_ok)
  then show ?thesis
    by (auto simp: api_types_law_def answers_def objects_ok build_status_ok_def job_status_ok_def pipeline_status_ok_def
      resource_status_ok_def team_status_ok_def worker_status_ok_def instance_status_ok_def build_phase_ok_def
      worker_phase_ok_def)
qed

lemma demo_types_laws: "types_laws (demo_env :: unit env)"
  using demo_condition_types demo_concourse_types demo_api_types demo_env_retry_law by (simp add: types_laws_def)

lemma demo_team_status_write:
  "\<exists>t r. KWrite (StatusTeam t r) \<in> set (journal (final_of (Team_Reconcile demo_env (''ci'', ''team'')) (demo_start ()))) \<and>
     cond_of (tt_conditions (team_status t)) ConditionReady \<noteq> None"
  by (simp add: cond_of_def eval_simps team_eval setCondition_def demo_set_condition_def demo_ready_def cong: eval_cong)

theorem written_objects_well_typed_witness:
  "\<exists>t :: Team. team_status_ok (team_status t) \<and> cond_of (tt_conditions (team_status t)) ConditionReady \<noteq> None"
proof -
  obtain t r where "KWrite (StatusTeam t r) \<in> set (journal (final_of (Team_Reconcile demo_env (''ci'', ''team'')) (demo_start ())))"
    and ready: "cond_of (tt_conditions (team_status t)) ConditionReady \<noteq> None"
    using demo_team_status_write by blast
  from written_objects_well_typed [OF demo_types_laws demo_op_run this(1)]
  have "team_status_ok (team_status t)" by (simp add: team_ok_def)
  with ready show ?thesis by blast
qed

end
