(* ===== verification/Go_Heap.thy ===== *)
theory Go_Heap
  imports Main "HOL-Library.State_Monad"
begin

text \<open>
  Go's memory as far as copying goes: pointers, slices and maps refer to cells of a heap, and a
  struct is assigned by copying its fields, references included. On top of it what the copy
  functions that controller-gen emits are made of, and the theorem that such a function makes a
  deep copy: one with the same content that shares no cell with what was there before. Elsewhere
  in the development objects are values, which is right only because the operator works on copies
  of what the informer caches hold.
\<close>

section \<open>Values and cells\<close>

datatype prim = PString string | PInt int | PBool bool

text \<open>A slice is a part of an array: the cell, the offset and the length.\<close>

datatype go_val =
    Prim prim
  | NilRef
  | Ptr nat
  | Slice nat nat nat
  | MapRef nat
  | Struct "(string \<times> go_val) list"

datatype cell = Pointee go_val | Array "go_val list" | Entries "(string \<times> prim) list"

record heap =
  cells :: "nat \<rightharpoonup> cell"
  next_cell :: nat

type_synonym 'a heap_prog = "(heap, 'a) state"

definition alloc :: "cell \<Rightarrow> nat heap_prog" where
  "alloc c = State (\<lambda>h. (next_cell h, h\<lparr>cells := (cells h)(next_cell h \<mapsto> c), next_cell := Suc (next_cell h)\<rparr>))"

definition load :: "nat \<Rightarrow> cell option heap_prog" where
  "load a = State (\<lambda>h. (cells h a, h))"

definition slice_elems :: "go_val list \<Rightarrow> nat \<Rightarrow> nat \<Rightarrow> go_val list" where
  "slice_elems ws off n = take n (drop off ws)"

section \<open>What the copy functions are made of\<close>

text \<open>
  A copy function is given \<open>*in\<close> and yields what it leaves in \<open>*out\<close>. Addresses cannot be observed
  but for being equal, so a new cell is allocated when its content is there. A pointer never
  dangles, so the cases in which a cell is not there do not occur.
\<close>

type_synonym copier = "go_val \<Rightarrow> go_val heap_prog"

text \<open>\<open>*out = *in\<close>, and \<open>**out = **in\<close> below a pointer.\<close>

definition shallow :: copier where
  "shallow v = State_Monad.return v"

text \<open>\<open>if in.F != nil { *out = new(T); (*in).DeepCopyInto(*out) }\<close>.\<close>

definition copy_ptr :: "copier \<Rightarrow> copier" where
  "copy_ptr f v =
     (case v of
        Ptr a \<Rightarrow> do {
          c \<leftarrow> load a;
          (case c of
             Some (Pointee w) \<Rightarrow> do {
               w' \<leftarrow> f w;
               b \<leftarrow> alloc (Pointee w');
               State_Monad.return (Ptr b) }
           | _ \<Rightarrow> State_Monad.return NilRef) }
      | _ \<Rightarrow> State_Monad.return v)"

primrec copy_all :: "copier \<Rightarrow> go_val list \<Rightarrow> go_val list heap_prog" where
  "copy_all f [] = State_Monad.return []"
| "copy_all f (w # ws) = do {
     w' \<leftarrow> f w;
     ws' \<leftarrow> copy_all f ws;
     State_Monad.return (w' # ws') }"

text \<open>\<open>*out = make([]T, len(*in))\<close> and the loop, or \<open>copy(*out, *in)\<close>.\<close>

definition copy_slice :: "copier \<Rightarrow> copier" where
  "copy_slice f v =
     (case v of
        Slice a off n \<Rightarrow> do {
          c \<leftarrow> load a;
          (case c of
             Some (Array ws) \<Rightarrow> do {
               ws' \<leftarrow> copy_all f (slice_elems ws off n);
               b \<leftarrow> alloc (Array ws');
               State_Monad.return (Slice b 0 n) }
           | _ \<Rightarrow> State_Monad.return NilRef) }
      | _ \<Rightarrow> State_Monad.return v)"

text \<open>\<open>*out = make(map[K]V, len(*in))\<close> and the loop over the entries, whose values are not references.\<close>

definition copy_map :: copier where
  "copy_map v =
     (case v of
        MapRef a \<Rightarrow> do {
          c \<leftarrow> load a;
          (case c of
             Some (Entries es) \<Rightarrow> do {
               b \<leftarrow> alloc (Entries es);
               State_Monad.return (MapRef b) }
           | _ \<Rightarrow> State_Monad.return NilRef) }
      | _ \<Rightarrow> State_Monad.return v)"

text \<open>
  \<open>*out = *in\<close> and then the statements for single fields, which come in the order of the fields.
\<close>

primrec copy_fields :: "(string \<times> copier) list \<Rightarrow> (string \<times> go_val) list \<Rightarrow> (string \<times> go_val) list heap_prog" where
  "copy_fields fs [] = State_Monad.return []"
| "copy_fields fs (nv # vs) = do {
     v' \<leftarrow> (case map_of fs (fst nv) of None \<Rightarrow> shallow (snd nv) | Some f \<Rightarrow> f (snd nv));
     vs' \<leftarrow> copy_fields fs vs;
     State_Monad.return ((fst nv, v') # vs') }"

definition copy_struct :: "(string \<times> copier) list \<Rightarrow> copier" where
  "copy_struct fs v =
     (case v of
        Struct vs \<Rightarrow> do {
          vs' \<leftarrow> copy_fields fs vs;
          State_Monad.return (Struct vs') }
      | _ \<Rightarrow> State_Monad.return v)"

section \<open>Types\<close>

datatype go_type = TPrim | TPtr go_type | TSlice go_type | TMap | TStruct "(string \<times> go_type) list"

inductive has_type :: "heap \<Rightarrow> go_type \<Rightarrow> go_val \<Rightarrow> bool" for h where
  ty_prim: "has_type h TPrim (Prim p)"
| ty_nil_ptr: "has_type h (TPtr t) NilRef"
| ty_ptr: "cells h a = Some (Pointee v) \<Longrightarrow> has_type h t v \<Longrightarrow> has_type h (TPtr t) (Ptr a)"
| ty_nil_slice: "has_type h (TSlice t) NilRef"
| ty_slice: "cells h a = Some (Array ws) \<Longrightarrow> off + n \<le> length ws \<Longrightarrow>
    list_all (has_type h t) (slice_elems ws off n) \<Longrightarrow> has_type h (TSlice t) (Slice a off n)"
| ty_nil_map: "has_type h TMap NilRef"
| ty_map: "cells h a = Some (Entries es) \<Longrightarrow> has_type h TMap (MapRef a)"
| ty_struct: "map fst ts = map fst vs \<Longrightarrow> list_all2 (has_type h) (map snd ts) (map snd vs) \<Longrightarrow>
    has_type h (TStruct ts) (Struct vs)"

inductive_cases has_typeE:
  "has_type h TPrim v" "has_type h (TPtr t) v" "has_type h (TSlice t) v" "has_type h TMap v"
  "has_type h (TStruct ts) v"

inductive_simps has_type_simps:
  "has_type h TPrim (Prim p)" "has_type h (TPtr t) NilRef" "has_type h (TPtr t) (Ptr a)"
  "has_type h (TSlice t) NilRef" "has_type h (TSlice t) (Slice a off n)" "has_type h (TStruct ts) (Struct vs)"

section \<open>Same content, and what is reached\<close>

inductive same_content :: "heap \<Rightarrow> heap \<Rightarrow> go_val \<Rightarrow> go_val \<Rightarrow> bool" for h h' where
  "same_content h h' (Prim p) (Prim p)"
| "same_content h h' NilRef NilRef"
| "cells h a = Some (Pointee v) \<Longrightarrow> cells h' b = Some (Pointee v') \<Longrightarrow> same_content h h' v v' \<Longrightarrow>
    same_content h h' (Ptr a) (Ptr b)"
| "cells h a = Some (Array ws) \<Longrightarrow> cells h' b = Some (Array ws') \<Longrightarrow>
    list_all2 (same_content h h') (slice_elems ws off n) (slice_elems ws' off' n) \<Longrightarrow>
    same_content h h' (Slice a off n) (Slice b off' n)"
| "cells h a = Some (Entries es) \<Longrightarrow> cells h' b = Some (Entries es) \<Longrightarrow>
    same_content h h' (MapRef a) (MapRef b)"
| "map fst vs = map fst vs' \<Longrightarrow> list_all2 (same_content h h') (map snd vs) (map snd vs') \<Longrightarrow>
    same_content h h' (Struct vs) (Struct vs')"

inductive reaches :: "heap \<Rightarrow> go_val \<Rightarrow> nat \<Rightarrow> bool" for h where
  "reaches h (Ptr a) a"
| "cells h a = Some (Pointee v) \<Longrightarrow> reaches h v b \<Longrightarrow> reaches h (Ptr a) b"
| "reaches h (Slice a off n) a"
| "cells h a = Some (Array ws) \<Longrightarrow> w \<in> set (slice_elems ws off n) \<Longrightarrow> reaches h w b \<Longrightarrow>
    reaches h (Slice a off n) b"
| "reaches h (MapRef a) a"
| "v \<in> snd ` set vs \<Longrightarrow> reaches h v b \<Longrightarrow> reaches h (Struct vs) b"

inductive_cases reachesE:
  "reaches h (Prim p) b" "reaches h NilRef b" "reaches h (Ptr a) b" "reaches h (Slice a off n) b"
  "reaches h (MapRef a) b" "reaches h (Struct vs) b"

text \<open>
  The value \<open>v'\<close> of the heap \<open>h'\<close> is a copy of \<open>v\<close> of the heap \<open>h\<close>: its content is the same and every
  cell it refers to is new.
\<close>

inductive copy_of :: "heap \<Rightarrow> heap \<Rightarrow> go_val \<Rightarrow> go_val \<Rightarrow> bool" for h h' where
  co_prim: "copy_of h h' (Prim p) (Prim p)"
| co_nil: "copy_of h h' NilRef NilRef"
| co_ptr: "cells h a = Some (Pointee v) \<Longrightarrow> cells h' b = Some (Pointee v') \<Longrightarrow> cells h b = None \<Longrightarrow>
    copy_of h h' v v' \<Longrightarrow> copy_of h h' (Ptr a) (Ptr b)"
| co_slice: "cells h a = Some (Array ws) \<Longrightarrow> cells h' b = Some (Array ws') \<Longrightarrow> cells h b = None \<Longrightarrow>
    list_all2 (copy_of h h') (slice_elems ws off n) (slice_elems ws' off' n) \<Longrightarrow>
    copy_of h h' (Slice a off n) (Slice b off' n)"
| co_map: "cells h a = Some (Entries es) \<Longrightarrow> cells h' b = Some (Entries es) \<Longrightarrow> cells h b = None \<Longrightarrow>
    copy_of h h' (MapRef a) (MapRef b)"
| co_struct: "map fst vs = map fst vs' \<Longrightarrow> list_all2 (copy_of h h') (map snd vs) (map snd vs') \<Longrightarrow>
    copy_of h h' (Struct vs) (Struct vs')"

lemma copy_of_same: "copy_of h h' v v' \<Longrightarrow> same_content h h' v v'"
  by (induction rule: copy_of.induct) (auto intro: same_content.intros elim: list_all2_mono)

lemma copy_of_fresh: "copy_of h h' v v' \<Longrightarrow> reaches h' v' a \<Longrightarrow> cells h a = None"
proof (induction arbitrary: a rule: copy_of.induct)
  case (co_slice c ws b ws' off n off')
  then show ?case by (fastforce elim!: reachesE(4) simp: list_all2_conv_all_nth in_set_conv_nth)
next
  case (co_struct vs vs')
  then show ?case
    by (fastforce elim!: reachesE(6) simp: list_all2_conv_all_nth in_set_conv_nth)
qed (auto elim: reachesE)

section \<open>Growing heaps\<close>

definition heap_ok :: "heap \<Rightarrow> bool" where
  "heap_ok h \<longleftrightarrow> (\<forall>a. next_cell h \<le> a \<longrightarrow> cells h a = None)"

definition grows :: "heap \<Rightarrow> heap \<Rightarrow> bool" where
  "grows h h' \<longleftrightarrow> heap_ok h' \<and> cells h \<subseteq>\<^sub>m cells h'"

lemma grows_cell: "grows h h' \<Longrightarrow> cells h a = Some c \<Longrightarrow> cells h' a = Some c"
  unfolding grows_def by (metis domI map_le_def)

lemma grows_none: "grows h h' \<Longrightarrow> cells h' a = None \<Longrightarrow> cells h a = None"
  using grows_cell by (cases "cells h a") fastforce+

lemma grows_refl: "heap_ok h \<Longrightarrow> grows h h"
  by (simp add: grows_def)

lemma grows_trans: "grows h1 h2 \<Longrightarrow> grows h2 h3 \<Longrightarrow> grows h1 h3"
  unfolding grows_def by (blast intro: map_le_trans)

lemma has_type_grows: "has_type h t v \<Longrightarrow> grows h h' \<Longrightarrow> has_type h' t v"
  by (induction rule: has_type.induct)
    (auto intro!: has_type.intros dest: grows_cell simp: list_all_iff elim: list_all2_mono)

text \<open>A copy made from a grown heap, in a heap that grows on, is one from the first to the last.\<close>

lemma copy_of_grows:
  "has_type h t v \<Longrightarrow> grows h h1 \<Longrightarrow> grows h2 h3 \<Longrightarrow> copy_of h1 h2 v v' \<Longrightarrow> copy_of h h3 v v'"
proof (induction arbitrary: v' rule: has_type.induct)
  case (ty_ptr a v t)
  from ty_ptr.prems(3) ty_ptr.hyps(1) ty_ptr.prems(1) obtain b w where
    "v' = Ptr b" "cells h2 b = Some (Pointee w)" "cells h1 b = None" "copy_of h1 h2 v w"
    by (cases rule: copy_of.cases) (auto dest: grows_cell)
  with ty_ptr show ?case by (auto intro: co_ptr dest: grows_cell grows_none)
next
  case (ty_slice a ws off n t)
  from ty_slice.prems(3) ty_slice.hyps(1) ty_slice.prems(1) obtain b ws' off' where
    b: "v' = Slice b off' n" "cells h2 b = Some (Array ws')" "cells h1 b = None"
    and all: "list_all2 (copy_of h1 h2) (slice_elems ws off n) (slice_elems ws' off' n)"
    by (cases rule: copy_of.cases) (auto dest: grows_cell)
  have "list_all2 (copy_of h h3) (slice_elems ws off n) (slice_elems ws' off' n)"
    using all ty_slice.IH ty_slice.prems(1,2) by (auto simp: list_all2_conv_all_nth list_all_length)
  with b ty_slice show ?case by (auto intro: co_slice dest: grows_cell grows_none)
next
  case (ty_struct ts vs)
  from ty_struct.prems(3) obtain vs' where
    b: "v' = Struct vs'" "map fst vs = map fst vs'"
    and all: "list_all2 (copy_of h1 h2) (map snd vs) (map snd vs')"
    by (cases rule: copy_of.cases) auto
  have "list_all2 (copy_of h h3) (map snd vs) (map snd vs')"
    using all ty_struct.IH ty_struct.prems(1,2) by (auto simp: list_all2_conv_all_nth)
  with b show ?case by (auto intro: co_struct)
next
  case (ty_map a es)
  from ty_map.prems(3) ty_map.hyps(1) ty_map.prems(1) obtain b where
    "v' = MapRef b" "cells h2 b = Some (Entries es)" "cells h1 b = None"
    by (cases rule: copy_of.cases) (auto dest: grows_cell)
  with ty_map show ?case by (auto intro: co_map dest: grows_cell grows_none)
qed (auto elim: copy_of.cases intro: copy_of.intros)

section \<open>Deep copies\<close>

definition deep :: "go_type \<Rightarrow> copier \<Rightarrow> bool" where
  "deep t f \<longleftrightarrow> (\<forall>h v v' h'. heap_ok h \<and> has_type h t v \<and> run_state (f v) h = (v', h') \<longrightarrow>
     grows h h' \<and> copy_of h h' v v')"

lemma deepD:
  "deep t f \<Longrightarrow> heap_ok h \<Longrightarrow> has_type h t v \<Longrightarrow> run_state (f v) h = (v', h') \<Longrightarrow>
   grows h h' \<and> copy_of h h' v v'"
  unfolding deep_def by blast

text \<open>A type without references is copied by assignment.\<close>

inductive flat :: "go_type \<Rightarrow> bool" where
  "flat TPrim"
| "list_all (\<lambda>nt. flat (snd nt)) ts \<Longrightarrow> flat (TStruct ts)"

lemma flat_copy: "has_type h t v \<Longrightarrow> flat t \<Longrightarrow> copy_of h h' v v"
proof (induction rule: has_type.induct)
  case (ty_struct ts vs)
  from ty_struct.prems have "\<forall>t\<in>snd ` set ts. flat t" by (cases rule: flat.cases) (auto simp: list_all_iff)
  then have "list_all2 (copy_of h h') (map snd vs) (map snd vs)"
    using ty_struct.IH ty_struct.hyps by (auto simp: list_all2_conv_all_nth)
  then show ?case by (auto intro: co_struct)
qed (auto elim: flat.cases intro: copy_of.intros)

lemma deep_shallow: "flat t \<Longrightarrow> deep t shallow"
  by (auto simp: deep_def shallow_def grows_refl flat_copy)

lemma alloc_grows:
  "heap_ok h \<Longrightarrow> run_state (alloc c) h = (b, h') \<Longrightarrow> grows h h' \<and> cells h' b = Some c \<and> cells h b = None"
  by (auto simp: alloc_def grows_def heap_ok_def map_le_def)

lemma deep_ptr:
  assumes f: "deep t f"
  shows "deep (TPtr t) (copy_ptr f)"
  unfolding deep_def
proof (intro allI impI)
  fix h v v' h'
  assume h: "heap_ok h \<and> has_type h (TPtr t) v \<and> run_state (copy_ptr f v) h = (v', h')"
  then have ok: "heap_ok h" and ty: "has_type h (TPtr t) v" and run: "run_state (copy_ptr f v) h = (v', h')" by blast+
  from ty consider "v = NilRef" | a w where "v = Ptr a" "cells h a = Some (Pointee w)" "has_type h t w"
    by (auto elim: has_typeE)
  then show "grows h h' \<and> copy_of h h' v v'"
  proof cases
    case 1
    with run ok show ?thesis by (auto simp: copy_ptr_def grows_refl intro: copy_of.intros)
  next
    case 2
    obtain w' h1 where w: "run_state (f w) h = (w', h1)" by (cases "run_state (f w) h")
    from deepD [OF f ok 2(3) w] have g: "grows h h1" and c: "copy_of h h1 w w'" by blast+
    obtain b h2 where b: "run_state (alloc (Pointee w')) h1 = (b, h2)" by (cases "run_state (alloc (Pointee w')) h1")
    from alloc_grows [OF _ b] g have g2: "grows h1 h2" and cell: "cells h2 b = Some (Pointee w')" "cells h1 b = None"
      by (auto simp: grows_def)
    have "v' = Ptr b" "h' = h2" using run 2 w b by (auto simp: copy_ptr_def load_def)
    moreover have "copy_of h h2 w w'" by (rule copy_of_grows [OF 2(3) grows_refl [OF ok] g2 c])
    ultimately show ?thesis using 2 cell grows_none [OF g] grows_trans [OF g g2] by (auto intro: co_ptr)
  qed
qed


lemma deep_map: "deep TMap copy_map"
  unfolding deep_def
proof (intro allI impI)
  fix h v v' h'
  assume h: "heap_ok h \<and> has_type h TMap v \<and> run_state (copy_map v) h = (v', h')"
  then have ok: "heap_ok h" and ty: "has_type h TMap v" and run: "run_state (copy_map v) h = (v', h')" by blast+
  from ty consider "v = NilRef" | a es where "v = MapRef a" "cells h a = Some (Entries es)"
    by (auto elim: has_typeE)
  then show "grows h h' \<and> copy_of h h' v v'"
  proof cases
    case 1
    with run ok show ?thesis by (auto simp: copy_map_def grows_refl intro: copy_of.intros)
  next
    case 2
    obtain b h2 where b: "run_state (alloc (Entries es)) h = (b, h2)" by (cases "run_state (alloc (Entries es)) h")
    have "v' = MapRef b" "h' = h2" using run 2 b by (auto simp: copy_map_def load_def)
    with alloc_grows [OF ok b] 2 show ?thesis by (auto intro: co_map)
  qed
qed

lemma copies_grow:
  "\<forall>w\<in>set ws. has_type h t w \<Longrightarrow> grows h h1 \<Longrightarrow> grows h2 h3 \<Longrightarrow> list_all2 (copy_of h1 h2) ws us \<Longrightarrow>
   list_all2 (copy_of h h3) ws us"
  unfolding list_all2_conv_all_nth by (metis copy_of_grows nth_mem)

text \<open>A list of copies made one after the other, in which the heap grows from copy to copy.\<close>

lemma deep_all:
  assumes f: "deep t f"
  shows "heap_ok h \<Longrightarrow> list_all (has_type h t) ws \<Longrightarrow> run_state (copy_all f ws) h = (ws', h') \<Longrightarrow>
    grows h h' \<and> list_all2 (copy_of h h') ws ws'"
proof (induction ws arbitrary: h ws' h')
  case Nil
  then show ?case by (simp add: grows_refl)
next
  case (Cons w ws)
  obtain w' h1 where w: "run_state (f w) h = (w', h1)" by (cases "run_state (f w) h")
  obtain us h2 where us: "run_state (copy_all f ws) h1 = (us, h2)" by (cases "run_state (copy_all f ws) h1")
  have ty: "has_type h t w" "\<forall>u\<in>set ws. has_type h t u" using Cons.prems(2) by (auto simp: list_all_iff)
  from deepD [OF f Cons.prems(1) ty(1) w] have g: "grows h h1" and c: "copy_of h h1 w w'" by blast+
  have "heap_ok h1" "list_all (has_type h1 t) ws" using g ty(2) has_type_grows
    by (auto simp: grows_def list_all_iff)
  from Cons.IH [OF this us] have g2: "grows h1 h2" and all: "list_all2 (copy_of h1 h2) ws us" by blast+
  have "copy_of h h2 w w'" by (rule copy_of_grows [OF ty(1) grows_refl [OF Cons.prems(1)] g2 c])
  moreover have "list_all2 (copy_of h h2) ws us"
    using copies_grow [OF ty(2) g grows_refl all] g2 by (simp add: grows_def)
  moreover have "ws' = w' # us" "h' = h2" using Cons.prems(3) w us by auto
  ultimately show ?case using grows_trans [OF g g2] by simp
qed

lemma slice_elems_all: "length ws = n \<Longrightarrow> slice_elems ws 0 n = ws"
  by (simp add: slice_elems_def)

lemma deep_slice:
  assumes f: "deep t f"
  shows "deep (TSlice t) (copy_slice f)"
  unfolding deep_def
proof (intro allI impI)
  fix h v v' h'
  assume h: "heap_ok h \<and> has_type h (TSlice t) v \<and> run_state (copy_slice f v) h = (v', h')"
  then have ok: "heap_ok h" and ty: "has_type h (TSlice t) v" and run: "run_state (copy_slice f v) h = (v', h')" by blast+
  from ty consider "v = NilRef" | a ws off n where "v = Slice a off n" "cells h a = Some (Array ws)"
    "off + n \<le> length ws" "list_all (has_type h t) (slice_elems ws off n)"
    by (auto elim: has_typeE)
  then show "grows h h' \<and> copy_of h h' v v'"
  proof cases
    case 1
    with run ok show ?thesis by (auto simp: copy_slice_def grows_refl intro: copy_of.intros)
  next
    case 2
    let ?es = "slice_elems ws off n"
    obtain es h1 where es: "run_state (copy_all f ?es) h = (es, h1)" by (cases "run_state (copy_all f ?es) h")
    from deep_all [OF f ok 2(4) es] have g: "grows h h1" and all: "list_all2 (copy_of h h1) ?es es" by blast+
    obtain b h2 where b: "run_state (alloc (Array es)) h1 = (b, h2)" by (cases "run_state (alloc (Array es)) h1")
    from alloc_grows [OF _ b] g have g2: "grows h1 h2" and cell: "cells h2 b = Some (Array es)" "cells h1 b = None"
      by (auto simp: grows_def)
    have v': "v' = Slice b 0 n" "h' = h2" using run 2 es b by (auto simp: copy_slice_def load_def)
    have "length ?es = n" using 2(3) by (simp add: slice_elems_def)
    then have "slice_elems es 0 n = es" using all by (intro slice_elems_all) (auto dest: list_all2_lengthD)
    moreover have "list_all2 (copy_of h h2) ?es es"
      using all 2(4) copy_of_grows [OF _ grows_refl [OF ok] g2]
      by (auto simp: list_all2_conv_all_nth list_all_length)
    ultimately have "copy_of h h2 v v'" unfolding v' 2(1)
      using cell grows_none [OF g] by (intro co_slice [OF 2(2) cell(1)]) auto
    then show ?thesis using v' grows_trans [OF g g2] by simp
  qed
qed

text \<open>
  A struct is copied deeply when each field that has a statement of its own is, and each other
  field holds no reference.
\<close>

definition field_deep :: "(string \<times> copier) list \<Rightarrow> string \<times> go_type \<Rightarrow> bool" where
  "field_deep fs nt = (case map_of fs (fst nt) of None \<Rightarrow> flat (snd nt) | Some f \<Rightarrow> deep (snd nt) f)"

definition field_copier :: "(string \<times> copier) list \<Rightarrow> string \<Rightarrow> copier" where
  "field_copier fs n = (case map_of fs n of None \<Rightarrow> shallow | Some f \<Rightarrow> f)"

lemma field_deepD: "field_deep fs (n, t) \<Longrightarrow> deep t (field_copier fs n)"
  by (auto simp: field_deep_def field_copier_def deep_shallow split: option.splits)

lemma deep_fields:
  "list_all (field_deep fs) ts \<Longrightarrow> heap_ok h \<Longrightarrow> map fst ts = map fst vs \<Longrightarrow>
   list_all2 (has_type h) (map snd ts) (map snd vs) \<Longrightarrow> run_state (copy_fields fs vs) h = (vs', h') \<Longrightarrow>
   grows h h' \<and> map fst vs = map fst vs' \<and> list_all2 (copy_of h h') (map snd vs) (map snd vs')"
proof (induction vs arbitrary: ts h vs' h')
  case Nil
  then show ?case by (simp add: grows_refl)
next
  case (Cons nv vs)
  obtain n w where nv: "nv = (n, w)" by (cases nv)
  from Cons.prems(3) obtain t us where ts: "ts = (n, t) # us" "map fst us = map fst vs"
    by (cases ts) (auto simp: nv)
  let ?f = "field_copier fs n"
  obtain w' h1 where w: "run_state (?f w) h = (w', h1)" by (cases "run_state (?f w) h")
  obtain xs h2 where xs: "run_state (copy_fields fs vs) h1 = (xs, h2)" by (cases "run_state (copy_fields fs vs) h1")
  have f: "deep t ?f" using Cons.prems(1) ts field_deepD by simp
  have ty: "has_type h t w" "list_all2 (has_type h) (map snd us) (map snd vs)" using Cons.prems(4) ts nv by auto
  from deepD [OF f Cons.prems(2) ty(1) w] have g: "grows h h1" and c: "copy_of h h1 w w'" by blast+
  have "heap_ok h1" using g by (simp add: grows_def)
  moreover have "list_all2 (has_type h1) (map snd us) (map snd vs)"
    using ty(2) by (rule list_all2_mono) (auto intro: has_type_grows g)
  ultimately have IH: "grows h1 h2 \<and> map fst vs = map fst xs \<and> list_all2 (copy_of h1 h2) (map snd vs) (map snd xs)"
    using Cons.IH [of us h1 xs h2] Cons.prems(1) ts xs by simp
  then have g2: "grows h1 h2" by blast
  have "copy_of h h2 w w'" by (rule copy_of_grows [OF ty(1) grows_refl [OF Cons.prems(2)] g2 c])
  moreover have "list_all2 (copy_of h h2) (map snd vs) (map snd xs)"
    using IH ty(2) copy_of_grows [OF _ g grows_refl] g2
    by (auto simp: list_all2_conv_all_nth grows_def)
  moreover have "vs' = (n, w') # xs" "h' = h2" using Cons.prems(5) w xs nv
    by (auto simp: field_copier_def split: option.splits)
  ultimately show ?case using grows_trans [OF g g2] IH nv by simp
qed

lemma deep_struct:
  assumes fs: "list_all (field_deep fs) ts"
  shows "deep (TStruct ts) (copy_struct fs)"
  unfolding deep_def
proof (intro allI impI)
  fix h v v' h'
  assume h: "heap_ok h \<and> has_type h (TStruct ts) v \<and> run_state (copy_struct fs v) h = (v', h')"
  then obtain vs where v: "v = Struct vs" "map fst ts = map fst vs" "list_all2 (has_type h) (map snd ts) (map snd vs)"
    by (auto elim: has_typeE)
  obtain vs' h1 where vs: "run_state (copy_fields fs vs) h = (vs', h1)" by (cases "run_state (copy_fields fs vs) h")
  have "v' = Struct vs'" "h' = h1" using h v vs by (auto simp: copy_struct_def)
  with deep_fields [OF fs _ v(2,3) vs] h v show "grows h h' \<and> copy_of h h' v v'" by (auto intro: co_struct)
qed

section \<open>What a deep copy is good for\<close>

text \<open>As long as the cells that were there keep their content, so do the values that were there.\<close>

lemma content_kept:
  "has_type h t v \<Longrightarrow> \<forall>a c. cells h a = Some c \<longrightarrow> cells h' a = Some c \<Longrightarrow> same_content h h' v v"
proof (induction rule: has_type.induct)
  case (ty_slice a ws off n t)
  then show ?case by (auto intro!: same_content.intros simp: list_all2_conv_all_nth list_all_length)
next
  case (ty_struct ts vs)
  then show ?case by (auto intro!: same_content.intros simp: list_all2_conv_all_nth)
qed (auto intro: same_content.intros)

text \<open>As long as the new cells keep their content, the copy has the content of the original as it was.\<close>

lemma copy_kept:
  "copy_of h h' v v' \<Longrightarrow> \<forall>a. cells h a = None \<longrightarrow> cells h'' a = cells h' a \<Longrightarrow> same_content h h'' v v'"
  by (induction rule: copy_of.induct) (auto intro: same_content.intros elim: list_all2_mono)

text \<open>
  The copy has the same content; it shares no cell with anything that was there; later writes to
  its cells are not seen through the original, and later writes to the cells of the original are
  not seen through the copy.
\<close>

lemma deep_independent:
  assumes "deep t f" "heap_ok h" "has_type h t v" "run_state (f v) h = (v', h')"
  shows "same_content h h' v v' \<and> (\<forall>a. reaches h' v' a \<longrightarrow> cells h a = None) \<and>
    (\<forall>h''. (\<forall>a. cells h a \<noteq> None \<longrightarrow> cells h'' a = cells h' a) \<longrightarrow> same_content h h'' v v) \<and>
    (\<forall>h''. (\<forall>a. cells h a = None \<longrightarrow> cells h'' a = cells h' a) \<longrightarrow> same_content h h'' v v')"
proof -
  from deepD [OF assms] have g: "grows h h'" and c: "copy_of h h' v v'" by blast+
  have "same_content h h'' v v" if "\<forall>a. cells h a \<noteq> None \<longrightarrow> cells h'' a = cells h' a" for h''
    using content_kept [OF assms(3)] that grows_cell [OF g] by simp
  then show ?thesis using copy_of_same [OF c] copy_of_fresh [OF c] copy_kept [OF c] by blast
qed

section \<open>The interface of a copied object\<close>

text \<open>
  \<open>DeepCopyObject\<close> of the interface \<open>runtime.Object\<close>: the copy, or the nil interface when there is
  none.
\<close>

definition as_object :: "copier \<Rightarrow> copier" where
  "as_object f v = do {
     c \<leftarrow> f v;
     (if c \<noteq> NilRef then State_Monad.return c else State_Monad.return NilRef) }"

lemma as_object_same: "as_object f = f"
proof
  fix v
  have eq: "(\<lambda>c. if c \<noteq> NilRef then State_Monad.return c else State_Monad.return NilRef) = State_Monad.return"
    by (rule ext) auto
  show "as_object f v = f v" by (simp only: as_object_def eq State_Monad.bind_right_identity)
qed

text \<open>
  What the generated functions of a kind promise: the field by field copy is deep. What the API
  machinery relies on follows from it: the copy of an object behind a pointer is deep as well.
\<close>

locale runtime_object =
  fixes object_type :: "'m \<Rightarrow> go_type"
    and DeepCopyInto :: "'m \<Rightarrow> copier"
    and DeepCopy :: "'m \<Rightarrow> copier"
    and DeepCopyObject :: "'m \<Rightarrow> copier"
    and lib_law :: "'m \<Rightarrow> bool"
  assumes into_deep: "lib_law m \<Longrightarrow> deep (object_type m) (DeepCopyInto m)"
    and copy_eq: "DeepCopy m = copy_ptr (DeepCopyInto m)"
    and object_eq: "DeepCopyObject m = as_object (DeepCopy m)"
begin

lemma copy_deep: "lib_law m \<Longrightarrow> deep (TPtr (object_type m)) (DeepCopy m)"
  by (simp add: copy_eq deep_ptr into_deep)

lemma object_deep: "lib_law m \<Longrightarrow> deep (TPtr (object_type m)) (DeepCopyObject m)"
  by (simp add: object_eq as_object_same copy_deep)

end

end
