(* ===== verification/Deep_Copies.thy ===== *)
theory Deep_Copies
  imports Go_Heap
begin

text \<open>
  The generated copy functions of \<open>src/api/v1alpha1/zz_generated.deepcopy.go\<close>, one by one, with
  the layout of each struct from the \<open>*_types.go\<close> files, and the types that \<open>groupversion_info.go\<close>
  and the \<open>init\<close> functions register in the scheme. The structs that the API machinery library
  defines, and their copy functions, are fields of the record \<open>meta_lib\<close>; what is relied on is
  that they copy deeply (\<open>meta_lib_law\<close>). The result is that \<open>DeepCopyObject\<close> of every registered
  type makes a deep copy. The informer caches hand out such copies, and each reconciler takes one
  (\<open>before := build.DeepCopy()\<close>) to compute its patch from, after it has written to the original.
\<close>

section \<open>The library's structs\<close>

record meta_lib =
  TypeMeta_type :: go_type
  ObjectMeta_type :: go_type
  ListMeta_type :: go_type
  Condition_type :: go_type
  Time_type :: go_type
  Duration_type :: go_type
  ObjectMeta_DeepCopyInto :: copier
  ListMeta_DeepCopyInto :: copier
  Condition_DeepCopyInto :: copier
  Time_DeepCopy :: copier

text \<open>
  \<open>TypeMeta\<close> and \<open>Duration\<close> hold no references and are copied by assignment; the others bring copy
  functions that are deep, as the library documents. \<open>Time_DeepCopy\<close> takes and gives a pointer.
\<close>

definition meta_lib_law :: "meta_lib \<Rightarrow> bool" where
  "meta_lib_law m \<longleftrightarrow>
     flat (TypeMeta_type m) \<and> flat (Duration_type m) \<and>
     deep (ObjectMeta_type m) (ObjectMeta_DeepCopyInto m) \<and>
     deep (ListMeta_type m) (ListMeta_DeepCopyInto m) \<and>
     deep (Condition_type m) (Condition_DeepCopyInto m) \<and>
     deep (TPtr (Time_type m)) (Time_DeepCopy m)"

section \<open>Automation\<close>

named_theorems deep_copies \<open>which copy functions are deep, field by field\<close>

lemma flat_struct [deep_copies]: "flat (TStruct ts) \<longleftrightarrow> list_all (\<lambda>nt. flat (snd nt)) ts"
  by (auto intro: flat.intros elim: flat.cases)

lemmas [deep_copies] = flat.intros(1) deep_shallow deep_ptr deep_slice deep_map deep_struct field_deep_def

lemma meta_lib_deep [deep_copies]:
  assumes "meta_lib_law m"
  shows "flat (TypeMeta_type m)" "flat (Duration_type m)"
    "deep (ObjectMeta_type m) (ObjectMeta_DeepCopyInto m)"
    "deep (ListMeta_type m) (ListMeta_DeepCopyInto m)"
    "deep (Condition_type m) (Condition_DeepCopyInto m)"
    "deep (TPtr (Time_type m)) (Time_DeepCopy m)"
  using assms by (simp_all add: meta_lib_law_def)

section \<open>Shared references\<close>

definition ConfigMapKeyRef_type :: go_type where
  "ConfigMapKeyRef_type = TStruct [
     (''Name'', TPrim), (''Key'', TPrim)]"

definition ConfigMapKeyRef_DeepCopyInto :: copier where
  "ConfigMapKeyRef_DeepCopyInto = shallow"

definition ConfigMapKeyRef_DeepCopy :: copier where
  "ConfigMapKeyRef_DeepCopy = copy_ptr ConfigMapKeyRef_DeepCopyInto"

lemma ConfigMapKeyRef_flat [deep_copies]: "flat ConfigMapKeyRef_type"
  by (simp add: ConfigMapKeyRef_type_def deep_copies)

lemma ConfigMapKeyRef_deep [deep_copies]: "deep ConfigMapKeyRef_type ConfigMapKeyRef_DeepCopyInto"
  by (simp add: ConfigMapKeyRef_type_def ConfigMapKeyRef_DeepCopyInto_def deep_copies)

definition LocalObjectReference_type :: go_type where
  "LocalObjectReference_type = TStruct [
     (''Name'', TPrim), (''Namespace'', TPrim)]"

definition LocalObjectReference_DeepCopyInto :: copier where
  "LocalObjectReference_DeepCopyInto = shallow"

definition LocalObjectReference_DeepCopy :: copier where
  "LocalObjectReference_DeepCopy = copy_ptr LocalObjectReference_DeepCopyInto"

lemma LocalObjectReference_flat [deep_copies]: "flat LocalObjectReference_type"
  by (simp add: LocalObjectReference_type_def deep_copies)

lemma LocalObjectReference_deep [deep_copies]: "deep LocalObjectReference_type LocalObjectReference_DeepCopyInto"
  by (simp add: LocalObjectReference_type_def LocalObjectReference_DeepCopyInto_def deep_copies)

definition SecretKeySelector_type :: go_type where
  "SecretKeySelector_type = TStruct [
     (''Name'', TPrim), (''Key'', TPrim)]"

definition SecretKeySelector_DeepCopyInto :: copier where
  "SecretKeySelector_DeepCopyInto = shallow"

definition SecretKeySelector_DeepCopy :: copier where
  "SecretKeySelector_DeepCopy = copy_ptr SecretKeySelector_DeepCopyInto"

lemma SecretKeySelector_flat [deep_copies]: "flat SecretKeySelector_type"
  by (simp add: SecretKeySelector_type_def deep_copies)

lemma SecretKeySelector_deep [deep_copies]: "deep SecretKeySelector_type SecretKeySelector_DeepCopyInto"
  by (simp add: SecretKeySelector_type_def SecretKeySelector_DeepCopyInto_def deep_copies)

section \<open>Build\<close>

definition BuildSpec_type :: go_type where
  "BuildSpec_type = TStruct [
     (''JobRef'', TPtr LocalObjectReference_type), (''BuildID'', TPtr TPrim),
     (''RerunOf'', TPrim), (''Comment'', TPrim), (''Canceled'', TPrim),
     (''TTLSecondsAfterFinished'', TPtr TPrim), (''Suspend'', TPrim)]"

definition BuildSpec_DeepCopyInto :: copier where
  "BuildSpec_DeepCopyInto = copy_struct [
     (''JobRef'', copy_ptr shallow), (''BuildID'', copy_ptr shallow),
     (''TTLSecondsAfterFinished'', copy_ptr shallow)]"

definition BuildSpec_DeepCopy :: copier where
  "BuildSpec_DeepCopy = copy_ptr BuildSpec_DeepCopyInto"

lemma BuildSpec_deep [deep_copies]: "deep BuildSpec_type BuildSpec_DeepCopyInto"
  by (simp add: BuildSpec_type_def BuildSpec_DeepCopyInto_def deep_copies)

definition BuildIO_type :: go_type where
  "BuildIO_type = TStruct [
     (''Name'', TPrim), (''Version'', TMap), (''FirstOccurrence'', TPtr TPrim)]"

definition BuildIO_DeepCopyInto :: copier where
  "BuildIO_DeepCopyInto = copy_struct [
     (''Version'', copy_map), (''FirstOccurrence'', copy_ptr shallow)]"

definition BuildIO_DeepCopy :: copier where
  "BuildIO_DeepCopy = copy_ptr BuildIO_DeepCopyInto"

lemma BuildIO_deep [deep_copies]: "deep BuildIO_type BuildIO_DeepCopyInto"
  by (simp add: BuildIO_type_def BuildIO_DeepCopyInto_def deep_copies)

definition BuildStatus_type :: "meta_lib \<Rightarrow> go_type" where
  "BuildStatus_type m = TStruct [
     (''Conditions'', TSlice (Condition_type m)), (''BuildID'', TPtr TPrim),
     (''BuildName'', TPrim), (''ConcourseStatus'', TPrim), (''StartTime'', TPtr (Time_type m)),
     (''EndTime'', TPtr (Time_type m)), (''Duration'', TPtr (Duration_type m)),
     (''APIURL'', TPrim), (''CreatedBy'', TPrim), (''ObservedGeneration'', TPrim),
     (''WebURL'', TPrim), (''Inputs'', TSlice BuildIO_type), (''Outputs'', TSlice BuildIO_type),
     (''Comment'', TPrim), (''RerunOf'', TPrim)]"

definition BuildStatus_DeepCopyInto :: "meta_lib \<Rightarrow> copier" where
  "BuildStatus_DeepCopyInto m = copy_struct [
     (''Conditions'', copy_slice (Condition_DeepCopyInto m)), (''BuildID'', copy_ptr shallow),
     (''StartTime'', Time_DeepCopy m), (''EndTime'', Time_DeepCopy m),
     (''Duration'', copy_ptr shallow), (''Inputs'', copy_slice BuildIO_DeepCopyInto),
     (''Outputs'', copy_slice BuildIO_DeepCopyInto)]"

definition BuildStatus_DeepCopy :: "meta_lib \<Rightarrow> copier" where
  "BuildStatus_DeepCopy m = copy_ptr (BuildStatus_DeepCopyInto m)"

lemma BuildStatus_deep [deep_copies]: "meta_lib_law m \<Longrightarrow> deep (BuildStatus_type m) (BuildStatus_DeepCopyInto m)"
  by (simp add: BuildStatus_type_def BuildStatus_DeepCopyInto_def deep_copies)

definition Build_type :: "meta_lib \<Rightarrow> go_type" where
  "Build_type m = TStruct [
     (''TypeMeta'', TypeMeta_type m), (''ObjectMeta'', ObjectMeta_type m),
     (''Spec'', BuildSpec_type), (''Status'', BuildStatus_type m)]"

definition Build_DeepCopyInto :: "meta_lib \<Rightarrow> copier" where
  "Build_DeepCopyInto m = copy_struct [
     (''TypeMeta'', shallow), (''ObjectMeta'', ObjectMeta_DeepCopyInto m),
     (''Spec'', BuildSpec_DeepCopyInto), (''Status'', BuildStatus_DeepCopyInto m)]"

definition Build_DeepCopy :: "meta_lib \<Rightarrow> copier" where
  "Build_DeepCopy m = copy_ptr (Build_DeepCopyInto m)"

definition Build_DeepCopyObject :: "meta_lib \<Rightarrow> copier" where
  "Build_DeepCopyObject m = as_object (Build_DeepCopy m)"

lemma Build_deep [deep_copies]: "meta_lib_law m \<Longrightarrow> deep (Build_type m) (Build_DeepCopyInto m)"
  by (simp add: Build_type_def Build_DeepCopyInto_def deep_copies)

definition BuildList_type :: "meta_lib \<Rightarrow> go_type" where
  "BuildList_type m = TStruct [
     (''TypeMeta'', TypeMeta_type m), (''ListMeta'', ListMeta_type m),
     (''Items'', TSlice (Build_type m))]"

definition BuildList_DeepCopyInto :: "meta_lib \<Rightarrow> copier" where
  "BuildList_DeepCopyInto m = copy_struct [
     (''TypeMeta'', shallow), (''ListMeta'', ListMeta_DeepCopyInto m),
     (''Items'', copy_slice (Build_DeepCopyInto m))]"

definition BuildList_DeepCopy :: "meta_lib \<Rightarrow> copier" where
  "BuildList_DeepCopy m = copy_ptr (BuildList_DeepCopyInto m)"

definition BuildList_DeepCopyObject :: "meta_lib \<Rightarrow> copier" where
  "BuildList_DeepCopyObject m = as_object (BuildList_DeepCopy m)"

lemma BuildList_deep [deep_copies]: "meta_lib_law m \<Longrightarrow> deep (BuildList_type m) (BuildList_DeepCopyInto m)"
  by (simp add: BuildList_type_def BuildList_DeepCopyInto_def deep_copies)

section \<open>Instance\<close>

definition PasswordGrant_type :: go_type where
  "PasswordGrant_type = TStruct [
     (''Username'', TPrim), (''PasswordRef'', SecretKeySelector_type), (''ClientID'', TPrim),
     (''ClientSecretRef'', TPtr SecretKeySelector_type)]"

definition PasswordGrant_DeepCopyInto :: copier where
  "PasswordGrant_DeepCopyInto = copy_struct [
     (''PasswordRef'', shallow), (''ClientSecretRef'', copy_ptr shallow)]"

definition PasswordGrant_DeepCopy :: copier where
  "PasswordGrant_DeepCopy = copy_ptr PasswordGrant_DeepCopyInto"

lemma PasswordGrant_deep [deep_copies]: "deep PasswordGrant_type PasswordGrant_DeepCopyInto"
  by (simp add: PasswordGrant_type_def PasswordGrant_DeepCopyInto_def deep_copies)

definition TokenAuth_type :: go_type where
  "TokenAuth_type = TStruct [
     (''TokenRef'', SecretKeySelector_type)]"

definition TokenAuth_DeepCopyInto :: copier where
  "TokenAuth_DeepCopyInto = copy_struct [
     (''TokenRef'', shallow)]"

definition TokenAuth_DeepCopy :: copier where
  "TokenAuth_DeepCopy = copy_ptr TokenAuth_DeepCopyInto"

lemma TokenAuth_flat [deep_copies]: "flat TokenAuth_type"
  by (simp add: TokenAuth_type_def deep_copies)

lemma TokenAuth_deep [deep_copies]: "deep TokenAuth_type TokenAuth_DeepCopyInto"
  by (simp add: TokenAuth_type_def TokenAuth_DeepCopyInto_def deep_copies)

definition InstanceAuth_type :: go_type where
  "InstanceAuth_type = TStruct [
     (''Password'', TPtr PasswordGrant_type), (''Token'', TPtr TokenAuth_type)]"

definition InstanceAuth_DeepCopyInto :: copier where
  "InstanceAuth_DeepCopyInto = copy_struct [
     (''Password'', copy_ptr PasswordGrant_DeepCopyInto), (''Token'', copy_ptr shallow)]"

definition InstanceAuth_DeepCopy :: copier where
  "InstanceAuth_DeepCopy = copy_ptr InstanceAuth_DeepCopyInto"

lemma InstanceAuth_deep [deep_copies]: "deep InstanceAuth_type InstanceAuth_DeepCopyInto"
  by (simp add: InstanceAuth_type_def InstanceAuth_DeepCopyInto_def deep_copies)

definition TLSConfig_type :: go_type where
  "TLSConfig_type = TStruct [
     (''CARef'', TPtr SecretKeySelector_type), (''InsecureSkipVerify'', TPrim)]"

definition TLSConfig_DeepCopyInto :: copier where
  "TLSConfig_DeepCopyInto = copy_struct [
     (''CARef'', copy_ptr shallow)]"

definition TLSConfig_DeepCopy :: copier where
  "TLSConfig_DeepCopy = copy_ptr TLSConfig_DeepCopyInto"

lemma TLSConfig_deep [deep_copies]: "deep TLSConfig_type TLSConfig_DeepCopyInto"
  by (simp add: TLSConfig_type_def TLSConfig_DeepCopyInto_def deep_copies)

definition WallConfig_type :: "meta_lib \<Rightarrow> go_type" where
  "WallConfig_type m = TStruct [
     (''Message'', TPrim), (''TTL'', TPtr (Duration_type m))]"

definition WallConfig_DeepCopyInto :: copier where
  "WallConfig_DeepCopyInto = copy_struct [
     (''TTL'', copy_ptr shallow)]"

definition WallConfig_DeepCopy :: copier where
  "WallConfig_DeepCopy = copy_ptr WallConfig_DeepCopyInto"

lemma WallConfig_deep [deep_copies]: "meta_lib_law m \<Longrightarrow> deep (WallConfig_type m) WallConfig_DeepCopyInto"
  by (simp add: WallConfig_type_def WallConfig_DeepCopyInto_def deep_copies)

definition InstanceSpec_type :: "meta_lib \<Rightarrow> go_type" where
  "InstanceSpec_type m = TStruct [
     (''URL'', TPrim), (''Auth'', InstanceAuth_type), (''TLS'', TPtr TLSConfig_type),
     (''AllowedNamespaces'', TSlice TPrim), (''HealthProbeInterval'', TPtr (Duration_type m)),
     (''Suspend'', TPrim), (''DefaultTeam'', TPrim), (''Wall'', TPtr (WallConfig_type m))]"

definition InstanceSpec_DeepCopyInto :: copier where
  "InstanceSpec_DeepCopyInto = copy_struct [
     (''Auth'', InstanceAuth_DeepCopyInto), (''TLS'', copy_ptr TLSConfig_DeepCopyInto),
     (''AllowedNamespaces'', copy_slice shallow), (''HealthProbeInterval'', copy_ptr shallow),
     (''Wall'', copy_ptr WallConfig_DeepCopyInto)]"

definition InstanceSpec_DeepCopy :: copier where
  "InstanceSpec_DeepCopy = copy_ptr InstanceSpec_DeepCopyInto"

lemma InstanceSpec_deep [deep_copies]: "meta_lib_law m \<Longrightarrow> deep (InstanceSpec_type m) InstanceSpec_DeepCopyInto"
  by (simp add: InstanceSpec_type_def InstanceSpec_DeepCopyInto_def deep_copies)

definition InstanceStatus_type :: "meta_lib \<Rightarrow> go_type" where
  "InstanceStatus_type m = TStruct [
     (''Conditions'', TSlice (Condition_type m)), (''Version'', TPrim),
     (''WorkerVersion'', TPrim), (''ClusterName'', TPrim), (''ExternalURL'', TPrim),
     (''WorkerCount'', TPtr TPrim), (''StalledWorkers'', TPtr TPrim),
     (''RunningWorkers'', TPtr TPrim), (''LandingWorkers'', TPtr TPrim), (''WebURL'', TPrim),
     (''FeatureFlags'', TMap), (''AuthenticatedUser'', TPrim),
     (''AuthenticatedAdmin'', TPtr TPrim), (''WallMessage'', TPrim), (''TeamCount'', TPtr TPrim),
     (''PipelineCount'', TPtr TPrim), (''AuthSecretGeneration'', TPrim),
     (''ObservedGeneration'', TPrim)]"

definition InstanceStatus_DeepCopyInto :: "meta_lib \<Rightarrow> copier" where
  "InstanceStatus_DeepCopyInto m = copy_struct [
     (''Conditions'', copy_slice (Condition_DeepCopyInto m)),
     (''WorkerCount'', copy_ptr shallow), (''StalledWorkers'', copy_ptr shallow),
     (''RunningWorkers'', copy_ptr shallow), (''LandingWorkers'', copy_ptr shallow),
     (''FeatureFlags'', copy_map), (''AuthenticatedAdmin'', copy_ptr shallow),
     (''TeamCount'', copy_ptr shallow), (''PipelineCount'', copy_ptr shallow)]"

definition InstanceStatus_DeepCopy :: "meta_lib \<Rightarrow> copier" where
  "InstanceStatus_DeepCopy m = copy_ptr (InstanceStatus_DeepCopyInto m)"

lemma InstanceStatus_deep [deep_copies]: "meta_lib_law m \<Longrightarrow> deep (InstanceStatus_type m) (InstanceStatus_DeepCopyInto m)"
  by (simp add: InstanceStatus_type_def InstanceStatus_DeepCopyInto_def deep_copies)

definition Instance_type :: "meta_lib \<Rightarrow> go_type" where
  "Instance_type m = TStruct [
     (''TypeMeta'', TypeMeta_type m), (''ObjectMeta'', ObjectMeta_type m),
     (''Spec'', InstanceSpec_type m), (''Status'', InstanceStatus_type m)]"

definition Instance_DeepCopyInto :: "meta_lib \<Rightarrow> copier" where
  "Instance_DeepCopyInto m = copy_struct [
     (''TypeMeta'', shallow), (''ObjectMeta'', ObjectMeta_DeepCopyInto m),
     (''Spec'', InstanceSpec_DeepCopyInto), (''Status'', InstanceStatus_DeepCopyInto m)]"

definition Instance_DeepCopy :: "meta_lib \<Rightarrow> copier" where
  "Instance_DeepCopy m = copy_ptr (Instance_DeepCopyInto m)"

definition Instance_DeepCopyObject :: "meta_lib \<Rightarrow> copier" where
  "Instance_DeepCopyObject m = as_object (Instance_DeepCopy m)"

lemma Instance_deep [deep_copies]: "meta_lib_law m \<Longrightarrow> deep (Instance_type m) (Instance_DeepCopyInto m)"
  by (simp add: Instance_type_def Instance_DeepCopyInto_def deep_copies)

definition InstanceList_type :: "meta_lib \<Rightarrow> go_type" where
  "InstanceList_type m = TStruct [
     (''TypeMeta'', TypeMeta_type m), (''ListMeta'', ListMeta_type m),
     (''Items'', TSlice (Instance_type m))]"

definition InstanceList_DeepCopyInto :: "meta_lib \<Rightarrow> copier" where
  "InstanceList_DeepCopyInto m = copy_struct [
     (''TypeMeta'', shallow), (''ListMeta'', ListMeta_DeepCopyInto m),
     (''Items'', copy_slice (Instance_DeepCopyInto m))]"

definition InstanceList_DeepCopy :: "meta_lib \<Rightarrow> copier" where
  "InstanceList_DeepCopy m = copy_ptr (InstanceList_DeepCopyInto m)"

definition InstanceList_DeepCopyObject :: "meta_lib \<Rightarrow> copier" where
  "InstanceList_DeepCopyObject m = as_object (InstanceList_DeepCopy m)"

lemma InstanceList_deep [deep_copies]: "meta_lib_law m \<Longrightarrow> deep (InstanceList_type m) (InstanceList_DeepCopyInto m)"
  by (simp add: InstanceList_type_def InstanceList_DeepCopyInto_def deep_copies)

section \<open>Job\<close>

definition JobSpec_type :: go_type where
  "JobSpec_type = TStruct [
     (''PipelineRef'', LocalObjectReference_type), (''JobName'', TPrim), (''Paused'', TPrim),
     (''SuccessfulBuildsHistoryLimit'', TPtr TPrim), (''FailedBuildsHistoryLimit'', TPtr TPrim),
     (''Suspend'', TPrim)]"

definition JobSpec_DeepCopyInto :: copier where
  "JobSpec_DeepCopyInto = copy_struct [
     (''PipelineRef'', shallow), (''SuccessfulBuildsHistoryLimit'', copy_ptr shallow),
     (''FailedBuildsHistoryLimit'', copy_ptr shallow)]"

definition JobSpec_DeepCopy :: copier where
  "JobSpec_DeepCopy = copy_ptr JobSpec_DeepCopyInto"

lemma JobSpec_deep [deep_copies]: "deep JobSpec_type JobSpec_DeepCopyInto"
  by (simp add: JobSpec_type_def JobSpec_DeepCopyInto_def deep_copies)

definition JobInputStatus_type :: go_type where
  "JobInputStatus_type = TStruct [
     (''Name'', TPrim), (''Resource'', TPrim), (''Trigger'', TPrim), (''Passed'', TSlice TPrim)]"

definition JobInputStatus_DeepCopyInto :: copier where
  "JobInputStatus_DeepCopyInto = copy_struct [
     (''Passed'', copy_slice shallow)]"

definition JobInputStatus_DeepCopy :: copier where
  "JobInputStatus_DeepCopy = copy_ptr JobInputStatus_DeepCopyInto"

lemma JobInputStatus_deep [deep_copies]: "deep JobInputStatus_type JobInputStatus_DeepCopyInto"
  by (simp add: JobInputStatus_type_def JobInputStatus_DeepCopyInto_def deep_copies)

definition JobOutputStatus_type :: go_type where
  "JobOutputStatus_type = TStruct [
     (''Name'', TPrim), (''Resource'', TPrim)]"

definition JobOutputStatus_DeepCopyInto :: copier where
  "JobOutputStatus_DeepCopyInto = shallow"

definition JobOutputStatus_DeepCopy :: copier where
  "JobOutputStatus_DeepCopy = copy_ptr JobOutputStatus_DeepCopyInto"

lemma JobOutputStatus_flat [deep_copies]: "flat JobOutputStatus_type"
  by (simp add: JobOutputStatus_type_def deep_copies)

lemma JobOutputStatus_deep [deep_copies]: "deep JobOutputStatus_type JobOutputStatus_DeepCopyInto"
  by (simp add: JobOutputStatus_type_def JobOutputStatus_DeepCopyInto_def deep_copies)

definition JobStatus_type :: "meta_lib \<Rightarrow> go_type" where
  "JobStatus_type m = TStruct [
     (''Conditions'', TSlice (Condition_type m)), (''ResolvedName'', TPrim),
     (''Paused'', TPtr TPrim), (''WebURL'', TPrim), (''JobID'', TPtr TPrim),
     (''HasNewInputs'', TPtr TPrim), (''Groups'', TSlice TPrim),
     (''Inputs'', TSlice JobInputStatus_type), (''Outputs'', TSlice JobOutputStatus_type),
     (''NextBuildID'', TPtr TPrim), (''NextBuildStatus'', TPrim),
     (''DisableManualTrigger'', TPtr TPrim), (''PausedBy'', TPrim),
     (''PausedAt'', TPtr (Time_type m)), (''NextBuildName'', TPrim),
     (''LastBuildID'', TPtr TPrim), (''LastBuildStatus'', TPrim),
     (''LastBuildTime'', TPtr (Time_type m)), (''ObservedGeneration'', TPrim)]"

definition JobStatus_DeepCopyInto :: "meta_lib \<Rightarrow> copier" where
  "JobStatus_DeepCopyInto m = copy_struct [
     (''Conditions'', copy_slice (Condition_DeepCopyInto m)), (''Paused'', copy_ptr shallow),
     (''JobID'', copy_ptr shallow), (''HasNewInputs'', copy_ptr shallow),
     (''Groups'', copy_slice shallow), (''Inputs'', copy_slice JobInputStatus_DeepCopyInto),
     (''Outputs'', copy_slice shallow), (''NextBuildID'', copy_ptr shallow),
     (''DisableManualTrigger'', copy_ptr shallow), (''PausedAt'', Time_DeepCopy m),
     (''LastBuildID'', copy_ptr shallow), (''LastBuildTime'', Time_DeepCopy m)]"

definition JobStatus_DeepCopy :: "meta_lib \<Rightarrow> copier" where
  "JobStatus_DeepCopy m = copy_ptr (JobStatus_DeepCopyInto m)"

lemma JobStatus_deep [deep_copies]: "meta_lib_law m \<Longrightarrow> deep (JobStatus_type m) (JobStatus_DeepCopyInto m)"
  by (simp add: JobStatus_type_def JobStatus_DeepCopyInto_def deep_copies)

definition Job_type :: "meta_lib \<Rightarrow> go_type" where
  "Job_type m = TStruct [
     (''TypeMeta'', TypeMeta_type m), (''ObjectMeta'', ObjectMeta_type m),
     (''Spec'', JobSpec_type), (''Status'', JobStatus_type m)]"

definition Job_DeepCopyInto :: "meta_lib \<Rightarrow> copier" where
  "Job_DeepCopyInto m = copy_struct [
     (''TypeMeta'', shallow), (''ObjectMeta'', ObjectMeta_DeepCopyInto m),
     (''Spec'', JobSpec_DeepCopyInto), (''Status'', JobStatus_DeepCopyInto m)]"

definition Job_DeepCopy :: "meta_lib \<Rightarrow> copier" where
  "Job_DeepCopy m = copy_ptr (Job_DeepCopyInto m)"

definition Job_DeepCopyObject :: "meta_lib \<Rightarrow> copier" where
  "Job_DeepCopyObject m = as_object (Job_DeepCopy m)"

lemma Job_deep [deep_copies]: "meta_lib_law m \<Longrightarrow> deep (Job_type m) (Job_DeepCopyInto m)"
  by (simp add: Job_type_def Job_DeepCopyInto_def deep_copies)

definition JobList_type :: "meta_lib \<Rightarrow> go_type" where
  "JobList_type m = TStruct [
     (''TypeMeta'', TypeMeta_type m), (''ListMeta'', ListMeta_type m),
     (''Items'', TSlice (Job_type m))]"

definition JobList_DeepCopyInto :: "meta_lib \<Rightarrow> copier" where
  "JobList_DeepCopyInto m = copy_struct [
     (''TypeMeta'', shallow), (''ListMeta'', ListMeta_DeepCopyInto m),
     (''Items'', copy_slice (Job_DeepCopyInto m))]"

definition JobList_DeepCopy :: "meta_lib \<Rightarrow> copier" where
  "JobList_DeepCopy m = copy_ptr (JobList_DeepCopyInto m)"

definition JobList_DeepCopyObject :: "meta_lib \<Rightarrow> copier" where
  "JobList_DeepCopyObject m = as_object (JobList_DeepCopy m)"

lemma JobList_deep [deep_copies]: "meta_lib_law m \<Longrightarrow> deep (JobList_type m) (JobList_DeepCopyInto m)"
  by (simp add: JobList_type_def JobList_DeepCopyInto_def deep_copies)

section \<open>Pipeline\<close>

definition PipelineConfig_type :: go_type where
  "PipelineConfig_type = TStruct [
     (''Inline'', TPrim), (''ConfigMapRef'', TPtr ConfigMapKeyRef_type)]"

definition PipelineConfig_DeepCopyInto :: copier where
  "PipelineConfig_DeepCopyInto = copy_struct [
     (''ConfigMapRef'', copy_ptr shallow)]"

definition PipelineConfig_DeepCopy :: copier where
  "PipelineConfig_DeepCopy = copy_ptr PipelineConfig_DeepCopyInto"

lemma PipelineConfig_deep [deep_copies]: "deep PipelineConfig_type PipelineConfig_DeepCopyInto"
  by (simp add: PipelineConfig_type_def PipelineConfig_DeepCopyInto_def deep_copies)

definition PipelineVar_type :: go_type where
  "PipelineVar_type = TStruct [
     (''Name'', TPrim), (''Value'', TPrim), (''ValueFrom'', TPtr SecretKeySelector_type)]"

definition PipelineVar_DeepCopyInto :: copier where
  "PipelineVar_DeepCopyInto = copy_struct [
     (''ValueFrom'', copy_ptr shallow)]"

definition PipelineVar_DeepCopy :: copier where
  "PipelineVar_DeepCopy = copy_ptr PipelineVar_DeepCopyInto"

lemma PipelineVar_deep [deep_copies]: "deep PipelineVar_type PipelineVar_DeepCopyInto"
  by (simp add: PipelineVar_type_def PipelineVar_DeepCopyInto_def deep_copies)

definition PipelineSpec_type :: go_type where
  "PipelineSpec_type = TStruct [
     (''TeamRef'', LocalObjectReference_type), (''PipelineName'', TPrim),
     (''Config'', PipelineConfig_type), (''Vars'', TSlice PipelineVar_type), (''Paused'', TPrim),
     (''Exposed'', TPrim), (''ReclaimPolicy'', TPrim), (''Suspend'', TPrim), (''Archived'', TPrim)]"

definition PipelineSpec_DeepCopyInto :: copier where
  "PipelineSpec_DeepCopyInto = copy_struct [
     (''TeamRef'', shallow), (''Config'', PipelineConfig_DeepCopyInto),
     (''Vars'', copy_slice PipelineVar_DeepCopyInto)]"

definition PipelineSpec_DeepCopy :: copier where
  "PipelineSpec_DeepCopy = copy_ptr PipelineSpec_DeepCopyInto"

lemma PipelineSpec_deep [deep_copies]: "deep PipelineSpec_type PipelineSpec_DeepCopyInto"
  by (simp add: PipelineSpec_type_def PipelineSpec_DeepCopyInto_def deep_copies)

definition PipelineJobStatus_type :: go_type where
  "PipelineJobStatus_type = TStruct [
     (''Name'', TPrim), (''Paused'', TPrim), (''LastBuildStatus'', TPrim)]"

definition PipelineJobStatus_DeepCopyInto :: copier where
  "PipelineJobStatus_DeepCopyInto = shallow"

definition PipelineJobStatus_DeepCopy :: copier where
  "PipelineJobStatus_DeepCopy = copy_ptr PipelineJobStatus_DeepCopyInto"

lemma PipelineJobStatus_flat [deep_copies]: "flat PipelineJobStatus_type"
  by (simp add: PipelineJobStatus_type_def deep_copies)

lemma PipelineJobStatus_deep [deep_copies]: "deep PipelineJobStatus_type PipelineJobStatus_DeepCopyInto"
  by (simp add: PipelineJobStatus_type_def PipelineJobStatus_DeepCopyInto_def deep_copies)

definition PipelineResourceStatus_type :: go_type where
  "PipelineResourceStatus_type = TStruct [
     (''Name'', TPrim), (''Pinned'', TPrim), (''Type'', TPrim)]"

definition PipelineResourceStatus_DeepCopyInto :: copier where
  "PipelineResourceStatus_DeepCopyInto = shallow"

definition PipelineResourceStatus_DeepCopy :: copier where
  "PipelineResourceStatus_DeepCopy = copy_ptr PipelineResourceStatus_DeepCopyInto"

lemma PipelineResourceStatus_flat [deep_copies]: "flat PipelineResourceStatus_type"
  by (simp add: PipelineResourceStatus_type_def deep_copies)

lemma PipelineResourceStatus_deep [deep_copies]: "deep PipelineResourceStatus_type PipelineResourceStatus_DeepCopyInto"
  by (simp add: PipelineResourceStatus_type_def PipelineResourceStatus_DeepCopyInto_def deep_copies)

definition PipelineGroupStatus_type :: go_type where
  "PipelineGroupStatus_type = TStruct [
     (''Name'', TPrim), (''Jobs'', TSlice TPrim), (''Resources'', TSlice TPrim)]"

definition PipelineGroupStatus_DeepCopyInto :: copier where
  "PipelineGroupStatus_DeepCopyInto = copy_struct [
     (''Jobs'', copy_slice shallow), (''Resources'', copy_slice shallow)]"

definition PipelineGroupStatus_DeepCopy :: copier where
  "PipelineGroupStatus_DeepCopy = copy_ptr PipelineGroupStatus_DeepCopyInto"

lemma PipelineGroupStatus_deep [deep_copies]: "deep PipelineGroupStatus_type PipelineGroupStatus_DeepCopyInto"
  by (simp add: PipelineGroupStatus_type_def PipelineGroupStatus_DeepCopyInto_def deep_copies)

definition PipelineResourceTypeStatus_type :: go_type where
  "PipelineResourceTypeStatus_type = TStruct [
     (''Name'', TPrim), (''Type'', TPrim), (''Privileged'', TPrim), (''Tags'', TSlice TPrim)]"

definition PipelineResourceTypeStatus_DeepCopyInto :: copier where
  "PipelineResourceTypeStatus_DeepCopyInto = copy_struct [
     (''Tags'', copy_slice shallow)]"

definition PipelineResourceTypeStatus_DeepCopy :: copier where
  "PipelineResourceTypeStatus_DeepCopy = copy_ptr PipelineResourceTypeStatus_DeepCopyInto"

lemma PipelineResourceTypeStatus_deep [deep_copies]: "deep PipelineResourceTypeStatus_type PipelineResourceTypeStatus_DeepCopyInto"
  by (simp add: PipelineResourceTypeStatus_type_def PipelineResourceTypeStatus_DeepCopyInto_def deep_copies)

definition PipelineStatus_type :: "meta_lib \<Rightarrow> go_type" where
  "PipelineStatus_type m = TStruct [
     (''Conditions'', TSlice (Condition_type m)), (''PipelineID'', TPtr TPrim),
     (''ResolvedName'', TPrim), (''WebURL'', TPrim), (''ConfigHash'', TPrim),
     (''Paused'', TPtr TPrim), (''Exposed'', TPtr TPrim), (''Archived'', TPtr TPrim),
     (''PausedBy'', TPrim), (''PausedAt'', TPtr (Time_type m)),
     (''LastUpdated'', TPtr (Time_type m)), (''GroupCount'', TPtr TPrim),
     (''Jobs'', TSlice PipelineJobStatus_type),
     (''Resources'', TSlice PipelineResourceStatus_type),
     (''Groups'', TSlice PipelineGroupStatus_type),
     (''ResourceTypes'', TSlice PipelineResourceTypeStatus_type), (''ObservedGeneration'', TPrim)]"

definition PipelineStatus_DeepCopyInto :: "meta_lib \<Rightarrow> copier" where
  "PipelineStatus_DeepCopyInto m = copy_struct [
     (''Conditions'', copy_slice (Condition_DeepCopyInto m)), (''PipelineID'', copy_ptr shallow),
     (''Paused'', copy_ptr shallow), (''Exposed'', copy_ptr shallow),
     (''Archived'', copy_ptr shallow), (''PausedAt'', Time_DeepCopy m),
     (''LastUpdated'', Time_DeepCopy m), (''GroupCount'', copy_ptr shallow),
     (''Jobs'', copy_slice shallow), (''Resources'', copy_slice shallow),
     (''Groups'', copy_slice PipelineGroupStatus_DeepCopyInto),
     (''ResourceTypes'', copy_slice PipelineResourceTypeStatus_DeepCopyInto)]"

definition PipelineStatus_DeepCopy :: "meta_lib \<Rightarrow> copier" where
  "PipelineStatus_DeepCopy m = copy_ptr (PipelineStatus_DeepCopyInto m)"

lemma PipelineStatus_deep [deep_copies]: "meta_lib_law m \<Longrightarrow> deep (PipelineStatus_type m) (PipelineStatus_DeepCopyInto m)"
  by (simp add: PipelineStatus_type_def PipelineStatus_DeepCopyInto_def deep_copies)

definition Pipeline_type :: "meta_lib \<Rightarrow> go_type" where
  "Pipeline_type m = TStruct [
     (''TypeMeta'', TypeMeta_type m), (''ObjectMeta'', ObjectMeta_type m),
     (''Spec'', PipelineSpec_type), (''Status'', PipelineStatus_type m)]"

definition Pipeline_DeepCopyInto :: "meta_lib \<Rightarrow> copier" where
  "Pipeline_DeepCopyInto m = copy_struct [
     (''TypeMeta'', shallow), (''ObjectMeta'', ObjectMeta_DeepCopyInto m),
     (''Spec'', PipelineSpec_DeepCopyInto), (''Status'', PipelineStatus_DeepCopyInto m)]"

definition Pipeline_DeepCopy :: "meta_lib \<Rightarrow> copier" where
  "Pipeline_DeepCopy m = copy_ptr (Pipeline_DeepCopyInto m)"

definition Pipeline_DeepCopyObject :: "meta_lib \<Rightarrow> copier" where
  "Pipeline_DeepCopyObject m = as_object (Pipeline_DeepCopy m)"

lemma Pipeline_deep [deep_copies]: "meta_lib_law m \<Longrightarrow> deep (Pipeline_type m) (Pipeline_DeepCopyInto m)"
  by (simp add: Pipeline_type_def Pipeline_DeepCopyInto_def deep_copies)

definition PipelineList_type :: "meta_lib \<Rightarrow> go_type" where
  "PipelineList_type m = TStruct [
     (''TypeMeta'', TypeMeta_type m), (''ListMeta'', ListMeta_type m),
     (''Items'', TSlice (Pipeline_type m))]"

definition PipelineList_DeepCopyInto :: "meta_lib \<Rightarrow> copier" where
  "PipelineList_DeepCopyInto m = copy_struct [
     (''TypeMeta'', shallow), (''ListMeta'', ListMeta_DeepCopyInto m),
     (''Items'', copy_slice (Pipeline_DeepCopyInto m))]"

definition PipelineList_DeepCopy :: "meta_lib \<Rightarrow> copier" where
  "PipelineList_DeepCopy m = copy_ptr (PipelineList_DeepCopyInto m)"

definition PipelineList_DeepCopyObject :: "meta_lib \<Rightarrow> copier" where
  "PipelineList_DeepCopyObject m = as_object (PipelineList_DeepCopy m)"

lemma PipelineList_deep [deep_copies]: "meta_lib_law m \<Longrightarrow> deep (PipelineList_type m) (PipelineList_DeepCopyInto m)"
  by (simp add: PipelineList_type_def PipelineList_DeepCopyInto_def deep_copies)

section \<open>Resource\<close>

definition ResourceSpec_type :: "meta_lib \<Rightarrow> go_type" where
  "ResourceSpec_type m = TStruct [
     (''PipelineRef'', LocalObjectReference_type), (''ResourceName'', TPrim),
     (''PinnedVersion'', TMap), (''CheckInterval'', TPtr (Duration_type m)),
     (''PinComment'', TPrim), (''DisabledVersions'', TSlice TMap), (''Suspend'', TPrim)]"

definition ResourceSpec_DeepCopyInto :: copier where
  "ResourceSpec_DeepCopyInto = copy_struct [
     (''PipelineRef'', shallow), (''PinnedVersion'', copy_map),
     (''CheckInterval'', copy_ptr shallow), (''DisabledVersions'', copy_slice copy_map)]"

definition ResourceSpec_DeepCopy :: copier where
  "ResourceSpec_DeepCopy = copy_ptr ResourceSpec_DeepCopyInto"

lemma ResourceSpec_deep [deep_copies]: "meta_lib_law m \<Longrightarrow> deep (ResourceSpec_type m) ResourceSpec_DeepCopyInto"
  by (simp add: ResourceSpec_type_def ResourceSpec_DeepCopyInto_def deep_copies)

definition ResourceStatus_type :: "meta_lib \<Rightarrow> go_type" where
  "ResourceStatus_type m = TStruct [
     (''Conditions'', TSlice (Condition_type m)), (''ResolvedName'', TPrim), (''WebURL'', TPrim),
     (''LastChecked'', TPtr (Time_type m)), (''LatestVersion'', TMap),
     (''PinnedVersionID'', TPtr TPrim), (''Pinned'', TPtr TPrim),
     (''DisabledVersionIDs'', TSlice TPrim), (''ObservedGeneration'', TPrim)]"

definition ResourceStatus_DeepCopyInto :: "meta_lib \<Rightarrow> copier" where
  "ResourceStatus_DeepCopyInto m = copy_struct [
     (''Conditions'', copy_slice (Condition_DeepCopyInto m)), (''LastChecked'', Time_DeepCopy m),
     (''LatestVersion'', copy_map), (''PinnedVersionID'', copy_ptr shallow),
     (''Pinned'', copy_ptr shallow), (''DisabledVersionIDs'', copy_slice shallow)]"

definition ResourceStatus_DeepCopy :: "meta_lib \<Rightarrow> copier" where
  "ResourceStatus_DeepCopy m = copy_ptr (ResourceStatus_DeepCopyInto m)"

lemma ResourceStatus_deep [deep_copies]: "meta_lib_law m \<Longrightarrow> deep (ResourceStatus_type m) (ResourceStatus_DeepCopyInto m)"
  by (simp add: ResourceStatus_type_def ResourceStatus_DeepCopyInto_def deep_copies)

definition Resource_type :: "meta_lib \<Rightarrow> go_type" where
  "Resource_type m = TStruct [
     (''TypeMeta'', TypeMeta_type m), (''ObjectMeta'', ObjectMeta_type m),
     (''Spec'', ResourceSpec_type m), (''Status'', ResourceStatus_type m)]"

definition Resource_DeepCopyInto :: "meta_lib \<Rightarrow> copier" where
  "Resource_DeepCopyInto m = copy_struct [
     (''TypeMeta'', shallow), (''ObjectMeta'', ObjectMeta_DeepCopyInto m),
     (''Spec'', ResourceSpec_DeepCopyInto), (''Status'', ResourceStatus_DeepCopyInto m)]"

definition Resource_DeepCopy :: "meta_lib \<Rightarrow> copier" where
  "Resource_DeepCopy m = copy_ptr (Resource_DeepCopyInto m)"

definition Resource_DeepCopyObject :: "meta_lib \<Rightarrow> copier" where
  "Resource_DeepCopyObject m = as_object (Resource_DeepCopy m)"

lemma Resource_deep [deep_copies]: "meta_lib_law m \<Longrightarrow> deep (Resource_type m) (Resource_DeepCopyInto m)"
  by (simp add: Resource_type_def Resource_DeepCopyInto_def deep_copies)

definition ResourceList_type :: "meta_lib \<Rightarrow> go_type" where
  "ResourceList_type m = TStruct [
     (''TypeMeta'', TypeMeta_type m), (''ListMeta'', ListMeta_type m),
     (''Items'', TSlice (Resource_type m))]"

definition ResourceList_DeepCopyInto :: "meta_lib \<Rightarrow> copier" where
  "ResourceList_DeepCopyInto m = copy_struct [
     (''TypeMeta'', shallow), (''ListMeta'', ListMeta_DeepCopyInto m),
     (''Items'', copy_slice (Resource_DeepCopyInto m))]"

definition ResourceList_DeepCopy :: "meta_lib \<Rightarrow> copier" where
  "ResourceList_DeepCopy m = copy_ptr (ResourceList_DeepCopyInto m)"

definition ResourceList_DeepCopyObject :: "meta_lib \<Rightarrow> copier" where
  "ResourceList_DeepCopyObject m = as_object (ResourceList_DeepCopy m)"

lemma ResourceList_deep [deep_copies]: "meta_lib_law m \<Longrightarrow> deep (ResourceList_type m) (ResourceList_DeepCopyInto m)"
  by (simp add: ResourceList_type_def ResourceList_DeepCopyInto_def deep_copies)

section \<open>Team\<close>

definition TeamRole_type :: go_type where
  "TeamRole_type = TStruct [
     (''Role'', TPrim), (''Users'', TSlice TPrim), (''Groups'', TSlice TPrim)]"

definition TeamRole_DeepCopyInto :: copier where
  "TeamRole_DeepCopyInto = copy_struct [
     (''Users'', copy_slice shallow), (''Groups'', copy_slice shallow)]"

definition TeamRole_DeepCopy :: copier where
  "TeamRole_DeepCopy = copy_ptr TeamRole_DeepCopyInto"

lemma TeamRole_deep [deep_copies]: "deep TeamRole_type TeamRole_DeepCopyInto"
  by (simp add: TeamRole_type_def TeamRole_DeepCopyInto_def deep_copies)

definition TeamSpec_type :: go_type where
  "TeamSpec_type = TStruct [
     (''InstanceRef'', LocalObjectReference_type), (''TeamName'', TPrim),
     (''Roles'', TSlice TeamRole_type), (''AllowDestroy'', TPrim), (''ReclaimPolicy'', TPrim),
     (''Suspend'', TPrim)]"

definition TeamSpec_DeepCopyInto :: copier where
  "TeamSpec_DeepCopyInto = copy_struct [
     (''InstanceRef'', shallow), (''Roles'', copy_slice TeamRole_DeepCopyInto)]"

definition TeamSpec_DeepCopy :: copier where
  "TeamSpec_DeepCopy = copy_ptr TeamSpec_DeepCopyInto"

lemma TeamSpec_deep [deep_copies]: "deep TeamSpec_type TeamSpec_DeepCopyInto"
  by (simp add: TeamSpec_type_def TeamSpec_DeepCopyInto_def deep_copies)

definition TeamStatus_type :: "meta_lib \<Rightarrow> go_type" where
  "TeamStatus_type m = TStruct [
     (''Conditions'', TSlice (Condition_type m)), (''TeamID'', TPtr TPrim),
     (''ResolvedName'', TPrim), (''WebURL'', TPrim), (''LastApplied'', TPtr (Time_type m)),
     (''ObservedGeneration'', TPrim)]"

definition TeamStatus_DeepCopyInto :: "meta_lib \<Rightarrow> copier" where
  "TeamStatus_DeepCopyInto m = copy_struct [
     (''Conditions'', copy_slice (Condition_DeepCopyInto m)), (''TeamID'', copy_ptr shallow),
     (''LastApplied'', Time_DeepCopy m)]"

definition TeamStatus_DeepCopy :: "meta_lib \<Rightarrow> copier" where
  "TeamStatus_DeepCopy m = copy_ptr (TeamStatus_DeepCopyInto m)"

lemma TeamStatus_deep [deep_copies]: "meta_lib_law m \<Longrightarrow> deep (TeamStatus_type m) (TeamStatus_DeepCopyInto m)"
  by (simp add: TeamStatus_type_def TeamStatus_DeepCopyInto_def deep_copies)

definition Team_type :: "meta_lib \<Rightarrow> go_type" where
  "Team_type m = TStruct [
     (''TypeMeta'', TypeMeta_type m), (''ObjectMeta'', ObjectMeta_type m),
     (''Spec'', TeamSpec_type), (''Status'', TeamStatus_type m)]"

definition Team_DeepCopyInto :: "meta_lib \<Rightarrow> copier" where
  "Team_DeepCopyInto m = copy_struct [
     (''TypeMeta'', shallow), (''ObjectMeta'', ObjectMeta_DeepCopyInto m),
     (''Spec'', TeamSpec_DeepCopyInto), (''Status'', TeamStatus_DeepCopyInto m)]"

definition Team_DeepCopy :: "meta_lib \<Rightarrow> copier" where
  "Team_DeepCopy m = copy_ptr (Team_DeepCopyInto m)"

definition Team_DeepCopyObject :: "meta_lib \<Rightarrow> copier" where
  "Team_DeepCopyObject m = as_object (Team_DeepCopy m)"

lemma Team_deep [deep_copies]: "meta_lib_law m \<Longrightarrow> deep (Team_type m) (Team_DeepCopyInto m)"
  by (simp add: Team_type_def Team_DeepCopyInto_def deep_copies)

definition TeamList_type :: "meta_lib \<Rightarrow> go_type" where
  "TeamList_type m = TStruct [
     (''TypeMeta'', TypeMeta_type m), (''ListMeta'', ListMeta_type m),
     (''Items'', TSlice (Team_type m))]"

definition TeamList_DeepCopyInto :: "meta_lib \<Rightarrow> copier" where
  "TeamList_DeepCopyInto m = copy_struct [
     (''TypeMeta'', shallow), (''ListMeta'', ListMeta_DeepCopyInto m),
     (''Items'', copy_slice (Team_DeepCopyInto m))]"

definition TeamList_DeepCopy :: "meta_lib \<Rightarrow> copier" where
  "TeamList_DeepCopy m = copy_ptr (TeamList_DeepCopyInto m)"

definition TeamList_DeepCopyObject :: "meta_lib \<Rightarrow> copier" where
  "TeamList_DeepCopyObject m = as_object (TeamList_DeepCopy m)"

lemma TeamList_deep [deep_copies]: "meta_lib_law m \<Longrightarrow> deep (TeamList_type m) (TeamList_DeepCopyInto m)"
  by (simp add: TeamList_type_def TeamList_DeepCopyInto_def deep_copies)

section \<open>Worker\<close>

definition WorkerSpec_type :: go_type where
  "WorkerSpec_type = TStruct [
     (''InstanceRef'', LocalObjectReference_type), (''WorkerName'', TPrim),
     (''Lifecycle'', TPrim), (''Suspend'', TPrim)]"

definition WorkerSpec_DeepCopyInto :: copier where
  "WorkerSpec_DeepCopyInto = copy_struct [
     (''InstanceRef'', shallow)]"

definition WorkerSpec_DeepCopy :: copier where
  "WorkerSpec_DeepCopy = copy_ptr WorkerSpec_DeepCopyInto"

lemma WorkerSpec_flat [deep_copies]: "flat WorkerSpec_type"
  by (simp add: WorkerSpec_type_def deep_copies)

lemma WorkerSpec_deep [deep_copies]: "deep WorkerSpec_type WorkerSpec_DeepCopyInto"
  by (simp add: WorkerSpec_type_def WorkerSpec_DeepCopyInto_def deep_copies)

definition WorkerResourceTypeStatus_type :: go_type where
  "WorkerResourceTypeStatus_type = TStruct [
     (''Type'', TPrim), (''Version'', TPrim), (''Privileged'', TPrim)]"

definition WorkerResourceTypeStatus_DeepCopyInto :: copier where
  "WorkerResourceTypeStatus_DeepCopyInto = shallow"

definition WorkerResourceTypeStatus_DeepCopy :: copier where
  "WorkerResourceTypeStatus_DeepCopy = copy_ptr WorkerResourceTypeStatus_DeepCopyInto"

lemma WorkerResourceTypeStatus_flat [deep_copies]: "flat WorkerResourceTypeStatus_type"
  by (simp add: WorkerResourceTypeStatus_type_def deep_copies)

lemma WorkerResourceTypeStatus_deep [deep_copies]: "deep WorkerResourceTypeStatus_type WorkerResourceTypeStatus_DeepCopyInto"
  by (simp add: WorkerResourceTypeStatus_type_def WorkerResourceTypeStatus_DeepCopyInto_def deep_copies)

definition WorkerStatus_type :: "meta_lib \<Rightarrow> go_type" where
  "WorkerStatus_type m = TStruct [
     (''Conditions'', TSlice (Condition_type m)), (''Phase'', TPrim), (''ResolvedName'', TPrim),
     (''Platform'', TPrim), (''Tags'', TSlice TPrim), (''ActiveContainers'', TPtr TPrim),
     (''ActiveVolumes'', TPtr TPrim), (''Version'', TPrim), (''StartTime'', TPtr (Time_type m)),
     (''Ephemeral'', TPrim), (''Team'', TPrim), (''ActiveTasks'', TPtr TPrim),
     (''ResourceTypes'', TSlice WorkerResourceTypeStatus_type), (''ObservedGeneration'', TPrim)]"

definition WorkerStatus_DeepCopyInto :: "meta_lib \<Rightarrow> copier" where
  "WorkerStatus_DeepCopyInto m = copy_struct [
     (''Conditions'', copy_slice (Condition_DeepCopyInto m)), (''Tags'', copy_slice shallow),
     (''ActiveContainers'', copy_ptr shallow), (''ActiveVolumes'', copy_ptr shallow),
     (''StartTime'', Time_DeepCopy m), (''ActiveTasks'', copy_ptr shallow),
     (''ResourceTypes'', copy_slice shallow)]"

definition WorkerStatus_DeepCopy :: "meta_lib \<Rightarrow> copier" where
  "WorkerStatus_DeepCopy m = copy_ptr (WorkerStatus_DeepCopyInto m)"

lemma WorkerStatus_deep [deep_copies]: "meta_lib_law m \<Longrightarrow> deep (WorkerStatus_type m) (WorkerStatus_DeepCopyInto m)"
  by (simp add: WorkerStatus_type_def WorkerStatus_DeepCopyInto_def deep_copies)

definition Worker_type :: "meta_lib \<Rightarrow> go_type" where
  "Worker_type m = TStruct [
     (''TypeMeta'', TypeMeta_type m), (''ObjectMeta'', ObjectMeta_type m),
     (''Spec'', WorkerSpec_type), (''Status'', WorkerStatus_type m)]"

definition Worker_DeepCopyInto :: "meta_lib \<Rightarrow> copier" where
  "Worker_DeepCopyInto m = copy_struct [
     (''TypeMeta'', shallow), (''ObjectMeta'', ObjectMeta_DeepCopyInto m), (''Spec'', shallow),
     (''Status'', WorkerStatus_DeepCopyInto m)]"

definition Worker_DeepCopy :: "meta_lib \<Rightarrow> copier" where
  "Worker_DeepCopy m = copy_ptr (Worker_DeepCopyInto m)"

definition Worker_DeepCopyObject :: "meta_lib \<Rightarrow> copier" where
  "Worker_DeepCopyObject m = as_object (Worker_DeepCopy m)"

lemma Worker_deep [deep_copies]: "meta_lib_law m \<Longrightarrow> deep (Worker_type m) (Worker_DeepCopyInto m)"
  by (simp add: Worker_type_def Worker_DeepCopyInto_def deep_copies)

definition WorkerList_type :: "meta_lib \<Rightarrow> go_type" where
  "WorkerList_type m = TStruct [
     (''TypeMeta'', TypeMeta_type m), (''ListMeta'', ListMeta_type m),
     (''Items'', TSlice (Worker_type m))]"

definition WorkerList_DeepCopyInto :: "meta_lib \<Rightarrow> copier" where
  "WorkerList_DeepCopyInto m = copy_struct [
     (''TypeMeta'', shallow), (''ListMeta'', ListMeta_DeepCopyInto m),
     (''Items'', copy_slice (Worker_DeepCopyInto m))]"

definition WorkerList_DeepCopy :: "meta_lib \<Rightarrow> copier" where
  "WorkerList_DeepCopy m = copy_ptr (WorkerList_DeepCopyInto m)"

definition WorkerList_DeepCopyObject :: "meta_lib \<Rightarrow> copier" where
  "WorkerList_DeepCopyObject m = as_object (WorkerList_DeepCopy m)"

lemma WorkerList_deep [deep_copies]: "meta_lib_law m \<Longrightarrow> deep (WorkerList_type m) (WorkerList_DeepCopyInto m)"
  by (simp add: WorkerList_type_def WorkerList_DeepCopyInto_def deep_copies)

section \<open>Every registered type is a \<open>runtime.Object\<close>\<close>

interpretation build_object: runtime_object Build_type Build_DeepCopyInto
    Build_DeepCopy Build_DeepCopyObject meta_lib_law
  by unfold_locales (simp_all add: Build_deep Build_DeepCopy_def Build_DeepCopyObject_def fun_eq_iff)

interpretation builds_object: runtime_object BuildList_type BuildList_DeepCopyInto
    BuildList_DeepCopy BuildList_DeepCopyObject meta_lib_law
  by unfold_locales (simp_all add: BuildList_deep BuildList_DeepCopy_def BuildList_DeepCopyObject_def fun_eq_iff)

interpretation instance_object: runtime_object Instance_type Instance_DeepCopyInto
    Instance_DeepCopy Instance_DeepCopyObject meta_lib_law
  by unfold_locales (simp_all add: Instance_deep Instance_DeepCopy_def Instance_DeepCopyObject_def fun_eq_iff)

interpretation instances_object: runtime_object InstanceList_type InstanceList_DeepCopyInto
    InstanceList_DeepCopy InstanceList_DeepCopyObject meta_lib_law
  by unfold_locales (simp_all add: InstanceList_deep InstanceList_DeepCopy_def InstanceList_DeepCopyObject_def fun_eq_iff)

interpretation job_object: runtime_object Job_type Job_DeepCopyInto
    Job_DeepCopy Job_DeepCopyObject meta_lib_law
  by unfold_locales (simp_all add: Job_deep Job_DeepCopy_def Job_DeepCopyObject_def fun_eq_iff)

interpretation jobs_object: runtime_object JobList_type JobList_DeepCopyInto
    JobList_DeepCopy JobList_DeepCopyObject meta_lib_law
  by unfold_locales (simp_all add: JobList_deep JobList_DeepCopy_def JobList_DeepCopyObject_def fun_eq_iff)

interpretation pipeline_object: runtime_object Pipeline_type Pipeline_DeepCopyInto
    Pipeline_DeepCopy Pipeline_DeepCopyObject meta_lib_law
  by unfold_locales (simp_all add: Pipeline_deep Pipeline_DeepCopy_def Pipeline_DeepCopyObject_def fun_eq_iff)

interpretation pipelines_object: runtime_object PipelineList_type PipelineList_DeepCopyInto
    PipelineList_DeepCopy PipelineList_DeepCopyObject meta_lib_law
  by unfold_locales (simp_all add: PipelineList_deep PipelineList_DeepCopy_def PipelineList_DeepCopyObject_def fun_eq_iff)

interpretation resource_object: runtime_object Resource_type Resource_DeepCopyInto
    Resource_DeepCopy Resource_DeepCopyObject meta_lib_law
  by unfold_locales (simp_all add: Resource_deep Resource_DeepCopy_def Resource_DeepCopyObject_def fun_eq_iff)

interpretation resources_object: runtime_object ResourceList_type ResourceList_DeepCopyInto
    ResourceList_DeepCopy ResourceList_DeepCopyObject meta_lib_law
  by unfold_locales (simp_all add: ResourceList_deep ResourceList_DeepCopy_def ResourceList_DeepCopyObject_def fun_eq_iff)

interpretation team_object: runtime_object Team_type Team_DeepCopyInto
    Team_DeepCopy Team_DeepCopyObject meta_lib_law
  by unfold_locales (simp_all add: Team_deep Team_DeepCopy_def Team_DeepCopyObject_def fun_eq_iff)

interpretation teams_object: runtime_object TeamList_type TeamList_DeepCopyInto
    TeamList_DeepCopy TeamList_DeepCopyObject meta_lib_law
  by unfold_locales (simp_all add: TeamList_deep TeamList_DeepCopy_def TeamList_DeepCopyObject_def fun_eq_iff)

interpretation worker_object: runtime_object Worker_type Worker_DeepCopyInto
    Worker_DeepCopy Worker_DeepCopyObject meta_lib_law
  by unfold_locales (simp_all add: Worker_deep Worker_DeepCopy_def Worker_DeepCopyObject_def fun_eq_iff)

interpretation workers_object: runtime_object WorkerList_type WorkerList_DeepCopyInto
    WorkerList_DeepCopy WorkerList_DeepCopyObject meta_lib_law
  by unfold_locales (simp_all add: WorkerList_deep WorkerList_DeepCopy_def WorkerList_DeepCopyObject_def fun_eq_iff)

section \<open>The scheme\<close>

text \<open>
  A registered object: its type's name, the layout behind the pointer that is registered, and its
  \<open>DeepCopyObject\<close>. The builder keeps the objects in the order in which the files of the package
  are initialised, that of their names, and \<open>AddToScheme\<close> enters them under the group's version.
\<close>

type_synonym registration = "string \<times> go_type \<times> copier"

definition SchemeGroupVersion :: "string \<times> string" where
  "SchemeGroupVersion = (''concourse-ci.org'', ''v1alpha1'')"

definition register_builds :: "meta_lib \<Rightarrow> registration list" where
  "register_builds m =
     [(''Build'', TPtr (Build_type m), Build_DeepCopyObject m),
      (''BuildList'', TPtr (BuildList_type m), BuildList_DeepCopyObject m)]"

definition register_instances :: "meta_lib \<Rightarrow> registration list" where
  "register_instances m =
     [(''Instance'', TPtr (Instance_type m), Instance_DeepCopyObject m),
      (''InstanceList'', TPtr (InstanceList_type m), InstanceList_DeepCopyObject m)]"

definition register_jobs :: "meta_lib \<Rightarrow> registration list" where
  "register_jobs m =
     [(''Job'', TPtr (Job_type m), Job_DeepCopyObject m),
      (''JobList'', TPtr (JobList_type m), JobList_DeepCopyObject m)]"

definition register_pipelines :: "meta_lib \<Rightarrow> registration list" where
  "register_pipelines m =
     [(''Pipeline'', TPtr (Pipeline_type m), Pipeline_DeepCopyObject m),
      (''PipelineList'', TPtr (PipelineList_type m), PipelineList_DeepCopyObject m)]"

definition register_resources :: "meta_lib \<Rightarrow> registration list" where
  "register_resources m =
     [(''Resource'', TPtr (Resource_type m), Resource_DeepCopyObject m),
      (''ResourceList'', TPtr (ResourceList_type m), ResourceList_DeepCopyObject m)]"

definition register_teams :: "meta_lib \<Rightarrow> registration list" where
  "register_teams m =
     [(''Team'', TPtr (Team_type m), Team_DeepCopyObject m),
      (''TeamList'', TPtr (TeamList_type m), TeamList_DeepCopyObject m)]"

definition register_workers :: "meta_lib \<Rightarrow> registration list" where
  "register_workers m =
     [(''Worker'', TPtr (Worker_type m), Worker_DeepCopyObject m),
      (''WorkerList'', TPtr (WorkerList_type m), WorkerList_DeepCopyObject m)]"

definition SchemeBuilder :: "meta_lib \<Rightarrow> registration list" where
  "SchemeBuilder m = register_builds m @ register_instances m @ register_jobs m @
     register_pipelines m @ register_resources m @ register_teams m @ register_workers m"

text \<open>The key of a type in the scheme: group, version and kind.\<close>

definition scheme_keys :: "meta_lib \<Rightarrow> (string \<times> string \<times> string) list" where
  "scheme_keys m = map (\<lambda>r. (fst SchemeGroupVersion, snd SchemeGroupVersion, fst r)) (SchemeBuilder m)"

lemmas registered_defs = SchemeBuilder_def register_builds_def register_instances_def register_jobs_def
  register_pipelines_def register_resources_def register_teams_def register_workers_def

lemma registered_deep:
  assumes "meta_lib_law m"
  shows "list_all (\<lambda>r. deep (fst (snd r)) (snd (snd r))) (SchemeBuilder m)"
  using assms by (simp add: registered_defs build_object.object_deep builds_object.object_deep instance_object.object_deep
    instances_object.object_deep job_object.object_deep jobs_object.object_deep
    pipeline_object.object_deep pipelines_object.object_deep resource_object.object_deep
    resources_object.object_deep team_object.object_deep teams_object.object_deep
    worker_object.object_deep workers_object.object_deep)

text \<open>No two registered types share a key, so none of them replaces another in the scheme.\<close>

lemma scheme_keys_distinct: "distinct (scheme_keys m)"
  by (simp add: scheme_keys_def registered_defs)

section \<open>Deep copies are independent\<close>

text \<open>C15:
  For every type the operator registers, the object that \<open>DeepCopyObject\<close> gives for an object of
  that type has the same content and shares no memory with anything that was there before: writes
  to the new cells never change the original, and writes to the cells of the original (which every
  reconciler makes after it took \<open>before\<close>) never change the copy.
\<close>

theorem deep_copies_independent:
  assumes "meta_lib_law m" "(n, t, f) \<in> set (SchemeBuilder m)"
    and "heap_ok h" "has_type h t v" "run_state (f v) h = (v', h')"
  shows "same_content h h' v v' \<and> (\<forall>a. reaches h' v' a \<longrightarrow> cells h a = None) \<and>
    (\<forall>h''. (\<forall>a. cells h a \<noteq> None \<longrightarrow> cells h'' a = cells h' a) \<longrightarrow> same_content h h'' v v) \<and>
    (\<forall>h''. (\<forall>a. cells h a = None \<longrightarrow> cells h'' a = cells h' a) \<longrightarrow> same_content h h'' v v')"
proof -
  have "deep t f" using registered_deep [OF assms(1)] assms(2) by (auto simp: list_all_iff)
  from deep_independent [OF this assms(3-5)] show ?thesis .
qed

text \<open>
  An example: a Team whose one role has one user, with a library whose metadata is a name and a
  list of finalizers. The copy's user list is a new array, and so are its roles.
\<close>

definition example_lib :: meta_lib where
  "example_lib = \<lparr>TypeMeta_type = TStruct [(''Kind'', TPrim)],
     ObjectMeta_type = TStruct [(''Name'', TPrim), (''Finalizers'', TSlice TPrim)],
     ListMeta_type = TStruct [(''ResourceVersion'', TPrim)],
     Condition_type = TStruct [(''Type'', TPrim)], Time_type = TStruct [(''Wall'', TPrim)],
     Duration_type = TPrim,
     ObjectMeta_DeepCopyInto = copy_struct [(''Finalizers'', copy_slice shallow)],
     ListMeta_DeepCopyInto = shallow, Condition_DeepCopyInto = shallow,
     Time_DeepCopy = copy_ptr shallow\<rparr>"

lemma example_lib_law: "meta_lib_law example_lib"
  by (simp add: meta_lib_law_def example_lib_def deep_copies)

definition example_team :: go_val where
  "example_team = Struct [
     (''TypeMeta'', Struct [(''Kind'', Prim (PString ''Team''))]),
     (''ObjectMeta'', Struct [(''Name'', Prim (PString ''main'')), (''Finalizers'', Slice 1 0 1)]),
     (''Spec'', Struct [
        (''InstanceRef'', Struct [(''Name'', Prim (PString ''ci'')), (''Namespace'', Prim (PString []))]),
        (''TeamName'', Prim (PString ''main'')), (''Roles'', Slice 3 0 1),
        (''AllowDestroy'', Prim (PBool False)), (''ReclaimPolicy'', Prim (PString ''Delete'')),
        (''Suspend'', Prim (PBool False))]),
     (''Status'', Struct [
        (''Conditions'', NilRef), (''TeamID'', Ptr 4), (''ResolvedName'', Prim (PString ''main'')),
        (''WebURL'', Prim (PString [])), (''LastApplied'', NilRef), (''ObservedGeneration'', Prim (PInt 1))])]"

definition example_heap :: heap where
  "example_heap = \<lparr>cells = [0 \<mapsto> Pointee example_team, 1 \<mapsto> Array [Prim (PString ''keep'')],
       2 \<mapsto> Array [Prim (PString ''alice'')],
       3 \<mapsto> Array [Struct [(''Role'', Prim (PString ''owner'')), (''Users'', Slice 2 0 1), (''Groups'', NilRef)]],
       4 \<mapsto> Pointee (Prim (PInt 7))], next_cell = 5\<rparr>"

lemma example_heap_ok: "heap_ok example_heap"
  by (simp add: heap_ok_def example_heap_def)

lemma example_team_typed: "has_type example_heap (TPtr (Team_type example_lib)) (Ptr 0)"
  by (simp add: example_team_def example_heap_def Team_type_def TeamSpec_type_def TeamStatus_type_def
    TeamRole_type_def LocalObjectReference_type_def example_lib_def slice_elems_def has_type_simps)

lemma example_registered:
  "(''Team'', TPtr (Team_type example_lib), Team_DeepCopyObject example_lib) \<in> set (SchemeBuilder example_lib)"
  by (simp add: registered_defs)

text \<open>The user is taken out of the original after the copy, which keeps her.\<close>

theorem deep_copies_independent_witness:
  "\<exists>v' h'. run_state (Team_DeepCopyObject example_lib (Ptr 0)) example_heap = (v', h') \<and>
     same_content example_heap h' (Ptr 0) v' \<and>
     same_content example_heap (h'\<lparr>cells := (cells h')(2 \<mapsto> Array [Prim (PString ''mallory'')])\<rparr>) (Ptr 0) v'"
proof -
  obtain v' h' where run: "run_state (Team_DeepCopyObject example_lib (Ptr 0)) example_heap = (v', h')"
    by (cases "run_state (Team_DeepCopyObject example_lib (Ptr 0)) example_heap")
  have old: "cells example_heap 2 \<noteq> None" by (simp add: example_heap_def)
  from deep_copies_independent [OF example_lib_law example_registered example_heap_ok example_team_typed run]
  show ?thesis using run old by (intro exI conjI) auto
qed

end
