(* ===== verification/Spec2Isabelle.thy ===== *)
theory Spec2Isabelle
  imports Prelude Monitor Api_Types External Calls Example_Env Auth_Client Client_Cache Resolver
    Build_Controller Build_Proofs Build_Watch Build_Status Pipeline_Controller Pipeline_Proofs
    Team_Controller Team_Proofs Job_Controller Job_Proofs Resource_Controller Resource_Proofs
    Worker_Controller Worker_Proofs Instance_Controller Instance_Proofs Startup Confinement
    Cache_Threads Confined_Reconcilers Schema Typed_Reconcilers Operator Go_Heap Deep_Copies
begin

text \<open>
  A verification development for concourse-operator, the Kubernetes operator that keeps
  Concourse objects in the state described by custom resources.

  \<^bold>\<open>The program.\<close> Seven reconcilers (\<open>internal/controller/*_controller.go\<close>), one per kind of
  custom resource (\<open>api/v1alpha1\<close>): Instance, Team, Pipeline, Job, Build, Resource, Worker. Each is
  a function \<open>Reconcile\<close> that the controller runtime calls with the name of an object: it reads the
  object, walks up the chain of references to the Instance (\<open>resolver.go\<close>), asks the client cache
  (\<open>internal/concourse\<close>) for a Concourse client, changes Concourse as the spec says and writes
  what it saw into the status. Besides, a Build has a goroutine that follows the event stream
  of its Concourse build, and a changed Secret is mapped to the Instances that use it.

  \<^bold>\<open>How it is modelled.\<close> A reconcile is a program on a machine (\<open>Prelude\<close>) of three parts: the
  world outside, of which nothing is assumed; the memory of the process (the client cache and the
  names of the running watchers); and a journal of every interaction with the outside together
  with its answer. The only way to the outside is an operation of the record \<open>env\<close> (\<open>External\<close>),
  a parameter of the model which may answer anything and change the world in any way, so that
  other writers, stale reads and failures are all covered. Errors are values, \<open>Inl\<close> with the text
  of the wrapped Go error; an early return is a branch. A Go struct is a record with the fields the
  operator reads or writes, \<open>int32\<close> is a 32-bit word, times and durations are numbers of
  nanoseconds with the saturation of \<open>Time.Sub\<close> written out. A reconcile of Go that returns from
  the middle of a long function is cut into definitions that follow its sections.

  \<^bold>\<open>The theories.\<close>
  \<open>Prelude\<close>: Go strings and integers, the machine, the journal logic (\<open>outcome\<close>, \<open>emits\<close>, \<open>keeps\<close>).
  \<open>Monitor\<close>: monitors of the order of interactions, evidence (\<open>guarded\<close>) and bounds (\<open>at_most\<close>).
  \<open>Api_Types\<close>: \<open>api/v1alpha1\<close>, the types, constants and the defaulting of names.
  \<open>External\<close>, \<open>Calls\<close>: the outside, one constructor per interaction and one program per call;
  \<open>conditions.go\<close>; the hypotheses on third-party packages. \<open>Example_Env\<close>: a concrete outside world in
  which the witnesses are evaluated.
  \<open>Auth_Client\<close> (\<open>auth.go\<close>) and \<open>Client_Cache\<close> (\<open>client_cache.go\<close>): building a client from Secrets; the
  cache, whose abstract specification is the locale \<open>client_cache\<close>.
  \<open>Cache_Threads\<close>: the same operations instruction by instruction, with \<open>Lock\<close> and \<open>Unlock\<close>, in
  concurrent calls; which locking discipline a method keeps is a check on its code (\<open>disciplined\<close>).
  \<open>Resolver\<close> (\<open>resolver.go\<close>): the chain; the locale \<open>chain_resolver\<close> is what reconcilers rely on and
  is interpreted for Teams, Pipelines and Jobs.
  \<open>Build_Controller\<close>, \<open>Team_Controller\<close>, \<open>Pipeline_Controller\<close>, \<open>Job_Controller\<close>, \<open>Resource_Controller\<close>,
  \<open>Worker_Controller\<close>, \<open>Instance_Controller\<close>: one theory per file, named after it; the matching
  \<open>_Proofs\<close> theory (for Build also \<open>Build_Watch\<close>, its watchers, and \<open>Build_Status\<close>, its reports) holds
  the lemmas and properties.
  \<open>Startup\<close> (\<open>cmd/main.go\<close>, the functions \<open>SetupWithManager\<close>): the options of the manager, the
  registration of the controllers, the order of the start.
  \<open>Confinement\<close>, \<open>Confined_Reconcilers\<close>: which client a reconcile may use, as a logic of evidence; the
  locales \<open>client_source\<close> (cache and resolvers) and \<open>confined_reconciler\<close> (each reconciler).
  \<open>Schema\<close>, \<open>Typed_Reconcilers\<close>: the types of the status objects, from the markers in \<open>api/v1alpha1\<close>,
  and the locale \<open>typed_reconciler\<close>: answers of their types lead to objects of their types.
  \<open>Operator\<close>: all reconcilers, the watchers, the Secret watch and restarts as one step relation.
  \<open>Go_Heap\<close>, \<open>Deep_Copies\<close> (\<open>zz_generated.deepcopy.go\<close>, \<open>groupversion_info.go\<close>): Go's memory as far as
  copying goes, the generated copy functions, the types of the scheme; the locale \<open>runtime_object\<close>.

  \<^bold>\<open>What is shown.\<close>
  Cache: a lookup is decided by the last Set or Evict on the same Instance, there is one client per
  Instance, and building one reads only Secrets the spec names. With any number of concurrent
  callers only the holder of the mutex touches the store, a call waits only for a holder that can go on,
  and ends within eight steps: lock, look up, unlock, build, lock, remove, put, unlock.
  A cached client is as good as a new one while the Secrets read the same.
  Resolver: a client comes out only of a chain that was read, allowed and Ready, and a ready chain
  in namespaces that the Instance allows does resolve.
  Every reconciler changes Concourse only on evidence in its own journal: the chain, its finalizer, that
  the object is alive and not suspended, and the field of the spec that asks for the change.
  Build: at most one build per reconcile, and over any history of reconciles at most one plus one
  per answer that the build is gone and per tracking that could not be stored; one watcher per Build,
  which returns once its stream ends and notifies once; comments, aborts and the final report.
  Team and Pipeline: what is sent, in which order, with which reason when it is refused, and how deletion
  ends, finalizer included.
  Job: which builds are pruned (those that outlived a positive time to live, and all but the newest
  within the limits), pausing.
  Resource: pinning on every branch; syncing the disabled versions refines the assignment of a set of
  version IDs, exact below two to the 31; checks at their interval.
  Worker: the request of its lifecycle, what is reported, field by field, and that a refusal is reported.
  Instance: the Secret watch covers what building a client reads and, with one way to authenticate, maps
  a Secret to exactly those Instances whose client is built from it (\<open>would_read\<close>, over the runs of
  \<open>BuildHTTPClient\<close>); deletion evicts; the wall is synced idempotently; the report; Ready only after a
  probe through the Instance's own client.
  Startup: the manager starts only after all seven controllers were set up, one per kind, and the
  first step that fails ends the process; HTTP/2 is off unless asked for.
  Operator: in every history of the whole operator each request to Concourse is sent to the URL, and
  signed in with the Secrets, of an Instance that the API server answered with before; in a reconcile,
  of an Instance and a version this very reconcile has read; and each object written has conditions and
  phases of their types.
  Deep copies: each generated copy has the same content and shares no memory with its original. This
  is why objects can be values elsewhere: each reconciler changes the object that it read and then
  sends the difference to \<open>before := obj.DeepCopy()\<close>.
  Below, across components: after the deletion of an Instance the next client for that name is built anew.
  The remarks on code that does less than its documentation says are lemmas next to the component
  they concern, on concrete runs: \<open>refused_tracking_duplicates\<close>, \<open>vanished_adopted_again\<close>,
  \<open>refused_deletion_still_releases\<close>, \<open>zero_ttl_deletes_at_once\<close>, \<open>truncated_id_disables_other\<close>,
  \<open>partial_failure_untracked\<close>, \<open>wall_ttl_not_applied\<close>, \<open>repeated_outputs_mistyped\<close>,
  \<open>evicted_client_returns\<close>, \<open>cached_client_kept\<close>, \<open>landing_workers_reported_healthy\<close>.

  \<^bold>\<open>Hypotheses.\<close> Named in \<open>Calls\<close> and used only where a theorem says so: \<open>conditions_law\<close>
  (\<open>meta.SetStatusCondition\<close> replaces one condition), \<open>finalizers_law\<close>
  (finalizers are a set), \<open>retry_law\<close> (\<open>RetryOnConflict\<close> runs the body
  again on a conflict, a bounded number of times), \<open>sort_law\<close>
  (\<open>sort.Slice\<close> permutes and sorts), \<open>range_law\<close> (ranging over a map
  visits every entry once). \<open>client_law\<close> (\<open>Confined_Reconcilers\<close>: the
  accessors of a client give back what it was made of), \<open>types_laws\<close>
  (\<open>Schema\<close>: the API server answers with objects of their types, Concourse with the states of builds
  and workers that its API declares),
  \<open>versions_law\<close> (\<open>Operator\<close>: a resource version belongs to one state of
  an object) and \<open>meta_lib_law\<close> (\<open>Deep_Copies\<close>: the copy functions of
  \<open>metav1\<close> are deep) are named where they are used. Each is satisfied by the
  implementations of \<open>Example_Env\<close>, the last by \<open>example_lib\<close>. Where a
  theorem is about an Instance's cache key, names are DNS labels (\<open>inst_ok\<close>), as the
  API server enforces.

  \<^bold>\<open>Bounds and fuel.\<close> All loops but one run over lists and end by structural recursion. The event loop
  of a watcher may run for ever; \<open>watch_loop\<close> has fuel, one unit per event, and the property
  about it says that fuel \<open>n\<close> is enough for a stream that ends within \<open>n\<close> events.

  \<^bold>\<open>Not modelled.\<close> The parsing of the command line and logging are left out, as are the fields of
  the API that no code reads (the deep copies have all fields). The schema has conditions
  and phases only: no lengths of messages, and no keys of lists, which are copied as Concourse gives them.
  A send that blocks on a full event channel is not modelled.
  The controller runtime, which decides when \<open>Reconcile\<close> is called and never calls it twice at once
  for one object, is a parameter: the properties of single reconciles hold whenever it is called, those
  of histories quantify over them. In a history the runs of reconciles follow one another; those of
  different objects, which the program runs side by side, meet in the outside world, which may change
  at any time in the model, and in the cache; how they meet there is the subject of \<open>Cache_Threads\<close>.
\<close>

section \<open>From the deletion of an Instance to the resolver\<close>

text \<open>C12: Deleting an Instance is the end of its client, also for the other reconcilers: after a
  reconcile of a dying Instance took off its finalizer, and whatever the others evicted or set for
  other Instances since then, whenever a Team is resolved and the Instance it reads is one of that
  name again, the client that is handed out was built in that very resolution: for the URL of the
  Instance just read, from what the Secrets that it names held when they were read there. It does not
  cover a lookup that was under way during the eviction and set its client after it
  (\<open>evicted_client_returns\<close>).\<close>

theorem deleted_instance_client_rebuilt:
  assumes "finalizers_law env"
    and "x_get_instance (e_k8s env) req (world s) = (Inr i, w)"
    and "\<not> is_suspend (instance_spec i)" and "om_deletionTimestamp (instance_meta i) \<noteq> None"
    and "instanceFinalizer \<in> set (om_finalizers (instance_meta i))" and "inst_ok i"
    and "mem_store (mem t) = after_ops (mem_store (mem (final_of (Instance_Reconcile env req) s))) xs" and "never_set j xs"
    and "x_get_instance (e_k8s env') (refKey (om_namespace (team_meta team)) (ts_instanceRef (team_spec team))) (world t)
      = (Inr j, u)"
    and "inst_ok j" and "same_instance i j"
    and "result_of (resolveInstanceForTeam env' team) t = Inr cl"
  shows "built_for (emitted (resolveInstanceForTeam env' team) t) j cl"
proof -
  have "Cache_Get (mem_store (mem (final_of (Instance_Reconcile env req) s))) j = None"
    using dying_instance_evicted [OF assms(1-6)] assms(10,11) by simp
  from still_no_client [OF this assms(10,8)] have gone: "Cache_Get (mem_store (mem t)) j = None"
    by (simp add: assms(7))
  from resolve_through_cache [OF assms(9,12)] obtain v where v: "mem v = mem t"
    "result_of (GetOrBuild env' j) v = Inr cl"
    "set (emitted (GetOrBuild env' j) v) \<subseteq> set (emitted (resolveInstanceForTeam env' team) t)" by blast
  from GetOrBuild_miss_built [OF _ v(2)] gone v(1) have "built_for (emitted (GetOrBuild env' j) v) j cl" by simp
  then show ?thesis using v(3) by (rule built_for_mono)
qed

theorem deleted_instance_client_rebuilt_witness:
  "built_for (emitted (resolveInstanceForTeam (demo_env :: unit env) demo_team) (demo_start ())) demo_instance demo_client"
proof -
  let ?env = "with_instance dying_instance (demo_env :: unit env)"
  have law: "finalizers_law ?env" by (auto simp: finalizers_law_def)
  have read: "x_get_instance (e_k8s ?env) (''ci'', ''main'') (world (demo_start ())) = (Inr dying_instance, ())" by simp
  have i: "\<not> is_suspend (instance_spec dying_instance)" "om_deletionTimestamp (instance_meta dying_instance) \<noteq> None"
    "instanceFinalizer \<in> set (om_finalizers (instance_meta dying_instance))" "inst_ok dying_instance"
    "same_instance dying_instance demo_instance"
    by (simp_all add: dying_instance_def inst_ok_def name_ok_def same_instance_def key_of_def)
  have "mem_store (mem (final_of (Instance_Reconcile ?env (''ci'', ''main'')) (demo_start ()))) = Map.empty"
    by (simp add: Instance_Reconcile_def reconcile_instance_def handleInstanceLifecycle_def Evict_def Cache_Evict_def
        dying_instance_def demo_start_def run_simps fun_eq_iff)
  then have cache: "mem_store (mem (demo_start ())) =
      after_ops (mem_store (mem (final_of (Instance_Reconcile ?env (''ci'', ''main'')) (demo_start ())))) [OpEvict demo_instance]"
    by (simp add: demo_start_def after_ops_def Cache_Evict_def fun_eq_iff)
  have ops: "never_set demo_instance [OpEvict demo_instance]" by (simp add: never_set_def)
  have again: "x_get_instance (e_k8s (demo_env :: unit env)) (refKey (om_namespace (team_meta demo_team))
      (ts_instanceRef (team_spec demo_team))) (world (demo_start ())) = (Inr demo_instance, ())" by simp
  have resolved: "result_of (resolveInstanceForTeam (demo_env :: unit env) demo_team) (demo_start ()) = Inr demo_client"
    by (simp add: eval_simps resolver_eval demo_client_def cong: eval_cong)
  from deleted_instance_client_rebuilt [OF law read i(1-4) cache ops again demo_inst_ok i(5) resolved]
  show ?thesis .
qed

end
